(* ===== verification/Prelude.thy ===== *)
theory Prelude
  imports Main "HOL-Library.Finite_Map" "HOL-Library.Word" "HOL-Library.Sublist"
begin

text \<open>
  What the components share: Go error values with their chain of wrapped causes, the outcome of
  a Go function (a value, a non-nil error, a panic), state-passing actions with the combinators
  that the control flow of the sources needs (early return, wrapping of errors, a loop that stops
  at the first error), nilable Go maps, a few functions of the Go package \<open>strings\<close> and of
  \<open>fmt\<close>, and the rules by which a predicate on the state is carried through an action.
\<close>

named_theorems act_defs \<open>definitions of the action combinators\<close>
named_theorems keeps_intros \<open>rules that carry an invariant through an action\<close>

section \<open>Errors and outcomes\<close>

text \<open>
  \<open>StatusErr\<close> is a \<open>*errors.StatusError\<close> of the Kubernetes API machinery (reason, code,
  message), \<open>WrapErr\<close> is \<open>fmt.Errorf("...: %w", err)\<close>, \<open>PlainErr\<close> is any error without
  a wrapped cause. The message of a wrapped error is its constant part.
\<close>

datatype gerr = StatusErr string nat string | WrapErr string gerr | PlainErr string

datatype 'a outcome = Ok 'a | Err gerr | Panic string

text \<open>
  An action reads and changes a state. A Go function that returns an error leaves the fields it
  has already written changed, so the state is returned in every case.
\<close>

type_synonym ('s, 'a) act = "'s \<Rightarrow> 'a outcome \<times> 's"

definition retA :: "'a \<Rightarrow> ('s, 'a) act" where
  "retA a = (\<lambda>s. (Ok a, s))"

definition failA :: "gerr \<Rightarrow> ('s, 'a) act" where
  "failA e = (\<lambda>s. (Err e, s))"

definition panicA :: "string \<Rightarrow> ('s, 'a) act" where
  "panicA msg = (\<lambda>s. (Panic msg, s))"

definition bindA :: "('s, 'a) act \<Rightarrow> ('a \<Rightarrow> ('s, 'b) act) \<Rightarrow> ('s, 'b) act" where
  "bindA m f = (\<lambda>s. case m s of
       (Ok a, s') \<Rightarrow> f a s'
     | (Err e, s') \<Rightarrow> (Err e, s')
     | (Panic p, s') \<Rightarrow> (Panic p, s'))"

definition thenA :: "('s, 'a) act \<Rightarrow> ('s, 'b) act \<Rightarrow> ('s, 'b) act" where
  "thenA m n = bindA m (\<lambda>_. n)"

text \<open>\<open>if err := m; err != nil { return fmt.Errorf("msg: %w", err) }\<close>\<close>

definition wrapA :: "string \<Rightarrow> ('s, 'a) act \<Rightarrow> ('s, 'a) act" where
  "wrapA msg m = (\<lambda>s. case m s of
       (Ok a, s') \<Rightarrow> (Ok a, s')
     | (Err e, s') \<Rightarrow> (Err (WrapErr msg e), s')
     | (Panic p, s') \<Rightarrow> (Panic p, s'))"

text \<open>\<open>x, err := m\<close>, with the error inspected by the code that follows.\<close>

definition tryA :: "('s, 'a) act \<Rightarrow> ('s, gerr + 'a) act" where
  "tryA m = (\<lambda>s. case m s of
       (Ok a, s') \<Rightarrow> (Ok (Inr a), s')
     | (Err e, s') \<Rightarrow> (Ok (Inl e), s')
     | (Panic p, s') \<Rightarrow> (Panic p, s'))"

definition readA :: "('s \<Rightarrow> 'a) \<Rightarrow> ('s, 'a) act" where
  "readA f = (\<lambda>s. (Ok (f s), s))"

definition modA :: "('s \<Rightarrow> 's) \<Rightarrow> ('s, unit) act" where
  "modA f = (\<lambda>s. (Ok (), f s))"

definition whenA :: "bool \<Rightarrow> ('s, unit) act \<Rightarrow> ('s, unit) act" where
  "whenA b m = (if b then m else retA ())"

definition liftA :: "'a outcome \<Rightarrow> ('s, 'a) act" where
  "liftA r = (\<lambda>s. (r, s))"

text \<open>\<open>for _, x := range xs { if err := f(x); err != nil { return err } }\<close>\<close>

primrec forA :: "('a \<Rightarrow> ('s, unit) act) \<Rightarrow> 'a list \<Rightarrow> ('s, unit) act" where
  "forA f [] = retA ()"
| "forA f (x # xs) = thenA (f x) (forA f xs)"

lemmas act_unfold = retA_def failA_def panicA_def bindA_def thenA_def wrapA_def tryA_def
  readA_def modA_def whenA_def liftA_def

declare act_unfold [act_defs]

lemma bindA_retA [simp]: "bindA (retA a) f = f a"
  by (simp add: bindA_def retA_def)

lemma bindA_failA [simp]: "bindA (failA e) f = failA e"
  by (simp add: bindA_def failA_def)

lemma bindA_panicA [simp]: "bindA (panicA p) f = panicA p"
  by (simp add: bindA_def panicA_def)

lemma retA_bindA [simp]: "bindA m retA = m"
  by (auto simp: bindA_def retA_def fun_eq_iff split: prod.split outcome.split)

lemma bindA_assoc: "bindA (bindA m f) g = bindA m (\<lambda>x. bindA (f x) g)"
  by (auto simp: bindA_def fun_eq_iff split: prod.split outcome.split)

lemma forA_append: "forA f (xs @ ys) = thenA (forA f xs) (forA f ys)"
  by (induction xs) (simp_all add: thenA_def bindA_assoc)

text \<open>
  \<open>for i := range xs { p := &xs[i]; ... }\<close> where the body rewrites the element through the
  pointer and may panic.
\<close>

primrec mapO :: "('a \<Rightarrow> 'a outcome) \<Rightarrow> 'a list \<Rightarrow> 'a list outcome" where
  "mapO f [] = Ok []"
| "mapO f (x # xs) =
     (case f x of
        Ok y \<Rightarrow> (case mapO f xs of Ok ys \<Rightarrow> Ok (y # ys) | Err e \<Rightarrow> Err e | Panic p \<Rightarrow> Panic p)
      | Err e \<Rightarrow> Err e
      | Panic p \<Rightarrow> Panic p)"

lemma mapO_Ok: "(\<And>x. x \<in> set xs \<Longrightarrow> f x = Ok (g x)) \<Longrightarrow> mapO f xs = Ok (map g xs)"
  by (induction xs) simp_all

section \<open>Invariants of actions\<close>

definition keepsA :: "('s \<Rightarrow> bool) \<Rightarrow> ('s, 'a) act \<Rightarrow> bool" where
  "keepsA I m \<longleftrightarrow> (\<forall>s. I s \<longrightarrow> I (snd (m s)))"

text \<open>
  \<open>okA P m Q\<close>: started in \<open>P\<close>, a normal return establishes \<open>Q\<close>. It says nothing about
  errors and panics, which have their own lemmas.
\<close>

definition okA :: "('s \<Rightarrow> bool) \<Rightarrow> ('s, 'a) act \<Rightarrow> ('a \<Rightarrow> 's \<Rightarrow> bool) \<Rightarrow> bool" where
  "okA P m Q \<longleftrightarrow> (\<forall>s a s'. P s \<longrightarrow> m s = (Ok a, s') \<longrightarrow> Q a s')"

lemma keepsAD: "keepsA I m \<Longrightarrow> I s \<Longrightarrow> m s = (r, s') \<Longrightarrow> I s'"
  by (auto simp: keepsA_def dest: spec [where x = s])

lemma keepsA_retA [keeps_intros]: "keepsA I (retA a)"
  by (simp add: keepsA_def retA_def)

lemma keepsA_failA [keeps_intros]: "keepsA I (failA e)"
  by (simp add: keepsA_def failA_def)

lemma keepsA_panicA [keeps_intros]: "keepsA I (panicA p)"
  by (simp add: keepsA_def panicA_def)

lemma keepsA_liftA [keeps_intros]: "keepsA I (liftA r)"
  by (simp add: keepsA_def liftA_def)

lemma keepsA_readA [keeps_intros]: "keepsA I (readA f)"
  by (simp add: keepsA_def readA_def)

lemma keepsA_modA [keeps_intros]: "(\<And>s. I s \<Longrightarrow> I (f s)) \<Longrightarrow> keepsA I (modA f)"
  by (simp add: keepsA_def modA_def)

lemma keepsA_bindA [keeps_intros]:
  "keepsA I m \<Longrightarrow> (\<And>a. keepsA I (f a)) \<Longrightarrow> keepsA I (bindA m f)"
  by (auto simp: keepsA_def bindA_def split: prod.split outcome.split)

lemma keepsA_thenA [keeps_intros]: "keepsA I m \<Longrightarrow> keepsA I n \<Longrightarrow> keepsA I (thenA m n)"
  by (simp add: thenA_def keepsA_bindA)

lemma keepsA_wrapA [keeps_intros]: "keepsA I m \<Longrightarrow> keepsA I (wrapA msg m)"
  by (auto simp: keepsA_def wrapA_def split: prod.split outcome.split)

lemma keepsA_tryA [keeps_intros]: "keepsA I m \<Longrightarrow> keepsA I (tryA m)"
  by (auto simp: keepsA_def tryA_def split: prod.split outcome.split)

lemma keepsA_whenA [keeps_intros]: "(b \<Longrightarrow> keepsA I m) \<Longrightarrow> keepsA I (whenA b m)"
  by (simp add: whenA_def keepsA_retA)

lemma keepsA_if [keeps_intros]:
  "(b \<Longrightarrow> keepsA I m) \<Longrightarrow> (\<not> b \<Longrightarrow> keepsA I n) \<Longrightarrow> keepsA I (if b then m else n)"
  by simp

lemma keepsA_case_sum [keeps_intros]:
  "(\<And>e. x = Inl e \<Longrightarrow> keepsA I (f e)) \<Longrightarrow> (\<And>a. x = Inr a \<Longrightarrow> keepsA I (g a))
   \<Longrightarrow> keepsA I (case x of Inl e \<Rightarrow> f e | Inr a \<Rightarrow> g a)"
  by (simp split: sum.split)

lemma keepsA_case_option [keeps_intros]:
  "(x = None \<Longrightarrow> keepsA I m) \<Longrightarrow> (\<And>a. x = Some a \<Longrightarrow> keepsA I (g a))
   \<Longrightarrow> keepsA I (case x of None \<Rightarrow> m | Some a \<Rightarrow> g a)"
  by (simp split: option.split)

lemma keepsA_case_list [keeps_intros]:
  "(xs = [] \<Longrightarrow> keepsA I m) \<Longrightarrow> (\<And>y ys. xs = y # ys \<Longrightarrow> keepsA I (g y ys))
   \<Longrightarrow> keepsA I (case xs of [] \<Rightarrow> m | y # ys \<Rightarrow> g y ys)"
  by (simp split: list.split)

lemma keepsA_case_prod [keeps_intros]:
  "(\<And>a b. x = (a, b) \<Longrightarrow> keepsA I (g a b)) \<Longrightarrow> keepsA I (case x of (a, b) \<Rightarrow> g a b)"
  by (simp split: prod.split)

lemma keepsA_Let [keeps_intros]: "keepsA I (f x) \<Longrightarrow> keepsA I (Let x f)"
  by simp

lemma keepsA_forA [keeps_intros]:
  "(\<And>x. x \<in> set xs \<Longrightarrow> keepsA I (f x)) \<Longrightarrow> keepsA I (forA f xs)"
  by (induction xs) (auto intro!: keeps_intros)

lemma okA_bindA:
  "okA P m Q \<Longrightarrow> (\<And>a. okA (Q a) (f a) R) \<Longrightarrow> okA P (bindA m f) R"
  unfolding okA_def bindA_def
  by (auto split: prod.splits outcome.splits)

text \<open>Inversion of a normal return.\<close>

lemma bindA_Ok:
  assumes "bindA m f s = (Ok b, s'')"
  obtains a s' where "m s = (Ok a, s')" and "f a s' = (Ok b, s'')"
  using assms by (auto simp: bindA_def split: prod.splits outcome.splits)

lemma thenA_Ok:
  assumes "thenA m n s = (Ok b, s'')"
  obtains a s' where "m s = (Ok a, s')" and "n s' = (Ok b, s'')"
  using assms unfolding thenA_def by (rule bindA_Ok)

lemma thenA_run: "fst (m s) = Ok u \<Longrightarrow> thenA m n s = n (snd (m s))"
  by (cases "m s") (simp add: thenA_def bindA_def)

lemma wrapA_Ok [simp]: "wrapA msg m s = (Ok a, s') \<longleftrightarrow> m s = (Ok a, s')"
  by (auto simp: wrapA_def split: prod.splits outcome.splits)

lemma forA_Ok_all:
  assumes "forA f xs s = (Ok u, s')" and "x \<in> set xs"
  shows "\<exists>t t'. f x t = (Ok (), t')"
  using assms
proof (induction xs arbitrary: s)
  case Nil
  then show ?case by simp
next
  case (Cons y ys)
  from Cons.prems(1) obtain v t where "f y s = (Ok v, t)" and "forA f ys t = (Ok u, s')"
    by (auto elim: thenA_Ok)
  with Cons show ?case by (cases "x = y") auto
qed

section \<open>Go maps\<close>

text \<open>
  A Go map with string keys. Reading a nil map finds nothing, deleting from it does nothing and
  assigning to an entry of it panics.
\<close>

datatype 'v gomap = NilMap | GoMap "(string, 'v) fmap"

definition gm_fmap :: "'v gomap \<Rightarrow> (string, 'v) fmap" where
  "gm_fmap m = (case m of NilMap \<Rightarrow> fmempty | GoMap f \<Rightarrow> f)"

definition gm_lookup :: "'v gomap \<Rightarrow> string \<Rightarrow> 'v option" where
  "gm_lookup m k = fmlookup (gm_fmap m) k"

definition gm_put :: "string \<Rightarrow> 'v \<Rightarrow> 'v gomap \<Rightarrow> 'v gomap outcome" where
  "gm_put k v m = (case m of
       NilMap \<Rightarrow> Panic ''assignment to entry in nil map''
     | GoMap f \<Rightarrow> Ok (GoMap (fmupd k v f)))"

text \<open>\<open>if m == nil { m = map[string]V{} }\<close>\<close>

definition gm_ensure :: "'v gomap \<Rightarrow> 'v gomap" where
  "gm_ensure m = (case m of NilMap \<Rightarrow> GoMap fmempty | GoMap f \<Rightarrow> GoMap f)"

definition gm_delete :: "string \<Rightarrow> 'v gomap \<Rightarrow> 'v gomap" where
  "gm_delete k m = (case m of NilMap \<Rightarrow> NilMap | GoMap f \<Rightarrow> GoMap (fmdrop k f))"

definition gm_of :: "(string \<times> 'v) list \<Rightarrow> 'v gomap" where
  "gm_of kvs = GoMap (fmap_of_list kvs)"

text \<open>\<open>string(m[k])\<close>, the empty string where the key is absent.\<close>

definition gm_str :: "string gomap \<Rightarrow> string \<Rightarrow> string" where
  "gm_str m k = (case gm_lookup m k of None \<Rightarrow> '''' | Some v \<Rightarrow> v)"

text \<open>The form under which nil and empty maps compare equal.\<close>

definition gm_norm :: "'v gomap \<Rightarrow> 'v gomap" where
  "gm_norm m = GoMap (gm_fmap m)"

lemma gm_lookup_simps [simp]:
  "gm_lookup NilMap k = None"
  "gm_lookup (GoMap f) k = fmlookup f k"
  by (simp_all add: gm_lookup_def gm_fmap_def)

lemma gm_lookup_gm_of [simp]: "gm_lookup (gm_of kvs) k = map_of kvs k"
  by (simp add: gm_of_def fmlookup_of_list)

lemma gm_put_Ok: "gm_put k v m = Ok m' \<Longrightarrow> gm_lookup m' k' = (if k' = k then Some v else gm_lookup m k')"
  by (auto simp: gm_put_def split: gomap.splits)

lemma gm_put_ensure: "gm_put k v (gm_ensure m) = Ok (GoMap (fmupd k v (gm_fmap m)))"
  by (simp add: gm_put_def gm_ensure_def gm_fmap_def split: gomap.split)

lemma gm_lookup_delete [simp]:
  "gm_lookup (gm_delete k m) k' = (if k' = k then None else gm_lookup m k')"
  by (cases m) (auto simp: gm_delete_def)

lemma gm_norm_idem [simp]: "gm_norm (gm_norm m) = gm_norm m"
  by (simp add: gm_norm_def gm_fmap_def)

lemma gm_norm_eq_iff: "gm_norm m = gm_norm m' \<longleftrightarrow> (\<forall>k. gm_lookup m k = gm_lookup m' k)"
  by (auto simp: gm_norm_def gm_lookup_def intro: fmap_ext)

section \<open>Strings\<close>

text \<open>\<open>strings.Join\<close> and \<open>strings.HasPrefix\<close>.\<close>

fun str_join :: "string list \<Rightarrow> string \<Rightarrow> string" where
  "str_join [] sep = ''''"
| "str_join [x] sep = x"
| "str_join (x # y # xs) sep = x @ sep @ str_join (y # xs) sep"

definition has_prefix :: "string \<Rightarrow> string \<Rightarrow> bool" where
  "has_prefix s p = (take (length p) s = p)"

lemma has_prefix_iff: "has_prefix s p \<longleftrightarrow> (\<exists>t. s = p @ t)"
  by (metis append_eq_conv_conj append_take_drop_id has_prefix_def)

text \<open>\<open>fmt.Sprintf("%v", n)\<close> of a non-negative integer: its decimal digits.\<close>

definition digit_char :: "nat \<Rightarrow> char" where
  "digit_char d = char_of (48 + d)"

fun dec :: "nat \<Rightarrow> string" where
  "dec n = (if n < 10 then [digit_char n] else dec (n div 10) @ [digit_char (n mod 10)])"

declare dec.simps [simp del]

definition char_digit :: "char \<Rightarrow> nat option" where
  "char_digit c = (let n = of_char c in if 48 \<le> n \<and> n \<le> 57 then Some (n - 48) else None)"

fun undec_acc :: "nat \<Rightarrow> string \<Rightarrow> nat option" where
  "undec_acc acc [] = Some acc"
| "undec_acc acc (c # cs) =
     (case char_digit c of None \<Rightarrow> None | Some d \<Rightarrow> undec_acc (10 * acc + d) cs)"

text \<open>Reading a non-empty string of decimal digits back.\<close>

definition undec :: "string \<Rightarrow> nat option" where
  "undec s = (if s = [] then None else undec_acc 0 s)"

lemma char_digit_digit_char [simp]: "d < 10 \<Longrightarrow> char_digit (digit_char d) = Some d"
  by (simp add: char_digit_def digit_char_def Let_def)

lemma undec_acc_append:
  "undec_acc a (xs @ ys) = (case undec_acc a xs of None \<Rightarrow> None | Some b \<Rightarrow> undec_acc b ys)"
  by (induction xs arbitrary: a) (auto split: option.split)

lemma undec_acc_dec: "undec_acc 0 (dec n) = Some n"
proof (induction n rule: dec.induct)
  case (1 n)
  show ?case
  proof (cases "n < 10")
    case True
    then show ?thesis by (simp add: dec.simps [of n])
  next
    case False
    with 1 show ?thesis by (simp add: dec.simps [of n] undec_acc_append)
  qed
qed

lemma dec_nonempty [simp]: "dec n \<noteq> []"
  by (simp add: dec.simps [of n])

lemma undec_dec [simp]: "undec (dec n) = Some n"
  by (simp add: undec_def undec_acc_dec)

lemma dec_inject [simp]: "dec m = dec n \<longleftrightarrow> m = n"
  by (metis option.inject undec_dec)

section \<open>Lists\<close>

lemma find_first_split:
  assumes "find P xs = Some x"
  shows "\<exists>ys zs. xs = ys @ x # zs \<and> P x \<and> (\<forall>y \<in> set ys. \<not> P y)"
  using assms
proof (induction xs)
  case Nil
  then show ?case by simp
next
  case (Cons a xs)
  show ?case
  proof (cases "P a")
    case True
    with Cons.prems have "a = x" by simp
    with True show ?thesis by (intro exI [of _ "[]"] exI [of _ xs]) simp
  next
    case False
    with Cons.prems have "find P xs = Some x" by simp
    then obtain ys zs where "xs = ys @ x # zs" "P x" "\<forall>y \<in> set ys. \<not> P y"
      using Cons.IH by blast
    with False show ?thesis by (intro exI [of _ "a # ys"] exI [of _ zs]) simp
  qed
qed

end
