(* ===== verification/Api_Types.thy ===== *)
theory Api_Types
  imports Prelude
begin

text \<open>
  The API objects of the operator: object metadata, the bodies of the kinds it reads or writes
  (\<open>api/v1alpha1/managedmcg_types.go\<close> for its own kind, the imported API packages for the others,
  restricted to the fields the sources name), and the identification of objects by kind,
  namespace and name. Fields of imported types that no source of the operator names are kept
  together, serialised, in a field ending in \<open>Rest\<close>; the empty string is their zero value.
\<close>

type_synonym opaque = string
type_synonym int32 = "32 word"

section \<open>Metadata\<close>

record owner_reference =
  orAPIVersion :: string
  orKind :: string
  orName :: string
  orUID :: string
  orBlockOwnerDeletion :: "bool option"
  orController :: "bool option"

record object_meta =
  mName :: string
  mNamespace :: string
  mUID :: string
  mResourceVersion :: string
  mLabels :: "string gomap"
  mAnnotations :: "string gomap"
  mFinalizers :: "string list"
  mOwnerReferences :: "owner_reference list"
  mDeletionTimestamp :: "nat option"
  mGeneration :: "64 word"
  mRest :: opaque

definition zero_meta :: object_meta where
  "zero_meta = \<lparr>mName = '''', mNamespace = '''', mUID = '''', mResourceVersion = '''',
     mLabels = NilMap, mAnnotations = NilMap, mFinalizers = [], mOwnerReferences = [],
     mDeletionTimestamp = None, mGeneration = 0, mRest = ''''\<rparr>"

text \<open>An object: its metadata and a body that depends on the kind.\<close>

record 'b object =
  ObjectMeta :: object_meta
  Body :: 'b

text \<open>\<open>(*metav1.Time).IsZero\<close>: nil or the zero time.\<close>

definition time_IsZero :: "nat option \<Rightarrow> bool" where
  "time_IsZero t = (case t of None \<Rightarrow> True | Some n \<Rightarrow> n = 0)"

section \<open>The ManagedMCG resource\<close>

type_synonym reconcile_strategy = string

definition ReconcileStrategyNone :: reconcile_strategy where
  "ReconcileStrategyNone = ''none''"

definition ReconcileStrategyStrict :: reconcile_strategy where
  "ReconcileStrategyStrict = ''strict''"

type_synonym component_state = string

definition ComponentReady :: component_state where
  "ComponentReady = ''Ready''"

definition ComponentPending :: component_state where
  "ComponentPending = ''Pending''"

definition ComponentNotFound :: component_state where
  "ComponentNotFound = ''NotFound''"

definition ComponentUnknown :: component_state where
  "ComponentUnknown = ''Unknown''"

lemmas component_state_defs =
  ComponentReady_def ComponentPending_def ComponentNotFound_def ComponentUnknown_def

lemma component_states_distinct [simp]:
  "ComponentReady \<noteq> ComponentPending" "ComponentPending \<noteq> ComponentReady"
  "ComponentReady \<noteq> ComponentNotFound" "ComponentNotFound \<noteq> ComponentReady"
  "ComponentReady \<noteq> ComponentUnknown" "ComponentUnknown \<noteq> ComponentReady"
  "ComponentPending \<noteq> ComponentNotFound" "ComponentNotFound \<noteq> ComponentPending"
  "ComponentPending \<noteq> ComponentUnknown" "ComponentUnknown \<noteq> ComponentPending"
  "ComponentNotFound \<noteq> ComponentUnknown" "ComponentUnknown \<noteq> ComponentNotFound"
  by (simp_all add: component_state_defs)

record managedmcg_spec =
  msReconcileStrategy :: reconcile_strategy

record component_status_map =
  csNoobaa :: component_state
  csPrometheus :: component_state
  csAlertmanager :: component_state
  csConsole :: component_state

record managedmcg_status =
  mstReconcileStrategy :: reconcile_strategy
  mstComponents :: component_status_map

record managedmcg =
  mcgSpec :: managedmcg_spec
  mcgStatus :: managedmcg_status

section \<open>Resources, selectors and ports\<close>

text \<open>
  A \<open>resource.Quantity\<close> as it is written, or, as the normal form of a comparison, its value in
  thousandths. \<open>quantity_milli\<close> reads integers with the suffixes of the quantity grammar.
\<close>

datatype quantity = MustParse string | Milli nat

definition suffix_milli :: "string \<Rightarrow> nat option" where
  "suffix_milli s =
     (if s = '''' then Some 1000 else if s = ''m'' then Some 1
      else if s = ''k'' then Some (1000 * 1000) else if s = ''M'' then Some (1000 * 1000 ^ 2)
      else if s = ''G'' then Some (1000 * 1000 ^ 3) else if s = ''T'' then Some (1000 * 1000 ^ 4)
      else if s = ''Ki'' then Some (1000 * 1024) else if s = ''Mi'' then Some (1000 * 1024 ^ 2)
      else if s = ''Gi'' then Some (1000 * 1024 ^ 3) else if s = ''Ti'' then Some (1000 * 1024 ^ 4)
      else None)"

definition parse_quantity :: "string \<Rightarrow> nat option" where
  "parse_quantity s =
     (let ds = takeWhile (\<lambda>c. char_digit c \<noteq> None) s; suf = dropWhile (\<lambda>c. char_digit c \<noteq> None) s
      in case (undec ds, suffix_milli suf) of (Some n, Some f) \<Rightarrow> Some (n * f) | _ \<Rightarrow> None)"

definition quantity_milli :: "quantity \<Rightarrow> nat option" where
  "quantity_milli q = (case q of MustParse s \<Rightarrow> parse_quantity s | Milli n \<Rightarrow> Some n)"

definition quantity_norm :: "quantity \<Rightarrow> quantity" where
  "quantity_norm q = (case quantity_milli q of Some n \<Rightarrow> Milli n | None \<Rightarrow> q)"

type_synonym resource_list = "quantity gomap"

record resource_requirements =
  rrLimits :: resource_list
  rrRequests :: resource_list

definition zero_resources :: resource_requirements where
  "zero_resources = \<lparr>rrLimits = NilMap, rrRequests = NilMap\<rparr>"

record label_selector_requirement =
  lsrKey :: string
  lsrOperator :: string
  lsrValues :: "string list"

record label_selector =
  lsMatchLabels :: "string gomap"
  lsMatchExpressions :: "label_selector_requirement list"

datatype int_or_string_type = IOS_Int | IOS_String

record int_or_string =
  iosType :: int_or_string_type
  iosIntVal :: int32
  iosStrVal :: string

text \<open>\<open>intstr.FromString\<close> and \<open>intstr.FromInt\<close>.\<close>

definition intstr_FromString :: "string \<Rightarrow> int_or_string" where
  "intstr_FromString v = \<lparr>iosType = IOS_String, iosIntVal = 0, iosStrVal = v\<rparr>"

definition intstr_FromInt :: "64 word \<Rightarrow> int_or_string" where
  "intstr_FromInt v = \<lparr>iosType = IOS_Int, iosIntVal = scast v, iosStrVal = ''''\<rparr>"

section \<open>NooBaa and bucket resources\<close>

record pv_pool_spec =
  pvStorageClass :: string
  pvNumVolumes :: nat
  pvVolumeResources :: "resource_requirements option"
  pvRest :: opaque

record backing_store_spec =
  bsPVPool :: "pv_pool_spec option"
  bsType :: string
  bsRest :: opaque

record endpoints_spec =
  epMinCount :: int32
  epMaxCount :: int32
  epAdditionalVirtualHosts :: "string list"
  epResources :: "resource_requirements option"

record cleanup_policy_spec =
  cpConfirmation :: string
  cpAllowNoobaaDeletion :: bool

record noobaa_spec =
  nsImage :: "string option"
  nsDBImage :: "string option"
  nsDBType :: string
  nsCoreResources :: "resource_requirements option"
  nsDBResources :: "resource_requirements option"
  nsDBVolumeResources :: "resource_requirements option"
  nsEndpoints :: "endpoints_spec option"
  nsCleanupPolicy :: cleanup_policy_spec
  nsDefaultBackingStoreSpec :: "backing_store_spec option"
  nsRest :: opaque

record noobaa =
  nooSpec :: noobaa_spec
  nooPhase :: string
  nooRest :: opaque

record bucket_class =
  bcPhase :: string
  bcRest :: opaque

record obc_spec =
  obStorageClassName :: string
  obBucketName :: string
  obGenerateBucketName :: string
  obAdditionalConfig :: "string gomap"
  obRest :: opaque

record object_bucket_claim =
  obcSpec :: obc_spec
  obcRest :: opaque

section \<open>Workloads, services and network policies\<close>

text \<open>StatefulSets and Deployments: the sources read their ready replicas only.\<close>

record workload =
  wlReadyReplicas :: int32
  wlRest :: opaque

record service_port =
  spName :: string
  spProtocol :: string
  spPort :: int32
  spTargetPort :: int_or_string
  spRest :: opaque

record service =
  svcPorts :: "service_port list"
  svcSelector :: "string gomap"
  svcType :: string
  svcRest :: opaque

record network_policy_port =
  nppPort :: "int_or_string option"
  nppProtocol :: "string option"

record network_policy_peer =
  nprPodSelector :: "label_selector option"
  nprNamespaceSelector :: "label_selector option"
  nprRest :: opaque

record network_policy_ingress_rule =
  nirPorts :: "network_policy_port list"
  nirFrom :: "network_policy_peer list"

record network_policy_spec =
  npIngress :: "network_policy_ingress_rule list"
  npPolicyTypes :: "string list"
  npPodSelector :: label_selector
  npRest :: opaque

record container =
  ctName :: string
  ctImage :: string
  ctArgs :: "string list"
  ctPorts :: "(string \<times> int32) list"
  ctVolumeMounts :: "(string \<times> string) list"
  ctResources :: resource_requirements
  ctRest :: opaque

record volume =
  volName :: string
  volSecretName :: "string option"
  volConfigMapName :: "string option"
  volRest :: opaque

record strategy_deployment_spec =
  sdName :: string
  sdReplicas :: "int32 option"
  sdContainers :: "container list"
  sdRest :: opaque

record csv =
  csvDeploymentSpecs :: "strategy_deployment_spec list"
  csvRest :: opaque

section \<open>Console plugins\<close>

record console_plugin_service =
  cpsName :: string
  cpsNamespace :: string
  cpsPort :: int32
  cpsBasePath :: string

record console_plugin_proxy =
  cppType :: string
  cppAlias :: string
  cppAuthorize :: bool
  cppServiceName :: string
  cppServiceNamespace :: string
  cppServicePort :: int32

record console_plugin =
  cplDisplayName :: string
  cplService :: console_plugin_service
  cplProxy :: "console_plugin_proxy list"
  cplRest :: opaque

record operator_console =
  conPlugins :: "string list"
  conRest :: opaque

section \<open>Monitoring resources\<close>

record secret_key_selector =
  sksName :: string
  sksKey :: string
  sksRest :: opaque

definition zero_selector :: secret_key_selector where
  "zero_selector = \<lparr>sksName = '''', sksKey = '''', sksRest = ''''\<rparr>"

record oauth2 =
  oaClientIDSecret :: "secret_key_selector option"
  oaClientSecret :: secret_key_selector
  oaTokenURL :: string
  oaEndpointParams :: "string gomap"
  oaRest :: opaque

record relabel_config =
  rlSourceLabels :: "string list"
  rlRegex :: string
  rlAction :: string
  rlRest :: opaque

record remote_write_spec =
  rwURL :: string
  rwOAuth2 :: "oauth2 option"
  rwWriteRelabelConfigs :: "relabel_config list"
  rwRest :: opaque

record alertmanager_endpoints =
  aeNamespace :: string
  aeName :: string
  aePort :: int_or_string
  aeRest :: opaque

record prometheus_spec =
  psReplicas :: "int32 option"
  psServiceMonitorSelector :: "label_selector option"
  psPodMonitorSelector :: "label_selector option"
  psVolumes :: "volume list"
  psResources :: resource_requirements
  psServiceAccountName :: string
  psListenLocal :: bool
  psContainers :: "container list"
  psRemoteWrite :: "remote_write_spec list"
  psRuleSelector :: "label_selector option"
  psAlerting :: "alertmanager_endpoints list option"
  psAdditionalAlertRelabelConfigs :: "secret_key_selector option"
  psRest :: opaque

record prometheus =
  promSpec :: prometheus_spec
  promRest :: opaque

record topology_spread_constraint =
  tsMaxSkew :: int32
  tsTopologyKey :: string
  tsWhenUnsatisfiable :: string
  tsLabelSelector :: "label_selector option"

record alertmanager_spec =
  asReplicas :: "int32 option"
  asResources :: resource_requirements
  asTopologySpreadConstraints :: "topology_spread_constraint list"
  asAlertmanagerConfigSelector :: "label_selector option"
  asRest :: opaque

record alertmanager =
  amSpec :: alertmanager_spec
  amRest :: opaque

record rule =
  ruRecord :: string
  ruAlert :: string
  ruExpr :: int_or_string
  ruFor :: string
  ruLabels :: "string gomap"
  ruAnnotations :: "string gomap"

record rule_group =
  rgName :: string
  rgRules :: "rule list"
  rgRest :: opaque

record am_matcher =
  amtName :: string
  amtValue :: string
  amtMatchType :: string

text \<open>
  A route. Its nested routes are stored in the object as raw JSON (\<open>apiextensionsv1.JSON\<close>), so
  as texts.
\<close>

record am_route =
  arReceiver :: string
  arGroupBy :: "string list"
  arGroupWait :: string
  arGroupInterval :: string
  arRepeatInterval :: string
  arMatchers :: "am_matcher list"
  arRoutes :: "string list"
  arRest :: opaque

record pagerduty_config =
  pdServiceKey :: "secret_key_selector option"
  pdDetails :: "(string \<times> string) list"
  pdRest :: opaque

record webhook_config =
  whURL :: "string option"
  whRest :: opaque

record email_config =
  emSendResolved :: "bool option"
  emSmarthost :: string
  emFrom :: string
  emTo :: string
  emAuthUsername :: string
  emAuthPassword :: "secret_key_selector option"
  emHeaders :: "(string \<times> string) list"
  emHTML :: string
  emRest :: opaque

record receiver =
  rvName :: string
  rvPagerDutyConfigs :: "pagerduty_config list"
  rvWebhookConfigs :: "webhook_config list"
  rvEmailConfigs :: "email_config list"
  rvRest :: opaque

record alertmanager_config =
  acRoute :: "am_route option"
  acReceivers :: "receiver list"
  acRest :: opaque

section \<open>Kinds, bodies and names\<close>

datatype kind =
    KManagedMCG | KNooBaa | KStatefulSet | KDeployment | KConsolePlugin | KConsole
  | KPrometheus | KAlertmanager | KAlertmanagerConfig | KPrometheusRule | KPodMonitor
  | KServiceMonitor | KConfigMap | KSecret | KService | KNetworkPolicy | KCSV
  | KBucketClass | KBackingStore | KNamespaceStore | KObjectBucketClaim | KClusterVersion

datatype body =
    BManagedMCG managedmcg | BNooBaa noobaa | BStatefulSet workload | BDeployment workload
  | BConsolePlugin console_plugin | BConsole operator_console
  | BPrometheus prometheus | BAlertmanager alertmanager | BAlertmanagerConfig alertmanager_config
  | BPrometheusRule "rule_group list" | BPodMonitor opaque | BServiceMonitor opaque
  | BConfigMap "string gomap" | BSecret "string gomap" | BService service
  | BNetworkPolicy network_policy_spec | BCSV csv | BBucketClass bucket_class
  | BBackingStore opaque | BNamespaceStore opaque | BObjectBucketClaim object_bucket_claim
  | BClusterVersion string

type_synonym kobject = "body object"

fun body_kind :: "body \<Rightarrow> kind" where
  "body_kind (BManagedMCG _) = KManagedMCG"
| "body_kind (BNooBaa _) = KNooBaa"
| "body_kind (BStatefulSet _) = KStatefulSet"
| "body_kind (BDeployment _) = KDeployment"
| "body_kind (BConsolePlugin _) = KConsolePlugin"
| "body_kind (BConsole _) = KConsole"
| "body_kind (BPrometheus _) = KPrometheus"
| "body_kind (BAlertmanager _) = KAlertmanager"
| "body_kind (BAlertmanagerConfig _) = KAlertmanagerConfig"
| "body_kind (BPrometheusRule _) = KPrometheusRule"
| "body_kind (BPodMonitor _) = KPodMonitor"
| "body_kind (BServiceMonitor _) = KServiceMonitor"
| "body_kind (BConfigMap _) = KConfigMap"
| "body_kind (BSecret _) = KSecret"
| "body_kind (BService _) = KService"
| "body_kind (BNetworkPolicy _) = KNetworkPolicy"
| "body_kind (BCSV _) = KCSV"
| "body_kind (BBucketClass _) = KBucketClass"
| "body_kind (BBackingStore _) = KBackingStore"
| "body_kind (BNamespaceStore _) = KNamespaceStore"
| "body_kind (BObjectBucketClaim _) = KObjectBucketClaim"
| "body_kind (BClusterVersion _) = KClusterVersion"

abbreviation obj_kind :: "kobject \<Rightarrow> kind" where
  "obj_kind o' \<equiv> body_kind (Body o')"

record nn =
  nnNamespace :: string
  nnName :: string

text \<open>\<open>client.ObjectKeyFromObject\<close>\<close>

definition object_key :: "('b, 'm) object_scheme \<Rightarrow> nn" where
  "object_key ob = \<lparr>nnNamespace = mNamespace (ObjectMeta ob), nnName = mName (ObjectMeta ob)\<rparr>"

text \<open>
  The typed view of a kind: how a body of the Go type is stored as an API object and read back.
\<close>

record 'b kdesc =
  kdKind :: kind
  kdInj :: "'b \<Rightarrow> body"
  kdPrj :: "body \<Rightarrow> 'b option"

definition untype :: "'b kdesc \<Rightarrow> 'b object \<Rightarrow> kobject" where
  "untype K ob = \<lparr>ObjectMeta = ObjectMeta ob, Body = kdInj K (Body ob)\<rparr>"

definition retype :: "'b kdesc \<Rightarrow> kobject \<Rightarrow> 'b object option" where
  "retype K ob = map_option (\<lambda>b. \<lparr>ObjectMeta = ObjectMeta ob, Body = b\<rparr>) (kdPrj K (Body ob))"

lemma object_key_untype [simp]: "object_key (untype K ob) = object_key ob"
  by (simp add: object_key_def untype_def)

locale typed_kind =
  fixes K :: "'b kdesc"
  assumes prj_inj: "kdPrj K (kdInj K b) = Some b"
    and inj_prj: "kdPrj K bd = Some b \<Longrightarrow> bd = kdInj K b"
    and kind_inj: "body_kind (kdInj K b) = kdKind K"
    and prj_kind: "body_kind bd = kdKind K \<Longrightarrow> kdPrj K bd \<noteq> None"
begin

lemma retype_untype: "retype K (untype K ob) = Some ob"
  by (simp add: retype_def untype_def prj_inj)

lemma untype_retype: "retype K ko = Some ob \<Longrightarrow> untype K ob = ko"
  by (cases ko) (auto simp: retype_def untype_def dest: inj_prj)

lemma kind_untype: "obj_kind (untype K ob) = kdKind K"
  by (simp add: untype_def kind_inj)

lemma untype_inject: "untype K a = untype K b \<longleftrightarrow> a = b"
  by (metis option.inject retype_untype)

lemma retype_key: "retype K ko = Some ob \<Longrightarrow> object_key ob = object_key ko"
  by (auto simp: retype_def object_key_def)

lemma retype_total: "obj_kind ko = kdKind K \<Longrightarrow> \<exists>ob. retype K ko = Some ob"
  using prj_kind by (auto simp: retype_def)

lemma retype_kind: "retype K ko = Some ob \<Longrightarrow> obj_kind ko = kdKind K"
  by (auto simp: retype_def kind_inj dest: inj_prj)

end

definition kManagedMCG :: "managedmcg kdesc" where
  "kManagedMCG = \<lparr>kdKind = KManagedMCG, kdInj = BManagedMCG,
     kdPrj = (\<lambda>b. case b of BManagedMCG x \<Rightarrow> Some x | _ \<Rightarrow> None)\<rparr>"

definition kNooBaa :: "noobaa kdesc" where
  "kNooBaa = \<lparr>kdKind = KNooBaa, kdInj = BNooBaa,
     kdPrj = (\<lambda>b. case b of BNooBaa x \<Rightarrow> Some x | _ \<Rightarrow> None)\<rparr>"

definition kStatefulSet :: "workload kdesc" where
  "kStatefulSet = \<lparr>kdKind = KStatefulSet, kdInj = BStatefulSet,
     kdPrj = (\<lambda>b. case b of BStatefulSet x \<Rightarrow> Some x | _ \<Rightarrow> None)\<rparr>"

definition kDeployment :: "workload kdesc" where
  "kDeployment = \<lparr>kdKind = KDeployment, kdInj = BDeployment,
     kdPrj = (\<lambda>b. case b of BDeployment x \<Rightarrow> Some x | _ \<Rightarrow> None)\<rparr>"

definition kConsolePlugin :: "console_plugin kdesc" where
  "kConsolePlugin = \<lparr>kdKind = KConsolePlugin, kdInj = BConsolePlugin,
     kdPrj = (\<lambda>b. case b of BConsolePlugin x \<Rightarrow> Some x | _ \<Rightarrow> None)\<rparr>"

definition kConsole :: "operator_console kdesc" where
  "kConsole = \<lparr>kdKind = KConsole, kdInj = BConsole,
     kdPrj = (\<lambda>b. case b of BConsole x \<Rightarrow> Some x | _ \<Rightarrow> None)\<rparr>"

definition kPrometheus :: "prometheus kdesc" where
  "kPrometheus = \<lparr>kdKind = KPrometheus, kdInj = BPrometheus,
     kdPrj = (\<lambda>b. case b of BPrometheus x \<Rightarrow> Some x | _ \<Rightarrow> None)\<rparr>"

definition kAlertmanager :: "alertmanager kdesc" where
  "kAlertmanager = \<lparr>kdKind = KAlertmanager, kdInj = BAlertmanager,
     kdPrj = (\<lambda>b. case b of BAlertmanager x \<Rightarrow> Some x | _ \<Rightarrow> None)\<rparr>"

definition kAlertmanagerConfig :: "alertmanager_config kdesc" where
  "kAlertmanagerConfig = \<lparr>kdKind = KAlertmanagerConfig, kdInj = BAlertmanagerConfig,
     kdPrj = (\<lambda>b. case b of BAlertmanagerConfig x \<Rightarrow> Some x | _ \<Rightarrow> None)\<rparr>"

definition kPrometheusRule :: "rule_group list kdesc" where
  "kPrometheusRule = \<lparr>kdKind = KPrometheusRule, kdInj = BPrometheusRule,
     kdPrj = (\<lambda>b. case b of BPrometheusRule x \<Rightarrow> Some x | _ \<Rightarrow> None)\<rparr>"

definition kPodMonitor :: "opaque kdesc" where
  "kPodMonitor = \<lparr>kdKind = KPodMonitor, kdInj = BPodMonitor,
     kdPrj = (\<lambda>b. case b of BPodMonitor x \<Rightarrow> Some x | _ \<Rightarrow> None)\<rparr>"

definition kServiceMonitor :: "opaque kdesc" where
  "kServiceMonitor = \<lparr>kdKind = KServiceMonitor, kdInj = BServiceMonitor,
     kdPrj = (\<lambda>b. case b of BServiceMonitor x \<Rightarrow> Some x | _ \<Rightarrow> None)\<rparr>"

definition kConfigMap :: "string gomap kdesc" where
  "kConfigMap = \<lparr>kdKind = KConfigMap, kdInj = BConfigMap,
     kdPrj = (\<lambda>b. case b of BConfigMap x \<Rightarrow> Some x | _ \<Rightarrow> None)\<rparr>"

definition kSecret :: "string gomap kdesc" where
  "kSecret = \<lparr>kdKind = KSecret, kdInj = BSecret,
     kdPrj = (\<lambda>b. case b of BSecret x \<Rightarrow> Some x | _ \<Rightarrow> None)\<rparr>"

definition kService :: "service kdesc" where
  "kService = \<lparr>kdKind = KService, kdInj = BService,
     kdPrj = (\<lambda>b. case b of BService x \<Rightarrow> Some x | _ \<Rightarrow> None)\<rparr>"

definition kNetworkPolicy :: "network_policy_spec kdesc" where
  "kNetworkPolicy = \<lparr>kdKind = KNetworkPolicy, kdInj = BNetworkPolicy,
     kdPrj = (\<lambda>b. case b of BNetworkPolicy x \<Rightarrow> Some x | _ \<Rightarrow> None)\<rparr>"

definition kCSV :: "csv kdesc" where
  "kCSV = \<lparr>kdKind = KCSV, kdInj = BCSV,
     kdPrj = (\<lambda>b. case b of BCSV x \<Rightarrow> Some x | _ \<Rightarrow> None)\<rparr>"

definition kBucketClass :: "bucket_class kdesc" where
  "kBucketClass = \<lparr>kdKind = KBucketClass, kdInj = BBucketClass,
     kdPrj = (\<lambda>b. case b of BBucketClass x \<Rightarrow> Some x | _ \<Rightarrow> None)\<rparr>"

definition kBackingStore :: "opaque kdesc" where
  "kBackingStore = \<lparr>kdKind = KBackingStore, kdInj = BBackingStore,
     kdPrj = (\<lambda>b. case b of BBackingStore x \<Rightarrow> Some x | _ \<Rightarrow> None)\<rparr>"

definition kNamespaceStore :: "opaque kdesc" where
  "kNamespaceStore = \<lparr>kdKind = KNamespaceStore, kdInj = BNamespaceStore,
     kdPrj = (\<lambda>b. case b of BNamespaceStore x \<Rightarrow> Some x | _ \<Rightarrow> None)\<rparr>"

definition kObjectBucketClaim :: "object_bucket_claim kdesc" where
  "kObjectBucketClaim = \<lparr>kdKind = KObjectBucketClaim, kdInj = BObjectBucketClaim,
     kdPrj = (\<lambda>b. case b of BObjectBucketClaim x \<Rightarrow> Some x | _ \<Rightarrow> None)\<rparr>"

definition kClusterVersion :: "string kdesc" where
  "kClusterVersion = \<lparr>kdKind = KClusterVersion, kdInj = BClusterVersion,
     kdPrj = (\<lambda>b. case b of BClusterVersion x \<Rightarrow> Some x | _ \<Rightarrow> None)\<rparr>"

lemmas kdesc_defs = kManagedMCG_def kNooBaa_def kStatefulSet_def kDeployment_def
  kConsolePlugin_def kConsole_def kPrometheus_def kAlertmanager_def kAlertmanagerConfig_def
  kPrometheusRule_def kPodMonitor_def kServiceMonitor_def kConfigMap_def kSecret_def kService_def
  kNetworkPolicy_def kCSV_def kBucketClass_def kBackingStore_def kNamespaceStore_def
  kObjectBucketClaim_def kClusterVersion_def

lemma kdKind_simps [simp]:
  "kdKind kManagedMCG = KManagedMCG" "kdKind kNooBaa = KNooBaa"
  "kdKind kStatefulSet = KStatefulSet" "kdKind kDeployment = KDeployment"
  "kdKind kConsolePlugin = KConsolePlugin" "kdKind kConsole = KConsole"
  "kdKind kPrometheus = KPrometheus" "kdKind kAlertmanager = KAlertmanager"
  "kdKind kAlertmanagerConfig = KAlertmanagerConfig" "kdKind kPrometheusRule = KPrometheusRule"
  "kdKind kPodMonitor = KPodMonitor" "kdKind kServiceMonitor = KServiceMonitor"
  "kdKind kConfigMap = KConfigMap" "kdKind kSecret = KSecret" "kdKind kService = KService"
  "kdKind kNetworkPolicy = KNetworkPolicy" "kdKind kCSV = KCSV"
  "kdKind kBucketClass = KBucketClass" "kdKind kBackingStore = KBackingStore"
  "kdKind kNamespaceStore = KNamespaceStore" "kdKind kObjectBucketClaim = KObjectBucketClaim"
  "kdKind kClusterVersion = KClusterVersion"
  by (simp_all add: kdesc_defs)

interpretation tk_managedmcg: typed_kind kManagedMCG
  by unfold_locales (auto simp: kManagedMCG_def split: body.splits)

interpretation tk_noobaa: typed_kind kNooBaa
  by unfold_locales (auto simp: kNooBaa_def split: body.splits)

interpretation tk_statefulset: typed_kind kStatefulSet
  by unfold_locales (auto simp: kStatefulSet_def split: body.splits)

interpretation tk_deployment: typed_kind kDeployment
  by unfold_locales (auto simp: kDeployment_def split: body.splits)

interpretation tk_consoleplugin: typed_kind kConsolePlugin
  by unfold_locales (auto simp: kConsolePlugin_def split: body.splits)

interpretation tk_console: typed_kind kConsole
  by unfold_locales (auto simp: kConsole_def split: body.splits)

interpretation tk_prometheus: typed_kind kPrometheus
  by unfold_locales (auto simp: kPrometheus_def split: body.splits)

interpretation tk_alertmanager: typed_kind kAlertmanager
  by unfold_locales (auto simp: kAlertmanager_def split: body.splits)

interpretation tk_alertmanagerconfig: typed_kind kAlertmanagerConfig
  by unfold_locales (auto simp: kAlertmanagerConfig_def split: body.splits)

interpretation tk_prometheusrule: typed_kind kPrometheusRule
  by unfold_locales (auto simp: kPrometheusRule_def split: body.splits)

interpretation tk_podmonitor: typed_kind kPodMonitor
  by unfold_locales (auto simp: kPodMonitor_def split: body.splits)

interpretation tk_servicemonitor: typed_kind kServiceMonitor
  by unfold_locales (auto simp: kServiceMonitor_def split: body.splits)

interpretation tk_configmap: typed_kind kConfigMap
  by unfold_locales (auto simp: kConfigMap_def split: body.splits)

interpretation tk_secret: typed_kind kSecret
  by unfold_locales (auto simp: kSecret_def split: body.splits)

interpretation tk_service: typed_kind kService
  by unfold_locales (auto simp: kService_def split: body.splits)

interpretation tk_networkpolicy: typed_kind kNetworkPolicy
  by unfold_locales (auto simp: kNetworkPolicy_def split: body.splits)

interpretation tk_csv: typed_kind kCSV
  by unfold_locales (auto simp: kCSV_def split: body.splits)

interpretation tk_bucketclass: typed_kind kBucketClass
  by unfold_locales (auto simp: kBucketClass_def split: body.splits)

interpretation tk_backingstore: typed_kind kBackingStore
  by unfold_locales (auto simp: kBackingStore_def split: body.splits)

interpretation tk_namespacestore: typed_kind kNamespaceStore
  by unfold_locales (auto simp: kNamespaceStore_def split: body.splits)

interpretation tk_objectbucketclaim: typed_kind kObjectBucketClaim
  by unfold_locales (auto simp: kObjectBucketClaim_def split: body.splits)

interpretation tk_clusterversion: typed_kind kClusterVersion
  by unfold_locales (auto simp: kClusterVersion_def split: body.splits)

lemmas kind_untype [simp] = tk_managedmcg.kind_untype tk_noobaa.kind_untype
  tk_statefulset.kind_untype tk_deployment.kind_untype tk_consoleplugin.kind_untype
  tk_console.kind_untype tk_prometheus.kind_untype tk_alertmanager.kind_untype
  tk_alertmanagerconfig.kind_untype tk_prometheusrule.kind_untype tk_podmonitor.kind_untype
  tk_servicemonitor.kind_untype tk_configmap.kind_untype tk_secret.kind_untype
  tk_service.kind_untype tk_networkpolicy.kind_untype tk_csv.kind_untype
  tk_bucketclass.kind_untype tk_backingstore.kind_untype tk_namespacestore.kind_untype
  tk_objectbucketclaim.kind_untype tk_clusterversion.kind_untype

lemmas retype_untype [simp] = tk_managedmcg.retype_untype tk_noobaa.retype_untype
  tk_statefulset.retype_untype tk_deployment.retype_untype tk_consoleplugin.retype_untype
  tk_console.retype_untype tk_prometheus.retype_untype tk_alertmanager.retype_untype
  tk_alertmanagerconfig.retype_untype tk_prometheusrule.retype_untype tk_podmonitor.retype_untype
  tk_servicemonitor.retype_untype tk_configmap.retype_untype tk_secret.retype_untype
  tk_service.retype_untype tk_networkpolicy.retype_untype tk_csv.retype_untype
  tk_bucketclass.retype_untype tk_backingstore.retype_untype tk_namespacestore.retype_untype
  tk_objectbucketclaim.retype_untype tk_clusterversion.retype_untype

end
