(* ===== verification/Kube.thy ===== *)
theory Kube
  imports Api_Types
begin

text \<open>
  The client side of the Kubernetes API as the operator uses it. The API server, the clock and
  the file system are the parameter \<open>'w env\<close>: one function per request over a world \<open>'w\<close> that
  may do anything (fail, answer late, be changed by others in between). On top of it, from the
  vendored sources: error classification (\<open>apimachinery/pkg/api/errors\<close>), semantic equality
  (\<open>apimachinery/pkg/api/equality\<close>), polling (\<open>apimachinery/pkg/util/wait\<close>), and
  \<open>SetControllerReference\<close> and \<open>CreateOrUpdate\<close> of controller-runtime.
\<close>

section \<open>The environment\<close>

text \<open>
  A request returns an error or the object the server answers with; \<open>eList k ns\<close> lists all
  namespaces when \<open>ns\<close> is empty. \<open>eWait\<close> is one receive on the channel of a polling loop:
  true for a tick, false once the timeout has closed it. \<open>eYamlMarshal\<close> and
  \<open>eYamlUnmarshalRules\<close> are the YAML libraries; unmarshalling decodes into an existing value.
\<close>

record 'w env =
  eGet :: "kind \<Rightarrow> nn \<Rightarrow> 'w \<Rightarrow> (gerr + kobject) \<times> 'w"
  eList :: "kind \<Rightarrow> string \<Rightarrow> 'w \<Rightarrow> (gerr + kobject list) \<times> 'w"
  eCreate :: "kobject \<Rightarrow> 'w \<Rightarrow> (gerr + kobject) \<times> 'w"
  eUpdate :: "kobject \<Rightarrow> 'w \<Rightarrow> (gerr + kobject) \<times> 'w"
  eStatusUpdate :: "kobject \<Rightarrow> 'w \<Rightarrow> (gerr + kobject) \<times> 'w"
  eDelete :: "kind \<Rightarrow> nn \<Rightarrow> 'w \<Rightarrow> (gerr + unit) \<times> 'w"
  eWait :: "'w \<Rightarrow> bool \<times> 'w"
  eReadFile :: "string \<Rightarrow> 'w \<Rightarrow> (gerr + string) \<times> 'w"
  eYamlMarshal :: "(string \<times> string) list list \<Rightarrow> gerr + string"
  eYamlUnmarshalRules :: "string \<Rightarrow> rule_group list \<Rightarrow> gerr + rule_group list"

text \<open>The state of an action: the fields of the receiver \<open>r\<close> and the world.\<close>

record ('r, 'w) sys =
  rc :: 'r
  wd :: 'w

section \<open>Error classification\<close>

definition StatusReasonNotFound :: string where
  "StatusReasonNotFound = ''NotFound''"

definition StatusReasonAlreadyExists :: string where
  "StatusReasonAlreadyExists = ''AlreadyExists''"

definition StatusReasonConflict :: string where
  "StatusReasonConflict = ''Conflict''"

definition StatusReasonInvalid :: string where
  "StatusReasonInvalid = ''Invalid''"

definition StatusReasonBadRequest :: string where
  "StatusReasonBadRequest = ''BadRequest''"

definition knownReasons :: "string list" where
  "knownReasons = [''Unauthorized'', ''Forbidden'', ''NotFound'', ''AlreadyExists'', ''Conflict'',
     ''Gone'', ''Invalid'', ''ServerTimeout'', ''Timeout'', ''TooManyRequests'', ''BadRequest'',
     ''MethodNotAllowed'', ''NotAcceptable'', ''RequestEntityTooLarge'',
     ''UnsupportedMediaType'', ''InternalError'', ''Expired'', ''ServiceUnavailable'']"

text \<open>\<open>errors.As\<close> follows the chain of wrapped errors to the first API status.\<close>

fun reasonAndCodeForError :: "gerr \<Rightarrow> string \<times> nat" where
  "reasonAndCodeForError (StatusErr reason code _) = (reason, code)"
| "reasonAndCodeForError (WrapErr _ e) = reasonAndCodeForError e"
| "reasonAndCodeForError (PlainErr _) = ('''', 0)"

definition IsNotFound :: "gerr \<Rightarrow> bool" where
  "IsNotFound e = (let (reason, code) = reasonAndCodeForError e in
     reason = StatusReasonNotFound \<or> (reason \<notin> set knownReasons \<and> code = 404))"

definition IsAlreadyExists :: "gerr \<Rightarrow> bool" where
  "IsAlreadyExists e = (fst (reasonAndCodeForError e) = StatusReasonAlreadyExists)"

definition NewNotFound :: "string \<Rightarrow> gerr" where
  "NewNotFound name = StatusErr StatusReasonNotFound 404 name"

definition NewAlreadyExists :: "string \<Rightarrow> gerr" where
  "NewAlreadyExists name = StatusErr StatusReasonAlreadyExists 409 name"

definition NewConflict :: "string \<Rightarrow> gerr" where
  "NewConflict name = StatusErr StatusReasonConflict 409 name"

definition NewInvalid :: "string \<Rightarrow> gerr" where
  "NewInvalid name = StatusErr StatusReasonInvalid 422 name"

definition NewBadRequest :: "string \<Rightarrow> gerr" where
  "NewBadRequest reason = StatusErr StatusReasonBadRequest 400 reason"

lemmas status_err_defs = NewNotFound_def NewAlreadyExists_def NewConflict_def NewInvalid_def
  NewBadRequest_def StatusReasonNotFound_def StatusReasonAlreadyExists_def
  StatusReasonConflict_def StatusReasonInvalid_def StatusReasonBadRequest_def

lemma IsNotFound_WrapErr [simp]: "IsNotFound (WrapErr msg e) = IsNotFound e"
  by (simp add: IsNotFound_def)

lemma IsAlreadyExists_WrapErr [simp]: "IsAlreadyExists (WrapErr msg e) = IsAlreadyExists e"
  by (simp add: IsAlreadyExists_def)

lemma IsNotFound_simps [simp]:
  "IsNotFound (NewNotFound n)" "\<not> IsNotFound (NewAlreadyExists n)" "\<not> IsNotFound (NewConflict n)"
  "\<not> IsNotFound (NewInvalid n)" "\<not> IsNotFound (NewBadRequest n)" "\<not> IsNotFound (PlainErr n)"
  by (simp_all add: IsNotFound_def status_err_defs knownReasons_def)

lemma IsAlreadyExists_simps [simp]:
  "IsAlreadyExists (NewAlreadyExists n)" "\<not> IsAlreadyExists (NewNotFound n)"
  "\<not> IsAlreadyExists (PlainErr n)"
  by (simp_all add: IsAlreadyExists_def status_err_defs)

lemma NotFound_not_AlreadyExists: "IsNotFound e \<Longrightarrow> \<not> IsAlreadyExists e"
  by (auto simp: IsNotFound_def IsAlreadyExists_def status_err_defs knownReasons_def
      split: prod.splits)

section \<open>Semantic equality\<close>

text \<open>
  \<open>equality.Semantic.DeepEqual\<close> is structural equality after nil and empty maps have been
  identified and quantities replaced by their values.
\<close>

definition norm_resources :: "resource_requirements \<Rightarrow> resource_requirements" where
  "norm_resources r =
     \<lparr>rrLimits = GoMap (fmmap quantity_norm (gm_fmap (rrLimits r))),
      rrRequests = GoMap (fmmap quantity_norm (gm_fmap (rrRequests r)))\<rparr>"

definition norm_selector :: "label_selector \<Rightarrow> label_selector" where
  "norm_selector s = s\<lparr>lsMatchLabels := gm_norm (lsMatchLabels s)\<rparr>"

definition norm_container :: "container \<Rightarrow> container" where
  "norm_container c = c\<lparr>ctResources := norm_resources (ctResources c)\<rparr>"

definition norm_rule_group :: "rule_group \<Rightarrow> rule_group" where
  "norm_rule_group g = g\<lparr>rgRules := map (\<lambda>u. u\<lparr>ruLabels := gm_norm (ruLabels u),
     ruAnnotations := gm_norm (ruAnnotations u)\<rparr>) (rgRules g)\<rparr>"

definition norm_noobaa_spec :: "noobaa_spec \<Rightarrow> noobaa_spec" where
  "norm_noobaa_spec n = n\<lparr>
     nsCoreResources := map_option norm_resources (nsCoreResources n),
     nsDBResources := map_option norm_resources (nsDBResources n),
     nsDBVolumeResources := map_option norm_resources (nsDBVolumeResources n),
     nsEndpoints := map_option (\<lambda>ep. ep\<lparr>epResources := map_option norm_resources (epResources ep)\<rparr>)
       (nsEndpoints n),
     nsDefaultBackingStoreSpec := map_option (\<lambda>bs. bs\<lparr>bsPVPool := map_option
       (\<lambda>pv. pv\<lparr>pvVolumeResources := map_option norm_resources (pvVolumeResources pv)\<rparr>)
       (bsPVPool bs)\<rparr>) (nsDefaultBackingStoreSpec n)\<rparr>"

definition norm_remote_write :: "remote_write_spec \<Rightarrow> remote_write_spec" where
  "norm_remote_write w = w\<lparr>rwOAuth2 := map_option
     (\<lambda>oa. oa\<lparr>oaEndpointParams := gm_norm (oaEndpointParams oa)\<rparr>) (rwOAuth2 w)\<rparr>"

definition norm_prometheus_spec :: "prometheus_spec \<Rightarrow> prometheus_spec" where
  "norm_prometheus_spec p = p\<lparr>
     psServiceMonitorSelector := map_option norm_selector (psServiceMonitorSelector p),
     psPodMonitorSelector := map_option norm_selector (psPodMonitorSelector p),
     psRuleSelector := map_option norm_selector (psRuleSelector p),
     psResources := norm_resources (psResources p),
     psContainers := map norm_container (psContainers p),
     psRemoteWrite := map norm_remote_write (psRemoteWrite p)\<rparr>"

definition norm_alertmanager_spec :: "alertmanager_spec \<Rightarrow> alertmanager_spec" where
  "norm_alertmanager_spec a = a\<lparr>
     asResources := norm_resources (asResources a),
     asTopologySpreadConstraints := map
       (\<lambda>t. t\<lparr>tsLabelSelector := map_option norm_selector (tsLabelSelector t)\<rparr>)
       (asTopologySpreadConstraints a),
     asAlertmanagerConfigSelector := map_option norm_selector (asAlertmanagerConfigSelector a)\<rparr>"

definition norm_network_policy :: "network_policy_spec \<Rightarrow> network_policy_spec" where
  "norm_network_policy n = n\<lparr>
     npIngress := map (\<lambda>ir. ir\<lparr>nirFrom := map (\<lambda>pr. pr\<lparr>
       nprPodSelector := map_option norm_selector (nprPodSelector pr),
       nprNamespaceSelector := map_option norm_selector (nprNamespaceSelector pr)\<rparr>) (nirFrom ir)\<rparr>)
       (npIngress n),
     npPodSelector := norm_selector (npPodSelector n)\<rparr>"

fun norm_body :: "body \<Rightarrow> body" where
  "norm_body (BNooBaa n) = BNooBaa (n\<lparr>nooSpec := norm_noobaa_spec (nooSpec n)\<rparr>)"
| "norm_body (BPrometheus p) = BPrometheus (p\<lparr>promSpec := norm_prometheus_spec (promSpec p)\<rparr>)"
| "norm_body (BAlertmanager a) = BAlertmanager (a\<lparr>amSpec := norm_alertmanager_spec (amSpec a)\<rparr>)"
| "norm_body (BPrometheusRule gs) = BPrometheusRule (map norm_rule_group gs)"
| "norm_body (BConfigMap d) = BConfigMap (gm_norm d)"
| "norm_body (BSecret d) = BSecret (gm_norm d)"
| "norm_body (BService s) = BService (s\<lparr>svcSelector := gm_norm (svcSelector s)\<rparr>)"
| "norm_body (BNetworkPolicy n) = BNetworkPolicy (norm_network_policy n)"
| "norm_body (BCSV c) = BCSV (c\<lparr>csvDeploymentSpecs := map (\<lambda>d. d\<lparr>sdContainers :=
     map norm_container (sdContainers d)\<rparr>) (csvDeploymentSpecs c)\<rparr>)"
| "norm_body (BObjectBucketClaim b) = BObjectBucketClaim (b\<lparr>obcSpec := (obcSpec b)\<lparr>
     obAdditionalConfig := gm_norm (obAdditionalConfig (obcSpec b))\<rparr>\<rparr>)"
| "norm_body b = b"

definition norm_meta :: "object_meta \<Rightarrow> object_meta" where
  "norm_meta m = m\<lparr>mLabels := gm_norm (mLabels m), mAnnotations := gm_norm (mAnnotations m)\<rparr>"

definition semantic_DeepEqual :: "kobject \<Rightarrow> kobject \<Rightarrow> bool" where
  "semantic_DeepEqual a b \<longleftrightarrow>
     norm_meta (ObjectMeta a) = norm_meta (ObjectMeta b) \<and> norm_body (Body a) = norm_body (Body b)"

lemma semantic_DeepEqual_refl [simp]: "semantic_DeepEqual a a"
  by (simp add: semantic_DeepEqual_def)

lemma semantic_DeepEqual_sym: "semantic_DeepEqual a b \<Longrightarrow> semantic_DeepEqual b a"
  by (simp add: semantic_DeepEqual_def)

lemma semantic_DeepEqual_trans:
  "semantic_DeepEqual a b \<Longrightarrow> semantic_DeepEqual b c \<Longrightarrow> semantic_DeepEqual a c"
  by (simp add: semantic_DeepEqual_def)

lemma norm_body_kind: "body_kind (norm_body b) = body_kind b"
  by (cases b) simp_all

lemma semantic_DeepEqual_kind: "semantic_DeepEqual a b \<Longrightarrow> obj_kind a = obj_kind b"
  by (metis norm_body_kind semantic_DeepEqual_def)

section \<open>Typed requests\<close>

text \<open>A pointer field of the receiver: how it is read and how it is assigned.\<close>

type_synonym ('r, 'b) field = "('r \<Rightarrow> 'b object) \<times> (('b object \<Rightarrow> 'b object) \<Rightarrow> 'r \<Rightarrow> 'r)"

definition getR :: "('r \<Rightarrow> 'a) \<Rightarrow> (('r, 'w) sys, 'a) act" where
  "getR f = readA (\<lambda>s. f (rc s))"

definition setR :: "('r \<Rightarrow> 'r) \<Rightarrow> (('r, 'w) sys, unit) act" where
  "setR f = modA (\<lambda>s. s\<lparr>rc := f (rc s)\<rparr>)"

definition setF :: "('r, 'b) field \<Rightarrow> 'b object \<Rightarrow> (('r, 'w) sys, unit) act" where
  "setF F ob = setR (snd F (\<lambda>_. ob))"

definition keyF :: "('r, 'b) field \<Rightarrow> (('r, 'w) sys, nn) act" where
  "keyF F = getR (\<lambda>r. object_key (fst F r))"

text \<open>A request: the world moves, an answer of the wrong kind is a decoding error.\<close>

definition reqA :: "('w \<Rightarrow> (gerr + 'a) \<times> 'w) \<Rightarrow> (('r, 'w) sys, 'a) act" where
  "reqA f = (\<lambda>s. case f (wd s) of
       (Inl e, w) \<Rightarrow> (Err e, s\<lparr>wd := w\<rparr>)
     | (Inr a, w) \<Rightarrow> (Ok a, s\<lparr>wd := w\<rparr>))"

definition decodeA :: "'b kdesc \<Rightarrow> kobject \<Rightarrow> (('r, 'w) sys, 'b object) act" where
  "decodeA K ko = (case retype K ko of
       None \<Rightarrow> failA (PlainErr ''unable to decode'') | Some ob \<Rightarrow> retA ob)"

definition clientGet :: "'w env \<Rightarrow> 'b kdesc \<Rightarrow> nn \<Rightarrow> (('r, 'w) sys, 'b object) act" where
  "clientGet E K key = bindA (reqA (eGet E (kdKind K) key)) (decodeA K)"

definition clientList :: "'w env \<Rightarrow> 'b kdesc \<Rightarrow> string \<Rightarrow> (('r, 'w) sys, 'b object list) act" where
  "clientList E K ns = bindA (reqA (eList E (kdKind K) ns))
     (\<lambda>kos. case those (map (retype K) kos) of
        None \<Rightarrow> failA (PlainErr ''unable to decode'') | Some obs \<Rightarrow> retA obs)"

definition clientCreate :: "'w env \<Rightarrow> 'b kdesc \<Rightarrow> 'b object \<Rightarrow> (('r, 'w) sys, 'b object) act" where
  "clientCreate E K ob = bindA (reqA (eCreate E (untype K ob))) (decodeA K)"

definition clientUpdate :: "'w env \<Rightarrow> 'b kdesc \<Rightarrow> 'b object \<Rightarrow> (('r, 'w) sys, 'b object) act" where
  "clientUpdate E K ob = bindA (reqA (eUpdate E (untype K ob))) (decodeA K)"

definition clientStatusUpdate ::
  "'w env \<Rightarrow> 'b kdesc \<Rightarrow> 'b object \<Rightarrow> (('r, 'w) sys, 'b object) act" where
  "clientStatusUpdate E K ob = bindA (reqA (eStatusUpdate E (untype K ob))) (decodeA K)"

definition clientDelete :: "'w env \<Rightarrow> 'b kdesc \<Rightarrow> nn \<Rightarrow> (('r, 'w) sys, unit) act" where
  "clientDelete E K key = reqA (eDelete E (kdKind K) key)"

text \<open>Requests on a field of the receiver: the answer is decoded into the field.\<close>

definition getF :: "'w env \<Rightarrow> 'b kdesc \<Rightarrow> ('r, 'b) field \<Rightarrow> (('r, 'w) sys, unit) act" where
  "getF E K F = bindA (keyF F) (\<lambda>key. bindA (clientGet E K key) (setF F))"

definition createF :: "'w env \<Rightarrow> 'b kdesc \<Rightarrow> ('r, 'b) field \<Rightarrow> (('r, 'w) sys, unit) act" where
  "createF E K F = bindA (getR (fst F)) (\<lambda>ob. bindA (clientCreate E K ob) (setF F))"

definition updateF :: "'w env \<Rightarrow> 'b kdesc \<Rightarrow> ('r, 'b) field \<Rightarrow> (('r, 'w) sys, unit) act" where
  "updateF E K F = bindA (getR (fst F)) (\<lambda>ob. bindA (clientUpdate E K ob) (setF F))"

text \<open>What a fetch makes of an answer: an answer of the wrong kind is a decoding error.\<close>

definition fetched :: "'b kdesc \<Rightarrow> gerr + kobject \<Rightarrow> gerr + 'b object" where
  "fetched K a = (case a of Inl e \<Rightarrow> Inl e
     | Inr ob \<Rightarrow> (case retype K ob of None \<Rightarrow> Inl (PlainErr ''unable to decode'') | Some x \<Rightarrow> Inr x))"

lemma clientGet_eq:
  "clientGet E K key s =
     (case eGet E (kdKind K) key (wd s) of (a, w) \<Rightarrow>
        (case fetched K a of Inl e \<Rightarrow> (Err e, s\<lparr>wd := w\<rparr>) | Inr x \<Rightarrow> (Ok x, s\<lparr>wd := w\<rparr>)))"
  by (simp add: clientGet_def fetched_def reqA_def bindA_def decodeA_def failA_def retA_def
      split: prod.split sum.split option.split)

section \<open>Polling\<close>

text \<open>
  \<open>WaitForWithContext\<close> over the channel of \<open>poller(interval, timeout)\<close>: the condition runs once
  for every tick and once more when the channel has been closed, after which the loop ends. The
  first argument bounds the ticks that can still arrive: the ticker fires once per interval and
  the channel is closed at the timeout.
\<close>

definition ErrWaitTimeout :: gerr where
  "ErrWaitTimeout = PlainErr ''timed out waiting for the condition''"

definition waitA :: "'w env \<Rightarrow> (('r, 'w) sys, bool) act" where
  "waitA E = (\<lambda>s. case eWait E (wd s) of (b, w) \<Rightarrow> (Ok b, s\<lparr>wd := w\<rparr>))"

primrec WaitFor :: "'w env \<Rightarrow> nat \<Rightarrow> (('r, 'w) sys, bool) act \<Rightarrow> (('r, 'w) sys, unit) act" where
  "WaitFor E 0 condition =
     thenA (waitA E) (bindA condition (\<lambda>ok. if ok then retA () else failA ErrWaitTimeout))"
| "WaitFor E (Suc n) condition =
     bindA (waitA E) (\<lambda>open.
     bindA condition (\<lambda>ok.
       if ok then retA ()
       else if \<not> open then failA ErrWaitTimeout
       else WaitFor E n condition))"

definition PollImmediate ::
  "'w env \<Rightarrow> nat \<Rightarrow> nat \<Rightarrow> (('r, 'w) sys, bool) act \<Rightarrow> (('r, 'w) sys, unit) act" where
  "PollImmediate E interval timeout condition =
     bindA condition (\<lambda>done.
       if done then retA () else WaitFor E (timeout div interval) condition)"

text \<open>A poll that succeeds ends right after a run of its condition that returned true.\<close>

lemma WaitFor_Ok:
  "WaitFor E n c s = (Ok u, s') \<Longrightarrow> \<exists>t. c t = (Ok True, s')"
  by (induction n arbitrary: s)
    (auto simp: failA_def retA_def elim!: thenA_Ok bindA_Ok split: if_splits)

lemma PollImmediate_Ok:
  "PollImmediate E i t c s = (Ok u, s') \<Longrightarrow> \<exists>t'. c t' = (Ok True, s')"
  by (auto simp: PollImmediate_def retA_def elim!: bindA_Ok split: if_splits intro: WaitFor_Ok)

section \<open>Owner references\<close>

text \<open>Group and version under which the kinds are registered in the scheme.\<close>

fun kind_gvk :: "kind \<Rightarrow> string \<times> string \<times> string" where
  "kind_gvk KManagedMCG = (''mcg.openshift.io'', ''v1alpha1'', ''ManagedMCG'')"
| "kind_gvk KNooBaa = (''noobaa.io'', ''v1alpha1'', ''NooBaa'')"
| "kind_gvk KStatefulSet = (''apps'', ''v1'', ''StatefulSet'')"
| "kind_gvk KDeployment = (''apps'', ''v1'', ''Deployment'')"
| "kind_gvk KConsolePlugin = (''console.openshift.io'', ''v1alpha1'', ''ConsolePlugin'')"
| "kind_gvk KConsole = (''operator.openshift.io'', ''v1'', ''Console'')"
| "kind_gvk KPrometheus = (''monitoring.coreos.com'', ''v1'', ''Prometheus'')"
| "kind_gvk KAlertmanager = (''monitoring.coreos.com'', ''v1'', ''Alertmanager'')"
| "kind_gvk KAlertmanagerConfig = (''monitoring.coreos.com'', ''v1alpha1'', ''AlertmanagerConfig'')"
| "kind_gvk KPrometheusRule = (''monitoring.coreos.com'', ''v1'', ''PrometheusRule'')"
| "kind_gvk KPodMonitor = (''monitoring.coreos.com'', ''v1'', ''PodMonitor'')"
| "kind_gvk KServiceMonitor = (''monitoring.coreos.com'', ''v1'', ''ServiceMonitor'')"
| "kind_gvk KConfigMap = ('''', ''v1'', ''ConfigMap'')"
| "kind_gvk KSecret = ('''', ''v1'', ''Secret'')"
| "kind_gvk KService = ('''', ''v1'', ''Service'')"
| "kind_gvk KNetworkPolicy = (''networking.k8s.io'', ''v1'', ''NetworkPolicy'')"
| "kind_gvk KCSV = (''operators.coreos.com'', ''v1alpha1'', ''ClusterServiceVersion'')"
| "kind_gvk KBucketClass = (''noobaa.io'', ''v1alpha1'', ''BucketClass'')"
| "kind_gvk KBackingStore = (''noobaa.io'', ''v1alpha1'', ''BackingStore'')"
| "kind_gvk KNamespaceStore = (''noobaa.io'', ''v1alpha1'', ''NamespaceStore'')"
| "kind_gvk KObjectBucketClaim = (''objectbucket.io'', ''v1alpha1'', ''ObjectBucketClaim'')"
| "kind_gvk KClusterVersion = (''config.openshift.io'', ''v1'', ''ClusterVersion'')"

definition GroupVersion_String :: "string \<Rightarrow> string \<Rightarrow> string" where
  "GroupVersion_String g v = (if g \<noteq> '''' then g @ ''/'' @ v else v)"

definition ParseGroupVersion :: "string \<Rightarrow> (string \<times> string) option" where
  "ParseGroupVersion gv =
     (if gv = '''' \<or> gv = ''/'' then Some ('''', '''')
      else if count_list gv (CHR ''/'') = 0 then Some ('''', gv)
      else if count_list gv (CHR ''/'') = 1 then
        Some (takeWhile (\<lambda>c. c \<noteq> CHR ''/'') gv, tl (dropWhile (\<lambda>c. c \<noteq> CHR ''/'') gv))
      else None)"

definition referSameObject :: "owner_reference \<Rightarrow> owner_reference \<Rightarrow> bool" where
  "referSameObject a b =
     (case ParseGroupVersion (orAPIVersion a) of
        None \<Rightarrow> False
      | Some (aGroup, _) \<Rightarrow>
          (case ParseGroupVersion (orAPIVersion b) of
             None \<Rightarrow> False
           | Some (bGroup, _) \<Rightarrow> aGroup = bGroup \<and> orKind a = orKind b \<and> orName a = orName b))"

text \<open>\<open>indexOwnerRef\<close> and \<open>upsertOwnerRef\<close>: the first reference to the object is replaced.\<close>

fun upsertOwnerRef :: "owner_reference \<Rightarrow> owner_reference list \<Rightarrow> owner_reference list" where
  "upsertOwnerRef ref [] = [ref]"
| "upsertOwnerRef ref (r # rs) =
     (if referSameObject r ref then ref # rs else r # upsertOwnerRef ref rs)"

definition GetControllerOf :: "object_meta \<Rightarrow> owner_reference option" where
  "GetControllerOf m = find (\<lambda>r. orController r = Some True) (mOwnerReferences m)"

definition validateOwner :: "object_meta \<Rightarrow> object_meta \<Rightarrow> gerr option" where
  "validateOwner owner ob =
     (if mNamespace owner \<noteq> '''' then
        if mNamespace ob = '''' then
          Some (PlainErr ''cluster-scoped resource must not have a namespace-scoped owner'')
        else if mNamespace owner \<noteq> mNamespace ob then
          Some (PlainErr ''cross-namespace owner references are disallowed'')
        else None
      else None)"

definition controllerRef :: "kind \<Rightarrow> object_meta \<Rightarrow> owner_reference" where
  "controllerRef k owner = (case kind_gvk k of (g, v, kd) \<Rightarrow>
     \<lparr>orAPIVersion = GroupVersion_String g v, orKind = kd, orName = mName owner,
      orUID = mUID owner, orBlockOwnerDeletion = Some True, orController = Some True\<rparr>)"

definition SetControllerReference :: "kind \<Rightarrow> object_meta \<Rightarrow> object_meta \<Rightarrow> gerr + object_meta" where
  "SetControllerReference k owner controlled =
     (case validateOwner owner controlled of
        Some e \<Rightarrow> Inl e
      | None \<Rightarrow>
          (let ref = controllerRef k owner in
             case GetControllerOf controlled of
               Some existing \<Rightarrow>
                 if \<not> referSameObject existing ref then Inl (PlainErr ''already owned'')
                 else Inr (controlled\<lparr>mOwnerReferences :=
                        upsertOwnerRef ref (mOwnerReferences controlled)\<rparr>)
             | None \<Rightarrow> Inr (controlled\<lparr>mOwnerReferences :=
                        upsertOwnerRef ref (mOwnerReferences controlled)\<rparr>)))"

section \<open>Properties of owner references\<close>

lemma ParseGroupVersion_String_kind:
  "ParseGroupVersion (GroupVersion_String (fst (kind_gvk k)) (fst (snd (kind_gvk k)))) =
     Some (fst (kind_gvk k), fst (snd (kind_gvk k)))"
  by (cases k) (simp_all add: ParseGroupVersion_def GroupVersion_String_def)

lemma referSameObject_controllerRef [simp]:
  "referSameObject (controllerRef k owner) (controllerRef k owner)"
  using ParseGroupVersion_String_kind [of k]
  by (cases "kind_gvk k") (simp add: referSameObject_def controllerRef_def)

lemma orController_controllerRef [simp]: "orController (controllerRef k owner) = Some True"
  by (simp add: controllerRef_def split: prod.split)

lemma upsertOwnerRef_idem:
  "referSameObject ref ref \<Longrightarrow> upsertOwnerRef ref (upsertOwnerRef ref rs) = upsertOwnerRef ref rs"
  by (induction rs) auto

lemma set_upsertOwnerRef:
  "set (upsertOwnerRef ref rs) \<subseteq> insert ref (set rs)" "ref \<in> set (upsertOwnerRef ref rs)"
  by (induction rs) auto

text \<open>After the upsert the first controller is the new reference.\<close>

lemma find_controller_upsert:
  assumes "orController ref = Some True"
    and "\<And>r. find (\<lambda>r. orController r = Some True) rs = Some r \<Longrightarrow> referSameObject r ref"
  shows "find (\<lambda>r. orController r = Some True) (upsertOwnerRef ref rs) = Some ref"
  using assms by (induction rs) auto

lemma validateOwner_namespace:
  "mNamespace m' = mNamespace m \<Longrightarrow> validateOwner owner m' = validateOwner owner m"
  by (simp add: validateOwner_def)

lemma SetControllerReference_Inr_iff:
  "SetControllerReference k owner m = Inr m' \<longleftrightarrow>
     validateOwner owner m = None \<and>
     (\<forall>r. GetControllerOf m = Some r \<longrightarrow> referSameObject r (controllerRef k owner)) \<and>
     m' = m\<lparr>mOwnerReferences := upsertOwnerRef (controllerRef k owner) (mOwnerReferences m)\<rparr>"
  by (auto simp: SetControllerReference_def Let_def split: option.splits if_splits)

lemma SetControllerReference_controller:
  "SetControllerReference k owner m = Inr m' \<Longrightarrow> GetControllerOf m' = Some (controllerRef k owner)"
  by (auto simp: SetControllerReference_Inr_iff GetControllerOf_def intro!: find_controller_upsert)

text \<open>The reference once set is set: any object with the same owners and namespace is accepted as it is.\<close>

lemma SetControllerReference_stable:
  assumes "SetControllerReference k owner m = Inr m'"
    and "mOwnerReferences m'' = mOwnerReferences m'" and "mNamespace m'' = mNamespace m"
  shows "SetControllerReference k owner m'' = Inr m''"
proof -
  have "GetControllerOf m'' = Some (controllerRef k owner)"
    using SetControllerReference_controller [OF assms(1)] assms(2) by (simp add: GetControllerOf_def)
  moreover have "validateOwner owner m'' = None"
    using assms(1) validateOwner_namespace [OF assms(3)]
    by (simp add: SetControllerReference_Inr_iff)
  moreover have "upsertOwnerRef (controllerRef k owner) (mOwnerReferences m'') = mOwnerReferences m''"
    using assms(1,2) by (auto simp: SetControllerReference_Inr_iff upsertOwnerRef_idem)
  ultimately show ?thesis
    by (simp add: SetControllerReference_Inr_iff)
qed

lemma SetControllerReference_owner_cong:
  "mName o' = mName ow \<Longrightarrow> mUID o' = mUID ow \<Longrightarrow> mNamespace o' = mNamespace ow \<Longrightarrow>
   SetControllerReference k o' m = SetControllerReference k ow m"
  by (simp add: SetControllerReference_def validateOwner_def controllerRef_def)

lemma upsertOwnerRef_keeps: "{r \<in> set rs. \<not> referSameObject r ref} \<subseteq> set (upsertOwnerRef ref rs)"
  by (induction rs) auto

text \<open>
  An owner is never taken over: \<open>SetControllerReference\<close> fails exactly when the namespaces forbid
  the owner or another object already controls the resource. Otherwise the owner is the controller
  of the result, the references to other objects are still there, nothing else of the metadata has
  changed, and a second call changes nothing.
\<close>

lemma SetControllerReference_exclusive:
  "case SetControllerReference k owner m of
     Inl _ \<Rightarrow> (\<exists>e. validateOwner owner m = Some e) \<or>
       (\<exists>r. GetControllerOf m = Some r \<and> \<not> referSameObject r (controllerRef k owner))
   | Inr m' \<Rightarrow> validateOwner owner m = None \<and>
       (case GetControllerOf m of None \<Rightarrow> True | Some r \<Rightarrow> referSameObject r (controllerRef k owner)) \<and>
       GetControllerOf m' = Some (controllerRef k owner) \<and>
       {r \<in> set (mOwnerReferences m). \<not> referSameObject r (controllerRef k owner)} \<subseteq> set (mOwnerReferences m') \<and>
       m' = m\<lparr>mOwnerReferences := mOwnerReferences m'\<rparr> \<and> SetControllerReference k owner m' = Inr m'"
proof (cases "SetControllerReference k owner m")
  case (Inl e)
  then show ?thesis by (auto simp: SetControllerReference_def Let_def split: option.splits if_splits)
next
  case (Inr m')
  note parts = Inr [unfolded SetControllerReference_Inr_iff]
  then have m': "m' = m\<lparr>mOwnerReferences := upsertOwnerRef (controllerRef k owner) (mOwnerReferences m)\<rparr>" by blast
  have "SetControllerReference k owner m' = Inr m'"
    using SetControllerReference_stable [OF Inr, of m'] m' by simp
  moreover have "{r \<in> set (mOwnerReferences m). \<not> referSameObject r (controllerRef k owner)} \<subseteq> set (mOwnerReferences m')"
    using upsertOwnerRef_keeps by (simp add: m')
  moreover have "m' = m\<lparr>mOwnerReferences := mOwnerReferences m'\<rparr>" by (simp add: m')
  ultimately show ?thesis
    using SetControllerReference_controller [OF Inr] parts Inr by (simp split: option.split)
qed

section \<open>CreateOrUpdate\<close>

datatype operation_result = OperationResultNone | OperationResultCreated | OperationResultUpdated

definition mutateF ::
  "(('r, 'w) sys, unit) act \<Rightarrow> nn \<Rightarrow> ('r, 'b) field \<Rightarrow> (('r, 'w) sys, unit) act" where
  "mutateF f key F =
     thenA f
    (bindA (keyF F) (\<lambda>newKey.
       if key \<noteq> newKey
       then failA (PlainErr ''MutateFn cannot mutate object name and/or object namespace'')
       else retA ()))"

definition CreateOrUpdate ::
  "'w env \<Rightarrow> 'b kdesc \<Rightarrow> ('r, 'b) field \<Rightarrow> (('r, 'w) sys, unit) act \<Rightarrow>
   (('r, 'w) sys, operation_result) act" where
  "CreateOrUpdate E K F f =
     bindA (keyF F) (\<lambda>key.
     bindA (tryA (getF E K F)) (\<lambda>res.
       case res of
         Inl err \<Rightarrow>
           if \<not> IsNotFound err then failA err
           else thenA (mutateF f key F) (thenA (createF E K F) (retA OperationResultCreated))
       | Inr _ \<Rightarrow>
           bindA (getR (fst F)) (\<lambda>existing.
           thenA (mutateF f key F)
          (bindA (getR (fst F)) (\<lambda>obj.
             if semantic_DeepEqual (untype K existing) (untype K obj) then retA OperationResultNone
             else thenA (updateF E K F) (retA OperationResultUpdated))))))"

section \<open>Steps evaluated\<close>

lemma bindA_getR: "bindA (getR f) g s = g (f (rc s)) s"
  by (simp add: getR_def readA_def bindA_def)

lemma bindA_tryA: "bindA (tryA m) g s =
  (case m s of (Ok a, t) \<Rightarrow> g (Inr a) t | (Err e, t) \<Rightarrow> g (Inl e) t | (Panic p, t) \<Rightarrow> (Panic p, t))"
  by (simp add: bindA_def tryA_def split: prod.split outcome.split)

lemma clientList_Ok: "clientList E K ns s = (Ok xs, s') \<Longrightarrow> \<exists>w. s' = s\<lparr>wd := w\<rparr>"
  by (auto simp: clientList_def reqA_def failA_def retA_def bindA_def
      split: prod.splits sum.splits option.splits)

end
