(* ===== verification/Frame.thy ===== *)
theory Frame
  imports Kube
begin

text \<open>
  Which requests an action sends. A locale states what a predicate on the world must satisfy to
  survive the requests that a predicate on requests admits; every component proves once, inside
  it, that its operations keep such a predicate when their requests are admitted. A recording
  environment, the interpretation of the locale, turns this into statements about the list of
  requests that a run has sent.
\<close>

datatype request =
    ReqGet kind nn | ReqList kind string | ReqCreate kobject | ReqUpdate kobject
  | ReqStatusUpdate kobject | ReqDelete kind nn | ReqWait | ReqReadFile string

definition onW :: "('w \<Rightarrow> bool) \<Rightarrow> ('r, 'w) sys \<Rightarrow> bool" where
  "onW I s = I (wd s)"

lemma onW_simps [simp]:
  "onW I (s\<lparr>rc := r\<rparr>) = onW I s" "onW I (s\<lparr>wd := w\<rparr>) = I w"
  by (simp_all add: onW_def)

locale request_frame =
  fixes E :: "'w env" and I :: "'w \<Rightarrow> bool" and adm :: "request \<Rightarrow> bool"
  assumes frame_get: "adm (ReqGet k n) \<Longrightarrow> I w \<Longrightarrow> I (snd (eGet E k n w))"
    and frame_list: "adm (ReqList k ns) \<Longrightarrow> I w \<Longrightarrow> I (snd (eList E k ns w))"
    and frame_create: "adm (ReqCreate ob) \<Longrightarrow> I w \<Longrightarrow> I (snd (eCreate E ob w))"
    and frame_update: "adm (ReqUpdate ob) \<Longrightarrow> I w \<Longrightarrow> I (snd (eUpdate E ob w))"
    and frame_status: "adm (ReqStatusUpdate ob) \<Longrightarrow> I w \<Longrightarrow> I (snd (eStatusUpdate E ob w))"
    and frame_delete: "adm (ReqDelete k n) \<Longrightarrow> I w \<Longrightarrow> I (snd (eDelete E k n w))"
    and frame_wait: "adm ReqWait \<Longrightarrow> I w \<Longrightarrow> I (snd (eWait E w))"
    and frame_read: "adm (ReqReadFile p) \<Longrightarrow> I w \<Longrightarrow> I (snd (eReadFile E p w))"
begin

lemma keeps_reqA: "(\<And>w. I w \<Longrightarrow> I (snd (f w))) \<Longrightarrow> keepsA (onW I) (reqA f)"
  unfolding keepsA_def reqA_def onW_def
  by (auto split: prod.splits sum.splits) (metis snd_conv)+

lemma keeps_getR [keeps_intros]: "keepsA (onW I) (getR f)"
  by (simp add: getR_def keepsA_readA)

lemma keeps_setR [keeps_intros]: "keepsA (onW I) (setR f)"
  by (simp add: setR_def keepsA_def modA_def)

lemma keeps_setF [keeps_intros]: "keepsA (onW I) (setF F ob)"
  by (simp add: setF_def keeps_setR)

lemma keeps_keyF [keeps_intros]: "keepsA (onW I) (keyF F)"
  by (simp add: keyF_def keeps_getR)

lemma keeps_decodeA [keeps_intros]: "keepsA (onW I) (decodeA K ko)"
  by (auto simp: decodeA_def intro!: keeps_intros)

lemma keeps_clientGet [keeps_intros]:
  "adm (ReqGet (kdKind K) key) \<Longrightarrow> keepsA (onW I) (clientGet E K key)"
  by (auto simp: clientGet_def intro!: keeps_intros keeps_reqA frame_get)

lemma keeps_clientList [keeps_intros]:
  "adm (ReqList (kdKind K) ns) \<Longrightarrow> keepsA (onW I) (clientList E K ns)"
  by (auto simp: clientList_def intro!: keeps_intros keeps_reqA frame_list)

lemma keeps_clientCreate [keeps_intros]:
  "adm (ReqCreate (untype K ob)) \<Longrightarrow> keepsA (onW I) (clientCreate E K ob)"
  by (auto simp: clientCreate_def intro!: keeps_intros keeps_reqA frame_create)

lemma keeps_clientUpdate [keeps_intros]:
  "adm (ReqUpdate (untype K ob)) \<Longrightarrow> keepsA (onW I) (clientUpdate E K ob)"
  by (auto simp: clientUpdate_def intro!: keeps_intros keeps_reqA frame_update)

lemma keeps_clientStatusUpdate [keeps_intros]:
  "adm (ReqStatusUpdate (untype K ob)) \<Longrightarrow> keepsA (onW I) (clientStatusUpdate E K ob)"
  by (auto simp: clientStatusUpdate_def intro!: keeps_intros keeps_reqA frame_status)

lemma keeps_clientDelete [keeps_intros]:
  "adm (ReqDelete (kdKind K) key) \<Longrightarrow> keepsA (onW I) (clientDelete E K key)"
  by (auto simp: clientDelete_def intro!: keeps_reqA frame_delete)

lemma keeps_waitA [keeps_intros]: "adm ReqWait \<Longrightarrow> keepsA (onW I) (waitA E)"
  using frame_wait by (auto simp: keepsA_def waitA_def onW_def split: prod.splits) (metis snd_conv)

lemma keeps_getF [keeps_intros]:
  "(\<And>n. adm (ReqGet (kdKind K) n)) \<Longrightarrow> keepsA (onW I) (getF E K F)"
  by (auto simp: getF_def intro!: keeps_intros)

lemma keeps_createF [keeps_intros]:
  "(\<And>ob. adm (ReqCreate (untype K ob))) \<Longrightarrow> keepsA (onW I) (createF E K F)"
  by (auto simp: createF_def intro!: keeps_intros)

lemma keeps_updateF [keeps_intros]:
  "(\<And>ob. adm (ReqUpdate (untype K ob))) \<Longrightarrow> keepsA (onW I) (updateF E K F)"
  by (auto simp: updateF_def intro!: keeps_intros)

lemma keeps_WaitFor [keeps_intros]:
  "adm ReqWait \<Longrightarrow> keepsA (onW I) c \<Longrightarrow> keepsA (onW I) (WaitFor E n c)"
  by (induction n) (auto intro!: keeps_intros)

lemma keeps_PollImmediate [keeps_intros]:
  "adm ReqWait \<Longrightarrow> keepsA (onW I) c \<Longrightarrow> keepsA (onW I) (PollImmediate E i t c)"
  by (auto simp: PollImmediate_def intro!: keeps_intros)

lemma keeps_mutateF [keeps_intros]:
  "keepsA (onW I) f \<Longrightarrow> keepsA (onW I) (mutateF f key F)"
  by (auto simp: mutateF_def intro!: keeps_intros)

lemma keeps_CreateOrUpdate [keeps_intros]:
  assumes "\<And>n. adm (ReqGet (kdKind K) n)"
    and "\<And>ob. adm (ReqCreate (untype K ob))" and "\<And>ob. adm (ReqUpdate (untype K ob))"
    and "keepsA (onW I) f"
  shows "keepsA (onW I) (CreateOrUpdate E K F f)"
  unfolding CreateOrUpdate_def by (intro keeps_intros assms)

text \<open>
  The writes of \<open>CreateOrUpdate\<close> carry the key it was called with and what its mutation establishes.
\<close>

lemma CreateOrUpdate_writes:
  assumes reads: "\<And>n. adm (ReqGet (kdKind K) n)"
    and writes: "\<And>ob. R ob \<Longrightarrow> object_key ob = object_key (fst F (rc s)) \<Longrightarrow>
      adm (ReqCreate (untype K ob)) \<and> adm (ReqUpdate (untype K ob))"
    and f: "keepsA (onW I) f" "\<And>t u t'. f t = (Ok u, t') \<Longrightarrow> R (fst F (rc t'))"
    and I: "I (wd s)"
  shows "I (wd (snd (CreateOrUpdate E K F f s)))"
proof -
  let ?key = "object_key (fst F (rc s))"
  have sent: "I (wd (snd (bindA (mutateF f ?key F) (\<lambda>_. c) t)))"
    if "I (wd t)" and c: "\<And>t. I (wd t) \<Longrightarrow> R (fst F (rc t)) \<Longrightarrow> object_key (fst F (rc t)) = ?key \<Longrightarrow>
      I (wd (snd (c t)))" for c t
  proof (cases "mutateF f ?key F t")
    case (Pair out t')
    have t': "I (wd t')"
      using keepsAD [OF keeps_mutateF [OF f(1)] _ Pair] that(1) by (simp add: onW_def)
    show ?thesis
    proof (cases out)
      case (Ok u)
      with Pair have "R (fst F (rc t'))" and "object_key (fst F (rc t')) = ?key"
        using f(2) by (auto simp: mutateF_def keyF_def getR_def readA_def failA_def retA_def
            elim!: thenA_Ok bindA_Ok split: if_splits)
      with Pair Ok t' c show ?thesis by (simp add: bindA_def)
    qed (use Pair t' in \<open>simp_all add: bindA_def\<close>)
  qed
  have create: "I (wd (snd (thenA (createF E K F) m t)))"
    if "I (wd t)" "R (fst F (rc t))" "object_key (fst F (rc t)) = ?key" "\<And>t. wd (snd (m t)) = wd t" for m t
    using that writes [of "fst F (rc t)"] frame_create [of "untype K (fst F (rc t))" "wd t"]
    by (auto simp: createF_def clientCreate_def reqA_def decodeA_def getR_def setF_def setR_def act_unfold
        split: prod.split sum.split option.split)
  have update: "I (wd (snd (thenA (updateF E K F) m t)))"
    if "I (wd t)" "R (fst F (rc t))" "object_key (fst F (rc t)) = ?key" "\<And>t. wd (snd (m t)) = wd t" for m t
    using that writes [of "fst F (rc t)"] frame_update [of "untype K (fst F (rc t))" "wd t"]
    by (auto simp: updateF_def clientUpdate_def reqA_def decodeA_def getR_def setF_def setR_def act_unfold
        split: prod.split sum.split option.split)
  obtain out t where get: "getF E K F s = (out, t)" by fastforce
  have t: "I (wd t)"
    using keepsAD [OF keeps_getF [OF reads] _ get] I by (simp add: onW_def)
  have "CreateOrUpdate E K F f s =
     (case out of
        Err err \<Rightarrow> (if \<not> IsNotFound err then (Err err, t)
          else bindA (mutateF f ?key F) (\<lambda>_. thenA (createF E K F) (retA OperationResultCreated)) t)
      | Ok _ \<Rightarrow> bindA (mutateF f ?key F) (\<lambda>_ t'.
          (if semantic_DeepEqual (untype K (fst F (rc t))) (untype K (fst F (rc t')))
           then retA OperationResultNone
           else thenA (updateF E K F) (retA OperationResultUpdated)) t') t
      | Panic p \<Rightarrow> (Panic p, t))"
    using get by (cases out)
      (simp_all add: CreateOrUpdate_def keyF_def getR_def tryA_def readA_def bindA_def thenA_def
        failA_def cong: outcome.case_cong)
  then show ?thesis
    using t by (cases out) (auto simp: retA_def intro!: sent create update)
qed

end

section \<open>Frames by kind\<close>

text \<open>
  Reads are free, writes are admitted by the kind of the object: \<open>W\<close> for creation and update,
  \<open>S\<close> for status updates, \<open>D\<close> for deletion.
\<close>

locale write_frame = request_frame E I adm
  for E :: "'w env" and I :: "'w \<Rightarrow> bool" and adm :: "request \<Rightarrow> bool" +
  fixes W :: "kind set" and S :: "kind set" and D :: "kind set"
  assumes adm_get: "adm (ReqGet k n)"
    and adm_list: "adm (ReqList k ns)"
    and adm_wait: "adm ReqWait"
    and adm_read: "adm (ReqReadFile p)"
    and adm_create: "obj_kind ob \<in> W \<Longrightarrow> adm (ReqCreate ob)"
    and adm_update: "obj_kind ob \<in> W \<Longrightarrow> adm (ReqUpdate ob)"
    and adm_status: "obj_kind ob \<in> S \<Longrightarrow> adm (ReqStatusUpdate ob)"
    and adm_delete: "k \<in> D \<Longrightarrow> adm (ReqDelete k n)"
begin

lemmas adm_intros = adm_get adm_list adm_wait adm_read adm_create adm_update adm_status adm_delete

lemma keeps_readFile [keeps_intros]: "keepsA (onW I) (reqA (eReadFile E p))"
  by (intro keeps_reqA frame_read adm_read)

end

fun kinds_within :: "kind set \<Rightarrow> kind set \<Rightarrow> kind set \<Rightarrow> request \<Rightarrow> bool" where
  "kinds_within W S D (ReqCreate ob) = (obj_kind ob \<in> W)"
| "kinds_within W S D (ReqUpdate ob) = (obj_kind ob \<in> W)"
| "kinds_within W S D (ReqStatusUpdate ob) = (obj_kind ob \<in> S)"
| "kinds_within W S D (ReqDelete k n) = (k \<in> D)"
| "kinds_within W S D q = True"

section \<open>The recording environment\<close>

text \<open>The requests sent so far, oldest first, each with what the server answered.\<close>

datatype event =
    EvGet kind nn "gerr + kobject" | EvList kind string "gerr + kobject list"
  | EvCreate kobject "gerr + kobject" | EvUpdate kobject "gerr + kobject"
  | EvStatusUpdate kobject "gerr + kobject" | EvDelete kind nn "gerr + unit"
  | EvWait bool | EvReadFile string "gerr + string"

fun ev_request :: "event \<Rightarrow> request" where
  "ev_request (EvGet k n _) = ReqGet k n"
| "ev_request (EvList k ns _) = ReqList k ns"
| "ev_request (EvCreate ob _) = ReqCreate ob"
| "ev_request (EvUpdate ob _) = ReqUpdate ob"
| "ev_request (EvStatusUpdate ob _) = ReqStatusUpdate ob"
| "ev_request (EvDelete k n _) = ReqDelete k n"
| "ev_request (EvWait _) = ReqWait"
| "ev_request (EvReadFile p _) = ReqReadFile p"

definition record_op :: "('a \<Rightarrow> event) \<Rightarrow> ('w \<Rightarrow> 'a \<times> 'w) \<Rightarrow> event list \<times> 'w \<Rightarrow> 'a \<times> (event list \<times> 'w)" where
  "record_op ev f = (\<lambda>(l, w). case f w of (a, w') \<Rightarrow> (a, (l @ [ev a], w')))"

definition recording :: "'w env \<Rightarrow> (event list \<times> 'w) env" where
  "recording E = \<lparr>
     eGet = (\<lambda>k n. record_op (EvGet k n) (eGet E k n)),
     eList = (\<lambda>k ns. record_op (EvList k ns) (eList E k ns)),
     eCreate = (\<lambda>ob. record_op (EvCreate ob) (eCreate E ob)),
     eUpdate = (\<lambda>ob. record_op (EvUpdate ob) (eUpdate E ob)),
     eStatusUpdate = (\<lambda>ob. record_op (EvStatusUpdate ob) (eStatusUpdate E ob)),
     eDelete = (\<lambda>k n. record_op (EvDelete k n) (eDelete E k n)),
     eWait = record_op EvWait (eWait E),
     eReadFile = (\<lambda>p. record_op (EvReadFile p) (eReadFile E p)),
     eYamlMarshal = eYamlMarshal E,
     eYamlUnmarshalRules = eYamlUnmarshalRules E\<rparr>"

definition requests :: "event list \<Rightarrow> request list" where
  "requests l = map ev_request l"

text \<open>All requests of a log are admitted.\<close>

definition log_within :: "(request \<Rightarrow> bool) \<Rightarrow> event list \<times> 'w \<Rightarrow> bool" where
  "log_within P lw \<longleftrightarrow> (\<forall>q \<in> set (requests (fst lw)). P q)"

lemma record_op_log: "fst (snd (record_op ev f lw)) = fst lw @ [ev (fst (f (snd lw)))]"
  by (simp add: record_op_def split: prod.split)

lemma log_within_record:
  "log_within P lw \<Longrightarrow> (\<And>a. P (ev_request (ev a))) \<Longrightarrow> log_within P (snd (record_op ev f lw))"
  by (auto simp: log_within_def requests_def record_op_log)

interpretation rec: request_frame "recording E" "log_within P" P for E P
  by unfold_locales (auto simp: recording_def intro!: log_within_record)

interpretation kw: write_frame "recording E" "log_within (kinds_within W S D)"
  "kinds_within W S D" W S D for E W S D
  by unfold_locales simp_all

lemma keeps_log_within:
  assumes "keepsA (onW (log_within P)) m" and "m s = (r, s')" and "log_within P (wd s)"
  shows "log_within P (wd s')"
  using keepsAD [OF assms(1) _ assms(2)] assms(3) by (simp add: onW_def)

text \<open>The recorder only appends: what was sent before a run is a prefix of what was sent after.\<close>

interpretation grow: request_frame "recording E" "\<lambda>lw. prefix l (fst lw)" "\<lambda>_. True" for E l
  by unfold_locales (simp_all add: recording_def record_op_log)

text \<open>How a run is started: nothing has been sent.\<close>

definition start :: "'r \<Rightarrow> 'w \<Rightarrow> ('r, event list \<times> 'w) sys" where
  "start r w = \<lparr>rc = r, wd = ([], w)\<rparr>"

abbreviation log_of :: "'a \<times> ('r, event list \<times> 'w) sys \<Rightarrow> event list" where
  "log_of res \<equiv> fst (wd (snd res))"

lemma sent_within:
  assumes "keepsA (onW (log_within P)) m"
  shows "log_within P (wd (snd (m (start r w))))"
proof -
  have "onW (log_within P) (start r w)" by (simp add: onW_def start_def log_within_def requests_def)
  with assms show ?thesis by (auto simp: keepsA_def onW_def)
qed

end
