(* ===== verification/Utils.thy ===== *)
theory Utils
  imports Api_Types
begin

text \<open>
  The package \<open>utils\<close>: membership and removal on string slices, labels and annotations of an
  object, mapping over a items (\<open>utils/utils.go\<close>), and the table of resource requirements
  (\<open>utils/resources.go\<close>).
\<close>

section \<open>Slices\<close>

fun Contains :: "string list \<Rightarrow> string \<Rightarrow> bool" where
  "Contains [] s = False"
| "Contains (item # items) s = (if item = s then True else Contains items s)"

text \<open>\<open>Remove\<close>: the loop appends every other item to \<open>result\<close>.\<close>

fun Remove_loop :: "string list \<Rightarrow> string \<Rightarrow> string list \<Rightarrow> string list" where
  "Remove_loop [] s result = result"
| "Remove_loop (item # items) s result =
     (if item = s then Remove_loop items s result else Remove_loop items s (result @ [item]))"

definition Remove :: "string list \<Rightarrow> string \<Rightarrow> string list" where
  "Remove items s = Remove_loop items s []"

text \<open>\<open>MapItems\<close>: \<open>target[i] = transform(source[i])\<close> for every index.\<close>

fun MapItems_loop :: "(string \<Rightarrow> string) \<Rightarrow> string list \<Rightarrow> nat \<Rightarrow> string list \<Rightarrow> string list" where
  "MapItems_loop transform [] i target = target"
| "MapItems_loop transform (x # source) i target =
     MapItems_loop transform source (Suc i) (target[i := transform x])"

definition MapItems :: "string list \<Rightarrow> (string \<Rightarrow> string) \<Rightarrow> string list" where
  "MapItems source transform = MapItems_loop transform source 0 (replicate (length source) '''')"

lemma Contains_iff [simp]: "Contains items s \<longleftrightarrow> s \<in> set items"
  by (induction items) auto

lemma Remove_loop_eq: "Remove_loop items s result = result @ filter (\<lambda>x. x \<noteq> s) items"
  by (induction items arbitrary: result) auto

lemma Remove_eq [simp]: "Remove items s = filter (\<lambda>x. x \<noteq> s) items"
  by (simp add: Remove_def Remove_loop_eq)

lemma Remove_idem: "Remove (Remove items s) s = Remove items s"
  by simp

lemma Remove_append_fresh: "s \<notin> set items \<Longrightarrow> Remove (items @ [s]) s = items"
  by (auto intro!: filter_True)

lemma MapItems_loop_eq:
  "length target = i + length source \<Longrightarrow>
   MapItems_loop transform source i target = take i target @ map transform source"
proof (induction source arbitrary: i target)
  case Nil
  then show ?case by simp
next
  case (Cons x source)
  from Cons.prems have "i < length target" by simp
  then have "take (Suc i) (target[i := transform x]) = take i target @ [transform x]"
    by (simp add: take_Suc_conv_app_nth)
  with Cons show ?case by simp
qed

lemma MapItems_eq [simp]: "MapItems source transform = map transform source"
  by (simp add: MapItems_def MapItems_loop_eq)

section \<open>Labels and annotations\<close>

text \<open>
  The map is created first where it is nil, so the assignment to its entry does not panic
  (\<open>AddLabel_Ok\<close> below).
\<close>

definition AddLabel :: "object_meta \<Rightarrow> string \<Rightarrow> string \<Rightarrow> object_meta outcome" where
  "AddLabel m key value =
     (let labels = gm_ensure (mLabels m) in
        case gm_put key value labels of
          Ok labels' \<Rightarrow> Ok (m\<lparr>mLabels := labels'\<rparr>)
        | Err e \<Rightarrow> Err e
        | Panic p \<Rightarrow> Panic p)"

definition RemoveLabel :: "object_meta \<Rightarrow> string \<Rightarrow> object_meta" where
  "RemoveLabel m key = m\<lparr>mLabels := gm_delete key (mLabels m)\<rparr>"

definition AddAnnotation :: "object_meta \<Rightarrow> string \<Rightarrow> string \<Rightarrow> object_meta outcome" where
  "AddAnnotation m key value =
     (let annotations = gm_ensure (mAnnotations m) in
        case gm_put key value annotations of
          Ok annotations' \<Rightarrow> Ok (m\<lparr>mAnnotations := annotations'\<rparr>)
        | Err e \<Rightarrow> Err e
        | Panic p \<Rightarrow> Panic p)"

lemma AddLabel_Ok:
  "AddLabel m key value = Ok (m\<lparr>mLabels := GoMap (fmupd key value (gm_fmap (mLabels m)))\<rparr>)"
  by (simp add: AddLabel_def gm_put_ensure)

lemma AddAnnotation_Ok:
  "AddAnnotation m key value =
     Ok (m\<lparr>mAnnotations := GoMap (fmupd key value (gm_fmap (mAnnotations m)))\<rparr>)"
  by (simp add: AddAnnotation_def gm_put_ensure)

lemma AddLabel_lookup:
  "AddLabel m key value = Ok m' \<Longrightarrow>
   gm_lookup (mLabels m') k = (if k = key then Some value else gm_lookup (mLabels m) k)"
  by (auto simp: AddLabel_Ok gm_lookup_def gm_fmap_def)

lemma RemoveLabel_lookup:
  "gm_lookup (mLabels (RemoveLabel m key)) k =
     (if k = key then None else gm_lookup (mLabels m) k)"
  by (simp add: RemoveLabel_def)

section \<open>Resource requirements\<close>

definition ResourceRequirements :: "(string \<times> resource_requirements) list" where
  "ResourceRequirements = [
     (''noobaa-core'', \<lparr>
        rrLimits = gm_of [(''cpu'', MustParse ''1''), (''memory'', MustParse ''4Gi'')],
        rrRequests = gm_of [(''cpu'', MustParse ''1''), (''memory'', MustParse ''4Gi'')]\<rparr>),
     (''noobaa-db'', \<lparr>
        rrLimits = gm_of [(''cpu'', MustParse ''500m''), (''memory'', MustParse ''4Gi'')],
        rrRequests = gm_of [(''cpu'', MustParse ''500m''), (''memory'', MustParse ''4Gi'')]\<rparr>),
     (''noobaa-db-vol'', \<lparr>
        rrLimits = NilMap,
        rrRequests = gm_of [(''storage'', MustParse ''50Gi'')]\<rparr>),
     (''noobaa-endpoint'', \<lparr>
        rrLimits = gm_of [(''cpu'', MustParse ''1''), (''memory'', MustParse ''2Gi'')],
        rrRequests = gm_of [(''cpu'', MustParse ''1''), (''memory'', MustParse ''2Gi'')]\<rparr>),
     (''prometheus'', \<lparr>
        rrLimits = gm_of [(''cpu'', MustParse ''500m''), (''memory'', MustParse ''250Mi'')],
        rrRequests = gm_of [(''cpu'', MustParse ''500m''), (''memory'', MustParse ''250Mi'')]\<rparr>),
     (''alertmanager'', \<lparr>
        rrLimits = gm_of [(''cpu'', MustParse ''200m''), (''memory'', MustParse ''200Mi'')],
        rrRequests = gm_of [(''cpu'', MustParse ''200m''), (''memory'', MustParse ''200Mi'')]\<rparr>),
     (''kube-rbac-proxy'', \<lparr>
        rrLimits = gm_of [(''memory'', MustParse ''30Mi''), (''cpu'', MustParse ''50m'')],
        rrRequests = gm_of [(''memory'', MustParse ''30Mi''), (''cpu'', MustParse ''50m'')]\<rparr>)]"

definition GetResourceRequirements :: "string \<Rightarrow> resource_requirements outcome" where
  "GetResourceRequirements name =
     (case map_of ResourceRequirements name of
        Some req \<Rightarrow> Ok req
      | None \<Rightarrow> Panic (''Resource requirement not found: '' @ name))"

text \<open>
  The initialiser of a package-level variable: a panic there ends the process before \<open>main\<close>. The
  uses below are all on names of the table, where the call returns.
\<close>

definition at_init :: "resource_requirements outcome \<Rightarrow> resource_requirements" where
  "at_init r = (case r of Ok a \<Rightarrow> a | _ \<Rightarrow> zero_resources)"

lemma GetResourceRequirements_Ok_iff:
  "(\<exists>r. GetResourceRequirements name = Ok r) \<longleftrightarrow> name \<in> fst ` set ResourceRequirements"
  by (auto simp: GetResourceRequirements_def dom_map_of_conv_image_fst [symmetric] split: option.splits)

text \<open>Every limit of the table is equal to the request: the pods get the guaranteed class.\<close>

definition quantity_le :: "quantity \<Rightarrow> quantity \<Rightarrow> bool" where
  "quantity_le a b = (case (quantity_milli a, quantity_milli b) of
     (Some x, Some y) \<Rightarrow> x \<le> y | _ \<Rightarrow> False)"

end
