(* ===== verification/Templates.thy ===== *)
theory Templates
  imports Utils
begin

text \<open>
  The package \<open>templates\<close>: the objects the operator deploys, as the constants of the sources, with
  the functions that compute parts of them (regular expressions, JSON texts).
\<close>

section \<open>JSON\<close>

text \<open>
  \<open>json.Marshal\<close> on the values the templates use: strings with the escapes of \<open>encoding/json\<close>
  (HTML characters included), booleans, arrays and objects in field order.
\<close>

datatype json = JString string | JBool bool | JArray "json list" | JObject "(string \<times> json) list"

definition hex_digit :: "nat \<Rightarrow> char" where
  "hex_digit d = (if d < 10 then char_of (48 + d) else char_of (87 + d))"

definition json_escape :: "char \<Rightarrow> string" where
  "json_escape c =
     (if c = CHR 0x22 then [CHR 0x5C, CHR 0x22]
      else if c = CHR 0x5C then [CHR 0x5C, CHR 0x5C]
      else if c = CHR 0x0A then [CHR 0x5C, CHR ''n'']
      else if c = CHR 0x0D then [CHR 0x5C, CHR ''r'']
      else if c = CHR 0x09 then [CHR 0x5C, CHR ''t'']
      else if (of_char c :: nat) < 32 \<or> c \<in> {CHR ''<'', CHR ''>'', CHR ''&''} then
        [CHR 0x5C, CHR ''u'', CHR ''0'', CHR ''0'',
         hex_digit (of_char c div 16), hex_digit (of_char c mod 16)]
      else [c])"

definition json_quote :: "string \<Rightarrow> string" where
  "json_quote s = [CHR 0x22] @ concat (map json_escape s) @ [CHR 0x22]"

fun json_text :: "json \<Rightarrow> string" where
  "json_text (JString s) = json_quote s"
| "json_text (JBool b) = (if b then ''true'' else ''false'')"
| "json_text (JArray js) = ''['' @ str_join (map json_text js) '','' @ '']''"
| "json_text (JObject kvs) =
     ''{'' @ str_join (map (\<lambda>(k, v). json_quote k @ '':'' @ json_text v) kvs) '','' @ ''}''"

text \<open>Fields tagged \<open>omitempty\<close> are left out when empty.\<close>

definition omit_str :: "string \<Rightarrow> string \<Rightarrow> (string \<times> json) list" where
  "omit_str k v = (if v = '''' then [] else [(k, JString v)])"

definition omit_list :: "string \<Rightarrow> json list \<Rightarrow> (string \<times> json) list" where
  "omit_list k vs = (if vs = [] then [] else [(k, JArray vs)])"

definition matcher_json :: "am_matcher \<Rightarrow> json" where
  "matcher_json m = JObject ([(''name'', JString (amtName m)), (''value'', JString (amtValue m))]
     @ omit_str ''matchType'' (amtMatchType m))"

definition route_json :: "am_route \<Rightarrow> json" where
  "route_json r = JObject ([(''receiver'', JString (arReceiver r))]
     @ omit_list ''groupBy'' (map JString (arGroupBy r))
     @ omit_str ''groupWait'' (arGroupWait r)
     @ omit_str ''groupInterval'' (arGroupInterval r)
     @ omit_str ''repeatInterval'' (arRepeatInterval r)
     @ omit_list ''matchers'' (map matcher_json (arMatchers r)))"

definition convertToAPIExtV1JSON :: "am_route \<Rightarrow> string" where
  "convertToAPIExtV1JSON val = json_text (route_json val)"

section \<open>Alertmanager configuration\<close>

definition pagerdutyAlerts :: "string list" where
  "pagerdutyAlerts = [''CacheBucketErrorState'']"

definition smtpAlerts :: "string list" where
  "smtpAlerts = [''DataSourceErrorState'', ''BucketPolicyErrorState'']"

definition getRegexMatcher :: "string list \<Rightarrow> string" where
  "getRegexMatcher alerts = ''^'' @ str_join alerts ''$|^'' @ ''$''"

definition MatchRegexp :: string where
  "MatchRegexp = ''=~''"

definition MatchEqual :: string where
  "MatchEqual = ''=''"

definition leaf_route :: "string \<Rightarrow> string \<Rightarrow> string \<Rightarrow> string \<Rightarrow> am_route" where
  "leaf_route receiver repeat_interval value match_type = \<lparr>arReceiver = receiver,
     arGroupBy = [''alertname''], arGroupWait = ''30s'', arGroupInterval = ''5m'',
     arRepeatInterval = repeat_interval,
     arMatchers = [\<lparr>amtName = ''alertname'', amtValue = value, amtMatchType = match_type\<rparr>],
     arRoutes = [], arRest = ''''\<rparr>"

definition template_routes :: "am_route list" where
  "template_routes =
     [leaf_route ''SendGrid'' ''12h'' (getRegexMatcher smtpAlerts) MatchRegexp,
      leaf_route ''pagerduty'' ''12h'' (getRegexMatcher pagerdutyAlerts) MatchRegexp,
      leaf_route ''DeadMansSnitch'' ''5m'' ''DeadMansSnitch'' MatchEqual]"

definition template_receivers :: "receiver list" where
  "template_receivers =
     [\<lparr>rvName = ''null'', rvPagerDutyConfigs = [], rvWebhookConfigs = [], rvEmailConfigs = [],
       rvRest = ''''\<rparr>,
      \<lparr>rvName = ''pagerduty'',
       rvPagerDutyConfigs = [\<lparr>pdServiceKey = Some zero_selector, pdDetails = [('''', '''')],
         pdRest = ''''\<rparr>],
       rvWebhookConfigs = [], rvEmailConfigs = [], rvRest = ''''\<rparr>,
      \<lparr>rvName = ''DeadMansSnitch'', rvPagerDutyConfigs = [],
       rvWebhookConfigs = [\<lparr>whURL = None, whRest = ''''\<rparr>], rvEmailConfigs = [], rvRest = ''''\<rparr>,
      \<lparr>rvName = ''SendGrid'', rvPagerDutyConfigs = [], rvWebhookConfigs = [],
       rvEmailConfigs = [\<lparr>emSendResolved = Some False, emSmarthost = '''', emFrom = '''',
         emTo = '''', emAuthUsername = '''', emAuthPassword = Some zero_selector,
         emHeaders = [(''subject'', ''OpenShift Data Foundation Managed Service notification, ''
           @ ''Action required on your managed OpenShift cluster!'')],
         emHTML = '''', emRest = ''''\<rparr>],
       rvRest = ''''\<rparr>]"

definition AlertmanagerConfigTemplate :: alertmanager_config where
  "AlertmanagerConfigTemplate = \<lparr>
     acRoute = Some \<lparr>arReceiver = ''null'', arGroupBy = [], arGroupWait = '''',
       arGroupInterval = '''', arRepeatInterval = '''', arMatchers = [],
       arRoutes = map convertToAPIExtV1JSON template_routes, arRest = ''''\<rparr>,
     acReceivers = template_receivers,
     acRest = ''''\<rparr>"

section \<open>Alertmanager and rules\<close>

definition AlertmanagerTemplate :: alertmanager where
  "AlertmanagerTemplate = \<lparr>
     amSpec = \<lparr>asReplicas = Some 1,
       asResources = at_init (GetResourceRequirements ''alertmanager''),
       asTopologySpreadConstraints = [\<lparr>tsMaxSkew = 1, tsTopologyKey = ''kubernetes.io/hostname'',
         tsWhenUnsatisfiable = ''ScheduleAnyway'',
         tsLabelSelector = Some \<lparr>lsMatchLabels = gm_of [(''app'', ''alertmanager'')],
           lsMatchExpressions = []\<rparr>\<rparr>],
       asAlertmanagerConfigSelector = None, asRest = ''''\<rparr>,
     amRest = ''''\<rparr>"

definition DMSPrometheusRuleTemplate :: "rule_group list" where
  "DMSPrometheusRuleTemplate = [\<lparr>rgName = ''snitch-alert'',
     rgRules = [\<lparr>ruRecord = '''', ruAlert = ''DeadMansSnitch'',
       ruExpr = \<lparr>iosType = IOS_String, iosIntVal = 0, iosStrVal = ''vector(1)''\<rparr>,
       ruFor = '''',
       ruLabels = gm_of [(''alertname'', ''DeadMansSnitch''), (''severity'', ''warning'')],
       ruAnnotations = gm_of [(''severity_level'', ''warning''), (''storage_type'', ''NooBaa'')]\<rparr>],
     rgRest = ''''\<rparr>]"

section \<open>Network policies\<close>

definition empty_selector :: label_selector where
  "empty_selector = \<lparr>lsMatchLabels = NilMap, lsMatchExpressions = []\<rparr>"

definition NetworkPolicyTemplate :: network_policy_spec where
  "NetworkPolicyTemplate = \<lparr>
     npIngress = [\<lparr>nirPorts = [],
       nirFrom = [\<lparr>nprPodSelector = Some empty_selector, nprNamespaceSelector = None, nprRest = ''''\<rparr>,
                  \<lparr>nprPodSelector = None, nprNamespaceSelector = Some empty_selector, nprRest = ''''\<rparr>]\<rparr>],
     npPolicyTypes = [''Ingress''],
     npPodSelector = empty_selector, npRest = ''''\<rparr>"

definition KubeRBACProxyPortNumber :: "64 word" where
  "KubeRBACProxyPortNumber = 9339"

definition PrometheusServingCertSecretName :: string where
  "PrometheusServingCertSecretName = ''prometheus-serving-cert-secret''"

definition PrometheusKubeRBACPoxyConfigMapName :: string where
  "PrometheusKubeRBACPoxyConfigMapName = ''prometheus-kube-rbac-proxy-config''"

definition PrometheusProxyNetworkPolicyTemplate :: network_policy_spec where
  "PrometheusProxyNetworkPolicyTemplate = \<lparr>
     npIngress = [\<lparr>nirPorts = [\<lparr>nppPort = Some (intstr_FromInt KubeRBACProxyPortNumber),
       nppProtocol = Some ''TCP''\<rparr>], nirFrom = []\<rparr>],
     npPolicyTypes = [''Ingress''],
     npPodSelector = \<lparr>lsMatchLabels = NilMap, lsMatchExpressions = [\<lparr>lsrKey = ''prometheus'',
       lsrOperator = ''In'', lsrValues = [''managed-mcg-prometheus'']\<rparr>]\<rparr>,
     npRest = ''''\<rparr>"

section \<open>NooBaa\<close>

definition NoobaaTemplate :: noobaa_spec where
  "NoobaaTemplate = \<lparr>nsImage = None, nsDBImage = None, nsDBType = '''', nsCoreResources = None,
     nsDBResources = None, nsDBVolumeResources = None,
     nsEndpoints = Some \<lparr>epMinCount = 1, epMaxCount = 2, epAdditionalVirtualHosts = [],
       epResources = Some \<lparr>
         rrLimits = gm_of [(''cpu'', MustParse ''1''), (''memory'', MustParse ''2Gi'')],
         rrRequests = gm_of [(''cpu'', MustParse ''1''), (''memory'', MustParse ''2Gi'')]\<rparr>\<rparr>,
     nsCleanupPolicy = \<lparr>cpConfirmation = ''confirmed'', cpAllowNoobaaDeletion = True\<rparr>,
     nsDefaultBackingStoreSpec = Some \<lparr>bsPVPool = Some \<lparr>pvStorageClass = ''gp2'', pvNumVolumes = 1,
         pvVolumeResources = Some \<lparr>
           rrLimits = gm_of [(''storage'', MustParse ''32Gi'')],
           rrRequests = gm_of [(''storage'', MustParse ''32Gi'')]\<rparr>,
         pvRest = ''''\<rparr>,
       bsType = ''pv-pool'', bsRest = ''''\<rparr>,
     nsRest = ''''\<rparr>"

section \<open>Prometheus\<close>

definition resourceSelector :: label_selector where
  "resourceSelector = \<lparr>lsMatchLabels = gm_of [(''app'', ''managed-mcg'')], lsMatchExpressions = []\<rparr>"

definition metrics :: "string list" where
  "metrics = [
     ''namespace:noobaa_unhealthy_bucket_claims:max'',
     ''namespace:noobaa_buckets_claims:max'',
     ''namespace:noobaa_unhealthy_namespace_resources:max'',
     ''namespace:noobaa_namespace_resources:max'',
     ''namespace:noobaa_unhealthy_namespace_buckets:max'',
     ''namespace:noobaa_namespace_buckets:max'',
     ''namespace:noobaa_accounts:max'',
     ''namespace:noobaa_usage:max'',
     ''namespace:noobaa_system_health_status:max'']"

definition alerts :: "string list" where
  "alerts = [''BucketPolicyErrorState'', ''CacheBucketErrorState'', ''DataSourceErrorState'']"

definition getRelabelRegex :: "string list \<Rightarrow> string list \<Rightarrow> string" where
  "getRelabelRegex alerts' metrics' =
     ''(ALERTS;('' @ str_join alerts' ''|'' @ ''))|'' @
     str_join (MapItems metrics' (\<lambda>str. ''('' @ str @ '';)'')) ''|''"

definition proxy_container :: container where
  "proxy_container = \<lparr>ctName = ''kube-rbac-proxy'', ctImage = '''',
     ctArgs = [
       ''--secure-listen-address=0.0.0.0:'' @ dec (unat KubeRBACProxyPortNumber),
       ''--upstream=http://127.0.0.1:9090/'',
       ''--logtostderr=true'',
       ''--v=10'',
       ''--tls-cert-file=/etc/tls-secret/tls.crt'',
       ''--tls-private-key-file=/etc/tls-secret/tls.key'',
       ''--client-ca-file=/var/run/secrets/kubernetes.io/serviceaccount/service-ca.crt'',
       ''--config-file=/etc/kube-rbac-config/config-file.json''],
     ctPorts = [(''https'', scast KubeRBACProxyPortNumber)],
     ctVolumeMounts = [(''serving-cert'', ''/etc/tls-secret''),
       (''kube-rbac-config'', ''/etc/kube-rbac-config'')],
     ctResources = at_init (GetResourceRequirements ''kube-rbac-proxy''),
     ctRest = ''''\<rparr>"

definition template_remote_write :: remote_write_spec where
  "template_remote_write = \<lparr>rwURL = '''',
     rwOAuth2 = Some \<lparr>oaClientIDSecret = Some zero_selector, oaClientSecret = zero_selector,
       oaTokenURL = '''', oaEndpointParams = gm_of [], oaRest = ''''\<rparr>,
     rwWriteRelabelConfigs = [\<lparr>rlSourceLabels = [''__name__'', ''alertname''],
       rlRegex = getRelabelRegex alerts metrics, rlAction = ''keep'', rlRest = ''''\<rparr>],
     rwRest = ''''\<rparr>"

definition PrometheusTemplate :: prometheus_spec where
  "PrometheusTemplate = \<lparr>psReplicas = None,
     psServiceMonitorSelector = Some resourceSelector,
     psPodMonitorSelector = Some resourceSelector,
     psVolumes = [
       \<lparr>volName = ''serving-cert'', volSecretName = Some PrometheusServingCertSecretName,
        volConfigMapName = None, volRest = ''''\<rparr>,
       \<lparr>volName = ''kube-rbac-config'', volSecretName = None,
        volConfigMapName = Some PrometheusKubeRBACPoxyConfigMapName, volRest = ''''\<rparr>],
     psResources = at_init (GetResourceRequirements ''prometheus''),
     psServiceAccountName = ''prometheus-k8s'',
     psListenLocal = True,
     psContainers = [proxy_container],
     psRemoteWrite = [template_remote_write],
     psRuleSelector = Some resourceSelector,
     psAlerting = Some [\<lparr>aeNamespace = '''', aeName = ''alertmanager-operated'',
       aePort = intstr_FromString ''web'', aeRest = ''''\<rparr>],
     psAdditionalAlertRelabelConfigs = None,
     psRest = ''''\<rparr>"

text \<open>The configuration of kube-rbac-proxy, a JSON text computed at start-up.\<close>

definition rbac_static_json :: "string \<Rightarrow> bool \<Rightarrow> string \<Rightarrow> json" where
  "rbac_static_json path resource_request verb = JObject [(''path'', JString path),
     (''resourceRequest'', JBool resource_request), (''verb'', JString verb)]"

definition KubeRBACProxyConfigMap :: "string gomap" where
  "KubeRBACProxyConfigMap = gm_of [(''config-file.json'', json_text (JObject [(''authorization'',
     JObject [(''static'', JArray [rbac_static_json ''/metrics'' False ''get'',
       rbac_static_json ''/federate'' False ''get''])])]))]"

lemma at_init_table:
  "GetResourceRequirements ''alertmanager'' = Ok (at_init (GetResourceRequirements ''alertmanager''))"
  "GetResourceRequirements ''prometheus'' = Ok (at_init (GetResourceRequirements ''prometheus''))"
  "GetResourceRequirements ''kube-rbac-proxy'' =
     Ok (at_init (GetResourceRequirements ''kube-rbac-proxy''))"
  by (simp_all add: GetResourceRequirements_def ResourceRequirements_def at_init_def)

end
