(* ===== verification/Console_Pkg.thy ===== *)
theory Console_Pkg
  imports Templates
begin

text \<open>
  The package \<open>console\<close> (\<open>console/console.go\<close>): the Deployment of the console plug-in as it is
  looked up, and the Service and ConsolePlugin objects that expose it. Ports are 64-bit integers
  of Go, converted to 32 bits where the objects hold them.
\<close>

definition mainBasePath :: string where
  "mainBasePath = ''/''"

definition tlsService :: string where
  "tlsService = ''prometheus''"

definition GetDeployment :: "string \<Rightarrow> workload object" where
  "GetDeployment ns = \<lparr>
     ObjectMeta = zero_meta\<lparr>mName := ''mcg-ms-console'', mNamespace := ns\<rparr>,
     Body = \<lparr>wlReadyReplicas = 0, wlRest = ''''\<rparr>\<rparr>"

definition GetService :: "64 word \<Rightarrow> string \<Rightarrow> service object" where
  "GetService port ns = \<lparr>
     ObjectMeta = zero_meta\<lparr>mName := ''mcg-ms-console-service'', mNamespace := ns,
       mAnnotations := gm_of [(''service.alpha.openshift.io/serving-cert-secret-name'',
         ''mcg-ms-console-serving-cert'')],
       mLabels := gm_of [(''app'', ''mcg-ms-console'')]\<rparr>,
     Body = \<lparr>
       svcPorts = [\<lparr>spName = ''console-port'', spProtocol = ''TCP'', spPort = scast port,
         spTargetPort = \<lparr>iosType = IOS_Int, iosIntVal = scast port, iosStrVal = ''''\<rparr>,
         spRest = ''''\<rparr>],
       svcSelector = gm_of [(''app'', ''mcg-ms-console'')],
       svcType = ''ClusterIP'', svcRest = ''''\<rparr>\<rparr>"

definition GetConsolePluginCR :: "64 word \<Rightarrow> string \<Rightarrow> string \<Rightarrow> console_plugin object" where
  "GetConsolePluginCR consolePort basePath serviceNamespace = \<lparr>
     ObjectMeta = zero_meta\<lparr>mName := ''mcg-ms-console''\<rparr>,
     Body = \<lparr>cplDisplayName = ''mcg-managed-service-console plugin'',
       cplService = \<lparr>cpsName = ''mcg-ms-console-service'', cpsNamespace = serviceNamespace,
         cpsPort = scast consolePort, cpsBasePath = basePath\<rparr>,
       cplProxy = [\<lparr>cppType = ''Service'', cppAlias = tlsService @ ''-proxy'',
         cppAuthorize = True, cppServiceName = tlsService,
         cppServiceNamespace = serviceNamespace,
         cppServicePort = scast KubeRBACProxyPortNumber\<rparr>],
       cplRest = ''''\<rparr>\<rparr>"

definition GetBasePath :: string where
  "GetBasePath = mainBasePath"

end
