(* ===== verification/Reconciler.thy ===== *)
theory Reconciler
  imports Frame Console_Pkg
begin

text \<open>
  The receiver of the controller's methods, \<open>ManagedMCGReconciler\<close>
  (\<open>controllers/managedmcg_controller.go\<close>): its configuration, its working objects, their
  initialisation at the start of a reconciliation, and the methods every phase uses (\<open>get\<close>,
  \<open>list\<close>, \<open>update\<close>, \<open>delete\<close>, \<open>own\<close>, \<open>getCSVByPrefix\<close>).
\<close>

section \<open>Names\<close>

definition ManagedMCGFinalizer :: string where
  "ManagedMCGFinalizer = ''managedmcg.openshift.io''"

definition ManagedMCGName :: string where
  "ManagedMCGName = ''managedmcg''"

definition deployerCSVPrefix :: string where
  "deployerCSVPrefix = ''mcg-osd-deployer''"

definition noobaaFinalizer :: string where
  "noobaaFinalizer = ''noobaa.io/graceful_finalizer''"

definition noobaaName :: string where
  "noobaaName = ''noobaa''"

definition prometheusProxyNetworkPolicyName :: string where
  "prometheusProxyNetworkPolicyName = ''prometheus-proxy-rule''"

definition prometheusServiceName :: string where
  "prometheusServiceName = ''prometheus''"

definition ingressNetworkPolicyName :: string where
  "ingressNetworkPolicyName = ''ingress-rule''"

definition mcgmsConsoleName :: string where
  "mcgmsConsoleName = ''mcg-ms-console''"

definition operatorConsoleName :: string where
  "operatorConsoleName = ''cluster''"

definition rhobsRemoteWriteConfigIDSecretKey :: string where
  "rhobsRemoteWriteConfigIDSecretKey = ''prom-remote-write-config-id''"

definition rhobsRemoteWriteConfigSecretName :: string where
  "rhobsRemoteWriteConfigSecretName = ''prom-remote-write-config-secret''"

definition alertRelabelConfigSecretKey :: string where
  "alertRelabelConfigSecretKey = ''alertrelabelconfig.yaml''"

definition prometheusName :: string where
  "prometheusName = ''managed-mcg-prometheus''"

definition monLabelKey :: string where
  "monLabelKey = ''app''"

definition monLabelValue :: string where
  "monLabelValue = ''managed-mcg''"

definition alertRelabelConfigSecretName :: string where
  "alertRelabelConfigSecretName = ''managed-mcg-alert-relabel-config-secret''"

definition alertmanagerName :: string where
  "alertmanagerName = ''managed-mcg-alertmanager''"

definition notificationEmailKeyPrefix :: string where
  "notificationEmailKeyPrefix = ''notification-email''"

definition noobaaRulesName :: string where
  "noobaaRulesName = ''managed-mcg-noobaa-rules''"

definition dmsRuleName :: string where
  "dmsRuleName = ''dms-monitor-rule''"

definition alertmanagerConfigName :: string where
  "alertmanagerConfigName = ''managed-mcg-alertmanager-config''"

section \<open>The receiver\<close>

record image_map =
  imgNooBaaCore :: string
  imgNooBaaDB :: string

record config =
  AddonConfigMapDeleteLabelKey :: string
  AddonConfigMapName :: string
  AddonParamSecretName :: string
  DeadMansSnitchSecretName :: string
  CustomerNotificationHTMLPath :: string
  SMTPSecretName :: string
  SOPEndpoint :: string
  AlertSMTPFrom :: string
  ConsolePort :: "64 word"
  PagerdutySecretName :: string
  RHOBSSecretName :: string
  RHOBSEndpoint :: string
  RHSSOTokenEndpoint :: string
  AddonVariant :: string
  AddonEnvironment :: string

record reconciler =
  rCfg :: config
  rImages :: image_map
  rCtx :: bool
  rNamespace :: string
  rReconcileStrategy :: reconcile_strategy
  rAddonParams :: "(string, string) fmap"
  rManagedMCG :: "managedmcg object"
  rNoobaa :: "noobaa object"
  rObjectBucketClaim :: "object_bucket_claim object"
  rBucketClass :: "bucket_class object"
  rNamespaceStore :: "opaque object"
  rBackingStore :: "opaque object"
  rNoobaaObjectBucketClaim :: "object_bucket_claim object"
  rNoobaaBucketClass :: "bucket_class object"
  rConsole :: "console_plugin object"
  rOperatorConsole :: "operator_console object"
  rIngressNetworkPolicy :: "network_policy_spec object"
  rPrometheus :: "prometheus object"
  rAlertmanager :: "alertmanager object"
  rPagerdutySecret :: "string gomap object"
  rDmsRule :: "rule_group list object"
  rNoobaaRules :: "rule_group list object"
  rDeadMansSnitchSecret :: "string gomap object"
  rAlertmanagerConfig :: "alertmanager_config object"
  rAlertRelabelConfigSecret :: "string gomap object"
  rSmtpSecret :: "string gomap object"
  rPrometheusProxyNetworkPolicy :: "network_policy_spec object"
  rPrometheusService :: "service object"
  rKubeRBACConfigMap :: "string gomap object"
  rRhobsRemoteWriteConfigSecret :: "string gomap object"

type_synonym ('w, 'a) ract = "((reconciler, 'w) sys, 'a) act"

abbreviation fManagedMCG :: "(reconciler, managedmcg) field" where
  "fManagedMCG \<equiv> (rManagedMCG, rManagedMCG_update)"

abbreviation fNoobaa :: "(reconciler, noobaa) field" where
  "fNoobaa \<equiv> (rNoobaa, rNoobaa_update)"

abbreviation fObjectBucketClaim :: "(reconciler, object_bucket_claim) field" where
  "fObjectBucketClaim \<equiv> (rObjectBucketClaim, rObjectBucketClaim_update)"

abbreviation fBucketClass :: "(reconciler, bucket_class) field" where
  "fBucketClass \<equiv> (rBucketClass, rBucketClass_update)"

abbreviation fConsole :: "(reconciler, console_plugin) field" where
  "fConsole \<equiv> (rConsole, rConsole_update)"

abbreviation fOperatorConsole :: "(reconciler, operator_console) field" where
  "fOperatorConsole \<equiv> (rOperatorConsole, rOperatorConsole_update)"

abbreviation fIngressNetworkPolicy :: "(reconciler, network_policy_spec) field" where
  "fIngressNetworkPolicy \<equiv> (rIngressNetworkPolicy, rIngressNetworkPolicy_update)"

abbreviation fPrometheus :: "(reconciler, prometheus) field" where
  "fPrometheus \<equiv> (rPrometheus, rPrometheus_update)"

abbreviation fAlertmanager :: "(reconciler, alertmanager) field" where
  "fAlertmanager \<equiv> (rAlertmanager, rAlertmanager_update)"

abbreviation fPagerdutySecret :: "(reconciler, string gomap) field" where
  "fPagerdutySecret \<equiv> (rPagerdutySecret, rPagerdutySecret_update)"

abbreviation fDmsRule :: "(reconciler, rule_group list) field" where
  "fDmsRule \<equiv> (rDmsRule, rDmsRule_update)"

abbreviation fNoobaaRules :: "(reconciler, rule_group list) field" where
  "fNoobaaRules \<equiv> (rNoobaaRules, rNoobaaRules_update)"

abbreviation fDeadMansSnitchSecret :: "(reconciler, string gomap) field" where
  "fDeadMansSnitchSecret \<equiv> (rDeadMansSnitchSecret, rDeadMansSnitchSecret_update)"

abbreviation fAlertmanagerConfig :: "(reconciler, alertmanager_config) field" where
  "fAlertmanagerConfig \<equiv> (rAlertmanagerConfig, rAlertmanagerConfig_update)"

abbreviation fAlertRelabelConfigSecret :: "(reconciler, string gomap) field" where
  "fAlertRelabelConfigSecret \<equiv> (rAlertRelabelConfigSecret, rAlertRelabelConfigSecret_update)"

abbreviation fSmtpSecret :: "(reconciler, string gomap) field" where
  "fSmtpSecret \<equiv> (rSmtpSecret, rSmtpSecret_update)"

abbreviation fPrometheusProxyNetworkPolicy :: "(reconciler, network_policy_spec) field" where
  "fPrometheusProxyNetworkPolicy \<equiv>
     (rPrometheusProxyNetworkPolicy, rPrometheusProxyNetworkPolicy_update)"

abbreviation fPrometheusService :: "(reconciler, service) field" where
  "fPrometheusService \<equiv> (rPrometheusService, rPrometheusService_update)"

abbreviation fKubeRBACConfigMap :: "(reconciler, string gomap) field" where
  "fKubeRBACConfigMap \<equiv> (rKubeRBACConfigMap, rKubeRBACConfigMap_update)"

abbreviation fRhobsRemoteWriteConfigSecret :: "(reconciler, string gomap) field" where
  "fRhobsRemoteWriteConfigSecret \<equiv>
     (rRhobsRemoteWriteConfigSecret, rRhobsRemoteWriteConfigSecret_update)"

section \<open>Zero values and initialisation\<close>

definition zero_managedmcg :: managedmcg where
  "zero_managedmcg = \<lparr>mcgSpec = \<lparr>msReconcileStrategy = ''''\<rparr>,
     mcgStatus = \<lparr>mstReconcileStrategy = '''', mstComponents =
       \<lparr>csNoobaa = '''', csPrometheus = '''', csAlertmanager = '''', csConsole = ''''\<rparr>\<rparr>\<rparr>"

definition zero_noobaa :: noobaa where
  "zero_noobaa = \<lparr>nooSpec = \<lparr>nsImage = None, nsDBImage = None, nsDBType = '''',
       nsCoreResources = None, nsDBResources = None, nsDBVolumeResources = None,
       nsEndpoints = None,
       nsCleanupPolicy = \<lparr>cpConfirmation = '''', cpAllowNoobaaDeletion = False\<rparr>,
       nsDefaultBackingStoreSpec = None, nsRest = ''''\<rparr>, nooPhase = '''', nooRest = ''''\<rparr>"

definition zero_bucket_class :: bucket_class where
  "zero_bucket_class = \<lparr>bcPhase = '''', bcRest = ''''\<rparr>"

definition zero_obc_spec :: obc_spec where
  "zero_obc_spec = \<lparr>obStorageClassName = '''', obBucketName = '''', obGenerateBucketName = '''',
     obAdditionalConfig = NilMap, obRest = ''''\<rparr>"

definition zero_obc :: object_bucket_claim where
  "zero_obc = \<lparr>obcSpec = zero_obc_spec, obcRest = ''''\<rparr>"

definition zero_console_plugin :: console_plugin where
  "zero_console_plugin = \<lparr>cplDisplayName = '''', cplService = \<lparr>cpsName = '''', cpsNamespace = '''',
     cpsPort = 0, cpsBasePath = ''''\<rparr>, cplProxy = [], cplRest = ''''\<rparr>"

definition zero_operator_console :: operator_console where
  "zero_operator_console = \<lparr>conPlugins = [], conRest = ''''\<rparr>"

definition zero_network_policy :: network_policy_spec where
  "zero_network_policy = \<lparr>npIngress = [], npPolicyTypes = [], npPodSelector = empty_selector,
     npRest = ''''\<rparr>"

definition zero_service :: service where
  "zero_service = \<lparr>svcPorts = [], svcSelector = NilMap, svcType = '''', svcRest = ''''\<rparr>"

definition zero_prometheus :: prometheus where
  "zero_prometheus = \<lparr>promSpec = \<lparr>psReplicas = None, psServiceMonitorSelector = None,
       psPodMonitorSelector = None, psVolumes = [], psResources = zero_resources,
       psServiceAccountName = '''', psListenLocal = False, psContainers = [], psRemoteWrite = [],
       psRuleSelector = None, psAlerting = None, psAdditionalAlertRelabelConfigs = None,
       psRest = ''''\<rparr>, promRest = ''''\<rparr>"

definition zero_alertmanager :: alertmanager where
  "zero_alertmanager = \<lparr>amSpec = \<lparr>asReplicas = None, asResources = zero_resources,
     asTopologySpreadConstraints = [], asAlertmanagerConfigSelector = None, asRest = ''''\<rparr>,
     amRest = ''''\<rparr>"

definition zero_alertmanager_config :: alertmanager_config where
  "zero_alertmanager_config = \<lparr>acRoute = None, acReceivers = [], acRest = ''''\<rparr>"

text \<open>\<open>x = &T{}; x.Name = name; x.Namespace = ns\<close>\<close>

definition newObj :: "string \<Rightarrow> string \<Rightarrow> 'b \<Rightarrow> 'b object" where
  "newObj name ns b = \<lparr>ObjectMeta = zero_meta\<lparr>mName := name, mNamespace := ns\<rparr>, Body = b\<rparr>"

definition initializePrometheusReconciler :: "reconciler \<Rightarrow> reconciler" where
  "initializePrometheusReconciler r = (let ns = rNamespace r in r\<lparr>
     rPrometheus := newObj prometheusName ns zero_prometheus,
     rAlertmanager := newObj alertmanagerName ns zero_alertmanager,
     rPagerdutySecret := newObj (PagerdutySecretName (rCfg r)) ns NilMap,
     rDmsRule := newObj dmsRuleName ns [],
     rNoobaaRules := newObj noobaaRulesName ns [],
     rDeadMansSnitchSecret := newObj (DeadMansSnitchSecretName (rCfg r)) ns NilMap,
     rAlertmanagerConfig := newObj alertmanagerConfigName ns zero_alertmanager_config,
     rAlertRelabelConfigSecret := newObj alertRelabelConfigSecretName ns NilMap,
     rSmtpSecret := newObj (SMTPSecretName (rCfg r)) ns NilMap,
     rPrometheusProxyNetworkPolicy := newObj prometheusProxyNetworkPolicyName ns zero_network_policy,
     rPrometheusService := newObj prometheusServiceName ns zero_service,
     rKubeRBACConfigMap := newObj PrometheusKubeRBACPoxyConfigMapName ns NilMap,
     rRhobsRemoteWriteConfigSecret := newObj (RHOBSSecretName (rCfg r)) ns NilMap\<rparr>)"

definition initializeReconciler :: "nn \<Rightarrow> reconciler \<Rightarrow> reconciler" where
  "initializeReconciler req r =
     (let ns = nnNamespace req;
          r1 = r\<lparr>
            rCtx := True,
            rNamespace := ns,
            rAddonParams := fmempty,
            rManagedMCG := newObj (nnName req) ns zero_managedmcg,
            rNoobaa := newObj noobaaName ns zero_noobaa,
            rObjectBucketClaim := newObj '''' '''' zero_obc,
            rBucketClass := newObj '''' ns zero_bucket_class,
            rNamespaceStore := newObj '''' ns '''',
            rBackingStore := newObj '''' ns '''',
            rNoobaaObjectBucketClaim := newObj '''' ns zero_obc,
            rNoobaaBucketClass := newObj '''' ns zero_bucket_class,
            rConsole := newObj mcgmsConsoleName ns zero_console_plugin\<rparr>;
          r2 = initializePrometheusReconciler r1
      in r2\<lparr>
           rIngressNetworkPolicy := newObj ingressNetworkPolicyName ns zero_network_policy,
           rOperatorConsole := newObj operatorConsoleName '''' zero_operator_console\<rparr>)"

text \<open>The receiver before its first reconciliation: the configuration and no working objects.\<close>

definition newReconciler :: "config \<Rightarrow> reconciler" where
  "newReconciler c = \<lparr>rCfg = c, rImages = \<lparr>imgNooBaaCore = '''', imgNooBaaDB = ''''\<rparr>, rCtx = False,
     rNamespace = '''', rReconcileStrategy = '''', rAddonParams = fmempty,
     rManagedMCG = newObj '''' '''' zero_managedmcg, rNoobaa = newObj '''' '''' zero_noobaa,
     rObjectBucketClaim = newObj '''' '''' zero_obc, rBucketClass = newObj '''' '''' zero_bucket_class,
     rNamespaceStore = newObj '''' '''' '''', rBackingStore = newObj '''' '''' '''',
     rNoobaaObjectBucketClaim = newObj '''' '''' zero_obc,
     rNoobaaBucketClass = newObj '''' '''' zero_bucket_class,
     rConsole = newObj '''' '''' zero_console_plugin,
     rOperatorConsole = newObj '''' '''' zero_operator_console,
     rIngressNetworkPolicy = newObj '''' '''' zero_network_policy,
     rPrometheus = newObj '''' '''' zero_prometheus, rAlertmanager = newObj '''' '''' zero_alertmanager,
     rPagerdutySecret = newObj '''' '''' NilMap, rDmsRule = newObj '''' '''' [],
     rNoobaaRules = newObj '''' '''' [], rDeadMansSnitchSecret = newObj '''' '''' NilMap,
     rAlertmanagerConfig = newObj '''' '''' zero_alertmanager_config,
     rAlertRelabelConfigSecret = newObj '''' '''' NilMap, rSmtpSecret = newObj '''' '''' NilMap,
     rPrometheusProxyNetworkPolicy = newObj '''' '''' zero_network_policy,
     rPrometheusService = newObj '''' '''' zero_service, rKubeRBACConfigMap = newObj '''' '''' NilMap,
     rRhobsRemoteWriteConfigSecret = newObj '''' '''' NilMap\<rparr>"

section \<open>Methods used by every phase\<close>

definition r_get :: "'w env \<Rightarrow> 'b kdesc \<Rightarrow> (reconciler, 'b) field \<Rightarrow> ('w, unit) ract" where
  "r_get E K F = wrapA ''error getting'' (getF E K F)"

text \<open>The same method on a local variable that holds nothing but the key.\<close>

definition r_getLocal :: "'w env \<Rightarrow> 'b kdesc \<Rightarrow> nn \<Rightarrow> ('w, 'b object) ract" where
  "r_getLocal E K key = wrapA ''error getting'' (clientGet E K key)"

definition r_list :: "'w env \<Rightarrow> 'b kdesc \<Rightarrow> ('w, 'b object list) ract" where
  "r_list E K = bindA (getR rNamespace) (\<lambda>ns. wrapA ''error listing'' (clientList E K ns))"

definition r_update :: "'w env \<Rightarrow> 'b kdesc \<Rightarrow> (reconciler, 'b) field \<Rightarrow> ('w, unit) ract" where
  "r_update E K F = wrapA ''error updating'' (updateF E K F)"

definition r_updateLocal :: "'w env \<Rightarrow> 'b kdesc \<Rightarrow> 'b object \<Rightarrow> ('w, unit) ract" where
  "r_updateLocal E K ob =
     thenA (wrapA ''error updating'' (clientUpdate E K ob)) (retA ())"

definition r_delete :: "'w env \<Rightarrow> 'b kdesc \<Rightarrow> nn \<Rightarrow> ('w, unit) ract" where
  "r_delete E K key =
     bindA (tryA (clientDelete E K key)) (\<lambda>res.
       case res of
         Inl err \<Rightarrow> if \<not> IsNotFound err then failA (WrapErr ''failed to delete'' err) else retA ()
       | Inr _ \<Rightarrow> retA ())"

definition own :: "(reconciler, 'b) field \<Rightarrow> ('w, unit) ract" where
  "own F =
     bindA (getR (\<lambda>r. ObjectMeta (rManagedMCG r))) (\<lambda>owner.
     bindA (getR (fst F)) (\<lambda>resource.
       case SetControllerReference KManagedMCG owner (ObjectMeta resource) of
         Inl err \<Rightarrow> failA (WrapErr ''failed to set controller reference'' err)
       | Inr m \<Rightarrow> setF F (resource\<lparr>ObjectMeta := m\<rparr>)))"

definition getCSVByPrefix :: "'w env \<Rightarrow> string \<Rightarrow> ('w, csv object) ract" where
  "getCSVByPrefix E name =
     bindA (wrapA ''unable to list csv resources'' (r_list E kCSV)) (\<lambda>items.
       case find (\<lambda>csv. has_prefix (mName (ObjectMeta csv)) name) items of
         None \<Rightarrow> failA (PlainErr (''unable to get csv resources for '' @ name))
       | Some csv \<Rightarrow> retA csv)"

text \<open>Assignments to the body and to the metadata of an object the receiver points to.\<close>

definition setBody :: "(reconciler, 'b) field \<Rightarrow> ('b \<Rightarrow> 'b) \<Rightarrow> ('w, unit) ract" where
  "setBody F f = setR (snd F (\<lambda>ob. ob\<lparr>Body := f (Body ob)\<rparr>))"

definition setMetaA ::
  "(reconciler, 'b) field \<Rightarrow> (object_meta \<Rightarrow> object_meta outcome) \<Rightarrow> ('w, unit) ract" where
  "setMetaA F f =
     bindA (getR (fst F)) (\<lambda>ob.
     bindA (liftA (f (ObjectMeta ob))) (\<lambda>m. setF F (ob\<lparr>ObjectMeta := m\<rparr>)))"

text \<open>Fetches as functions of the answer.\<close>

lemma r_get_eq:
  "r_get E K F s =
     (case eGet E (kdKind K) (object_key (fst F (rc s))) (wd s) of (a, w) \<Rightarrow>
        (case fetched K a of
           Inl e \<Rightarrow> (Err (WrapErr ''error getting'' e), s\<lparr>wd := w\<rparr>)
         | Inr x \<Rightarrow> (Ok (), s\<lparr>wd := w, rc := snd F (\<lambda>_. x) (rc s)\<rparr>)))"
  by (simp add: r_get_def getF_def keyF_def getR_def setF_def setR_def clientGet_eq act_unfold
      split: prod.split sum.split)

lemma r_getLocal_eq:
  "r_getLocal E K key s =
     (case eGet E (kdKind K) key (wd s) of (a, w) \<Rightarrow>
        (case fetched K a of
           Inl e \<Rightarrow> (Err (WrapErr ''error getting'' e), s\<lparr>wd := w\<rparr>)
         | Inr x \<Rightarrow> (Ok x, s\<lparr>wd := w\<rparr>)))"
  by (simp add: r_getLocal_def clientGet_eq act_unfold split: prod.split sum.split)

section \<open>Requests of these methods\<close>

context request_frame
begin

lemma keeps_r_get [keeps_intros]:
  "(\<And>n. adm (ReqGet (kdKind K) n)) \<Longrightarrow> keepsA (onW I) (r_get E K F)"
  by (auto simp: r_get_def intro!: keeps_intros)

lemma keeps_r_getLocal [keeps_intros]:
  "adm (ReqGet (kdKind K) n) \<Longrightarrow> keepsA (onW I) (r_getLocal E K n)"
  by (auto simp: r_getLocal_def intro!: keeps_intros)

lemma keeps_r_list [keeps_intros]:
  "(\<And>ns. adm (ReqList (kdKind K) ns)) \<Longrightarrow> keepsA (onW I) (r_list E K)"
  by (auto simp: r_list_def intro!: keeps_intros)

lemma keeps_r_update [keeps_intros]:
  "(\<And>ob. adm (ReqUpdate (untype K ob))) \<Longrightarrow> keepsA (onW I) (r_update E K F)"
  by (auto simp: r_update_def intro!: keeps_intros)

lemma keeps_r_updateLocal [keeps_intros]:
  "adm (ReqUpdate (untype K ob)) \<Longrightarrow> keepsA (onW I) (r_updateLocal E K ob)"
  by (auto simp: r_updateLocal_def intro!: keeps_intros)

lemma keeps_r_delete [keeps_intros]:
  "adm (ReqDelete (kdKind K) n) \<Longrightarrow> keepsA (onW I) (r_delete E K n)"
  unfolding r_delete_def by (intro keeps_intros)

lemma keeps_own [keeps_intros]: "keepsA (onW I) (own F)"
  unfolding own_def by (intro keeps_intros)

lemma keeps_getCSVByPrefix [keeps_intros]:
  "(\<And>ns. adm (ReqList KCSV ns)) \<Longrightarrow> keepsA (onW I) (getCSVByPrefix E name)"
  unfolding getCSVByPrefix_def by (intro keeps_intros) simp

lemma keeps_setBody [keeps_intros]: "keepsA (onW I) (setBody F f)"
  unfolding setBody_def by (intro keeps_intros)

lemma keeps_setMetaA [keeps_intros]: "keepsA (onW I) (setMetaA F f)"
  unfolding setMetaA_def by (intro keeps_intros)

end

section \<open>What single steps do to the reconciler\<close>

lemma r_get_Ok:
  "r_get E K F s = (Ok u, s') \<Longrightarrow> \<exists>x w. s' = s\<lparr>wd := w, rc := snd F (\<lambda>_. x) (rc s)\<rparr>"
  by (auto simp: r_get_eq split: prod.splits sum.splits)

lemma r_get_rc:
  "\<exists>f w. snd (r_get E K F s) = s\<lparr>wd := w, rc := f (rc s)\<rparr> \<and> (f = id \<or> (\<exists>x. f = snd F (\<lambda>_. x)))"
proof -
  obtain a w where get: "eGet E (kdKind K) (object_key (fst F (rc s))) (wd s) = (a, w)" by fastforce
  show ?thesis
  proof (cases "fetched K a")
    case (Inl e)
    with get show ?thesis by (intro exI [of _ id] exI [of _ w]) (simp add: r_get_eq)
  next
    case (Inr x)
    with get show ?thesis
      by (intro exI [of _ "snd F (\<lambda>_. x)"] exI [of _ w]) (auto simp: r_get_eq)
  qed
qed

lemma r_get_no_panic: "r_get E K F s \<noteq> (Panic p, t)"
  by (simp add: r_get_eq split: prod.split sum.split)

lemma own_Ok:
  "own F s = (Ok u, s') \<Longrightarrow>
   \<exists>m. SetControllerReference KManagedMCG (ObjectMeta (rManagedMCG (rc s))) (ObjectMeta (fst F (rc s))) = Inr m \<and>
     s' = s\<lparr>rc := snd F (\<lambda>_. (fst F (rc s))\<lparr>ObjectMeta := m\<rparr>) (rc s)\<rparr>"
  by (auto simp: own_def getR_def setF_def setR_def act_unfold split: sum.splits)

lemma setBody_run: "setBody F f s = (Ok (), s\<lparr>rc := snd F (\<lambda>ob. ob\<lparr>Body := f (Body ob)\<rparr>) (rc s)\<rparr>)"
  by (simp add: setBody_def setR_def modA_def)

end
