(* ===== verification/Server.thy ===== *)
theory Server
  imports Kube
begin

text \<open>
  What the operator may rely on when it talks to an API server that nobody else writes to: the
  contract \<open>api_server\<close> of reads and writes over an abstract store, and what \<open>CreateOrUpdate\<close>
  achieves under it, \<open>converging\<close>: the second of two runs changes nothing.
\<close>

text \<open>Equality up to the resource version and to what semantic equality identifies.\<close>

definition set_rv :: "string \<Rightarrow> ('b, 'm) object_scheme \<Rightarrow> ('b, 'm) object_scheme" where
  "set_rv v ob = ob\<lparr>ObjectMeta := (ObjectMeta ob)\<lparr>mResourceVersion := v\<rparr>\<rparr>"

lemma set_rv_simps [simp]:
  "Body (set_rv v ob) = Body ob"
  "ObjectMeta (set_rv v ob) = (ObjectMeta ob)\<lparr>mResourceVersion := v\<rparr>"
  "object_key (set_rv v ob) = object_key ob"
  by (simp_all add: set_rv_def object_key_def)

lemma semantic_DeepEqual_key: "semantic_DeepEqual a b \<Longrightarrow> object_key a = object_key b"
  by (cases "ObjectMeta a"; cases "ObjectMeta b")
    (auto simp: semantic_DeepEqual_def norm_meta_def object_key_def)

definition terminating :: "('b, 'm) object_scheme \<Rightarrow> bool" where
  "terminating ob \<longleftrightarrow> \<not> time_IsZero (mDeletionTimestamp (ObjectMeta ob))"

text \<open>
  \<open>stored w k n\<close> is the object under a name. A read answers with it up to semantic equality; a
  write that succeeds stores what was sent, under a new resource version, and touches no other
  name; a write that fails changes nothing.
\<close>

locale api_server =
  fixes E :: "'w env" and inv :: "'w \<Rightarrow> bool" and stored :: "'w \<Rightarrow> kind \<Rightarrow> nn \<Rightarrow> kobject option"
  assumes get_inv: "inv w \<Longrightarrow> eGet E k n w = (res, w') \<Longrightarrow> inv w' \<and> stored w' = stored w"
    and get_found: "inv w \<Longrightarrow> stored w k n = Some ob \<Longrightarrow> eGet E k n w = (res, w') \<Longrightarrow>
      \<exists>ob'. res = Inr ob' \<and> semantic_DeepEqual ob' ob"
    and get_missing: "inv w \<Longrightarrow> stored w k n = None \<Longrightarrow> eGet E k n w = (res, w') \<Longrightarrow>
      \<exists>e. res = Inl e \<and> IsNotFound e"
    and stored_id: "inv w \<Longrightarrow> stored w k n = Some ob \<Longrightarrow> obj_kind ob = k \<and> object_key ob = n"
    and create_fails: "inv w \<Longrightarrow> eCreate E ob w = (Inl e, w') \<Longrightarrow> inv w' \<and> stored w' = stored w"
    and create_stores: "inv w \<Longrightarrow> eCreate E ob w = (Inr ob', w') \<Longrightarrow>
      inv w' \<and> (\<exists>v. ob' = set_rv v ob) \<and>
      stored w' = (stored w)(obj_kind ob := (stored w (obj_kind ob))(object_key ob := Some ob'))"
    and create_fresh: "inv w \<Longrightarrow> eCreate E ob w = (Inr ob', w') \<Longrightarrow>
      stored w (obj_kind ob) (object_key ob) = None"
    and update_fails: "inv w \<Longrightarrow> eUpdate E ob w = (Inl e, w') \<Longrightarrow> inv w' \<and> stored w' = stored w"
    and update_stores: "inv w \<Longrightarrow> eUpdate E ob w = (Inr ob', w') \<Longrightarrow> \<not> terminating ob \<Longrightarrow>
      inv w' \<and> (\<exists>v. ob' = set_rv v ob) \<and>
      stored w' = (stored w)(obj_kind ob := (stored w (obj_kind ob))(object_key ob := Some ob'))"


locale typed_server = api_server E inv stored + typed_kind K
  for E :: "'w env" and inv :: "'w \<Rightarrow> bool" and stored :: "'w \<Rightarrow> kind \<Rightarrow> nn \<Rightarrow> kobject option"
    and K :: "'b kdesc"
begin

lemma clientGet_found:
  assumes "inv (wd s)" and "stored (wd s) (kdKind K) key = Some ob"
  shows "\<exists>x w. clientGet E K key s = (Ok x, s\<lparr>wd := w\<rparr>) \<and> semantic_DeepEqual (untype K x) ob \<and>
    inv w \<and> stored w = stored (wd s)"
proof -
  obtain res w where get: "eGet E (kdKind K) key (wd s) = (res, w)" by fastforce
  then obtain ob' where res: "res = Inr ob'" and sem: "semantic_DeepEqual ob' ob"
    using get_found assms by blast
  have "obj_kind ob' = kdKind K"
    using semantic_DeepEqual_kind [OF sem] stored_id [OF assms] by simp
  then obtain x where x: "retype K ob' = Some x" using retype_total by blast
  then have "untype K x = ob'" by (rule untype_retype)
  with get res sem x get_inv [OF assms(1) get] show ?thesis
    by (intro exI [of _ x] exI [of _ w]) (simp add: clientGet_def reqA_def bindA_def decodeA_def retA_def)
qed

lemma clientGet_missing:
  assumes "inv (wd s)" and "stored (wd s) (kdKind K) key = None"
  shows "\<exists>e w. clientGet E K key s = (Err e, s\<lparr>wd := w\<rparr>) \<and> IsNotFound e \<and>
    inv w \<and> stored w = stored (wd s)"
proof -
  obtain res w where get: "eGet E (kdKind K) key (wd s) = (res, w)" by fastforce
  then show ?thesis
    using get_missing [OF assms get] get_inv [OF assms(1) get]
    by (auto simp: clientGet_def reqA_def bindA_def)
qed

lemma clientCreate_Ok:
  assumes "inv (wd s)" and "clientCreate E K x s = (Ok y, s')"
  shows "inv (wd s') \<and> rc s' = rc s \<and> (\<exists>v. y = set_rv v x) \<and>
    stored (wd s) (kdKind K) (object_key x) = None \<and>
    stored (wd s') (kdKind K) (object_key x) = Some (untype K y) \<and>
    stored (wd s') = (stored (wd s))(kdKind K := (stored (wd s) (kdKind K))(object_key x := Some (untype K y)))"
proof -
  from assms(2) obtain ob w where cr: "eCreate E (untype K x) (wd s) = (Inr ob, w)"
    and y: "retype K ob = Some y" and s': "s' = s\<lparr>wd := w\<rparr>"
    by (auto simp: clientCreate_def reqA_def bindA_def decodeA_def retA_def failA_def
        split: prod.splits sum.splits option.splits)
  obtain v where "ob = set_rv v (untype K x)"
    using create_stores [OF assms(1) cr] by blast
  also have "\<dots> = untype K (set_rv v x)" by (simp add: untype_def set_rv_def)
  finally have ob: "ob = untype K (set_rv v x)" .
  with y have "y = set_rv v x" by (simp add: retype_untype)
  then show ?thesis
    using create_stores [OF assms(1) cr] create_fresh [OF assms(1) cr] s' ob
    by (auto simp: kind_untype)
qed

lemma clientUpdate_Ok:
  assumes "inv (wd s)" and "clientUpdate E K x s = (Ok y, s')" and "\<not> terminating x"
  shows "inv (wd s') \<and> rc s' = rc s \<and> (\<exists>v. y = set_rv v x) \<and>
    stored (wd s') (kdKind K) (object_key x) = Some (untype K y) \<and>
    stored (wd s') = (stored (wd s))(kdKind K := (stored (wd s) (kdKind K))(object_key x := Some (untype K y)))"
proof -
  from assms(2) obtain ob w where up: "eUpdate E (untype K x) (wd s) = (Inr ob, w)"
    and y: "retype K ob = Some y" and s': "s' = s\<lparr>wd := w\<rparr>"
    by (auto simp: clientUpdate_def reqA_def bindA_def decodeA_def retA_def failA_def
        split: prod.splits sum.splits option.splits)
  have live: "\<not> terminating (untype K x)" using assms(3) by (simp add: terminating_def untype_def)
  obtain v where "ob = set_rv v (untype K x)"
    using update_stores [OF assms(1) up live] by blast
  also have "\<dots> = untype K (set_rv v x)" by (simp add: untype_def set_rv_def)
  finally have ob: "ob = untype K (set_rv v x)" .
  with y have "y = set_rv v x" by (simp add: retype_untype)
  then show ?thesis
    using update_stores [OF assms(1) up live] s' ob by (auto simp: kind_untype)
qed

end

text \<open>
  A mutation that runs the function \<open>g\<close> on the object and is satisfied with its own results, up to
  semantic equality and resource version.
\<close>

locale converging = typed_server E inv stored K
  for E :: "'w env" and inv :: "'w \<Rightarrow> bool" and stored :: "'w \<Rightarrow> kind \<Rightarrow> nn \<Rightarrow> kobject option"
    and K :: "'b kdesc" +
  fixes F :: "('r, 'b) field" and g :: "'r \<Rightarrow> 'b object \<Rightarrow> gerr + 'b object"
    and f :: "(('r, 'w) sys, unit) act"
  assumes field_get: "fst F (snd F h r) = h (fst F r)"
    and f_Ok: "f s = (Ok u, s') \<Longrightarrow>
      \<exists>y. g (rc s) (fst F (rc s)) = Inr y \<and> s' = s\<lparr>rc := snd F (\<lambda>_. y) (rc s)\<rparr>"
    and f_runs: "g (rc s) (fst F (rc s)) = Inr y \<Longrightarrow> f s = (Ok (), s\<lparr>rc := snd F (\<lambda>_. y) (rc s)\<rparr>)"
    and g_local: "g (snd F h r) = g r"
    and g_time: "g r x = Inr y \<Longrightarrow> mDeletionTimestamp (ObjectMeta y) = mDeletionTimestamp (ObjectMeta x)"
    and g_stable: "g r x = Inr y \<Longrightarrow> semantic_DeepEqual (untype K x') (untype K (set_rv v y)) \<Longrightarrow>
      \<exists>y'. g r x' = Inr y' \<and> semantic_DeepEqual (untype K x') (untype K y')"
begin

text \<open>An object of which a mutation has nothing to change.\<close>

definition settled :: "'r \<Rightarrow> kobject \<Rightarrow> bool" where
  "settled r ob \<longleftrightarrow> (\<exists>x y v. g r x = Inr y \<and> semantic_DeepEqual ob (untype K (set_rv v y)))"

lemma settledI: "g r x = Inr y \<Longrightarrow> settled r (untype K (set_rv v y))"
  unfolding settled_def using semantic_DeepEqual_refl by blast

lemma CreateOrUpdate_settled:
  assumes "inv (wd s)" and "stored (wd s) (kdKind K) (object_key (fst F (rc s))) = Some ob"
    and "settled (rc s) ob"
  shows "\<exists>s'. CreateOrUpdate E K F f s = (Ok OperationResultNone, s') \<and> inv (wd s') \<and>
    stored (wd s') = stored (wd s)"
proof -
  let ?key = "object_key (fst F (rc s))"
  obtain x w where get: "clientGet E K ?key s = (Ok x, s\<lparr>wd := w\<rparr>)"
    and sem: "semantic_DeepEqual (untype K x) ob" and w: "inv w" "stored w = stored (wd s)"
    using clientGet_found [OF assms(1,2)] by blast
  let ?r = "snd F (\<lambda>_. x) (rc s)"
  obtain y where y: "g (rc s) x = Inr y" and same: "semantic_DeepEqual (untype K x) (untype K y)"
    using assms(3) g_stable semantic_DeepEqual_trans [OF sem] unfolding settled_def by blast
  have key: "object_key y = ?key" "object_key x = ?key"
    using semantic_DeepEqual_key [OF same] semantic_DeepEqual_key [OF sem] stored_id [OF assms(1,2)]
    by simp_all
  have run: "f (s\<lparr>wd := w, rc := ?r\<rparr>) = (Ok (), s\<lparr>wd := w, rc := snd F (\<lambda>_. y) ?r\<rparr>)"
    using f_runs [of "s\<lparr>wd := w, rc := ?r\<rparr>" y] y by (simp add: g_local field_get)
  show ?thesis
    using get run same key w
    by (intro exI [of _ "s\<lparr>wd := w, rc := snd F (\<lambda>_. y) ?r\<rparr>"])
      (simp add: CreateOrUpdate_def mutateF_def getF_def keyF_def getR_def setF_def setR_def
        act_unfold field_get)
qed

lemma mutateF_Ok:
  assumes "mutateF f key F s = (Ok u, s')"
  shows "\<exists>y. g (rc s) (fst F (rc s)) = Inr y \<and> object_key y = key \<and>
    s' = s\<lparr>rc := snd F (\<lambda>_. y) (rc s)\<rparr>"
proof -
  from assms obtain v t where "f s = (Ok v, t)" and t: "s' = t" "object_key (fst F (rc t)) = key"
    by (auto simp: mutateF_def keyF_def getR_def readA_def failA_def retA_def
        elim!: thenA_Ok bindA_Ok split: if_splits)
  then show ?thesis using f_Ok field_get by fastforce
qed

lemma CreateOrUpdate_settles:
  assumes inv: "inv (wd s)" and run: "CreateOrUpdate E K F f s = (Ok res, s')"
    and live: "\<And>ob. stored (wd s) (kdKind K) (object_key (fst F (rc s))) = Some ob \<Longrightarrow> \<not> terminating ob"
  shows "inv (wd s') \<and> (\<exists>ob. stored (wd s') (kdKind K) (object_key (fst F (rc s))) = Some ob \<and>
    settled (rc s) ob)"
proof (cases "stored (wd s) (kdKind K) (object_key (fst F (rc s)))")
  case None
  let ?key = "object_key (fst F (rc s))"
  obtain e w where get: "clientGet E K ?key s = (Err e, s\<lparr>wd := w\<rparr>)" and e: "IsNotFound e"
    and w: "inv w" "stored w = stored (wd s)"
    using clientGet_missing [OF inv None] by blast
  have "bindA (mutateF f ?key F) (\<lambda>_. thenA (createF E K F) (retA OperationResultCreated))
      (s\<lparr>wd := w\<rparr>) = (Ok res, s')"
    using run get e
    by (simp add: CreateOrUpdate_def getF_def keyF_def getR_def setF_def setR_def act_unfold)
  then obtain u t where mut: "mutateF f ?key F (s\<lparr>wd := w\<rparr>) = (Ok u, t)"
    and cr: "thenA (createF E K F) (retA OperationResultCreated) t = (Ok res, s')"
    by (rule bindA_Ok)
  obtain y where y: "g (rc s) (fst F (rc s)) = Inr y" "object_key y = ?key"
    and t: "t = s\<lparr>wd := w, rc := snd F (\<lambda>_. y) (rc s)\<rparr>"
    using mutateF_Ok [OF mut] by auto
  from cr obtain z t' where "clientCreate E K y t = (Ok z, t')" and "wd s' = wd t'"
    by (auto simp: t field_get createF_def getR_def readA_def setF_def setR_def modA_def retA_def
        elim!: thenA_Ok bindA_Ok)
  moreover have "inv (wd t)" using w t by simp
  ultimately have "inv (wd s')" "stored (wd s') (kdKind K) ?key = Some (untype K z)"
    and "\<exists>v. z = set_rv v y"
    using clientCreate_Ok [of t y z t'] y(2) by auto
  then show ?thesis using settledI [OF y(1)] by auto
next
  case (Some ob)
  let ?key = "object_key (fst F (rc s))"
  obtain x w where get: "clientGet E K ?key s = (Ok x, s\<lparr>wd := w\<rparr>)"
    and sem: "semantic_DeepEqual (untype K x) ob" and w: "inv w" "stored w = stored (wd s)"
    using clientGet_found [OF inv Some] by blast
  let ?s = "s\<lparr>wd := w, rc := snd F (\<lambda>_. x) (rc s)\<rparr>"
  have "bindA (mutateF f ?key F) (\<lambda>_. bindA (getR (fst F)) (\<lambda>obj.
      if semantic_DeepEqual (untype K x) (untype K obj) then retA OperationResultNone
      else thenA (updateF E K F) (retA OperationResultUpdated))) ?s = (Ok res, s')"
    using run get
    by (simp add: CreateOrUpdate_def getF_def keyF_def getR_def setF_def setR_def act_unfold
        field_get cong: prod.case_cong outcome.case_cong)
  then obtain u t where mut: "mutateF f ?key F ?s = (Ok u, t)"
    and rest: "bindA (getR (fst F)) (\<lambda>obj.
      if semantic_DeepEqual (untype K x) (untype K obj) then retA OperationResultNone
      else thenA (updateF E K F) (retA OperationResultUpdated)) t = (Ok res, s')"
    by (rule bindA_Ok)
  obtain y where y: "g (rc s) x = Inr y" "object_key y = ?key"
    and t: "t = ?s\<lparr>rc := snd F (\<lambda>_. y) (rc ?s)\<rparr>"
    using mutateF_Ok [OF mut] by (auto simp: g_local field_get)
  show ?thesis
  proof (cases "semantic_DeepEqual (untype K x) (untype K y)")
    case True
    then have "s' = t" using rest by (simp add: t getR_def readA_def bindA_def retA_def field_get)
    moreover have "semantic_DeepEqual ob (untype K (set_rv (mResourceVersion (ObjectMeta y)) y))"
      using semantic_DeepEqual_trans [OF semantic_DeepEqual_sym [OF sem] True]
      by (simp add: set_rv_def)
    ultimately show ?thesis using Some w t y by (auto simp: settled_def)
  next
    case False
    then obtain z t' where up: "clientUpdate E K y t = (Ok z, t')" and s': "wd s' = wd t'"
      using rest
      by (auto simp: t field_get updateF_def getR_def readA_def setF_def setR_def modA_def retA_def
          elim!: thenA_Ok bindA_Ok)
    have "mDeletionTimestamp (ObjectMeta x) = mDeletionTimestamp (ObjectMeta ob)"
      using sem by (cases "ObjectMeta x"; cases "ObjectMeta ob")
        (auto simp: semantic_DeepEqual_def norm_meta_def untype_def)
    then have "\<not> terminating y"
      using live [OF Some] g_time [OF y(1)] by (simp add: terminating_def)
    moreover have "inv (wd t)" using w t by simp
    ultimately have "inv (wd s')" "stored (wd s') (kdKind K) ?key = Some (untype K z)"
      and "\<exists>v. z = set_rv v y"
      using clientUpdate_Ok [OF _ up] y(2) s' by auto
    then show ?thesis using settledI [OF y(1)] by auto
  qed
qed

text \<open>The second of two runs answers that there was nothing to do and leaves the store as it is.\<close>

lemma CreateOrUpdate_converges:
  assumes "inv (wd s)" and "CreateOrUpdate E K F f s = (Ok res, s')"
    and "\<And>ob. stored (wd s) (kdKind K) (object_key (fst F (rc s))) = Some ob \<Longrightarrow> \<not> terminating ob"
    and "wd t = wd s'" and "object_key (fst F (rc t)) = object_key (fst F (rc s))"
    and "g (rc t) = g (rc s)"
  shows "\<exists>t'. CreateOrUpdate E K F f t = (Ok OperationResultNone, t') \<and> stored (wd t') = stored (wd s')"
  using CreateOrUpdate_settles [OF assms(1-3)] CreateOrUpdate_settled [of t] assms(4-6)
  by (fastforce simp: settled_def)

end

end
