(* ===== verification/Fake_Client.thy ===== *)
theory Fake_Client
  imports Server "HOL-Library.AList" "HOL-Library.List_Lexorder" "HOL-Library.Char_ord"
    "HOL-Library.Product_Lexorder"
begin

text \<open>
  The in-memory API server that the repository's own tests run the operator against: the fake client
  of controller-runtime (\<open>pkg/client/fake/client.go\<close>) over the object tracker of client-go
  (\<open>testing/fixture.go\<close>). It is an environment on a concrete world, and the provider of the
  interface \<open>api_server\<close>, the laws of storage that the convergence of \<open>CreateOrUpdate\<close> needs.
\<close>

section \<open>The tracker\<close>

type_synonym object_id = "kind \<times> nn"

text \<open>The objects by kind and name, the clock, the ticks left to a polling loop and the files.\<close>

record cluster =
  clObjects :: "(object_id \<times> kobject) list"
  clNow :: nat
  clTicks :: nat
  clFiles :: "(string \<times> string) list"

definition obj_id :: "kobject \<Rightarrow> object_id" where
  "obj_id ob = (obj_kind ob, object_key ob)"

definition tracked :: "cluster \<Rightarrow> kind \<Rightarrow> nn \<Rightarrow> kobject option" where
  "tracked c k n = map_of (clObjects c) (k, n)"

definition tracker_Get :: "kind \<Rightarrow> nn \<Rightarrow> cluster \<Rightarrow> gerr + kobject" where
  "tracker_Get k n c =
     (case tracked c k n of None \<Rightarrow> Inl (NewNotFound (nnName n)) | Some ob \<Rightarrow> Inr ob)"

text \<open>\<open>tracker.add\<close>: the namespace of the request is the one of the object at every call.\<close>

definition tracker_add :: "kobject \<Rightarrow> bool \<Rightarrow> cluster \<Rightarrow> (gerr + unit) \<times> cluster" where
  "tracker_add ob replaceExisting c =
     (if map_of (clObjects c) (obj_id ob) \<noteq> None then
        (if replaceExisting
         then (Inr (), c\<lparr>clObjects := AList.update (obj_id ob) ob (clObjects c)\<rparr>)
         else (Inl (NewAlreadyExists (mName (ObjectMeta ob))), c))
      else if replaceExisting then (Inl (NewNotFound (mName (ObjectMeta ob))), c)
      else (Inr (), c\<lparr>clObjects := AList.update (obj_id ob) ob (clObjects c)\<rparr>))"

definition tracker_Delete :: "kind \<Rightarrow> nn \<Rightarrow> cluster \<Rightarrow> (gerr + unit) \<times> cluster" where
  "tracker_Delete k n c =
     (case tracked c k n of
        None \<Rightarrow> (Inl (NewNotFound (nnName n)), c)
      | Some _ \<Rightarrow> (Inr (), c\<lparr>clObjects := AList.delete (k, n) (clObjects c)\<rparr>))"

text \<open>Keys are ordered by namespace and name, as strings are in Go: byte by byte.\<close>

definition nn_tuple :: "'a nn_scheme \<Rightarrow> string \<times> string \<times> 'a" where
  "nn_tuple n = (nnNamespace n, nnName n, nn.more n)"

instantiation nn_ext :: (linorder) linorder
begin

definition less_eq_nn_ext :: "'a nn_scheme \<Rightarrow> 'a nn_scheme \<Rightarrow> bool" where
  "less_eq_nn_ext m n \<longleftrightarrow> nn_tuple m \<le> nn_tuple n"

definition less_nn_ext :: "'a nn_scheme \<Rightarrow> 'a nn_scheme \<Rightarrow> bool" where
  "less_nn_ext m n \<longleftrightarrow> nn_tuple m < nn_tuple n"

instance
proof
  fix m n :: "'a nn_scheme"
  assume "m \<le> n" and "n \<le> m"
  then have "nn_tuple m = nn_tuple n" by (simp add: less_eq_nn_ext_def)
  then show "m = n" by (cases m; cases n) (simp add: nn_tuple_def)
qed (auto simp: less_eq_nn_ext_def less_nn_ext_def)

end

lemmas nn_order [simp] = less_eq_nn_ext_def less_nn_ext_def nn_tuple_def

text \<open>\<open>filterByNamespace\<close>: every namespace when \<open>ns\<close> is empty, sorted by namespace and name.\<close>

definition sort_key_of :: "kobject \<Rightarrow> nn" where
  "sort_key_of ob = object_key ob"

definition tracker_List :: "kind \<Rightarrow> string \<Rightarrow> cluster \<Rightarrow> kobject list" where
  "tracker_List k ns c =
     sort_key sort_key_of
       (filter (\<lambda>ob. \<not> (ns \<noteq> '''' \<and> mNamespace (ObjectMeta ob) \<noteq> ns))
         (map snd (filter (\<lambda>(i, _). fst i = k) (clObjects c))))"

section \<open>The versioned tracker\<close>

definition setRV :: "string \<Rightarrow> kobject \<Rightarrow> kobject" where
  "setRV v ob = ob\<lparr>ObjectMeta := (ObjectMeta ob)\<lparr>mResourceVersion := v\<rparr>\<rparr>"

definition vt_Create :: "kobject \<Rightarrow> cluster \<Rightarrow> (gerr + kobject) \<times> cluster" where
  "vt_Create ob c =
     (if mName (ObjectMeta ob) = '''' then (Inl (NewInvalid ''name is required''), c)
      else if mResourceVersion (ObjectMeta ob) \<noteq> '''' then
        (Inl (NewBadRequest ''resourceVersion can not be set for Create requests''), c)
      else
        (case tracker_add (setRV ''1'' ob) False c of
           (Inl err, c') \<Rightarrow> (Inl err, c')
         | (Inr _, c') \<Rightarrow> (Inr (setRV ''1'' ob), c')))"

text \<open>The two tables of kinds, restricted to the kinds of the model.\<close>

definition allowsUnconditionalUpdate :: "kind \<Rightarrow> bool" where
  "allowsUnconditionalUpdate k =
     (case kind_gvk k of (g, _, kd) \<Rightarrow>
        (g = ''apps'' \<and> kd \<in> set [''Deployment'', ''StatefulSet'']) \<or>
        (g = ''networking'' \<and> kd = ''NetworkPolicy'') \<or>
        (g = '''' \<and> kd \<in> set [''ConfigMap'', ''Secret'', ''Service'']))"

definition allowsCreateOnUpdate :: "kind \<Rightarrow> bool" where
  "allowsCreateOnUpdate k = (case kind_gvk k of (g, _, kd) \<Rightarrow> g = '''' \<and> kd = ''Service'')"

text \<open>\<open>strconv.ParseUint(v, 10, 64)\<close>\<close>

definition ParseUint64 :: "string \<Rightarrow> nat option" where
  "ParseUint64 s = (case undec s of Some n \<Rightarrow> if n < 2 ^ 64 then Some n else None | None \<Rightarrow> None)"

definition vt_replace :: "kobject \<Rightarrow> kobject \<Rightarrow> cluster \<Rightarrow> (gerr + kobject) \<times> cluster" where
  "vt_replace old ob c =
     (let oldRV = mResourceVersion (ObjectMeta old);
          ob = (if mResourceVersion (ObjectMeta ob) = '''' \<and> allowsUnconditionalUpdate (obj_kind ob)
                then setRV oldRV ob else ob) in
      if mResourceVersion (ObjectMeta ob) \<noteq> oldRV then
        (Inl (NewConflict (mName (ObjectMeta ob))), c)
      else
        (case ParseUint64 (if oldRV = '''' then ''0'' else oldRV) of
           None \<Rightarrow> (Inl (PlainErr ''can not convert resourceVersion to int''), c)
         | Some intResourceVersion \<Rightarrow>
             (let ob = setRV (dec ((intResourceVersion + 1) mod 2 ^ 64)) ob in
              if \<not> time_IsZero (mDeletionTimestamp (ObjectMeta ob)) \<and> mFinalizers (ObjectMeta ob) = []
              then (case tracker_Delete (obj_kind ob) (object_key ob) c of
                      (Inl err, c') \<Rightarrow> (Inl err, c') | (Inr _, c') \<Rightarrow> (Inr ob, c'))
              else (case tracker_add ob True c of
                      (Inl err, c') \<Rightarrow> (Inl err, c') | (Inr _, c') \<Rightarrow> (Inr ob, c')))))"

definition vt_Update :: "kobject \<Rightarrow> cluster \<Rightarrow> (gerr + kobject) \<times> cluster" where
  "vt_Update ob c =
     (if mName (ObjectMeta ob) = '''' then (Inl (NewInvalid ''name is required''), c)
      else
        (case tracker_Get (obj_kind ob) (object_key ob) c of
           Inl err \<Rightarrow>
             if IsNotFound err \<and> allowsCreateOnUpdate (obj_kind ob) then vt_Create ob c
             else (Inl err, c)
         | Inr old \<Rightarrow> vt_replace old ob c))"

section \<open>The client\<close>

text \<open>
  \<open>Get\<close> and \<open>List\<close> decode what they have encoded as JSON: empty maps with the tag \<open>omitempty\<close> come
  back nil. This is written out for the maps of the metadata and of the bodies that are maps;
  semantic equality identifies the two forms everywhere.
\<close>

definition gm_json :: "'v gomap \<Rightarrow> 'v gomap" where
  "gm_json m = (case m of NilMap \<Rightarrow> NilMap | GoMap f \<Rightarrow> if f = fmempty then NilMap else GoMap f)"

fun json_body :: "body \<Rightarrow> body" where
  "json_body (BConfigMap d) = BConfigMap (gm_json d)"
| "json_body (BSecret d) = BSecret (gm_json d)"
| "json_body (BService s) = BService (s\<lparr>svcSelector := gm_json (svcSelector s)\<rparr>)"
| "json_body b = b"

definition json_roundtrip :: "kobject \<Rightarrow> kobject" where
  "json_roundtrip ob = ob\<lparr>
     ObjectMeta := (ObjectMeta ob)\<lparr>mLabels := gm_json (mLabels (ObjectMeta ob)),
       mAnnotations := gm_json (mAnnotations (ObjectMeta ob))\<rparr>,
     Body := json_body (Body ob)\<rparr>"

definition fake_Get :: "kind \<Rightarrow> nn \<Rightarrow> cluster \<Rightarrow> (gerr + kobject) \<times> cluster" where
  "fake_Get k n c =
     (case tracker_Get k n c of Inl e \<Rightarrow> (Inl e, c) | Inr ob \<Rightarrow> (Inr (json_roundtrip ob), c))"

definition fake_List :: "kind \<Rightarrow> string \<Rightarrow> cluster \<Rightarrow> (gerr + kobject list) \<times> cluster" where
  "fake_List k ns c = (Inr (map json_roundtrip (tracker_List k ns c)), c)"

definition deleteObject :: "kind \<Rightarrow> nn \<Rightarrow> cluster \<Rightarrow> (gerr + unit) \<times> cluster" where
  "deleteObject k n c =
     (case tracker_Get k n c of
        Inr old \<Rightarrow>
          if 0 < length (mFinalizers (ObjectMeta old)) then
            (case vt_Update (old\<lparr>ObjectMeta := (ObjectMeta old)\<lparr>mDeletionTimestamp := Some (clNow c)\<rparr>\<rparr>) c of
               (Inl e, c') \<Rightarrow> (Inl e, c') | (Inr _, c') \<Rightarrow> (Inr (), c'))
          else tracker_Delete k n c
      | Inl _ \<Rightarrow> tracker_Delete k n c)"

text \<open>The status writer of the fake client updates the whole object.\<close>

definition fake_StatusUpdate :: "kobject \<Rightarrow> cluster \<Rightarrow> (gerr + kobject) \<times> cluster" where
  "fake_StatusUpdate ob c = vt_Update ob c"

definition fake_wait :: "cluster \<Rightarrow> bool \<times> cluster" where
  "fake_wait c = (case clTicks c of 0 \<Rightarrow> (False, c) | Suc n \<Rightarrow> (True, c\<lparr>clTicks := n\<rparr>))"

definition fake_ReadFile :: "string \<Rightarrow> cluster \<Rightarrow> (gerr + string) \<times> cluster" where
  "fake_ReadFile p c = ((case map_of (clFiles c) p of
     None \<Rightarrow> Inl (PlainErr ''no such file or directory'') | Some t \<Rightarrow> Inr t), c)"

text \<open>The environment, for given YAML libraries.\<close>

definition fakeEnv ::
  "((string \<times> string) list list \<Rightarrow> gerr + string) \<Rightarrow>
   (string \<Rightarrow> rule_group list \<Rightarrow> gerr + rule_group list) \<Rightarrow> cluster env" where
  "fakeEnv marshal unmarshal = \<lparr>
     eGet = fake_Get, eList = fake_List, eCreate = vt_Create, eUpdate = vt_Update,
     eStatusUpdate = fake_StatusUpdate, eDelete = deleteObject, eWait = fake_wait,
     eReadFile = fake_ReadFile, eYamlMarshal = marshal, eYamlUnmarshalRules = unmarshal\<rparr>"

lemma fakeEnv_simps [simp]:
  "eGet (fakeEnv ma un) = fake_Get" "eList (fakeEnv ma un) = fake_List"
  "eCreate (fakeEnv ma un) = vt_Create" "eUpdate (fakeEnv ma un) = vt_Update"
  "eStatusUpdate (fakeEnv ma un) = fake_StatusUpdate" "eDelete (fakeEnv ma un) = deleteObject"
  "eWait (fakeEnv ma un) = fake_wait" "eReadFile (fakeEnv ma un) = fake_ReadFile"
  "eYamlMarshal (fakeEnv ma un) = ma" "eYamlUnmarshalRules (fakeEnv ma un) = un"
  by (simp_all add: fakeEnv_def)

section \<open>Invariant\<close>

text \<open>Every object is stored once, under its own kind, namespace and name.\<close>

definition cluster_wf :: "cluster \<Rightarrow> bool" where
  "cluster_wf c \<longleftrightarrow> distinct (map fst (clObjects c)) \<and> (\<forall>(i, ob) \<in> set (clObjects c). obj_id ob = i)"

lemma obj_id_setRV [simp]: "obj_id (setRV v ob) = obj_id ob"
  by (simp add: obj_id_def setRV_def object_key_def)

lemma setRV_eq_set_rv: "setRV v ob = set_rv v ob"
  by (simp add: setRV_def set_rv_def)

lemma cluster_wf_iff:
  "cluster_wf c \<longleftrightarrow> distinct (map fst (clObjects c)) \<and>
     (\<forall>i ob. map_of (clObjects c) i = Some ob \<longrightarrow> obj_id ob = i)"
  unfolding cluster_wf_def by (auto dest: map_of_SomeD intro: map_of_is_SomeI)

lemma cluster_wf_tracked: "cluster_wf c \<Longrightarrow> tracked c k n = Some ob \<Longrightarrow> obj_id ob = (k, n)"
  by (auto simp: cluster_wf_iff tracked_def)

lemma cluster_wf_update:
  "cluster_wf c \<Longrightarrow> cluster_wf (c\<lparr>clObjects := AList.update (obj_id ob) ob (clObjects c)\<rparr>)"
  by (auto simp: cluster_wf_iff distinct_update update_conv' split: if_splits)

lemma cluster_wf_delete:
  "cluster_wf c \<Longrightarrow> cluster_wf (c\<lparr>clObjects := AList.delete i (clObjects c)\<rparr>)"
  by (auto simp: cluster_wf_iff distinct_delete delete_conv' split: if_splits)

lemma tracked_update:
  "tracked (c\<lparr>clObjects := AList.update (obj_id ob) ob (clObjects c)\<rparr>) =
     (tracked c)(obj_kind ob := (tracked c (obj_kind ob))(object_key ob := Some ob))"
  by (auto simp: tracked_def fun_eq_iff update_conv' obj_id_def)

lemma tracked_delete:
  "tracked (c\<lparr>clObjects := AList.delete (k, n) (clObjects c)\<rparr>) =
     (tracked c)(k := (tracked c k)(n := None))"
  by (auto simp: tracked_def fun_eq_iff delete_conv')

lemma map_of_obj_id: "map_of (clObjects c) (obj_id ob) = tracked c (obj_kind ob) (object_key ob)"
  by (simp add: tracked_def obj_id_def)

lemma setRV_simps [simp]:
  "obj_kind (setRV v ob) = obj_kind ob" "object_key (setRV v ob) = object_key ob"
  "Body (setRV v ob) = Body ob" "setRV v (setRV v' ob) = setRV v ob"
  "ObjectMeta (setRV v ob) = (ObjectMeta ob)\<lparr>mResourceVersion := v\<rparr>"
  by (simp_all add: setRV_def object_key_def)

lemma tracker_add_spec:
  "tracker_add ob replaceExisting c =
     (if (tracked c (obj_kind ob) (object_key ob) \<noteq> None) = replaceExisting
      then (Inr (), c\<lparr>clObjects := AList.update (obj_id ob) ob (clObjects c)\<rparr>)
      else (Inl (if replaceExisting then NewNotFound (mName (ObjectMeta ob))
                 else NewAlreadyExists (mName (ObjectMeta ob))), c))"
  by (simp add: tracker_add_def map_of_obj_id)

text \<open>The results of a successful and of a failed write, in the terms of the contract.\<close>

lemma vt_Create_Inr:
  "vt_Create ob c = (Inr ob', c') \<Longrightarrow>
   ob' = setRV ''1'' ob \<and> tracked c (obj_kind ob) (object_key ob) = None \<and>
   c' = c\<lparr>clObjects := AList.update (obj_id ob') ob' (clObjects c)\<rparr>"
  by (auto simp: vt_Create_def tracker_add_spec split: if_splits)

lemma vt_Create_Inl: "vt_Create ob c = (Inl e, c') \<Longrightarrow> c' = c"
  by (auto simp: vt_Create_def tracker_add_spec split: if_splits)

lemma vt_replace_Inl: "vt_replace old ob c = (Inl e, c') \<Longrightarrow> c' = c"
  by (auto simp: vt_replace_def Let_def tracker_add_spec tracker_Delete_def
      split: if_splits option.splits)

lemma vt_replace_Inr:
  assumes "vt_replace old ob c = (Inr ob', c')"
  shows "(\<exists>v. ob' = setRV v ob) \<and>
    c' = c\<lparr>clObjects :=
      (if terminating ob \<and> mFinalizers (ObjectMeta ob) = []
       then AList.delete (obj_kind ob, object_key ob) (clObjects c)
       else AList.update (obj_id ob') ob' (clObjects c))\<rparr>"
  using assms
  by (auto simp: vt_replace_def Let_def tracker_add_spec tracker_Delete_def terminating_def
      split: if_splits option.splits)

lemma vt_Update_Inl: "vt_Update ob c = (Inl e, c') \<Longrightarrow> c' = c"
  by (auto simp: vt_Update_def dest: vt_Create_Inl vt_replace_Inl split: if_splits sum.splits)

lemma vt_Update_Inr:
  "vt_Update ob c = (Inr ob', c') \<Longrightarrow> \<not> (terminating ob \<and> mFinalizers (ObjectMeta ob) = []) \<Longrightarrow>
   (\<exists>v. ob' = setRV v ob) \<and> c' = c\<lparr>clObjects := AList.update (obj_id ob') ob' (clObjects c)\<rparr>"
  by (auto simp: vt_Update_def dest!: vt_Create_Inr vt_replace_Inr split: if_splits sum.splits)

lemma gm_norm_json [simp]: "gm_norm (gm_json m) = gm_norm m"
  by (auto simp: gm_norm_def gm_json_def gm_fmap_def split: gomap.split)

lemma norm_body_json: "norm_body (json_body b) = norm_body b"
  by (cases b) simp_all

lemma json_roundtrip_equal [simp]: "semantic_DeepEqual (json_roundtrip ob) ob"
  by (simp add: semantic_DeepEqual_def json_roundtrip_def norm_meta_def norm_body_json)

interpretation fake: api_server "fakeEnv ma un" cluster_wf tracked for ma un
proof unfold_locales
  fix c k n res c'
  assume "eGet (fakeEnv ma un) k n c = (res, c')" and "cluster_wf c"
  then show "cluster_wf c' \<and> tracked c' = tracked c"
    by (auto simp: fake_Get_def split: sum.splits)
next
  fix c k n ob res c'
  assume "tracked c k n = Some ob" and "eGet (fakeEnv ma un) k n c = (res, c')"
  then show "\<exists>ob'. res = Inr ob' \<and> semantic_DeepEqual ob' ob"
    by (auto simp: fake_Get_def tracker_Get_def)
next
  fix c k n res c'
  assume "tracked c k n = None" and "eGet (fakeEnv ma un) k n c = (res, c')"
  then show "\<exists>e. res = Inl e \<and> IsNotFound e"
    by (auto simp: fake_Get_def tracker_Get_def)
next
  fix c k n ob
  assume "cluster_wf c" and "tracked c k n = Some ob"
  then show "obj_kind ob = k \<and> object_key ob = n"
    using cluster_wf_tracked by (fastforce simp: obj_id_def)
next
  fix c ob e c'
  assume "cluster_wf c" and "eCreate (fakeEnv ma un) ob c = (Inl e, c')"
  then show "cluster_wf c' \<and> tracked c' = tracked c"
    by (auto dest: vt_Create_Inl)
next
  fix c ob ob' c'
  assume wf: "cluster_wf c" and "eCreate (fakeEnv ma un) ob c = (Inr ob', c')"
  then have "ob' = setRV ''1'' ob"
    and "c' = c\<lparr>clObjects := AList.update (obj_id ob') ob' (clObjects c)\<rparr>"
    by (auto dest: vt_Create_Inr)
  with wf show "cluster_wf c' \<and> (\<exists>v. ob' = set_rv v ob) \<and> tracked c' =
      (tracked c)(obj_kind ob := (tracked c (obj_kind ob))(object_key ob := Some ob'))"
    using cluster_wf_update [where c = c and ob = ob'] tracked_update [where c = c and ob = ob'] setRV_eq_set_rv by auto
next
  fix c ob ob' c'
  assume "eCreate (fakeEnv ma un) ob c = (Inr ob', c')"
  then show "tracked c (obj_kind ob) (object_key ob) = None"
    by (auto dest: vt_Create_Inr)
next
  fix c ob e c'
  assume "cluster_wf c" and "eUpdate (fakeEnv ma un) ob c = (Inl e, c')"
  then show "cluster_wf c' \<and> tracked c' = tracked c"
    by (auto dest: vt_Update_Inl)
next
  fix c ob ob' c'
  assume wf: "cluster_wf c" and "eUpdate (fakeEnv ma un) ob c = (Inr ob', c')" and "\<not> terminating ob"
  then have "\<exists>v. ob' = setRV v ob"
    and c': "c' = c\<lparr>clObjects := AList.update (obj_id ob') ob' (clObjects c)\<rparr>"
    using vt_Update_Inr by auto
  then obtain v where v: "ob' = setRV v ob" by blast
  with wf c' show "cluster_wf c' \<and> (\<exists>v. ob' = set_rv v ob) \<and> tracked c' =
      (tracked c)(obj_kind ob := (tracked c (obj_kind ob))(object_key ob := Some ob'))"
    using cluster_wf_update [where c = c and ob = ob'] tracked_update [where c = c and ob = ob'] setRV_eq_set_rv by auto
qed

section \<open>Lists\<close>

lemma set_tracker_List:
  assumes "cluster_wf c"
  shows "ob \<in> set (tracker_List k ns c) \<longleftrightarrow>
    (\<exists>n. tracked c k n = Some ob) \<and> (ns = '''' \<or> mNamespace (ObjectMeta ob) = ns)"
proof -
  have "(\<exists>i. (i, ob) \<in> set (clObjects c) \<and> fst i = k) \<longleftrightarrow> (\<exists>n. tracked c k n = Some ob)"
    using assms by (auto simp: cluster_wf_def tracked_def map_of_eq_Some_iff)
  then show ?thesis
    by (auto simp: tracker_List_def split_def image_iff)
qed

lemma json_roundtrip_kind [simp]: "obj_kind (json_roundtrip ob) = obj_kind ob"
  by (cases "Body ob") (simp_all add: json_roundtrip_def)

lemma json_roundtrip_key [simp]: "object_key (json_roundtrip ob) = object_key ob"
  by (simp add: json_roundtrip_def object_key_def)

context typed_kind
begin

lemma those_retype:
  "(\<And>x. x \<in> set xs \<Longrightarrow> obj_kind x = kdKind K) \<Longrightarrow>
   \<exists>ys. those (map (retype K) xs) = Some ys \<and> map (untype K) ys = xs"
proof (induction xs)
  case Nil
  then show ?case by simp
next
  case (Cons x xs)
  obtain y where "retype K x = Some y" using retype_total Cons.prems by fastforce
  moreover from this have "untype K y = x" by (rule untype_retype)
  ultimately show ?case using Cons by auto
qed

text \<open>A list answers with the stored objects of the kind, and changes nothing.\<close>

lemma fake_clientList:
  assumes "cluster_wf (wd s)"
  shows "\<exists>ys. clientList (fakeEnv ma un) K ns s = (Ok ys, s) \<and>
    map (untype K) ys = map json_roundtrip (tracker_List (kdKind K) ns (wd s))"
proof -
  let ?xs = "map json_roundtrip (tracker_List (kdKind K) ns (wd s))"
  have "obj_kind x = kdKind K" if "x \<in> set ?xs" for x
    using that assms cluster_wf_tracked [OF assms]
    by (auto simp: set_tracker_List obj_id_def)
  then obtain ys where "those (map (retype K) ?xs) = Some ys" "map (untype K) ys = ?xs"
    using those_retype [of ?xs] by blast
  then show ?thesis
    by (auto simp: clientList_def reqA_def fake_List_def bindA_def retA_def)
qed

end

section \<open>Runs against stored objects\<close>

context typed_kind
begin

lemma fake_clientGet_found:
  assumes "cluster_wf (wd s)" and "tracked (wd s) (kdKind K) key = Some ob"
  shows "\<exists>x. clientGet (fakeEnv ma un) K key s = (Ok x, s) \<and> untype K x = json_roundtrip ob"
proof -
  have "obj_kind (json_roundtrip ob) = kdKind K"
    using cluster_wf_tracked [OF assms] by (simp add: obj_id_def)
  then obtain x where "retype K (json_roundtrip ob) = Some x" using retype_total by blast
  with assms(2) show ?thesis
    by (intro exI [of _ x]) (simp add: clientGet_def reqA_def bindA_def decodeA_def retA_def fake_Get_def
        tracker_Get_def untype_retype)
qed

text \<open>A run of \<open>CreateOrUpdate\<close> whose mutation leaves the stored object as it is sends one read only.\<close>

lemma CreateOrUpdate_unchanged:
  assumes "cluster_wf (wd s)" and "tracked (wd s) (kdKind K) (object_key (fst F (rc s))) = Some ob"
    and lens: "\<And>u r. fst F (snd F u r) = u (fst F r)"
    and f: "\<And>x. untype K x = json_roundtrip ob \<Longrightarrow>
      f (s\<lparr>rc := snd F (\<lambda>_. x) (rc s)\<rparr>) = (Ok (), s\<lparr>rc := snd F (\<lambda>_. x) (rc s)\<rparr>)"
  shows "\<exists>x. CreateOrUpdate (fakeEnv ma un) K F f s = (Ok OperationResultNone, s\<lparr>rc := snd F (\<lambda>_. x) (rc s)\<rparr>)"
proof -
  let ?key = "object_key (fst F (rc s))"
  obtain x where get: "clientGet (fakeEnv ma un) K ?key s = (Ok x, s)" and x: "untype K x = json_roundtrip ob"
    using fake_clientGet_found [OF assms(1,2)] by blast
  have "object_key x = object_key (untype K x)" by simp
  also have "\<dots> = ?key" using cluster_wf_tracked [OF assms(1,2)] by (simp add: x obj_id_def)
  finally have "object_key x = ?key" .
  then show ?thesis
    using get f [OF x]
    by (intro exI [of _ x]) (simp add: CreateOrUpdate_def mutateF_def getF_def keyF_def getR_def setF_def setR_def
        act_unfold lens)
qed

end

end
