(* ===== verification/Samples.thy ===== *)
theory Samples
  imports Reconciler Fake_Client
begin

text \<open>
  Concrete values on which the statements of the library are evaluated: a configuration, a receiver
  that has fetched its ManagedMCG resource, YAML libraries that answer with constants, and clusters
  made of a list of objects.
\<close>

definition sampleConfig :: config where
  "sampleConfig = \<lparr>AddonConfigMapDeleteLabelKey = ''delete-me'', AddonConfigMapName = ''mcg'',
     AddonParamSecretName = ''params'', DeadMansSnitchSecretName = ''snitch'',
     CustomerNotificationHTMLPath = ''mail.html'', SMTPSecretName = ''smtp'', SOPEndpoint = ''sop'',
     AlertSMTPFrom = ''me'', ConsolePort = 9002, PagerdutySecretName = ''pager'',
     RHOBSSecretName = ''rhobs'', RHOBSEndpoint = ''re'', RHSSOTokenEndpoint = ''te'',
     AddonVariant = ''mcg'', AddonEnvironment = ''prod''\<rparr>"

definition sampleKey :: nn where
  "sampleKey = \<lparr>nnNamespace = ''ns'', nnName = ManagedMCGName\<rparr>"

definition sampleMCG :: "managedmcg object" where
  "sampleMCG = \<lparr>ObjectMeta = zero_meta\<lparr>mName := ManagedMCGName, mNamespace := ''ns'', mUID := ''u1'',
     mResourceVersion := ''7'', mFinalizers := [ManagedMCGFinalizer]\<rparr>, Body = zero_managedmcg\<rparr>"

definition sampleReconciler :: reconciler where
  "sampleReconciler = (initializeReconciler sampleKey (newReconciler sampleConfig))\<lparr>
     rManagedMCG := sampleMCG\<rparr>"

definition clusterOf :: "kobject list \<Rightarrow> cluster" where
  "clusterOf obs = \<lparr>clObjects = map (\<lambda>ob. (obj_id ob, ob)) obs, clNow = 1, clTicks = 5, clFiles = []\<rparr>"

definition sampleEnv :: "cluster env" where
  "sampleEnv = fakeEnv (\<lambda>_. Inr ''yaml'') (\<lambda>_ gs. Inr gs)"

definition sampleStart :: "kobject list \<Rightarrow> (reconciler, cluster) sys" where
  "sampleStart obs = \<lparr>rc = sampleReconciler, wd = clusterOf obs\<rparr>"

lemmas sample_defs = sampleStart_def sampleConfig_def sampleKey_def sampleMCG_def sampleReconciler_def clusterOf_def
  sampleEnv_def

lemmas fake_defs = fake_Get_def tracker_Get_def tracked_def fake_List_def tracker_List_def
  vt_Create_def tracker_add_def vt_Update_def vt_replace_def deleteObject_def tracker_Delete_def
  fake_StatusUpdate_def fake_wait_def fake_ReadFile_def obj_id_def setRV_def json_roundtrip_def
  gm_json_def Let_def object_key_def sort_key_of_def ParseUint64_def allowsUnconditionalUpdate_def
  allowsCreateOnUpdate_def

lemmas name_defs = ManagedMCGFinalizer_def ManagedMCGName_def deployerCSVPrefix_def noobaaFinalizer_def
  noobaaName_def prometheusProxyNetworkPolicyName_def prometheusServiceName_def
  ingressNetworkPolicyName_def mcgmsConsoleName_def operatorConsoleName_def
  rhobsRemoteWriteConfigIDSecretKey_def rhobsRemoteWriteConfigSecretName_def
  alertRelabelConfigSecretKey_def prometheusName_def monLabelKey_def monLabelValue_def
  alertRelabelConfigSecretName_def alertmanagerName_def notificationEmailKeyPrefix_def
  noobaaRulesName_def dmsRuleName_def alertmanagerConfigName_def

lemmas init_defs = initializeReconciler_def initializePrometheusReconciler_def newReconciler_def
  newObj_def zero_meta_def zero_managedmcg_def zero_noobaa_def zero_bucket_class_def zero_obc_def
  zero_obc_spec_def zero_console_plugin_def zero_operator_console_def zero_network_policy_def
  zero_service_def zero_prometheus_def zero_alertmanager_def zero_alertmanager_config_def

lemmas owner_defs = SetControllerReference_def validateOwner_def GetControllerOf_def
  PrometheusKubeRBACPoxyConfigMapName_def

lemmas client_defs = CreateOrUpdate_def mutateF_def clientGet_def clientList_def clientCreate_def clientUpdate_def
  clientStatusUpdate_def clientDelete_def reqA_def decodeA_def getF_def createF_def updateF_def
  keyF_def getR_def setR_def setF_def untype_def retype_def act_unfold r_get_def r_getLocal_def
  r_list_def r_update_def r_updateLocal_def r_delete_def own_def setBody_def setMetaA_def

end
