(* ===== verification/Bucket.thy ===== *)
theory Bucket
  imports Samples
begin

text \<open>
  Bucket classes and their object bucket claims (\<open>controllers/mcg_bucket.go\<close>): the handlers that
  the watch on BucketClass objects calls when one is added or deleted, and the choice of the
  default backing store.
\<close>

definition McgmsObcNamespace :: string where
  "McgmsObcNamespace = ''mcgms-obc-namespace''"

definition DefaultBackingStore :: string where
  "DefaultBackingStore = ''noobaa-default-backing-store''"

definition READY :: string where
  "READY = ''Ready''"

definition newObjectBucketClaim :: "'b object \<Rightarrow> object_bucket_claim object" where
  "newObjectBucketClaim ob =
     newObj (mName (ObjectMeta ob)) (gm_str (mAnnotations (ObjectMeta ob)) McgmsObcNamespace) zero_obc"

definition getObjectBucketClaim ::
  "'w env \<Rightarrow> 'b object \<Rightarrow> ('w, object_bucket_claim object option) ract" where
  "getObjectBucketClaim E ob =
     bindA (tryA (r_getLocal E kObjectBucketClaim (object_key (newObjectBucketClaim ob)))) (\<lambda>res.
       case res of Inl _ \<Rightarrow> retA None | Inr claim \<Rightarrow> retA (Some claim))"

definition getOBCCreationNamespace :: "bucket_class object \<Rightarrow> string" where
  "getOBCCreationNamespace bucketClass =
     (case gm_lookup (mAnnotations (ObjectMeta bucketClass)) McgmsObcNamespace of
        Some obcNamespace \<Rightarrow> obcNamespace
      | None \<Rightarrow> mNamespace (ObjectMeta bucketClass))"

text \<open>
  The desired claim is returned, its name and namespace are assigned to \<open>r.objectBucketClaim\<close>.
\<close>

definition desiredOBC :: "string \<Rightarrow> bucket_class object \<Rightarrow> object_bucket_claim object" where
  "desiredOBC bucketName bucketClass = \<lparr>
     ObjectMeta = zero_meta\<lparr>mOwnerReferences := mOwnerReferences (ObjectMeta bucketClass)\<rparr>,
     Body = \<lparr>obcSpec = zero_obc_spec\<lparr>
         obBucketName := bucketName,
         obStorageClassName := mNamespace (ObjectMeta bucketClass) @ ''.noobaa.io'',
         obGenerateBucketName := bucketName,
         obAdditionalConfig := gm_of [(''bucketclass'', bucketName)]\<rparr>,
       obcRest = ''''\<rparr>\<rparr>"

definition setOBCDesiredState ::
  "string \<Rightarrow> bucket_class object \<Rightarrow> ('w, object_bucket_claim object) ract" where
  "setOBCDesiredState bucketName bucketClass =
     thenA (setR (rObjectBucketClaim_update (\<lambda>ob. ob\<lparr>ObjectMeta := (ObjectMeta ob)\<lparr>
              mName := bucketName, mNamespace := getOBCCreationNamespace bucketClass\<rparr>\<rparr>)))
           (retA (desiredOBC bucketName bucketClass))"

text \<open>The condition of the poll re-reads the bucket class into \<open>r.bucketClass\<close>.\<close>

definition bucketClassReady :: "'w env \<Rightarrow> nn \<Rightarrow> ('w, bool) ract" where
  "bucketClassReady E key =
     thenA (setR (rBucketClass_update (\<lambda>_. newObj (nnName key) (nnNamespace key) zero_bucket_class)))
    (bindA (tryA (r_get E kBucketClass fBucketClass)) (\<lambda>res.
       case res of
         Inl _ \<Rightarrow> retA False
       | Inr _ \<Rightarrow>
           bindA (getR (\<lambda>r. bcPhase (Body (rBucketClass r)))) (\<lambda>phase.
             if phase \<noteq> READY then retA False else retA True)))"

definition isBucketClassCreationSuccess :: "'w env \<Rightarrow> bucket_class object \<Rightarrow> ('w, bool) ract" where
  "isBucketClassCreationSuccess E bucketClass =
     (if bcPhase (Body bucketClass) = READY then retA True
      else
        (let timeout = 10; interval = 2 in
         bindA (tryA (PollImmediate E interval timeout
                  (bucketClassReady E (object_key bucketClass)))) (\<lambda>res.
           case res of Inl _ \<Rightarrow> retA False | Inr _ \<Rightarrow> retA True)))"

definition mutateOBC :: "object_bucket_claim object \<Rightarrow> ('w, unit) ract" where
  "mutateOBC obc =
     setR (rObjectBucketClaim_update (\<lambda>ob. ob\<lparr>
       ObjectMeta := (ObjectMeta ob)\<lparr>mOwnerReferences := mOwnerReferences (ObjectMeta obc)\<rparr>,
       Body := (Body ob)\<lparr>obcSpec := obcSpec (Body obc)\<rparr>\<rparr>))"

definition createOBC :: "'w env \<Rightarrow> bucket_class object \<Rightarrow> ('w, unit) ract" where
  "createOBC E basebucketClass =
     (let bucketName = mName (ObjectMeta basebucketClass) in
      thenA (setR (rObjectBucketClaim_update (\<lambda>_. newObj '''' '''' zero_obc)))
     (bindA (setOBCDesiredState bucketName basebucketClass) (\<lambda>obc.
      bindA (tryA (CreateOrUpdate E kObjectBucketClaim fObjectBucketClaim (mutateOBC obc))) (\<lambda>_.
        retA ()))))"

definition bucketClassAdded :: "'w env \<Rightarrow> bucket_class object \<Rightarrow> ('w, unit) ract" where
  "bucketClassAdded E basebucketClass =
     (let annotations = mAnnotations (ObjectMeta basebucketClass) in
      bindA (if gm_lookup annotations McgmsObcNamespace \<noteq> None
             then isBucketClassCreationSuccess E basebucketClass else retA False) (\<lambda>proceed.
      whenA proceed
       (thenA (setR (rCtx_update (\<lambda>ctx. if \<not> ctx then True else ctx)))
       (bindA (getObjectBucketClaim E basebucketClass) (\<lambda>claim.
          case claim of
            Some _ \<Rightarrow> retA ()
          | None \<Rightarrow> createOBC E basebucketClass)))))"

definition bucketClassDeleted :: "'w env \<Rightarrow> 'b object \<Rightarrow> ('w, unit) ract" where
  "bucketClassDeleted E ob =
     bindA (tryA (r_delete E kObjectBucketClaim (object_key (newObjectBucketClaim ob)))) (\<lambda>_.
       retA ())"

definition getDefaultBackingStore :: "'w env \<Rightarrow> ('w, string) ract" where
  "getDefaultBackingStore E =
     bindA (tryA (r_list E kBackingStore)) (\<lambda>res.
       case res of
         Inl _ \<Rightarrow> retA ''''
       | Inr backingStores \<Rightarrow>
           (case backingStores of
              [] \<Rightarrow> retA ''''
            | first # _ \<Rightarrow>
                if (\<exists>backingStore \<in> set backingStores.
                      has_prefix (mName (ObjectMeta backingStore)) DefaultBackingStore)
                then retA DefaultBackingStore
                else retA (mName (ObjectMeta first))))"

section \<open>Requests\<close>

context write_frame
begin

lemma keeps_getObjectBucketClaim [keeps_intros]: "keepsA (onW I) (getObjectBucketClaim E ob)"
  unfolding getObjectBucketClaim_def by (intro keeps_intros adm_intros)

lemma keeps_setOBCDesiredState [keeps_intros]: "keepsA (onW I) (setOBCDesiredState name bc)"
  unfolding setOBCDesiredState_def by (intro keeps_intros adm_intros)

lemma keeps_bucketClassReady [keeps_intros]: "keepsA (onW I) (bucketClassReady E key)"
  unfolding bucketClassReady_def by (intro keeps_intros adm_intros)

lemma keeps_isBucketClassCreationSuccess [keeps_intros]: "keepsA (onW I) (isBucketClassCreationSuccess E bc)"
  unfolding isBucketClassCreationSuccess_def by (intro keeps_intros adm_intros)

lemma keeps_mutateOBC [keeps_intros]: "keepsA (onW I) (mutateOBC obc)"
  unfolding mutateOBC_def by (intro keeps_intros adm_intros)

lemma keeps_createOBC [keeps_intros]:
  assumes "KObjectBucketClaim \<in> W"
  shows "keepsA (onW I) (createOBC E bc)"
  unfolding createOBC_def by (intro keeps_intros adm_intros) (use assms in auto)

lemma keeps_bucketClassAdded [keeps_intros]:
  assumes "KObjectBucketClaim \<in> W"
  shows "keepsA (onW I) (bucketClassAdded E bc)"
  unfolding bucketClassAdded_def by (intro keeps_intros adm_intros) (use assms in auto)

lemma keeps_bucketClassDeleted [keeps_intros]:
  assumes "KObjectBucketClaim \<in> D"
  shows "keepsA (onW I) (bucketClassDeleted E ob)"
  unfolding bucketClassDeleted_def by (intro keeps_intros adm_intros) (use assms in auto)

lemma keeps_getDefaultBackingStore [keeps_intros]: "keepsA (onW I) (getDefaultBackingStore E)"
  unfolding getDefaultBackingStore_def by (intro keeps_intros adm_intros)

end

section \<open>What the bucket class handlers do\<close>

text \<open>The claim that belongs to a bucket class: its name, namespace, owners and specification.\<close>

definition claim_of :: "bucket_class object \<Rightarrow> string \<Rightarrow> object_bucket_claim object \<Rightarrow> bool" where
  "claim_of bc ns ob \<longleftrightarrow>
     object_key ob = \<lparr>nnNamespace = ns, nnName = mName (ObjectMeta bc)\<rparr> \<and>
     mOwnerReferences (ObjectMeta ob) = mOwnerReferences (ObjectMeta bc) \<and>
     obcSpec (Body ob) = obcSpec (Body (desiredOBC (mName (ObjectMeta bc)) bc))"

text \<open>The requests that the addition of a bucket class may lead to.\<close>

definition is_claim :: "bucket_class object \<Rightarrow> kobject \<Rightarrow> bool" where
  "is_claim bc ob =
     (case (retype kObjectBucketClaim ob, gm_lookup (mAnnotations (ObjectMeta bc)) McgmsObcNamespace) of
        (Some claim, Some ns) \<Rightarrow> claim_of bc ns claim
      | _ \<Rightarrow> False)"

fun claim_requests :: "bucket_class object \<Rightarrow> request \<Rightarrow> bool" where
  "claim_requests bc (ReqCreate ob) = is_claim bc ob"
| "claim_requests bc (ReqUpdate ob) = is_claim bc ob"
| "claim_requests bc (ReqDelete k n) = False"
| "claim_requests bc (ReqStatusUpdate ob) = False"
| "claim_requests bc q = True"

interpretation claims: write_frame "recording E" "log_within (claim_requests bc)" "claim_requests bc"
  "{}" "{}" "{}" for E bc
  by unfold_locales simp_all

lemma createOBC_requests:
  assumes "gm_lookup (mAnnotations (ObjectMeta bc)) McgmsObcNamespace = Some ns"
    and "log_within (claim_requests bc) (wd s)"
  shows "log_within (claim_requests bc) (wd (snd (createOBC (recording E) bc s)))"
proof -
  let ?name = "mName (ObjectMeta bc)"
  let ?obc = "desiredOBC ?name bc"
  let ?ob = "(newObj '''' '''' zero_obc)\<lparr>ObjectMeta := (ObjectMeta (newObj '''' '''' zero_obc))\<lparr>
    mName := ?name, mNamespace := getOBCCreationNamespace bc\<rparr>\<rparr>"
  let ?s = "s\<lparr>rc := (rc s)\<lparr>rObjectBucketClaim := ?ob\<rparr>\<rparr>"
  let ?cu = "CreateOrUpdate (recording E) kObjectBucketClaim fObjectBucketClaim (mutateOBC ?obc)"
  have key: "object_key ?ob = \<lparr>nnNamespace = ns, nnName = ?name\<rparr>"
    using assms(1) by (simp add: object_key_def getOBCCreationNamespace_def)
  have "log_within (claim_requests bc) (wd (snd (?cu ?s)))"
  proof (rule rec.CreateOrUpdate_writes)
    show "keepsA (onW (log_within (claim_requests bc))) (mutateOBC ?obc)"
      by (rule claims.keeps_mutateOBC)
    show "(\<lambda>ob. mOwnerReferences (ObjectMeta ob) = mOwnerReferences (ObjectMeta bc) \<and>
        obcSpec (Body ob) = obcSpec (Body ?obc)) (fst fObjectBucketClaim (rc t'))"
      if "mutateOBC ?obc t = (Ok u, t')" for t :: "(reconciler, event list \<times> 'a) sys" and u t'
      using that by (auto simp: mutateOBC_def setR_def modA_def desiredOBC_def)
  qed (use key assms in \<open>auto simp: is_claim_def claim_of_def\<close>)
  then show ?thesis
    by (auto simp: createOBC_def setOBCDesiredState_def setR_def Let_def comp_def act_unfold
        split: prod.split outcome.split)
qed

text \<open>
  C24. The addition of a bucket class writes nothing unless the class carries the annotation that names
  the namespace of the claim, deletes nothing, and the only object it creates or updates is the
  claim of the class in the annotated namespace: with the name of the class, the owners of the
  class, and a specification that names the class and the storage class of its namespace.
\<close>

theorem bucketClassAdded_requests:
  "log_within (claim_requests bc) (wd (snd (bucketClassAdded (recording E) bc (start r w))))"
proof (cases "gm_lookup (mAnnotations (ObjectMeta bc)) McgmsObcNamespace")
  case None
  then show ?thesis
    by (simp add: bucketClassAdded_def Let_def act_unfold start_def log_within_def requests_def)
next
  case (Some ns)
  let ?I = "onW (log_within (claim_requests bc))"
  have create: "keepsA ?I (createOBC (recording E) bc)"
    by (simp add: keepsA_def onW_def createOBC_requests [OF Some])
  have "keepsA ?I (bucketClassAdded (recording E) bc)"
    unfolding bucketClassAdded_def
    by (intro keeps_intros claims.keeps_isBucketClassCreationSuccess
        claims.keeps_getObjectBucketClaim rec.keeps_setR create)
  then show ?thesis by (rule sent_within)
qed

section \<open>The wait for a bucket class\<close>

fun is_read :: "event \<Rightarrow> bool" where
  "is_read (EvGet k n res) = True"
| "is_read _ = False"

fun bucketclass_ready :: "event \<Rightarrow> bool" where
  "bucketclass_ready (EvGet k n res) =
     (case fetched kBucketClass res of Inl _ \<Rightarrow> False | Inr bc \<Rightarrow> bcPhase (Body bc) = READY)"
| "bucketclass_ready _ = False"

text \<open>A condition that sends one read and answers by it.\<close>

definition one_read :: "(event \<Rightarrow> bool) \<Rightarrow> (('r, event list \<times> 'w) sys, bool) act \<Rightarrow> bool" where
  "one_read P c \<longleftrightarrow> (\<forall>s. \<exists>e. is_read e \<and> log_of (c s) = fst (wd s) @ [e] \<and> fst (c s) = Ok (P e))"

lemma bucketClassReady_one_read: "one_read bucketclass_ready (bucketClassReady (recording E) key)"
  unfolding one_read_def
proof
  fix s :: "(reconciler, event list \<times> 'a) sys"
  let ?e = "EvGet KBucketClass key (fst (eGet E KBucketClass key (snd (wd s))))"
  have "object_key (newObj (nnName key) (nnNamespace key) zero_bucket_class) = key"
    by (simp add: object_key_def newObj_def)
  then show "\<exists>e. is_read e \<and> log_of (bucketClassReady (recording E) key s) = fst (wd s) @ [e] \<and>
      fst (bucketClassReady (recording E) key s) = Ok (bucketclass_ready e)"
    by (intro exI [of _ ?e])
      (auto simp: bucketClassReady_def r_get_eq getR_def setR_def act_unfold recording_def record_op_def
        split: prod.split sum.split)
qed

text \<open>What a poll with such a condition has added to the log, and how it ends.\<close>

definition polled :: "(event \<Rightarrow> bool) \<Rightarrow> nat \<Rightarrow> event list \<Rightarrow> unit outcome \<times> event list \<Rightarrow> bool" where
  "polled P n l res \<longleftrightarrow> (\<exists>l'. snd res = l @ l' \<and> l' \<noteq> [] \<and> length (filter is_read l') \<le> n \<and>
     (case fst res of Ok _ \<Rightarrow> P (last l') | Err _ \<Rightarrow> \<not> P (last l') | Panic _ \<Rightarrow> False))"

lemma polledI_Ok: "P (last l') \<Longrightarrow> l' \<noteq> [] \<Longrightarrow> length (filter is_read l') \<le> n \<Longrightarrow> polled P n l (Ok u, l @ l')"
  by (auto simp: polled_def)

lemma polled_step:
  "polled P n (l @ l0) res \<Longrightarrow> length (filter is_read l0) \<le> Suc 0 \<Longrightarrow> polled P (Suc n) l res"
  unfolding polled_def by (fastforce split: outcome.splits)

lemma waitA_recording:
  "\<exists>open' t. waitA (recording E) s = (Ok open', t) \<and> fst (wd t) = fst (wd s) @ [EvWait open']"
  by (cases "wd s"; cases "eWait E (snd (wd s))") (simp add: waitA_def recording_def record_op_def)

lemma WaitFor_polled:
  assumes "one_read P c"
  shows "polled P (Suc n) (fst (wd s)) (fst (WaitFor (recording E) n c s), log_of (WaitFor (recording E) n c s))"
proof (induction n arbitrary: s)
  case (Suc n)
  obtain open' t where w: "waitA (recording E) s = (Ok open', t)" "fst (wd t) = fst (wd s) @ [EvWait open']"
    using waitA_recording by blast
  obtain e where e: "is_read e" "log_of (c t) = fst (wd t) @ [e]" "fst (c t) = Ok (P e)"
    using assms unfolding one_read_def by blast
  then obtain u where c: "c t = (Ok (P e), u)" by (metis prod.collapse)
  have log: "fst (wd u) = fst (wd s) @ [EvWait open', e]" using e(2) c w(2) by simp
  have eq: "WaitFor (recording E) (Suc n) c s =
      (if P e then (Ok (), u) else if \<not> open' then (Err ErrWaitTimeout, u)
       else WaitFor (recording E) n c (u))"
    using w(1) c by (simp add: bindA_def retA_def failA_def)
  show ?case
  proof (cases "\<not> P e \<and> open'")
    case True
    then have eq': "WaitFor (recording E) (Suc n) c s = WaitFor (recording E) n c u"
      using eq by simp
    show ?thesis
      unfolding eq'
      by (rule polled_step [where ?l0.0 = "[EvWait open', e]"])
        (use Suc.IH [of u] log e(1) in simp_all)
  next
    case False
    then show ?thesis
      unfolding eq using log e(1) by (auto simp: polled_def)
  qed
next
  case 0
  obtain open' t where w: "waitA (recording E) s = (Ok open', t)" "fst (wd t) = fst (wd s) @ [EvWait open']"
    using waitA_recording by blast
  obtain e where e: "is_read e" "log_of (c t) = fst (wd t) @ [e]" "fst (c t) = Ok (P e)"
    using assms unfolding one_read_def by blast
  then obtain u where c: "c t = (Ok (P e), u)" by (metis prod.collapse)
  have eq: "WaitFor (recording E) 0 c s =
      (if P e then (Ok (), u) else (Err ErrWaitTimeout, u))"
    using w(1) c by (simp add: thenA_def bindA_def retA_def failA_def)
  show ?case unfolding eq using e c w(2) by (auto simp: polled_def)
qed

lemma PollImmediate_polled:
  assumes "one_read P c"
  shows "polled P (timeout div interval + 2) (fst (wd s))
    (fst (PollImmediate (recording E) interval timeout c s),
     log_of (PollImmediate (recording E) interval timeout c s))"
proof -
  obtain e where e: "is_read e" "log_of (c s) = fst (wd s) @ [e]" "fst (c s) = Ok (P e)"
    using assms unfolding one_read_def by blast
  then obtain u where c: "c s = (Ok (P e), u)" by (metis prod.collapse)
  show ?thesis
  proof (cases "P e")
    case True
    with c e show ?thesis
      by (auto simp: PollImmediate_def bindA_def retA_def polled_def)
  next
    case False
    with c have eq: "PollImmediate (recording E) interval timeout c s =
        WaitFor (recording E) (timeout div interval) c u"
      by (simp add: PollImmediate_def bindA_def)
    show ?thesis
      unfolding eq numeral_2_eq_2 add_Suc_right
      by (rule polled_step [where ?l0.0 = "[e]"])
        (use WaitFor_polled [OF assms, of "timeout div interval" u E] c e in simp_all)
  qed
qed

text \<open>
  C26. The wait for a bucket class that is not ready sends at most seven reads, one before the first
  tick of the poll, one for each of at most five ticks and one when the poll times out, and it
  answers yes exactly when the last of them has found the class ready. A class that is ready in
  the event is accepted without a request.
\<close>

theorem isBucketClassCreationSuccess_bounded:
  "case isBucketClassCreationSuccess (recording E) bc (start r w) of
     (Ok b, s') \<Rightarrow>
       if bcPhase (Body bc) = READY then b \<and> fst (wd s') = []
       else length (filter is_read (fst (wd s'))) \<le> 7 \<and> fst (wd s') \<noteq> [] \<and>
         (b \<longleftrightarrow> bucketclass_ready (last (fst (wd s'))))
   | _ \<Rightarrow> False"
proof (cases "bcPhase (Body bc) = READY")
  case True
  then show ?thesis by (simp add: isBucketClassCreationSuccess_def retA_def start_def)
next
  case False
  let ?poll = "PollImmediate (recording E) 2 10 (bucketClassReady (recording E) (object_key bc)) (start r w)"
  have "polled bucketclass_ready 7 [] (fst ?poll, log_of ?poll)"
    using PollImmediate_polled [OF bucketClassReady_one_read, where s = "start r w" and timeout = 10 and interval = 2]
    by (simp add: start_def)
  then show ?thesis
    using False by (cases ?poll; cases "fst ?poll")
      (auto simp: isBucketClassCreationSuccess_def Let_def polled_def tryA_def bindA_def retA_def)
qed

end
