(* ===== verification/Monitoring.thy ===== *)
theory Monitoring
  imports Bucket
begin

text \<open>
  The monitoring stack (\<open>controllers/monitoring_alert.go\<close>): Prometheus and Alertmanager, the
  Alertmanager configuration with its receivers, the rules, the secret that relabels alerts, the
  proxy's configuration, service and network policy, and the labels that make Prometheus notice
  the monitoring resources of the namespace.
\<close>

section \<open>Alert relabelling, proxy configuration, service and policy\<close>

definition reconcileAlertRelabelConfigSecret :: "'w env \<Rightarrow> ('w, unit) ract" where
  "reconcileAlertRelabelConfigSecret E =
     wrapA ''unable to create/update AlertRelabelConfigSecret''
      (thenA (CreateOrUpdate E kSecret fAlertRelabelConfigSecret
        (thenA (own fAlertRelabelConfigSecret)
        (bindA (getR rNamespace) (\<lambda>ns.
           case eYamlMarshal E [[(''target_label'', ''namespace''), (''replacement'', ns)]] of
             Inl err \<Rightarrow> failA (WrapErr ''unable to encode alert relabel conifg'' err)
           | Inr config \<Rightarrow>
               setBody fAlertRelabelConfigSecret
                 (\<lambda>_. gm_of [(alertRelabelConfigSecretKey, config)])))))
      (retA ()))"

definition reconcileKubeRBACConfigMap :: "'w env \<Rightarrow> ('w, unit) ract" where
  "reconcileKubeRBACConfigMap E =
     wrapA ''unable to create kubeRBACConfig config map''
      (thenA (CreateOrUpdate E kConfigMap fKubeRBACConfigMap
        (thenA (own fKubeRBACConfigMap)
               (setBody fKubeRBACConfigMap (\<lambda>_. KubeRBACProxyConfigMap))))
      (retA ()))"

definition prometheusServicePorts :: "service_port list" where
  "prometheusServicePorts = [\<lparr>spName = ''https'', spProtocol = ''TCP'',
     spPort = scast KubeRBACProxyPortNumber, spTargetPort = intstr_FromString ''https'',
     spRest = ''''\<rparr>]"

definition reconcilePrometheusService :: "'w env \<Rightarrow> ('w, unit) ract" where
  "reconcilePrometheusService E =
     wrapA ''unable to create/update PrometheusService''
      (thenA (CreateOrUpdate E kService fPrometheusService
        (thenA (own fPrometheusService)
        (thenA (setBody fPrometheusService (\<lambda>b. b\<lparr>svcPorts := prometheusServicePorts\<rparr>))
        (thenA (bindA (getR (\<lambda>r. mName (ObjectMeta (rPrometheusService r)))) (\<lambda>name.
           setBody fPrometheusService
             (\<lambda>b. b\<lparr>svcSelector := gm_of [(''app.kubernetes.io/name'', name)]\<rparr>)))
        (thenA (setMetaA fPrometheusService (\<lambda>m. AddAnnotation m
           ''service.beta.openshift.io/serving-cert-secret-name'' PrometheusServingCertSecretName))
        (thenA (setMetaA fPrometheusService (\<lambda>m. AddAnnotation m
           ''service.alpha.openshift.io/serving-cert-secret-name'' PrometheusServingCertSecretName))
               (setMetaA fPrometheusService (\<lambda>m. AddLabel m monLabelKey monLabelValue))))))))
      (retA ()))"

definition reconcilePrometheusProxyNetworkPolicy :: "'w env \<Rightarrow> ('w, unit) ract" where
  "reconcilePrometheusProxyNetworkPolicy E =
     wrapA ''failed to update prometheus proxy NetworkPolicy''
      (thenA (CreateOrUpdate E kNetworkPolicy fPrometheusProxyNetworkPolicy
        (thenA (own fPrometheusProxyNetworkPolicy)
               (setBody fPrometheusProxyNetworkPolicy (\<lambda>_. PrometheusProxyNetworkPolicyTemplate))))
      (retA ()))"

section \<open>Prometheus\<close>

text \<open>
  The loops over the deployments of the CSV and over the containers of the deployment keep the
  last match.
\<close>

definition last_with :: "('a \<Rightarrow> string) \<Rightarrow> string \<Rightarrow> 'a list \<Rightarrow> 'a option" where
  "last_with name n xs = fold (\<lambda>x acc. if name x = n then Some x else acc) xs None"

definition set_proxy_image :: "string \<Rightarrow> container list \<Rightarrow> container list" where
  "set_proxy_image img cs =
     map (\<lambda>c. if ctName c = ''kube-rbac-proxy'' then c\<lparr>ctImage := img\<rparr> else c) cs"

definition configureRemoteWriteSpec ::
  "config \<Rightarrow> string \<Rightarrow> remote_write_spec \<Rightarrow> remote_write_spec outcome" where
  "configureRemoteWriteSpec c audience w =
     (case rwOAuth2 w of
        None \<Rightarrow> Panic ''nil pointer dereference''
      | Some oa \<Rightarrow>
          (case oaClientIDSecret oa of
             None \<Rightarrow> Panic ''nil pointer dereference''
           | Some ids \<Rightarrow>
               (case gm_put ''audience'' audience (oaEndpointParams oa) of
                  Ok params \<Rightarrow> Ok (w\<lparr>
                    rwURL := RHOBSEndpoint c,
                    rwOAuth2 := Some (oa\<lparr>
                      oaClientIDSecret := Some (ids\<lparr>sksName := RHOBSSecretName c,
                        sksKey := rhobsRemoteWriteConfigIDSecretKey\<rparr>),
                      oaClientSecret := (oaClientSecret oa)\<lparr>sksName := RHOBSSecretName c,
                        sksKey := rhobsRemoteWriteConfigSecretName\<rparr>,
                      oaTokenURL := RHSSOTokenEndpoint c,
                      oaEndpointParams := params\<rparr>)\<rparr>)
                | Err e \<Rightarrow> Err e
                | Panic p \<Rightarrow> Panic p)))"

definition setRemoteWrite0 ::
  "(remote_write_spec \<Rightarrow> remote_write_spec outcome) \<Rightarrow> ('w, unit) ract" where
  "setRemoteWrite0 f =
     bindA (getR (\<lambda>r. psRemoteWrite (promSpec (Body (rPrometheus r))))) (\<lambda>rws.
       case rws of
         [] \<Rightarrow> panicA ''index out of range''
       | rw # rest \<Rightarrow>
           bindA (liftA (f rw)) (\<lambda>rw'.
             setBody fPrometheus
               (\<lambda>b. b\<lparr>promSpec := (promSpec b)\<lparr>psRemoteWrite := rw' # rest\<rparr>\<rparr>)))"

text \<open>What follows the fetch of the secret: the object is still empty when it was not found.\<close>

definition configureRHOBS_fetched :: "('w, unit) ract" where
  "configureRHOBS_fetched =
     bindA (getR rRhobsRemoteWriteConfigSecret) (\<lambda>secret.
       if mUID (ObjectMeta secret) = '''' then
         setBody fPrometheus (\<lambda>b. b\<lparr>promSpec := (promSpec b)\<lparr>psRemoteWrite := []\<rparr>\<rparr>)
       else
         (let rhobsSecretData = Body secret in
          case gm_lookup rhobsSecretData rhobsRemoteWriteConfigIDSecretKey of
            None \<Rightarrow> failA (PlainErr (''rhobs secret does not contain a value for key ''
                      @ rhobsRemoteWriteConfigIDSecretKey))
          | Some _ \<Rightarrow>
         (case gm_lookup rhobsSecretData rhobsRemoteWriteConfigSecretName of
            None \<Rightarrow> failA (PlainErr (''rhobs secret does not contain a value for key ''
                      @ rhobsRemoteWriteConfigSecretName))
          | Some _ \<Rightarrow>
         (case gm_lookup rhobsSecretData ''rhobs-audience'' of
            None \<Rightarrow> failA (PlainErr ''rhobs secret does not contain a value for key rhobs-audience'')
          | Some rhobsAudience \<Rightarrow>
              bindA (getR rCfg) (\<lambda>c.
                setRemoteWrite0 (configureRemoteWriteSpec c rhobsAudience))))))"

definition configureRHOBSRemoteWrite :: "'w env \<Rightarrow> ('w, unit) ract" where
  "configureRHOBSRemoteWrite E =
     bindA (tryA (r_get E kSecret fRhobsRemoteWriteConfigSecret)) (\<lambda>res.
       case res of
         Inl err \<Rightarrow> if \<not> IsNotFound err then failA err else configureRHOBS_fetched
       | Inr _ \<Rightarrow> configureRHOBS_fetched)"

definition setAlertmanagerNamespace :: "string \<Rightarrow> ('w, unit) ract" where
  "setAlertmanagerNamespace ns =
     bindA (getR (\<lambda>r. psAlerting (promSpec (Body (rPrometheus r))))) (\<lambda>alerting.
       case alerting of
         None \<Rightarrow> panicA ''nil pointer dereference''
       | Some ams \<Rightarrow>
           (case ams of
              [] \<Rightarrow> panicA ''index out of range''
            | am # rest \<Rightarrow>
                setBody fPrometheus (\<lambda>b. b\<lparr>promSpec := (promSpec b)\<lparr>psAlerting :=
                  Some (am\<lparr>aeNamespace := ns\<rparr> # rest)\<rparr>\<rparr>)))"

definition kubeRbacImageOf :: "csv object \<Rightarrow> string outcome" where
  "kubeRbacImageOf deployerCSV =
     (case last_with sdName ''mcg-osd-deployer-controller-manager''
             (csvDeploymentSpecs (Body deployerCSV)) of
        None \<Rightarrow> Panic ''nil pointer dereference''
      | Some deployerCSVDeployment \<Rightarrow>
          (case last_with ctName ''kube-rbac-proxy'' (sdContainers deployerCSVDeployment) of
             None \<Rightarrow> Ok ''''
           | Some container' \<Rightarrow> Ok (ctImage container')))"

definition mutatePrometheus :: "'w env \<Rightarrow> ('w, unit) ract" where
  "mutatePrometheus E =
     thenA (own fPrometheus)
    (thenA (setMetaA fPrometheus (\<lambda>m. AddLabel m monLabelKey monLabelValue))
    (bindA (wrapA ''unable to set image for kube-rbac-proxy container''
             (getCSVByPrefix E deployerCSVPrefix)) (\<lambda>deployerCSV.
     bindA (liftA (kubeRbacImageOf deployerCSV)) (\<lambda>kubeRbacImage.
     thenA (setBody fPrometheus (\<lambda>b. b\<lparr>promSpec := PrometheusTemplate\<lparr>psContainers :=
              set_proxy_image kubeRbacImage (psContainers PrometheusTemplate)\<rparr>\<rparr>))
    (bindA (getR rNamespace) (\<lambda>ns.
     thenA (setAlertmanagerNamespace ns)
    (thenA (setBody fPrometheus (\<lambda>b. b\<lparr>promSpec := (promSpec b)\<lparr>
              psAdditionalAlertRelabelConfigs := Some (zero_selector\<lparr>
                sksName := alertRelabelConfigSecretName, sksKey := alertRelabelConfigSecretKey\<rparr>)\<rparr>\<rparr>))
           (configureRHOBSRemoteWrite E))))))))"

definition reconcilePrometheus :: "'w env \<Rightarrow> ('w, unit) ract" where
  "reconcilePrometheus E =
     wrapA ''failed to create/update Prometheus''
      (thenA (CreateOrUpdate E kPrometheus fPrometheus (mutatePrometheus E)) (retA ()))"

section \<open>Alertmanager and its configuration\<close>

definition reconcileAlertmanager :: "'w env \<Rightarrow> ('w, unit) ract" where
  "reconcileAlertmanager E =
     wrapA ''unable to update alertmanager''
      (thenA (CreateOrUpdate E kAlertmanager fAlertmanager
        (thenA (own fAlertmanager)
        (thenA (setBody fAlertmanager (\<lambda>b. b\<lparr>amSpec := (amSpec AlertmanagerTemplate)\<lparr>
            asAlertmanagerConfigSelector := Some \<lparr>lsMatchLabels = gm_of [(monLabelKey, monLabelValue)],
              lsMatchExpressions = []\<rparr>\<rparr>\<rparr>))
               (setMetaA fAlertmanager (\<lambda>m. AddLabel m monLabelKey monLabelValue)))))
      (retA ()))"

text \<open>\<open>net.JoinHostPort\<close>: a host with a colon is put in brackets.\<close>

definition JoinHostPort :: "string \<Rightarrow> string \<Rightarrow> string" where
  "JoinHostPort host port =
     (if CHR '':'' \<in> set host then ''['' @ host @ '']:'' @ port else host @ '':'' @ port)"

text \<open>
  The addresses under \<open>notification-email-0\<close>, \<open>notification-email-1\<close>, and so on up to the first
  number without an entry. The loop ends because the map is finite.
\<close>

definition alertingAddressKey :: "nat \<Rightarrow> string" where
  "alertingAddressKey i = notificationEmailKeyPrefix @ ''-'' @ dec i"

lemma alertingAddressKey_inject [simp]: "alertingAddressKey i = alertingAddressKey j \<longleftrightarrow> i = j"
  by (simp add: alertingAddressKey_def)

lemma finite_address_indices: "finite {j. i \<le> j \<and> alertingAddressKey j \<in> fset (fmdom p)}"
proof (rule finite_subset)
  show "{j. i \<le> j \<and> alertingAddressKey j \<in> fset (fmdom p)} \<subseteq> alertingAddressKey -` fset (fmdom p)"
    by auto
  show "finite (alertingAddressKey -` fset (fmdom p))"
    by (intro finite_vimageI) (simp_all add: inj_def)
qed

function alertingAddresses ::
  "(string, string) fmap \<Rightarrow> nat \<Rightarrow> string list \<Rightarrow> string list" where
  "alertingAddresses addonParams i alertingAddressList =
     (case fmlookup addonParams (alertingAddressKey i) of
        None \<Rightarrow> alertingAddressList
      | Some alertingAddress \<Rightarrow>
          alertingAddresses addonParams (Suc i) (alertingAddressList @ [alertingAddress]))"
  by pat_completeness auto
termination
proof (relation "measure (\<lambda>(p, i, _). card {j. i \<le> j \<and> alertingAddressKey j \<in> fset (fmdom p)})")
  fix p :: "(string, string) fmap" and i l a
  assume found: "fmlookup p (alertingAddressKey i) = Some a"
  have "{j. Suc i \<le> j \<and> alertingAddressKey j \<in> fset (fmdom p)}
      \<subset> {j. i \<le> j \<and> alertingAddressKey j \<in> fset (fmdom p)}"
    using found by (auto simp: psubset_eq set_eq_iff fmdomI intro!: exI [of _ i])
  then show "((p, Suc i, l @ [a]), p, i, l)
      \<in> measure (\<lambda>(p, i, _). card {j. i \<le> j \<and> alertingAddressKey j \<in> fset (fmdom p)})"
    by (simp add: psubset_card_mono finite_address_indices)
qed simp

declare alertingAddresses.simps [simp del]

definition smtpParams :: "string list" where
  "smtpParams = [''host'', ''port'', ''username'', ''password'']"

text \<open>The rewriting of one receiver of the template, selected by its name.\<close>

definition configPagerduty :: "config \<Rightarrow> receiver \<Rightarrow> receiver outcome" where
  "configPagerduty c receiver' =
     (case rvPagerDutyConfigs receiver' of
        [] \<Rightarrow> Panic ''index out of range''
      | pd # pds \<Rightarrow>
          (case pdServiceKey pd of
             None \<Rightarrow> Panic ''nil pointer dereference''
           | Some sk \<Rightarrow>
               (case pdDetails pd of
                  [] \<Rightarrow> Panic ''index out of range''
                | d # ds \<Rightarrow> Ok (receiver'\<lparr>rvPagerDutyConfigs := pd\<lparr>
                    pdServiceKey := Some (sk\<lparr>sksKey := ''PAGERDUTY_KEY'',
                      sksName := PagerdutySecretName c\<rparr>),
                    pdDetails := (''SOP'', SOPEndpoint c) # ds\<rparr> # pds\<rparr>))))"

definition configWebhook :: "string \<Rightarrow> receiver \<Rightarrow> receiver outcome" where
  "configWebhook dmsURL receiver' =
     (case rvWebhookConfigs receiver' of
        [] \<Rightarrow> Panic ''index out of range''
      | wh # whs \<Rightarrow> Ok (receiver'\<lparr>rvWebhookConfigs := wh\<lparr>whURL := Some dmsURL\<rparr> # whs\<rparr>))"

definition configEmail ::
  "config \<Rightarrow> string gomap \<Rightarrow> string list \<Rightarrow> string \<Rightarrow> receiver \<Rightarrow> receiver outcome" where
  "configEmail c smtpData alertingAddressList smtpHTML receiver' =
     (if alertingAddressList \<noteq> [] then
        (case rvEmailConfigs receiver' of
           [] \<Rightarrow> Panic ''index out of range''
         | em # ems \<Rightarrow>
             (case emAuthPassword em of
                None \<Rightarrow> Panic ''nil pointer dereference''
              | Some pw \<Rightarrow> Ok (receiver'\<lparr>rvEmailConfigs := em\<lparr>
                  emSmarthost := JoinHostPort (gm_str smtpData ''host'') (gm_str smtpData ''port''),
                  emAuthUsername := gm_str smtpData ''username'',
                  emAuthPassword := Some (pw\<lparr>sksName := SMTPSecretName c, sksKey := ''password''\<rparr>),
                  emFrom := AlertSMTPFrom c,
                  emTo := str_join alertingAddressList '', '',
                  emHTML := smtpHTML\<rparr> # ems\<rparr>)))
      else Ok receiver')"

definition configReceiver1 ::
  "config \<Rightarrow> string gomap \<Rightarrow> string \<Rightarrow> string list \<Rightarrow> string \<Rightarrow> receiver \<Rightarrow> receiver outcome" where
  "configReceiver1 c smtpData dmsURL alertingAddressList smtpHTML receiver' =
     (if rvName receiver' = ''pagerduty'' then configPagerduty c receiver'
      else if rvName receiver' = ''DeadMansSnitch'' then configWebhook dmsURL receiver'
      else if rvName receiver' = ''SendGrid'' then
        configEmail c smtpData alertingAddressList smtpHTML receiver'
      else Ok receiver')"

definition configReceiver :: "string \<Rightarrow> string list \<Rightarrow> string \<Rightarrow> ('w, unit) ract" where
  "configReceiver dmsURL alertingAddressList smtpHTML =
     bindA (getR (\<lambda>r. (rCfg r, Body (rSmtpSecret r)))) (\<lambda>(c, smtpData).
     bindA (liftA (mapO (configReceiver1 c smtpData dmsURL alertingAddressList smtpHTML)
              (acReceivers AlertmanagerConfigTemplate))) (\<lambda>receivers.
     thenA (setBody fAlertmanagerConfig (\<lambda>_. AlertmanagerConfigTemplate\<lparr>acReceivers := receivers\<rparr>))
           (setMetaA fAlertmanagerConfig (\<lambda>m. AddLabel m monLabelKey monLabelValue))))"

definition checkPrerequisites :: "'w env \<Rightarrow> ('w, unit) ract" where
  "checkPrerequisites E =
     thenA (wrapA ''failed to own AlertmanagerConfig secret'' (own fAlertmanagerConfig))
    (thenA (wrapA ''unable to get pagerduty secret'' (r_get E kSecret fPagerdutySecret))
    (bindA (getR (\<lambda>r. Body (rPagerdutySecret r))) (\<lambda>pagerduty.
       if gm_str pagerduty ''PAGERDUTY_KEY'' = '''' then
         failA (PlainErr ''pagerduty secret does not contain a PAGERDUTY_KEY entry'')
       else
         bindA (tryA (r_get E kSecret fDeadMansSnitchSecret)) (\<lambda>res.
         bindA (getR (\<lambda>r. mUID (ObjectMeta (rDeadMansSnitchSecret r)))) (\<lambda>uid.
           case res of
             Inl err \<Rightarrow> if uid = '''' then failA (WrapErr ''unable to get DeadMansSnitch secret'' err)
                        else retA ()
           | Inr _ \<Rightarrow> retA ())))))"

text \<open>Every parameter of the SMTP secret must be there and not be empty.\<close>

definition checkSmtpParams :: "string gomap \<Rightarrow> ('w, unit) ract" where
  "checkSmtpParams smtpData =
     forA (\<lambda>param.
       if gm_str smtpData param = '''' then
         failA (PlainErr (''SMTP secret does not contain a '' @ param @ '' entry''))
       else retA ()) smtpParams"

text \<open>The mutation from the notification addresses on.\<close>

definition configureNotifications :: "'w env \<Rightarrow> string \<Rightarrow> ('w, unit) ract" where
  "configureNotifications E dmsURL =
     bindA (getR (\<lambda>r. alertingAddresses (rAddonParams r) 0 [])) (\<lambda>alertingAddressList.
     bindA (tryA (r_get E kSecret fSmtpSecret)) (\<lambda>res.
     bindA (getR rSmtpSecret) (\<lambda>smtpSecret.
       if mUID (ObjectMeta smtpSecret) = '''' \<and> isl res then
         failA (WrapErr ''unable to get SMTP secret '' (projl res))
       else
         thenA (checkSmtpParams (Body smtpSecret))
        (bindA (getR (\<lambda>r. CustomerNotificationHTMLPath (rCfg r))) (\<lambda>path.
         bindA (wrapA ''unable to read customernotification.html file''
                 (reqA (eReadFile E path))) (\<lambda>smtpHTML.
           configReceiver dmsURL alertingAddressList smtpHTML))))))"

definition mutateAlertmanagerConfig :: "'w env \<Rightarrow> ('w, unit) ract" where
  "mutateAlertmanagerConfig E =
     thenA (checkPrerequisites E)
    (bindA (getR (\<lambda>r. gm_str (Body (rDeadMansSnitchSecret r)) ''SNITCH_URL'')) (\<lambda>dmsURL.
       if dmsURL = '''' then
         failA (PlainErr ''DeadMansSnitch secret does not contain a SNITCH_URL entry'')
       else configureNotifications E dmsURL))"

definition reconcileAlertmanagerConfig :: "'w env \<Rightarrow> ('w, unit) ract" where
  "reconcileAlertmanagerConfig E =
     wrapA ''unable to update alertmanager config''
      (thenA (CreateOrUpdate E kAlertmanagerConfig fAlertmanagerConfig (mutateAlertmanagerConfig E))
      (retA ()))"

section \<open>Labels on the monitoring resources\<close>

text \<open>\<open>utils.AddLabel(obj, key, value)\<close> followed by \<open>r.update(obj)\<close>.\<close>

definition labelAndUpdate :: "'w env \<Rightarrow> 'b kdesc \<Rightarrow> 'b object \<Rightarrow> ('w, unit) ract" where
  "labelAndUpdate E K ob =
     bindA (liftA (AddLabel (ObjectMeta ob) monLabelKey monLabelValue)) (\<lambda>m.
       r_updateLocal E K (ob\<lparr>ObjectMeta := m\<rparr>))"

definition noobaaPrometheusRules :: string where
  "noobaaPrometheusRules = ''noobaa-prometheus-rules''"

definition labelPrometheusRule :: "'w env \<Rightarrow> rule_group list object \<Rightarrow> ('w, unit) ract" where
  "labelPrometheusRule E ob =
     (if mName (ObjectMeta ob) = noobaaPrometheusRules then
        r_updateLocal E kPrometheusRule
          (if gm_lookup (mLabels (ObjectMeta ob)) monLabelKey = Some monLabelValue
           then ob\<lparr>ObjectMeta := RemoveLabel (ObjectMeta ob) monLabelKey\<rparr> else ob)
      else labelAndUpdate E kPrometheusRule ob)"

definition reconcileMonitoringResources :: "'w env \<Rightarrow> ('w, unit) ract" where
  "reconcileMonitoringResources E =
     bindA (wrapA ''could not list pod monitors'' (r_list E kPodMonitor)) (\<lambda>podMonitors.
     thenA (forA (labelAndUpdate E kPodMonitor) podMonitors)
    (bindA (wrapA ''could not list service monitors'' (r_list E kServiceMonitor)) (\<lambda>serviceMonitors.
     thenA (forA (labelAndUpdate E kServiceMonitor) serviceMonitors)
    (bindA (wrapA ''could not list prometheus rules'' (r_list E kPrometheusRule)) (\<lambda>promRules.
       forA (labelPrometheusRule E) promRules)))))"

section \<open>Rules\<close>

text \<open>\<open>rule.Labels[label] = value\<close>, without and with the check for a nil map.\<close>

definition putRuleLabel :: "string \<Rightarrow> string \<Rightarrow> rule \<Rightarrow> rule outcome" where
  "putRuleLabel label value u =
     (case gm_put label value (ruLabels u) of
        Ok l \<Rightarrow> Ok (u\<lparr>ruLabels := l\<rparr>) | Err e \<Rightarrow> Err e | Panic p \<Rightarrow> Panic p)"

definition addRuleLabel :: "string \<Rightarrow> string \<Rightarrow> rule \<Rightarrow> rule outcome" where
  "addRuleLabel label value u = putRuleLabel label value (u\<lparr>ruLabels := gm_ensure (ruLabels u)\<rparr>)"

definition onRules :: "(rule \<Rightarrow> rule outcome) \<Rightarrow> rule_group \<Rightarrow> rule_group outcome" where
  "onRules f g =
     (case mapO f (rgRules g) of
        Ok rules \<Rightarrow> Ok (g\<lparr>rgRules := rules\<rparr>) | Err e \<Rightarrow> Err e | Panic p \<Rightarrow> Panic p)"

definition addLabel :: "string \<Rightarrow> string \<Rightarrow> rule_group list \<Rightarrow> rule_group list outcome" where
  "addLabel label value groups = mapO (onRules (addRuleLabel label value)) groups"

definition dmsRuleGroups :: "string \<Rightarrow> rule_group list outcome" where
  "dmsRuleGroups ns =
     mapO (\<lambda>group'. if rgName group' = ''snitch-alert'' then
             onRules (\<lambda>u. if ruAlert u = ''DeadMansSnitch'' then putRuleLabel ''namespace'' ns u
                          else Ok u) group'
           else Ok group') DMSPrometheusRuleTemplate"

definition reconcileDMSPrometheusRule :: "'w env \<Rightarrow> ('w, unit) ract" where
  "reconcileDMSPrometheusRule E =
     wrapA ''failed to reconcile DMS Prometheus Rule''
      (thenA (CreateOrUpdate E kPrometheusRule fDmsRule
        (thenA (own fDmsRule)
        (bindA (getR rNamespace) (\<lambda>ns.
         bindA (liftA (dmsRuleGroups ns)) (\<lambda>desired. setBody fDmsRule (\<lambda>_. desired))))))
      (retA ()))"

text \<open>The embedded file \<open>controllers/noobaa-rules.yaml\<close>, by name: its text is decoded by a library.\<close>

definition noobaaRulesSpec :: string where
  "noobaaRulesSpec = ''noobaa-rules.yaml''"

definition addLabelA :: "string \<Rightarrow> string \<Rightarrow> ('w, unit) ract" where
  "addLabelA label value =
     bindA (getR (\<lambda>r. Body (rNoobaaRules r))) (\<lambda>groups.
     bindA (liftA (addLabel label value groups)) (\<lambda>groups'. setBody fNoobaaRules (\<lambda>_. groups')))"

text \<open>The mutation after the text has been decoded.\<close>

definition labelNoobaaRules :: "'w env \<Rightarrow> rule_group list \<Rightarrow> ('w, unit) ract" where
  "labelNoobaaRules E groups =
     thenA (setBody fNoobaaRules (\<lambda>_. groups))
    (bindA (getR rCfg) (\<lambda>c.
     thenA (addLabelA ''variant'' (AddonVariant c))
    (thenA (addLabelA ''environment'' (AddonEnvironment c))
    (bindA (wrapA ''failed to get the clusterversion'' (clientList E kClusterVersion ''''))
      (\<lambda>clusterVersions.
        case find (\<lambda>cv. mName (ObjectMeta cv) = ''version'') clusterVersions of
          Some cv \<Rightarrow> addLabelA ''cluster_id'' (Body cv)
        | None \<Rightarrow> retA ())))))"

definition mutateNoobaaRules :: "'w env \<Rightarrow> ('w, unit) ract" where
  "mutateNoobaaRules E =
     thenA (own fNoobaaRules)
    (bindA (getR (\<lambda>r. Body (rNoobaaRules r))) (\<lambda>old.
       case eYamlUnmarshalRules E noobaaRulesSpec old of
         Inl err \<Rightarrow> failA (WrapErr ''failed to unmarshal noobaa-rules.yaml'' err)
       | Inr groups \<Rightarrow> labelNoobaaRules E groups))"

definition reconcileNoobaaRules :: "'w env \<Rightarrow> ('w, unit) ract" where
  "reconcileNoobaaRules E =
     wrapA ''failed to reconcile custom Noobaa Prometheus Rules''
      (thenA (CreateOrUpdate E kPrometheusRule fNoobaaRules (mutateNoobaaRules E)) (retA ()))"

section \<open>The monitoring phase\<close>

definition reconcileAlertMonitoring :: "'w env \<Rightarrow> ('w, unit) ract" where
  "reconcileAlertMonitoring E =
     thenA (reconcileAlertRelabelConfigSecret E)
    (thenA (reconcilePrometheus E)
    (thenA (reconcileAlertmanager E)
    (thenA (reconcileAlertmanagerConfig E)
    (thenA (reconcileMonitoringResources E)
    (thenA (reconcileDMSPrometheusRule E)
    (thenA (reconcileNoobaaRules E)
           (retA ())))))))"

section \<open>Requests\<close>

context write_frame
begin

lemma keeps_reconcileAlertRelabelConfigSecret [keeps_intros]:
  assumes "KSecret \<in> W"
  shows "keepsA (onW I) (reconcileAlertRelabelConfigSecret E)"
  unfolding reconcileAlertRelabelConfigSecret_def by (intro keeps_intros adm_intros) (use assms in auto)

lemma keeps_reconcileKubeRBACConfigMap [keeps_intros]:
  assumes "KConfigMap \<in> W"
  shows "keepsA (onW I) (reconcileKubeRBACConfigMap E)"
  unfolding reconcileKubeRBACConfigMap_def by (intro keeps_intros adm_intros) (use assms in auto)

lemma keeps_reconcilePrometheusService [keeps_intros]:
  assumes "KService \<in> W"
  shows "keepsA (onW I) (reconcilePrometheusService E)"
  unfolding reconcilePrometheusService_def by (intro keeps_intros adm_intros) (use assms in auto)

lemma keeps_reconcilePrometheusProxyNetworkPolicy [keeps_intros]:
  assumes "KNetworkPolicy \<in> W"
  shows "keepsA (onW I) (reconcilePrometheusProxyNetworkPolicy E)"
  unfolding reconcilePrometheusProxyNetworkPolicy_def by (intro keeps_intros adm_intros) (use assms in auto)

lemma keeps_setRemoteWrite0 [keeps_intros]: "keepsA (onW I) (setRemoteWrite0 f)"
  unfolding setRemoteWrite0_def by (intro keeps_intros adm_intros)

lemma keeps_configureRHOBSRemoteWrite [keeps_intros]: "keepsA (onW I) (configureRHOBSRemoteWrite E)"
  unfolding configureRHOBSRemoteWrite_def configureRHOBS_fetched_def by (intro keeps_intros adm_intros)

lemma keeps_setAlertmanagerNamespace [keeps_intros]: "keepsA (onW I) (setAlertmanagerNamespace ns)"
  unfolding setAlertmanagerNamespace_def by (intro keeps_intros adm_intros)

lemma keeps_mutatePrometheus [keeps_intros]: "keepsA (onW I) (mutatePrometheus E)"
  unfolding mutatePrometheus_def by (intro keeps_intros adm_intros)

lemma keeps_reconcilePrometheus [keeps_intros]:
  assumes "KPrometheus \<in> W"
  shows "keepsA (onW I) (reconcilePrometheus E)"
  unfolding reconcilePrometheus_def by (intro keeps_intros adm_intros) (use assms in auto)

lemma keeps_reconcileAlertmanager [keeps_intros]:
  assumes "KAlertmanager \<in> W"
  shows "keepsA (onW I) (reconcileAlertmanager E)"
  unfolding reconcileAlertmanager_def by (intro keeps_intros adm_intros) (use assms in auto)

lemma keeps_configReceiver [keeps_intros]: "keepsA (onW I) (configReceiver url addrs html)"
  unfolding configReceiver_def by (intro keeps_intros adm_intros)

lemma keeps_checkPrerequisites [keeps_intros]: "keepsA (onW I) (checkPrerequisites E)"
  unfolding checkPrerequisites_def by (intro keeps_intros adm_intros)

lemma keeps_checkSmtpParams [keeps_intros]: "keepsA (onW I) (checkSmtpParams d)"
  unfolding checkSmtpParams_def by (intro keeps_intros adm_intros)

lemma keeps_mutateAlertmanagerConfig [keeps_intros]: "keepsA (onW I) (mutateAlertmanagerConfig E)"
  unfolding mutateAlertmanagerConfig_def configureNotifications_def by (intro keeps_intros adm_intros)

lemma keeps_reconcileAlertmanagerConfig [keeps_intros]:
  assumes "KAlertmanagerConfig \<in> W"
  shows "keepsA (onW I) (reconcileAlertmanagerConfig E)"
  unfolding reconcileAlertmanagerConfig_def by (intro keeps_intros adm_intros) (use assms in auto)

lemma keeps_labelAndUpdate_pod [keeps_intros]:
  assumes "KPodMonitor \<in> W"
  shows "keepsA (onW I) (labelAndUpdate E kPodMonitor ob)"
  unfolding labelAndUpdate_def by (intro keeps_intros adm_intros) (use assms in auto)

lemma keeps_labelAndUpdate_service [keeps_intros]:
  assumes "KServiceMonitor \<in> W"
  shows "keepsA (onW I) (labelAndUpdate E kServiceMonitor ob)"
  unfolding labelAndUpdate_def by (intro keeps_intros adm_intros) (use assms in auto)

lemma keeps_labelPrometheusRule [keeps_intros]:
  assumes "KPrometheusRule \<in> W"
  shows "keepsA (onW I) (labelPrometheusRule E ob)"
  unfolding labelPrometheusRule_def labelAndUpdate_def by (intro keeps_intros adm_intros) (use assms in auto)

lemma keeps_reconcileMonitoringResources [keeps_intros]:
  assumes "KPodMonitor \<in> W" and "KServiceMonitor \<in> W" and "KPrometheusRule \<in> W"
  shows "keepsA (onW I) (reconcileMonitoringResources E)"
  unfolding reconcileMonitoringResources_def by (intro keeps_intros adm_intros) (use assms in auto)

lemma keeps_reconcileDMSPrometheusRule [keeps_intros]:
  assumes "KPrometheusRule \<in> W"
  shows "keepsA (onW I) (reconcileDMSPrometheusRule E)"
  unfolding reconcileDMSPrometheusRule_def by (intro keeps_intros adm_intros) (use assms in auto)

lemma keeps_addLabelA [keeps_intros]: "keepsA (onW I) (addLabelA l v)"
  unfolding addLabelA_def by (intro keeps_intros adm_intros)

lemma keeps_mutateNoobaaRules [keeps_intros]: "keepsA (onW I) (mutateNoobaaRules E)"
  unfolding mutateNoobaaRules_def labelNoobaaRules_def by (intro keeps_intros adm_intros)

lemma keeps_reconcileNoobaaRules [keeps_intros]:
  assumes "KPrometheusRule \<in> W"
  shows "keepsA (onW I) (reconcileNoobaaRules E)"
  unfolding reconcileNoobaaRules_def by (intro keeps_intros adm_intros) (use assms in auto)

lemma keeps_reconcileAlertMonitoring [keeps_intros]:
  assumes "{KSecret, KPrometheus, KAlertmanager, KAlertmanagerConfig, KPodMonitor,
    KServiceMonitor, KPrometheusRule} \<subseteq> W"
  shows "keepsA (onW I) (reconcileAlertMonitoring E)"
  unfolding reconcileAlertMonitoring_def by (intro keeps_intros adm_intros) (use assms in auto)

end

section \<open>Notification addresses\<close>

lemma alertingAddresses_acc:
  "\<exists>n. i \<le> n \<and> fmlookup p (alertingAddressKey n) = None \<and>
     map Some (alertingAddresses p i acc) =
       map Some acc @ map (\<lambda>j. fmlookup p (alertingAddressKey j)) [i..<n]"
proof (induction p i acc rule: alertingAddresses.induct)
  case (1 p i acc)
  show ?case
  proof (cases "fmlookup p (alertingAddressKey i)")
    case None
    then show ?thesis by (intro exI [of _ i]) (simp add: alertingAddresses.simps [of p i acc])
  next
    case (Some a)
    from 1 [OF Some] obtain n where "Suc i \<le> n" "fmlookup p (alertingAddressKey n) = None"
      "map Some (alertingAddresses p (Suc i) (acc @ [a])) =
         map Some (acc @ [a]) @ map (\<lambda>j. fmlookup p (alertingAddressKey j)) [Suc i..<n]"
      by blast
    with Some show ?thesis
      by (intro exI [of _ n]) (simp add: alertingAddresses.simps [of p i acc] upt_conv_Cons)
  qed
qed

text \<open>
  C28. The loop over the numbered notification addresses ends at the first gap: it collects the
  values of the parameters 0, 1, 2 and so on below the first number \<open>n\<close> without a parameter, in order
  and nothing from behind the gap, and \<open>n\<close> is at most the number of addon parameters.
\<close>

theorem alertingAddresses_bounded:
  "\<exists>n. n \<le> fcard (fmdom p) \<and> fmlookup p (alertingAddressKey n) = None \<and>
     map Some (alertingAddresses p 0 []) = map (\<lambda>i. fmlookup p (alertingAddressKey i)) [0..<n]"
proof -
  obtain n where gap: "fmlookup p (alertingAddressKey n) = None"
    and n: "map Some (alertingAddresses p 0 []) = map (\<lambda>j. fmlookup p (alertingAddressKey j)) [0..<n]"
    using alertingAddresses_acc [of 0 p "[]"] by auto
  have "fmlookup p (alertingAddressKey j) \<noteq> None" if "j < n" for j
  proof -
    have "length (alertingAddresses p 0 []) = n" using arg_cong [OF n, of length] by simp
    with that arg_cong [OF n, of "\<lambda>xs. xs ! j"] show ?thesis by (auto intro: sym)
  qed
  then have "alertingAddressKey ` {0..<n} \<subseteq> fset (fmdom p)" by (auto simp: fmlookup_dom_iff)
  then have "card (alertingAddressKey ` {0..<n}) \<le> card (fset (fmdom p))" by (simp add: card_mono)
  moreover have "inj_on alertingAddressKey {0..<n}" by (simp add: inj_on_def)
  then have "card (alertingAddressKey ` {0..<n}) = n" using card_image by fastforce
  ultimately have "n \<le> fcard (fmdom p)" by (simp add: fcard.rep_eq)
  with gap n show ?thesis by blast
qed

section \<open>Receivers\<close>

text \<open>
  On the receivers of the template the rewriting never panics, whatever the configuration and
  the secrets: the PagerDuty receiver gets the key reference and the SOP link, the dead man's snitch
  its URL, and the mail receiver the SMTP host, the credentials and the addresses when there is an
  address and stays as in the template otherwise; the first receiver is left alone.
\<close>

lemma configReceivers_template:
  "mapO (configReceiver1 c smtpData dmsURL addresses smtpHTML) (acReceivers AlertmanagerConfigTemplate) =
     (case acReceivers AlertmanagerConfigTemplate of
        [null', pagerduty, snitch, mail] \<Rightarrow> Ok [null',
          pagerduty\<lparr>rvPagerDutyConfigs := [\<lparr>
            pdServiceKey = Some (zero_selector\<lparr>sksName := PagerdutySecretName c, sksKey := ''PAGERDUTY_KEY''\<rparr>),
            pdDetails = [(''SOP'', SOPEndpoint c)], pdRest = ''''\<rparr>]\<rparr>,
          snitch\<lparr>rvWebhookConfigs := [\<lparr>whURL = Some dmsURL, whRest = ''''\<rparr>]\<rparr>,
          (if addresses = [] then mail
           else mail\<lparr>rvEmailConfigs := map (\<lambda>em. em\<lparr>
             emSmarthost := JoinHostPort (gm_str smtpData ''host'') (gm_str smtpData ''port''),
             emAuthUsername := gm_str smtpData ''username'',
             emAuthPassword := Some (zero_selector\<lparr>sksName := SMTPSecretName c, sksKey := ''password''\<rparr>),
             emFrom := AlertSMTPFrom c, emTo := str_join addresses '', '', emHTML := smtpHTML\<rparr>)
             (rvEmailConfigs mail)\<rparr>)]
      | _ \<Rightarrow> Panic ''template'')"
  by (simp add: AlertmanagerConfigTemplate_def template_receivers_def configReceiver1_def
      configPagerduty_def configWebhook_def configEmail_def)

section \<open>The Alertmanager configuration\<close>

text \<open>What the fetches of the prerequisites leave alone, and what they have checked.\<close>

lemma checkPrerequisites_Ok:
  assumes "checkPrerequisites E s = (Ok u, s')"
  shows "gm_str (Body (rPagerdutySecret (rc s'))) ''PAGERDUTY_KEY'' \<noteq> '''' \<and>
    rCfg (rc s') = rCfg (rc s) \<and> rAddonParams (rc s') = rAddonParams (rc s) \<and>
    GetControllerOf (ObjectMeta (rAlertmanagerConfig (rc s'))) =
      Some (controllerRef KManagedMCG (ObjectMeta (rManagedMCG (rc s'))))"
proof -
  from assms obtain v1 s1 v2 s2 v3 s3 where
    own: "own fAlertmanagerConfig s = (Ok v1, s1)"
    and pd: "r_get E kSecret fPagerdutySecret s1 = (Ok v2, s2)"
    and key: "gm_str (Body (rPagerdutySecret (rc s2))) ''PAGERDUTY_KEY'' \<noteq> ''''"
    and s3: "s3 = snd (r_get E kSecret fDeadMansSnitchSecret s2)"
    and s': "s' = s3"
    unfolding checkPrerequisites_def
    by (fastforce simp: getR_def readA_def retA_def failA_def tryA_def
        elim!: thenA_Ok bindA_Ok split: if_splits sum.splits prod.splits outcome.splits)
  obtain m where m: "SetControllerReference KManagedMCG (ObjectMeta (rManagedMCG (rc s)))
      (ObjectMeta (rAlertmanagerConfig (rc s))) = Inr m"
    and s1: "s1 = s\<lparr>rc := (rc s)\<lparr>rAlertmanagerConfig := (rAlertmanagerConfig (rc s))\<lparr>ObjectMeta := m\<rparr>\<rparr>\<rparr>"
    using own_Ok [OF own] by auto
  obtain x w where s2: "s2 = s1\<lparr>wd := w, rc := rPagerdutySecret_update (\<lambda>_. x) (rc s1)\<rparr>"
    using r_get_Ok [OF pd] by auto
  obtain f w' where "s3 = s2\<lparr>wd := w', rc := f (rc s2)\<rparr>"
    and "f = id \<or> (\<exists>x. f = rDeadMansSnitchSecret_update (\<lambda>_. x))"
    using r_get_rc [of E kSecret fDeadMansSnitchSecret s2] s3 by auto
  with s' s2 s1 key SetControllerReference_controller [OF m] show ?thesis by auto
qed

lemma checkSmtpParams_Ok:
  assumes "checkSmtpParams d s = (Ok u, s')"
  shows "s' = s \<and> list_all (\<lambda>p. gm_str d p \<noteq> '''') smtpParams"
  using assms by (auto simp: checkSmtpParams_def smtpParams_def act_unfold split: if_splits)

lemma configReceiver_Ok:
  assumes "configReceiver dmsURL addresses html s = (Ok u, s')"
  shows "wd s' = wd s \<and> (\<exists>receivers.
    mapO (configReceiver1 (rCfg (rc s)) (Body (rSmtpSecret (rc s))) dmsURL addresses html)
      (acReceivers AlertmanagerConfigTemplate) = Ok receivers \<and>
    rc s' = (rc s)\<lparr>rAlertmanagerConfig := \<lparr>
      ObjectMeta = (ObjectMeta (rAlertmanagerConfig (rc s)))\<lparr>mLabels := GoMap (fmupd monLabelKey monLabelValue
        (gm_fmap (mLabels (ObjectMeta (rAlertmanagerConfig (rc s))))))\<rparr>,
      Body = AlertmanagerConfigTemplate\<lparr>acReceivers := receivers\<rparr>\<rparr>\<rparr>)"
  using assms
  by (auto simp: configReceiver_def setBody_def setMetaA_def setF_def setR_def getR_def AddLabel_Ok
      act_unfold split: prod.splits outcome.splits)

lemma configureNotifications_Ok:
  assumes "configureNotifications E dmsURL s = (Ok u, s')"
  shows "list_all (\<lambda>p. gm_str (Body (rSmtpSecret (rc s'))) p \<noteq> []) smtpParams \<and>
    (\<exists>html. mapO (configReceiver1 (rCfg (rc s')) (Body (rSmtpSecret (rc s'))) dmsURL
        (alertingAddresses (rAddonParams (rc s')) 0 []) html)
      (acReceivers AlertmanagerConfigTemplate) = Ok (acReceivers (Body (rAlertmanagerConfig (rc s'))))) \<and>
    gm_lookup (mLabels (ObjectMeta (rAlertmanagerConfig (rc s')))) monLabelKey = Some monLabelValue \<and>
    mOwnerReferences (ObjectMeta (rAlertmanagerConfig (rc s'))) =
      mOwnerReferences (ObjectMeta (rAlertmanagerConfig (rc s))) \<and>
    rManagedMCG (rc s') = rManagedMCG (rc s) \<and> rPagerdutySecret (rc s') = rPagerdutySecret (rc s) \<and>
    rDeadMansSnitchSecret (rc s') = rDeadMansSnitchSecret (rc s)"
proof -
  let ?s1 = "snd (r_get E kSecret fSmtpSecret s)"
  have "\<exists>t v. (checkSmtpParams (Body (rSmtpSecret (rc ?s1))) ?s1 = (Ok v, t)) \<and>
     bindA (wrapA ''unable to read customernotification.html file''
       (reqA (eReadFile E (CustomerNotificationHTMLPath (rCfg (rc t)))))) (\<lambda>smtpHTML.
         configReceiver dmsURL (alertingAddresses (rAddonParams (rc s)) 0 []) smtpHTML) t = (Ok u, s')"
    using assms r_get_no_panic [of E kSecret fSmtpSecret s]
    unfolding configureNotifications_def bindA_getR bindA_tryA
    by (auto simp: failA_def bindA_getR elim!: thenA_Ok split: prod.splits outcome.splits if_splits)
  then obtain html w where smtp: "list_all (\<lambda>p. gm_str (Body (rSmtpSecret (rc ?s1))) p \<noteq> []) smtpParams"
    and rcv: "configReceiver dmsURL (alertingAddresses (rAddonParams (rc s)) 0 []) html (?s1\<lparr>wd := w\<rparr>)
      = (Ok u, s')"
    by (auto simp: reqA_def wrapA_def bindA_def dest!: checkSmtpParams_Ok split: prod.splits sum.splits)
  obtain f w' where "?s1 = s\<lparr>wd := w', rc := f (rc s)\<rparr>"
    and "f = id \<or> (\<exists>x. f = rSmtpSecret_update (\<lambda>_. x))"
    using r_get_rc [of E kSecret fSmtpSecret s] by auto
  with configReceiver_Ok [OF rcv] smtp show ?thesis by auto
qed


section \<open>Labels\<close>

text \<open>Reads, and updates of the three kinds with the label where it belongs.\<close>

fun monitoring_requests :: "request \<Rightarrow> bool" where
  "monitoring_requests (ReqUpdate ob) =
     (obj_kind ob \<in> {KPodMonitor, KServiceMonitor, KPrometheusRule} \<and>
      (gm_lookup (mLabels (ObjectMeta ob)) monLabelKey = Some monLabelValue \<longleftrightarrow>
       \<not> (obj_kind ob = KPrometheusRule \<and> mName (ObjectMeta ob) = noobaaPrometheusRules)))"
| "monitoring_requests (ReqCreate ob) = False"
| "monitoring_requests (ReqDelete k n) = False"
| "monitoring_requests (ReqStatusUpdate ob) = False"
| "monitoring_requests q = True"

lemma keeps_labelAndUpdate_requests:
  assumes "obj_kind (untype K ob) \<in> {KPodMonitor, KServiceMonitor, KPrometheusRule}"
    and "\<not> (obj_kind (untype K ob) = KPrometheusRule \<and> mName (ObjectMeta ob) = noobaaPrometheusRules)"
  shows "keepsA (onW (log_within monitoring_requests)) (labelAndUpdate (recording E) K ob)"
  using assms unfolding labelAndUpdate_def
  by (auto simp: AddLabel_Ok liftA_def bindA_def untype_def keepsA_def onW_def
      intro!: rec.keeps_r_updateLocal [unfolded keepsA_def onW_def, rule_format])

lemma keeps_labelPrometheusRule_requests:
  "keepsA (onW (log_within monitoring_requests)) (labelPrometheusRule (recording E) ob)"
proof (cases "mName (ObjectMeta ob) = noobaaPrometheusRules")
  case True
  then show ?thesis
    unfolding labelPrometheusRule_def
    by (auto intro!: rec.keeps_r_updateLocal simp: untype_def kPrometheusRule_def RemoveLabel_def)
next
  case False
  then show ?thesis
    by (simp add: labelPrometheusRule_def) (intro keeps_labelAndUpdate_requests; simp)
qed


section \<open>Rule labels\<close>

definition rule_with :: "string \<Rightarrow> string \<Rightarrow> rule \<Rightarrow> rule" where
  "rule_with label value u = u\<lparr>ruLabels := GoMap (fmupd label value (gm_fmap (ruLabels u)))\<rparr>"

definition group_with :: "string \<Rightarrow> string \<Rightarrow> rule_group \<Rightarrow> rule_group" where
  "group_with label value g = g\<lparr>rgRules := map (rule_with label value) (rgRules g)\<rparr>"

lemma addLabel_eq: "addLabel label value groups = Ok (map (group_with label value) groups)"
proof -
  have "addRuleLabel label value u = Ok (rule_with label value u)" for u
    by (simp add: addRuleLabel_def putRuleLabel_def gm_put_ensure rule_with_def)
  then have "onRules (addRuleLabel label value) g = Ok (group_with label value g)" for g
    by (simp add: onRules_def group_with_def mapO_Ok [where g = "rule_with label value"])
  then show ?thesis
    by (simp add: addLabel_def mapO_Ok [where g = "group_with label value"])
qed

definition rule_has :: "string \<Rightarrow> string \<Rightarrow> rule \<Rightarrow> bool" where
  "rule_has label value u \<longleftrightarrow> gm_lookup (ruLabels u) label = Some value"

definition groups_have :: "string \<Rightarrow> string \<Rightarrow> rule_group list \<Rightarrow> bool" where
  "groups_have label value groups \<longleftrightarrow> list_all (\<lambda>g. list_all (rule_has label value) (rgRules g)) groups"

lemma groups_have_with [simp]: "groups_have label value (map (group_with label value) groups)"
  by (auto simp: groups_have_def group_with_def rule_has_def rule_with_def list_all_iff)

lemma groups_have_with_other:
  "label \<noteq> label' \<Longrightarrow> groups_have label value groups \<Longrightarrow>
   groups_have label value (map (group_with label' value') groups)"
  by (auto simp: groups_have_def group_with_def rule_has_def rule_with_def list_all_iff gm_lookup_def gm_fmap_def)

lemma addLabelA_eq:
  "addLabelA label value s =
     (Ok (), s\<lparr>rc := (rc s)\<lparr>rNoobaaRules := (rNoobaaRules (rc s))\<lparr>Body :=
        map (group_with label value) (Body (rNoobaaRules (rc s)))\<rparr>\<rparr>\<rparr>)"
  by (simp add: addLabelA_def addLabel_eq setBody_def setR_def getR_def act_unfold)

abbreviation clusterVersionLabel :: "'w env \<Rightarrow> ('w, unit) ract" where
  "clusterVersionLabel E \<equiv>
     bindA (wrapA ''failed to get the clusterversion'' (clientList E kClusterVersion [])) (\<lambda>cvs.
       case find (\<lambda>cv. mName (ObjectMeta cv) = ''version'') cvs of
         Some cv \<Rightarrow> addLabelA ''cluster_id'' (Body cv) | None \<Rightarrow> retA ())"

lemma clusterVersionLabel_Ok:
  assumes "clusterVersionLabel E t = (Ok u, s')"
    and "groups_have ''variant'' v (Body (rNoobaaRules (rc t)))"
    and "groups_have ''environment'' e (Body (rNoobaaRules (rc t)))"
  shows "groups_have ''variant'' v (Body (rNoobaaRules (rc s'))) \<and>
    groups_have ''environment'' e (Body (rNoobaaRules (rc s'))) \<and>
    (\<exists>cvs (t :: (reconciler, _) sys). clientList E kClusterVersion [] t = (Ok cvs, t\<lparr>wd := wd s'\<rparr>) \<and>
       (case find (\<lambda>cv. mName (ObjectMeta cv) = ''version'') cvs of
          None \<Rightarrow> True
        | Some cv \<Rightarrow> groups_have ''cluster_id'' (Body cv) (Body (rNoobaaRules (rc s')))))"
proof -
  from assms(1) obtain cvs t' where "wrapA ''failed to get the clusterversion''
      (clientList E kClusterVersion []) t = (Ok cvs, t')"
    and last: "(case find (\<lambda>cv. mName (ObjectMeta cv) = ''version'') cvs of
        Some cv \<Rightarrow> addLabelA ''cluster_id'' (Body cv) | None \<Rightarrow> retA ()) t' = (Ok u, s')"
    by (rule bindA_Ok)
  then have list: "clientList E kClusterVersion [] t = (Ok cvs, t')" by simp
  then obtain w where t: "t' = t\<lparr>wd := w\<rparr>" using clientList_Ok by blast
  from list t have ex: "\<exists>t :: (reconciler, _) sys. clientList E kClusterVersion [] t = (Ok cvs, t\<lparr>wd := w\<rparr>)" by blast
  show ?thesis
  proof (cases "find (\<lambda>cv. mName (ObjectMeta cv) = ''version'') cvs")
    case None
    with last t have "s' = t\<lparr>wd := w\<rparr>" by (simp add: retA_def)
    with assms(2,3) ex None show ?thesis by (intro conjI exI [of _ cvs]) simp_all
  next
    case (Some cv)
    with last t have "s' = t\<lparr>wd := w, rc := (rc t)\<lparr>rNoobaaRules := (rNoobaaRules (rc t))\<lparr>Body :=
        map (group_with ''cluster_id'' (Body cv)) (Body (rNoobaaRules (rc t)))\<rparr>\<rparr>\<rparr>"
      by (simp add: addLabelA_eq)
    with assms(2,3) ex Some show ?thesis
      by (intro conjI exI [of _ cvs]) (simp_all add: groups_have_with_other)
  qed
qed

lemma labelNoobaaRules_Ok:
  assumes "labelNoobaaRules E groups s = (Ok u, s')"
  shows "groups_have ''variant'' (AddonVariant (rCfg (rc s))) (Body (rNoobaaRules (rc s'))) \<and>
    groups_have ''environment'' (AddonEnvironment (rCfg (rc s))) (Body (rNoobaaRules (rc s'))) \<and>
    (\<exists>cvs (t :: (reconciler, _) sys). clientList E kClusterVersion [] t = (Ok cvs, t\<lparr>wd := wd s'\<rparr>) \<and>
       (case find (\<lambda>cv. mName (ObjectMeta cv) = ''version'') cvs of
          None \<Rightarrow> True
        | Some cv \<Rightarrow> groups_have ''cluster_id'' (Body cv) (Body (rNoobaaRules (rc s')))))"
proof -
  let ?groups = "map (group_with ''environment'' (AddonEnvironment (rCfg (rc s))))
    (map (group_with ''variant'' (AddonVariant (rCfg (rc s)))) groups)"
  let ?t = "s\<lparr>rc := (rc s)\<lparr>rNoobaaRules := (rNoobaaRules (rc s))\<lparr>Body := ?groups\<rparr>\<rparr>\<rparr>"
  from assms have "clusterVersionLabel E ?t = (Ok u, s')"
    by (simp add: labelNoobaaRules_def thenA_run setBody_run addLabelA_eq bindA_getR)
  then show ?thesis
    by (rule clusterVersionLabel_Ok) (simp_all add: groups_have_with_other del: map_map)
qed

text \<open>
  C30. \<open>addLabel\<close> sets the label on every rule of every group, creating the label map where a rule has
  none, keeps every other label and everything else, and never panics. After the mutation of the
  NooBaa rules every rule therefore carries the variant and the environment of the configuration,
  whatever the YAML text said, and the cluster id where the cluster version object was listed.
\<close>

theorem mutateNoobaaRules_labels:
  "addLabel label value groups = Ok (map (group_with label value) groups) \<and>
   (case mutateNoobaaRules E s of
      (Ok _, s') \<Rightarrow>
        groups_have ''variant'' (AddonVariant (rCfg (rc s))) (Body (rNoobaaRules (rc s'))) \<and>
        groups_have ''environment'' (AddonEnvironment (rCfg (rc s))) (Body (rNoobaaRules (rc s'))) \<and>
        (\<exists>cvs (t :: (reconciler, _) sys). clientList E kClusterVersion [] t = (Ok cvs, t\<lparr>wd := wd s'\<rparr>) \<and>
           (case find (\<lambda>cv. mName (ObjectMeta cv) = ''version'') cvs of
              None \<Rightarrow> True
            | Some cv \<Rightarrow> groups_have ''cluster_id'' (Body cv) (Body (rNoobaaRules (rc s')))))
    | _ \<Rightarrow> True)"
proof (intro conjI)
  show "addLabel label value groups = Ok (map (group_with label value) groups)"
    by (rule addLabel_eq)
next
  show "case mutateNoobaaRules E s of
      (Ok _, s') \<Rightarrow>
        groups_have ''variant'' (AddonVariant (rCfg (rc s))) (Body (rNoobaaRules (rc s'))) \<and>
        groups_have ''environment'' (AddonEnvironment (rCfg (rc s))) (Body (rNoobaaRules (rc s'))) \<and>
        (\<exists>cvs (t :: (reconciler, _) sys). clientList E kClusterVersion [] t = (Ok cvs, t\<lparr>wd := wd s'\<rparr>) \<and>
           (case find (\<lambda>cv. mName (ObjectMeta cv) = ''version'') cvs of
              None \<Rightarrow> True
            | Some cv \<Rightarrow> groups_have ''cluster_id'' (Body cv) (Body (rNoobaaRules (rc s')))))
    | _ \<Rightarrow> True"
  proof (cases "fst (mutateNoobaaRules E s)")
    case (Ok u)
    then obtain s' where run: "mutateNoobaaRules E s = (Ok u, s')" by (metis prod.collapse)
    then obtain v s1 where own: "own fNoobaaRules s = (Ok v, s1)"
      and rest: "bindA (getR (\<lambda>r. Body (rNoobaaRules r))) (\<lambda>old.
         case eYamlUnmarshalRules E noobaaRulesSpec old of
           Inl err \<Rightarrow> failA (WrapErr ''failed to unmarshal noobaa-rules.yaml'' err)
         | Inr groups \<Rightarrow> labelNoobaaRules E groups) s1 = (Ok u, s')"
      unfolding mutateNoobaaRules_def by (auto elim!: thenA_Ok)
    have cfg: "rCfg (rc s1) = rCfg (rc s)" using own_Ok [OF own] by auto
    from rest obtain groups where lab: "labelNoobaaRules E groups s1 = (Ok u, s')"
      by (auto simp: bindA_getR failA_def split: sum.splits)
    have "Ok u = fst (mutateNoobaaRules E s)" using Ok by simp
    show ?thesis
      using labelNoobaaRules_Ok [OF lab] cfg run by simp
  qed (auto split: prod.split)
qed

end
