(* ===== verification/Controller.thy ===== *)
theory Controller
  imports Monitoring
begin

text \<open>
  The reconciliation of a ManagedMCG resource (\<open>controllers/managedmcg_controller.go\<close>): the status
  of the components, the resources that a reconciliation maintains, the removal of NooBaa and of
  the operator itself, the choice between them (\<open>reconcilePhases\<close>) and the entry point
  (\<open>Reconcile\<close>).
\<close>

section \<open>Component status\<close>

definition CheckReplicaStatus :: "int32 \<Rightarrow> int32 \<Rightarrow> component_state" where
  "CheckReplicaStatus readyReplicas desiredReplicas =
     (if sint readyReplicas < sint desiredReplicas then ComponentPending else ComponentReady)"

definition setComponents ::
  "(component_status_map \<Rightarrow> component_status_map) \<Rightarrow> ('w, unit) ract" where
  "setComponents f =
     setBody fManagedMCG (\<lambda>b. b\<lparr>mcgStatus := (mcgStatus b)\<lparr>mstComponents :=
       f (mstComponents (mcgStatus b))\<rparr>\<rparr>)"

definition components :: "reconciler \<Rightarrow> component_status_map" where
  "components r = mstComponents (mcgStatus (Body (rManagedMCG r)))"

text \<open>The cases of the switch on the error of a fetch, with the state for each.\<close>

definition stateOfFetch ::
  "gerr + unit \<Rightarrow> ('w, component_state) ract \<Rightarrow> ('w, component_state) ract" where
  "stateOfFetch res found =
     (case res of
        Inr _ \<Rightarrow> found
      | Inl err \<Rightarrow> if IsNotFound err then retA ComponentNotFound else retA ComponentUnknown)"

definition UpdateNoobaaComponentStatus :: "'w env \<Rightarrow> ('w, unit) ract" where
  "UpdateNoobaaComponentStatus E =
     bindA (tryA (r_get E kNooBaa fNoobaa)) (\<lambda>res.
     bindA (stateOfFetch res
       (bindA (getR (\<lambda>r. nooPhase (Body (rNoobaa r)))) (\<lambda>phase.
          retA (if phase = ''Ready'' then ComponentReady else ComponentPending)))) (\<lambda>state.
       setComponents (csNoobaa_update (\<lambda>_. state))))"

text \<open>The state of a workload against the replicas that are wanted; any error is pending.\<close>

definition workloadState ::
  "'w env \<Rightarrow> workload kdesc \<Rightarrow> nn \<Rightarrow> int32 option \<Rightarrow> ('w, component_state) ract" where
  "workloadState E K key replicas =
     bindA (tryA (r_getLocal E K key)) (\<lambda>res.
       case res of
         Inr wl \<Rightarrow>
           (let desiredReplicas = (case replicas of None \<Rightarrow> 1 | Some n \<Rightarrow> n)
            in retA (CheckReplicaStatus (wlReadyReplicas (Body wl)) desiredReplicas))
       | Inl _ \<Rightarrow> retA ComponentPending)"

definition UpdatePrometheusComponentStatus :: "'w env \<Rightarrow> ('w, unit) ract" where
  "UpdatePrometheusComponentStatus E =
     bindA (tryA (r_get E kPrometheus fPrometheus)) (\<lambda>res.
     bindA (stateOfFetch res
       (bindA (getR (\<lambda>r. (rNamespace r, psReplicas (promSpec (Body (rPrometheus r))))))
         (\<lambda>(ns, replicas).
            workloadState E kStatefulSet
              \<lparr>nnNamespace = ns, nnName = ''prometheus-'' @ prometheusName\<rparr> replicas))) (\<lambda>state.
       setComponents (csPrometheus_update (\<lambda>_. state))))"

definition UpdateAlertmanagerComponentStatus :: "'w env \<Rightarrow> ('w, unit) ract" where
  "UpdateAlertmanagerComponentStatus E =
     bindA (tryA (r_get E kAlertmanager fAlertmanager)) (\<lambda>res.
     bindA (stateOfFetch res
       (bindA (getR (\<lambda>r. (rNamespace r, asReplicas (amSpec (Body (rAlertmanager r))))))
         (\<lambda>(ns, replicas).
            workloadState E kStatefulSet
              \<lparr>nnNamespace = ns, nnName = ''alertmanager-'' @ alertmanagerName\<rparr> replicas))) (\<lambda>state.
       setComponents (csAlertmanager_update (\<lambda>_. state))))"

definition UpdateConsoleComponentStatus :: "'w env \<Rightarrow> ('w, unit) ract" where
  "UpdateConsoleComponentStatus E =
     bindA (tryA (r_get E kConsolePlugin fConsole)) (\<lambda>res.
     bindA (stateOfFetch res
       (bindA (getR rNamespace) (\<lambda>ns.
          workloadState E kDeployment
            \<lparr>nnNamespace = ns, nnName = mcgmsConsoleName\<rparr> None))) (\<lambda>state.
       setComponents (csConsole_update (\<lambda>_. state))))"

definition updateComponentStatus :: "'w env \<Rightarrow> ('w, unit) ract" where
  "updateComponentStatus E =
     thenA (UpdateNoobaaComponentStatus E)
    (thenA (UpdatePrometheusComponentStatus E)
    (thenA (UpdateAlertmanagerComponentStatus E)
           (UpdateConsoleComponentStatus E)))"

definition areComponentsReadyForUninstall :: "reconciler \<Rightarrow> bool" where
  "areComponentsReadyForUninstall r =
     (let subComponents = components r in
        csNoobaa subComponents = ComponentReady \<and>
        csPrometheus subComponents = ComponentReady \<and>
        csAlertmanager subComponents = ComponentReady \<and>
        csConsole subComponents = ComponentReady)"

section \<open>NooBaa\<close>

definition setNoobaaDesiredState :: "image_map \<Rightarrow> noobaa object \<Rightarrow> noobaa object outcome" where
  "setNoobaaDesiredState images desiredNoobaa =
     (case GetResourceRequirements ''noobaa-core'' of
        Panic p \<Rightarrow> Panic p | Err e \<Rightarrow> Err e
      | Ok coreResources \<Rightarrow>
     (case GetResourceRequirements ''noobaa-db'' of
        Panic p \<Rightarrow> Panic p | Err e \<Rightarrow> Err e
      | Ok dbResources \<Rightarrow>
     (case GetResourceRequirements ''noobaa-db-vol'' of
        Panic p \<Rightarrow> Panic p | Err e \<Rightarrow> Err e
      | Ok dBVolumeResources \<Rightarrow>
     (case GetResourceRequirements ''noobaa-endpoint'' of
        Panic p \<Rightarrow> Panic p | Err e \<Rightarrow> Err e
      | Ok endpointResources \<Rightarrow>
          Ok (desiredNoobaa\<lparr>
            ObjectMeta := (ObjectMeta desiredNoobaa)\<lparr>mLabels := gm_of [(''app'', ''noobaa'')]\<rparr>,
            Body := (Body desiredNoobaa)\<lparr>nooSpec := (nooSpec (Body desiredNoobaa))\<lparr>
              nsCoreResources := Some coreResources,
              nsDBResources := Some dbResources,
              nsDBVolumeResources := Some dBVolumeResources,
              nsImage := Some (imgNooBaaCore images),
              nsDBImage := Some (imgNooBaaDB images),
              nsDBType := ''postgres'',
              nsEndpoints := Some \<lparr>epMinCount = 1, epMaxCount = 2, epAdditionalVirtualHosts = [],
                epResources = Some endpointResources\<rparr>\<rparr>\<rparr>\<rparr>)))))"

definition mutateNoobaa ::
  "string gomap \<Rightarrow> string \<Rightarrow> noobaa object \<Rightarrow> ('w, unit) ract" where
  "mutateNoobaa noobaaAnnotations defaultBackingStore desiredNoobaa =
     thenA (whenA
       ((case gm_lookup noobaaAnnotations ''default-backing-store'' of
           None \<Rightarrow> True | Some annotationDefaultBackingStore \<Rightarrow> annotationDefaultBackingStore = '''')
         \<and> defaultBackingStore \<noteq> '''')
       (setMetaA fNoobaa (\<lambda>m. AddAnnotation m ''default-backing-store'' defaultBackingStore)))
     (setBody fNoobaa (\<lambda>b. b\<lparr>nooSpec := nooSpec (Body desiredNoobaa)\<rparr>))"

definition reconcileNoobaaComponent :: "'w env \<Rightarrow> ('w, unit) ract" where
  "reconcileNoobaaComponent E =
     bindA (getR (\<lambda>r. mAnnotations (ObjectMeta (rNoobaa r)))) (\<lambda>noobaaAnnotations.
     bindA (getDefaultBackingStore E) (\<lambda>defaultBackingStore.
     bindA (getR rImages) (\<lambda>images.
     bindA (liftA (setNoobaaDesiredState images
              (newObj '''' '''' (zero_noobaa\<lparr>nooSpec := NoobaaTemplate\<rparr>)))) (\<lambda>desiredNoobaa.
       wrapA ''failed to reconcile Noobaa''
        (thenA (CreateOrUpdate E kNooBaa fNoobaa
                 (mutateNoobaa noobaaAnnotations defaultBackingStore desiredNoobaa))
               (retA ()))))))"

section \<open>The OCS operator\<close>

definition ocsDeployments :: "string list" where
  "ocsDeployments = [''ocs-operator'', ''ocs-metrics-exporter'', ''rook-ceph-operator'']"

text \<open>
  The loop over the deployments of the CSV. Reading the replicas of a deployment that leaves them
  unset dereferences a nil pointer.
\<close>

fun downscale :: "strategy_deployment_spec list \<Rightarrow> bool \<Rightarrow>
    (strategy_deployment_spec list \<times> bool) outcome" where
  "downscale [] isChanged = Ok ([], isChanged)"
| "downscale (d # deployments) isChanged =
     (if sdName d \<in> set ocsDeployments then
        (case sdReplicas d of
           None \<Rightarrow> Panic ''nil pointer dereference''
         | Some replicaCount \<Rightarrow>
             (let changed = (replicaCount \<noteq> 0);
                  d' = (if changed then d\<lparr>sdReplicas := Some 0\<rparr> else d)
              in case downscale deployments (isChanged \<or> changed) of
                   Ok (ds, c) \<Rightarrow> Ok (d' # ds, c) | Err e \<Rightarrow> Err e | Panic p \<Rightarrow> Panic p))
      else
        (case downscale deployments isChanged of
           Ok (ds, c) \<Rightarrow> Ok (d # ds, c) | Err e \<Rightarrow> Err e | Panic p \<Rightarrow> Panic p))"

definition reconcileOCSCSV :: "'w env \<Rightarrow> ('w, unit) ract" where
  "reconcileOCSCSV E =
     bindA (getR components) (\<lambda>subComponents.
       if csNoobaa subComponents \<noteq> ComponentReady then retA ()
       else
         bindA (getCSVByPrefix E ''ocs-operator'') (\<lambda>csv'.
         bindA (liftA (downscale (csvDeploymentSpecs (Body csv')) False)) (\<lambda>(deployments, isChanged).
           if isChanged then
             wrapA ''failed to update OCS CSV''
               (r_updateLocal E kCSV
                 (csv'\<lparr>Body := (Body csv')\<lparr>csvDeploymentSpecs := deployments\<rparr>\<rparr>))
           else retA ())))"

section \<open>Console\<close>

text \<open>An action on a local variable beside the receiver.\<close>

definition withLocal :: "'x \<Rightarrow> (('r \<times> 'x, 'w) sys, 'a) act \<Rightarrow> (('r, 'w) sys, 'a) act" where
  "withLocal x m = (\<lambda>s. case m \<lparr>rc = (rc s, x), wd = wd s\<rparr> of
     (out, s') \<Rightarrow> (out, \<lparr>rc = fst (rc s'), wd = wd s'\<rparr>))"

abbreviation fLocal :: "(reconciler \<times> 'b object, 'b) field" where
  "fLocal \<equiv> (snd, \<lambda>f (r, x). (r, f x))"

definition mutateConsoleService ::
  "object_meta \<Rightarrow> ((reconciler \<times> service object, 'w) sys, unit) act" where
  "mutateConsoleService deploymentMeta =
     bindA (getR snd) (\<lambda>svc.
       case SetControllerReference KDeployment deploymentMeta (ObjectMeta svc) of
         Inl err \<Rightarrow> failA (WrapErr ''failed to set controller owner reference'' err)
       | Inr m \<Rightarrow> setF fLocal (svc\<lparr>ObjectMeta := m\<rparr>))"

definition ignoreAlreadyExists :: "string \<Rightarrow> gerr + operation_result \<Rightarrow> ('w, unit) ract" where
  "ignoreAlreadyExists msg res =
     (case res of
        Inl err \<Rightarrow> if \<not> IsAlreadyExists err then failA (WrapErr msg err) else retA ()
      | Inr _ \<Rightarrow> retA ())"

definition ensureConsolePlugin :: "'w env \<Rightarrow> ('w, unit) ract" where
  "ensureConsolePlugin E =
     bindA (getR (\<lambda>r. (rNamespace r, ConsolePort (rCfg r)))) (\<lambda>(ns, port).
     bindA (wrapA ''failed to get the deployment''
              (clientGet E kDeployment (object_key (GetDeployment ns)))) (\<lambda>mcgConsoleDeployment.
     bindA (tryA (withLocal (GetService port ns)
              (CreateOrUpdate E kService fLocal
                (mutateConsoleService (ObjectMeta mcgConsoleDeployment))))) (\<lambda>res.
     thenA (ignoreAlreadyExists ''failed to create/update console service'' res)
    (bindA (tryA (withLocal (GetConsolePluginCR port GetBasePath ns)
              (CreateOrUpdate E kConsolePlugin fLocal (retA ())))) (\<lambda>res.
       ignoreAlreadyExists ''failed to get console plugin CR'' res)))))"

definition reconcileConsoleCluster :: "'w env \<Rightarrow> ('w, unit) ract" where
  "reconcileConsoleCluster E =
     bindA (wrapA ''failed to reconcile console cluster'' (clientList E kConsole '''')) (\<lambda>clusters.
       if \<exists>cluster \<in> set clusters. Contains (conPlugins (Body cluster)) mcgmsConsoleName then retA ()
       else
         wrapA ''failed to reconcile ConsoleCluster''
          (thenA (CreateOrUpdate E kConsole fOperatorConsole
                   (setBody fOperatorConsole
                     (\<lambda>b. b\<lparr>conPlugins := conPlugins b @ [mcgmsConsoleName]\<rparr>)))
                 (retA ())))"

section \<open>The resources of a reconciliation\<close>

definition reconcileIngressNetworkPolicy :: "'w env \<Rightarrow> ('w, unit) ract" where
  "reconcileIngressNetworkPolicy E =
     wrapA ''failed to update ingress network policy''
      (thenA (CreateOrUpdate E kNetworkPolicy fIngressNetworkPolicy
        (thenA (own fIngressNetworkPolicy)
               (setBody fIngressNetworkPolicy (\<lambda>_. NetworkPolicyTemplate))))
      (retA ()))"

definition reconcileResources :: "'w env \<Rightarrow> ('w, unit) ract" where
  "reconcileResources E =
     thenA (reconcileNoobaaComponent E)
    (thenA (ensureConsolePlugin E)
    (thenA (reconcileConsoleCluster E)
    (thenA (reconcileOCSCSV E)
    (thenA (reconcileKubeRBACConfigMap E)
    (thenA (reconcilePrometheusService E)
    (thenA (reconcilePrometheusProxyNetworkPolicy E)
    (thenA (reconcileAlertMonitoring E)
    (thenA (reconcileIngressNetworkPolicy E)
           (retA ())))))))))"

section \<open>Finalizers and removal\<close>

definition setFinalizers :: "(reconciler, 'b) field \<Rightarrow> (string list \<Rightarrow> string list) \<Rightarrow> ('w, unit) ract" where
  "setFinalizers F f = setR (snd F (\<lambda>ob. ob\<lparr>ObjectMeta := (ObjectMeta ob)\<lparr>mFinalizers :=
     f (mFinalizers (ObjectMeta ob))\<rparr>\<rparr>))"

definition removeManagedMCG :: "'w env \<Rightarrow> ('w, unit) ract" where
  "removeManagedMCG E =
     thenA (setFinalizers fManagedMCG (\<lambda>fs. Remove fs ManagedMCGFinalizer))
           (wrapA ''failed to remove ManagedMCG finalizer'' (r_update E kManagedMCG fManagedMCG))"

definition addManagedMCG :: "'w env \<Rightarrow> ('w, unit) ract" where
  "addManagedMCG E =
     thenA (setFinalizers fManagedMCG (\<lambda>fs. fs @ [ManagedMCGFinalizer]))
           (wrapA ''failed to add ManagedMCG finalizer'' (r_update E kManagedMCG fManagedMCG))"

text \<open>Deletion of the listed objects one by one, through a field that holds the namespace.\<close>

definition deleteNamed ::
  "'w env \<Rightarrow> 'b kdesc \<Rightarrow> (reconciler, 'b) field \<Rightarrow> string \<Rightarrow> 'b object list \<Rightarrow> ('w, unit) ract" where
  "deleteNamed E K F msg items =
     forA (\<lambda>item.
       thenA (setR (snd F (\<lambda>ob. ob\<lparr>ObjectMeta := (ObjectMeta ob)\<lparr>mName := mName (ObjectMeta item)\<rparr>\<rparr>)))
             (wrapA msg (bindA (keyF F) (r_delete E K)))) items"

definition bucketClassesGone :: "'w env \<Rightarrow> ('w, bool) ract" where
  "bucketClassesGone E = bindA (r_list E kBucketClass) (\<lambda>items. retA (\<not> 0 < length items))"

text \<open>The three parts of \<open>removeNoobaa\<close>: the bucket classes, NooBaa itself, the stores.\<close>

definition drainBucketClasses :: "'w env \<Rightarrow> ('w, unit) ract" where
  "drainBucketClasses E =
     bindA (wrapA ''failed to get the bucketClasses'' (r_list E kBucketClass)) (\<lambda>bucketClasses.
     thenA (deleteNamed E kBucketClass (rNoobaaBucketClass, rNoobaaBucketClass_update)
              ''failed to delete bucketClasses'' bucketClasses)
    (let timeout = 10; interval = 2 in
       wrapA ''failed to get BucketClassList ''
         (PollImmediate E interval timeout (bucketClassesGone E))))"

definition deleteNoobaaCR :: "'w env \<Rightarrow> ('w, unit) ract" where
  "deleteNoobaaCR E =
     thenA (setFinalizers fNoobaa (\<lambda>fs. Remove fs noobaaFinalizer))
    (thenA (wrapA ''failed to remove Noobaa finalizer'' (updateF E kNooBaa fNoobaa))
           (wrapA ''failed to delete Noobaa CR'' (bindA (keyF fNoobaa) (r_delete E kNooBaa))))"

definition deleteStores :: "'w env \<Rightarrow> ('w, unit) ract" where
  "deleteStores E =
     bindA (wrapA ''failed to get the backingStores'' (r_list E kBackingStore)) (\<lambda>backingStores.
     thenA (deleteNamed E kBackingStore (rBackingStore, rBackingStore_update)
              ''failed to delete backingStores'' backingStores)
    (bindA (wrapA ''failed to get the namespaceStores'' (r_list E kNamespaceStore))
      (\<lambda>namespaceStores.
       deleteNamed E kNamespaceStore (rNamespaceStore, rNamespaceStore_update)
         ''failed to delete namespaceStores'' namespaceStores)))"

definition removeNoobaa :: "'w env \<Rightarrow> ('w, unit) ract" where
  "removeNoobaa E = thenA (drainBucketClasses E) (thenA (deleteNoobaaCR E) (deleteStores E))"

text \<open>
  The error of \<open>getCSVByPrefix\<close> is bound in the scope of the \<open>if\<close> only; the variable returned at
  the end is the outer one, which stays nil.
\<close>

definition removeOLMComponents :: "'w env \<Rightarrow> ('w, unit) ract" where
  "removeOLMComponents E =
     bindA (tryA (getCSVByPrefix E deployerCSVPrefix)) (\<lambda>res.
     thenA (case res of
              Inr csv' \<Rightarrow> wrapA ''failed to delete CSV'' (r_delete E kCSV (object_key csv'))
            | Inl _ \<Rightarrow> retA ())
           (retA ()))"

section \<open>Phases\<close>

definition verifyAddonDeletionKey :: "'w env \<Rightarrow> ('w, bool) ract" where
  "verifyAddonDeletionKey E =
     bindA (getR (\<lambda>r. (rNamespace r, rCfg r))) (\<lambda>(ns, c).
     bindA (tryA (r_getLocal E kConfigMap
              \<lparr>nnNamespace = ns, nnName = AddonConfigMapName c\<rparr>)) (\<lambda>res.
       case res of
         Inl _ \<Rightarrow> retA False
       | Inr configmap \<Rightarrow>
           retA (gm_lookup (mLabels (ObjectMeta configmap)) (AddonConfigMapDeleteLabelKey c)
             \<noteq> None)))"

definition updateAddonParams :: "'w env \<Rightarrow> ('w, unit) ract" where
  "updateAddonParams E =
     bindA (getR (\<lambda>r. (rNamespace r, rCfg r))) (\<lambda>(ns, c).
     bindA (tryA (r_getLocal E kSecret
              \<lparr>nnNamespace = ns, nnName = AddonParamSecretName c\<rparr>)) (\<lambda>res.
       case res of
         Inl _ \<Rightarrow> failA (PlainErr (''failed to get the addon parameters secret ''
                    @ AddonParamSecretName c))
       | Inr addonParamSecret \<Rightarrow>
           setR (rAddonParams_update (\<lambda>p. p ++\<^sub>f gm_fmap (Body addonParamSecret)))))"

definition deletionPhase :: "'w env \<Rightarrow> ('w, unit) ract" where
  "deletionPhase E =
     bindA (getR components) (\<lambda>cs.
       if csNoobaa cs = ComponentNotFound then removeManagedMCG E else removeNoobaa E)"

text \<open>The case of an existing resource, up to the assignment of the strategy to the status.\<close>

definition maintainManagedMCG :: "'w env \<Rightarrow> ('w, unit) ract" where
  "maintainManagedMCG E =
     bindA (getR (\<lambda>r. mFinalizers (ObjectMeta (rManagedMCG r)))) (\<lambda>finalizers.
     thenA (whenA (\<not> Contains finalizers ManagedMCGFinalizer) (addManagedMCG E))
    (thenA (setR (\<lambda>r. r\<lparr>rReconcileStrategy :=
              (if msReconcileStrategy (mcgSpec (Body (rManagedMCG r))) = ReconcileStrategyNone
               then ReconcileStrategyNone else ReconcileStrategyStrict)\<rparr>))
    (thenA (updateAddonParams E)
    (thenA (reconcileResources E)
    (bindA (getR rReconcileStrategy) (\<lambda>strategy.
       setBody fManagedMCG (\<lambda>b. b\<lparr>mcgStatus := (mcgStatus b)\<lparr>mstReconcileStrategy := strategy\<rparr>\<rparr>)))))))"

text \<open>The rest of the case: the resource is deleted when that is asked for and possible.\<close>

definition uninstallWhenReady :: "'w env \<Rightarrow> bool \<Rightarrow> ('w, unit) ract" where
  "uninstallWhenReady E foundAddonDeletionKey =
     bindA (getR areComponentsReadyForUninstall) (\<lambda>ready.
       whenA (foundAddonDeletionKey \<and> ready)
         (wrapA ''failed to delete ManagedMCG''
           (bindA (keyF fManagedMCG) (r_delete E kManagedMCG))))"

definition maintenancePhase :: "'w env \<Rightarrow> bool \<Rightarrow> ('w, unit) ract" where
  "maintenancePhase E foundAddonDeletionKey =
     thenA (maintainManagedMCG E) (uninstallWhenReady E foundAddonDeletionKey)"

text \<open>What follows the check for the deletion key.\<close>

definition dispatchPhases :: "'w env \<Rightarrow> bool \<Rightarrow> ('w, unit) ract" where
  "dispatchPhases E foundAddonDeletionKey =
     thenA (updateComponentStatus E)
    (bindA (getR rManagedMCG) (\<lambda>mcg.
       if \<not> time_IsZero (mDeletionTimestamp (ObjectMeta mcg)) then deletionPhase E
       else if mUID (ObjectMeta mcg) \<noteq> '''' then maintenancePhase E foundAddonDeletionKey
       else if foundAddonDeletionKey then removeOLMComponents E
       else retA ()))"

definition reconcilePhases :: "'w env \<Rightarrow> ('w, unit) ract" where
  "reconcilePhases E = bindA (verifyAddonDeletionKey E) (dispatchPhases E)"

definition updateStatus :: "'w env \<Rightarrow> ('w, gerr + unit) ract" where
  "updateStatus E =
     bindA (getR rManagedMCG) (\<lambda>mcg.
       if mUID (ObjectMeta mcg) \<noteq> '''' then
         tryA (bindA (clientStatusUpdate E kManagedMCG mcg) (setF fManagedMCG))
       else retA (Inr ()))"

definition reconcileFetched :: "'w env \<Rightarrow> ('w, unit) ract" where
  "reconcileFetched E =
     bindA (tryA (reconcilePhases E)) (\<lambda>res.
     bindA (updateStatus E) (\<lambda>statusErr.
       case res of
         Inl err \<Rightarrow> failA (WrapErr ''error reconciling ManagedMCG'' err)
       | Inr _ \<Rightarrow>
           (case statusErr of
              Inl err \<Rightarrow> failA (WrapErr ''error updating ManagedMCG status'' err)
            | Inr _ \<Rightarrow> retA ())))"

definition Reconcile :: "'w env \<Rightarrow> nn \<Rightarrow> ('w, unit) ract" where
  "Reconcile E req =
     thenA (setR (initializeReconciler req))
    (bindA (tryA (r_get E kManagedMCG fManagedMCG)) (\<lambda>res.
       case res of
         Inl err \<Rightarrow> if IsNotFound err then reconcileFetched E else failA err
       | Inr _ \<Rightarrow> reconcileFetched E))"

section \<open>Requests\<close>

text \<open>The kinds that a reconciliation creates or updates, besides the ManagedMCG itself.\<close>

definition maintained_kinds :: "kind set" where
  "maintained_kinds = {KNooBaa, KService, KConsolePlugin, KConsole, KCSV, KConfigMap, KNetworkPolicy,
     KSecret, KPrometheus, KAlertmanager, KAlertmanagerConfig, KPodMonitor, KServiceMonitor,
     KPrometheusRule}"

text \<open>The kinds that a reconciliation deletes.\<close>

definition removed_kinds :: "kind set" where
  "removed_kinds = {KManagedMCG, KNooBaa, KBucketClass, KBackingStore, KNamespaceStore, KCSV}"

context write_frame
begin

lemma keeps_withLocal [keeps_intros]:
  fixes m :: "(('r \<times> 'x, 'w) sys, 'a) act"
  assumes "keepsA (onW I) m"
  shows "keepsA (onW I) (withLocal x m)"
  unfolding keepsA_def
proof (intro allI impI)
  fix s :: "('r, 'w) sys"
  assume "onW I s"
  then have "onW I (snd (m \<lparr>rc = (rc s, x), wd = wd s\<rparr>))"
    using assms by (simp add: keepsA_def onW_def)
  then show "onW I (snd (withLocal x m s))"
    by (auto simp: withLocal_def onW_def split: prod.splits)
qed

lemma keeps_setComponents [keeps_intros]: "keepsA (onW I) (setComponents f)"
  unfolding setComponents_def by (intro keeps_intros adm_intros)

lemma keeps_workloadState [keeps_intros]: "keepsA (onW I) (workloadState E K key n)"
  unfolding workloadState_def by (intro keeps_intros adm_intros)

lemma keeps_updateComponentStatus [keeps_intros]: "keepsA (onW I) (updateComponentStatus E)"
  unfolding updateComponentStatus_def UpdateNoobaaComponentStatus_def UpdatePrometheusComponentStatus_def UpdateAlertmanagerComponentStatus_def UpdateConsoleComponentStatus_def stateOfFetch_def by (intro keeps_intros adm_intros)

lemma keeps_mutateNoobaa [keeps_intros]: "keepsA (onW I) (mutateNoobaa a d n)"
  unfolding mutateNoobaa_def by (intro keeps_intros adm_intros)

lemma keeps_reconcileNoobaaComponent [keeps_intros]:
  assumes "KNooBaa \<in> W"
  shows "keepsA (onW I) (reconcileNoobaaComponent E)"
  unfolding reconcileNoobaaComponent_def by (intro keeps_intros adm_intros) (use assms in auto)

lemma keeps_reconcileOCSCSV [keeps_intros]:
  assumes "KCSV \<in> W"
  shows "keepsA (onW I) (reconcileOCSCSV E)"
  unfolding reconcileOCSCSV_def by (intro keeps_intros adm_intros) (use assms in auto)

lemma keeps_mutateConsoleService [keeps_intros]: "keepsA (onW I) (mutateConsoleService m)"
  unfolding mutateConsoleService_def by (intro keeps_intros adm_intros)

lemma keeps_ignoreAlreadyExists [keeps_intros]: "keepsA (onW I) (ignoreAlreadyExists msg res)"
  unfolding ignoreAlreadyExists_def by (intro keeps_intros adm_intros)

lemma keeps_ensureConsolePlugin [keeps_intros]:
  assumes "KService \<in> W" and "KConsolePlugin \<in> W"
  shows "keepsA (onW I) (ensureConsolePlugin E)"
  unfolding ensureConsolePlugin_def by (intro keeps_intros adm_intros) (use assms in auto)

lemma keeps_reconcileConsoleCluster [keeps_intros]:
  assumes "KConsole \<in> W"
  shows "keepsA (onW I) (reconcileConsoleCluster E)"
  unfolding reconcileConsoleCluster_def by (intro keeps_intros adm_intros) (use assms in auto)

lemma keeps_reconcileIngressNetworkPolicy [keeps_intros]:
  assumes "KNetworkPolicy \<in> W"
  shows "keepsA (onW I) (reconcileIngressNetworkPolicy E)"
  unfolding reconcileIngressNetworkPolicy_def by (intro keeps_intros adm_intros) (use assms in auto)

lemma keeps_reconcileResources [keeps_intros]:
  assumes "maintained_kinds \<subseteq> W"
  shows "keepsA (onW I) (reconcileResources E)"
  unfolding reconcileResources_def by (intro keeps_intros adm_intros) (use assms in \<open>auto simp: maintained_kinds_def\<close>)

lemma keeps_setFinalizers [keeps_intros]: "keepsA (onW I) (setFinalizers F f)"
  unfolding setFinalizers_def by (intro keeps_intros adm_intros)

lemma keeps_removeManagedMCG [keeps_intros]:
  assumes "KManagedMCG \<in> W"
  shows "keepsA (onW I) (removeManagedMCG E)"
  unfolding removeManagedMCG_def by (intro keeps_intros adm_intros) (use assms in auto)

lemma keeps_addManagedMCG [keeps_intros]:
  assumes "KManagedMCG \<in> W"
  shows "keepsA (onW I) (addManagedMCG E)"
  unfolding addManagedMCG_def by (intro keeps_intros adm_intros) (use assms in auto)

lemma keeps_deleteNamed [keeps_intros]:
  assumes "kdKind K \<in> D"
  shows "keepsA (onW I) (deleteNamed E K F msg items)"
  unfolding deleteNamed_def by (intro keeps_intros adm_intros) (use assms in auto)

lemma keeps_bucketClassesGone [keeps_intros]: "keepsA (onW I) (bucketClassesGone E)"
  unfolding bucketClassesGone_def by (intro keeps_intros adm_intros)

lemma keeps_drainBucketClasses [keeps_intros]:
  assumes "KBucketClass \<in> D"
  shows "keepsA (onW I) (drainBucketClasses E)"
  unfolding drainBucketClasses_def by (intro keeps_intros adm_intros) (use assms in auto)

lemma keeps_deleteNoobaaCR [keeps_intros]:
  assumes "KNooBaa \<in> W" and "KNooBaa \<in> D"
  shows "keepsA (onW I) (deleteNoobaaCR E)"
  unfolding deleteNoobaaCR_def by (intro keeps_intros adm_intros) (use assms in auto)

lemma keeps_deleteStores [keeps_intros]:
  assumes "{KBackingStore, KNamespaceStore} \<subseteq> D"
  shows "keepsA (onW I) (deleteStores E)"
  unfolding deleteStores_def by (intro keeps_intros adm_intros) (use assms in auto)

lemma keeps_removeNoobaa [keeps_intros]:
  assumes "KNooBaa \<in> W" and "{KBucketClass, KNooBaa, KBackingStore, KNamespaceStore} \<subseteq> D"
  shows "keepsA (onW I) (removeNoobaa E)"
  unfolding removeNoobaa_def by (intro keeps_intros adm_intros) (use assms in auto)

lemma keeps_removeOLMComponents [keeps_intros]:
  assumes "KCSV \<in> D"
  shows "keepsA (onW I) (removeOLMComponents E)"
  unfolding removeOLMComponents_def by (intro keeps_intros adm_intros) (use assms in auto)

lemma keeps_verifyAddonDeletionKey [keeps_intros]: "keepsA (onW I) (verifyAddonDeletionKey E)"
  unfolding verifyAddonDeletionKey_def by (intro keeps_intros adm_intros)

lemma keeps_updateAddonParams [keeps_intros]: "keepsA (onW I) (updateAddonParams E)"
  unfolding updateAddonParams_def by (intro keeps_intros adm_intros)

lemma keeps_deletionPhase [keeps_intros]:
  assumes "{KManagedMCG, KNooBaa} \<subseteq> W"
    and "{KBucketClass, KNooBaa, KBackingStore, KNamespaceStore} \<subseteq> D"
  shows "keepsA (onW I) (deletionPhase E)"
  unfolding deletionPhase_def by (intro keeps_intros adm_intros) (use assms in auto)

lemma keeps_maintainManagedMCG [keeps_intros]:
  assumes "insert KManagedMCG maintained_kinds \<subseteq> W"
  shows "keepsA (onW I) (maintainManagedMCG E)"
  unfolding maintainManagedMCG_def by (intro keeps_intros adm_intros) (use assms in auto)

lemma keeps_uninstallWhenReady [keeps_intros]:
  assumes "found \<Longrightarrow> KManagedMCG \<in> D"
  shows "keepsA (onW I) (uninstallWhenReady E found)"
  unfolding uninstallWhenReady_def by (intro keeps_intros adm_intros) (use assms in auto)

lemma keeps_maintenancePhase [keeps_intros]:
  assumes "insert KManagedMCG maintained_kinds \<subseteq> W" and "found \<Longrightarrow> KManagedMCG \<in> D"
  shows "keepsA (onW I) (maintenancePhase E found)"
  unfolding maintenancePhase_def by (intro keeps_intros adm_intros) (use assms in auto)

lemma keeps_dispatchPhases [keeps_intros]:
  assumes "insert KManagedMCG maintained_kinds \<subseteq> W" and "removed_kinds - {KManagedMCG, KCSV} \<subseteq> D"
    and "found \<Longrightarrow> removed_kinds \<subseteq> D"
  shows "keepsA (onW I) (dispatchPhases E found)"
  unfolding dispatchPhases_def by (intro keeps_intros adm_intros)
    (use assms in \<open>auto simp: maintained_kinds_def removed_kinds_def\<close>)

lemma keeps_reconcilePhases [keeps_intros]:
  assumes "insert KManagedMCG maintained_kinds \<subseteq> W" and "removed_kinds \<subseteq> D"
  shows "keepsA (onW I) (reconcilePhases E)"
  unfolding reconcilePhases_def by (intro keeps_intros adm_intros) (use assms in auto)

lemma keeps_updateStatus [keeps_intros]:
  assumes "KManagedMCG \<in> S"
  shows "keepsA (onW I) (updateStatus E)"
  unfolding updateStatus_def by (intro keeps_intros adm_intros) (use assms in auto)

lemma keeps_reconcileFetched [keeps_intros]:
  assumes "insert KManagedMCG maintained_kinds \<subseteq> W" and "removed_kinds \<subseteq> D"
    and "KManagedMCG \<in> S"
  shows "keepsA (onW I) (reconcileFetched E)"
  unfolding reconcileFetched_def by (intro keeps_intros adm_intros) (use assms in auto)

lemma keeps_Reconcile [keeps_intros]:
  assumes "insert KManagedMCG maintained_kinds \<subseteq> W" and "removed_kinds \<subseteq> D"
    and "KManagedMCG \<in> S"
  shows "keepsA (onW I) (Reconcile E req)"
  unfolding Reconcile_def by (intro keeps_intros adm_intros) (use assms in auto)

end

end
