(* ===== verification/Setup.thy ===== *)
theory Setup
  imports Controller
begin

text \<open>
  The start of the operator (\<open>main.go\<close>): the environment variables, the reconciler's configuration,
  the creation of the ManagedMCG resource; and the registration of the controller's watches
  (\<open>SetupWithManager\<close>, \<open>lookupImages\<close>), with the predicates and the event handlers of
  controller-runtime that decide which requests an event puts in the queue.
\<close>

section \<open>Environment variables\<close>

type_synonym environ = "string \<Rightarrow> string option"

definition namespaceKey :: string where
  "namespaceKey = ''NAMESPACE''"

definition addonNameKey :: string where
  "addonNameKey = ''ADDON_NAME''"

definition sopEndpointKey :: string where
  "sopEndpointKey = ''SOP_ENDPOINT''"

definition alertSMTPFromAddrKey :: string where
  "alertSMTPFromAddrKey = ''ALERT_SMTP_FROM_ADDR''"

definition rhobsEndpointKey :: string where
  "rhobsEndpointKey = ''RHOBS_ENDPOINT''"

definition rhssoTokenEndpointKey :: string where
  "rhssoTokenEndpointKey = ''RH_SSO_TOKEN_ENDPOINT''"

definition addonEnvironmentKey :: string where
  "addonEnvironmentKey = ''ADDON_ENVIRONMENT''"

definition envKeys :: "string list" where
  "envKeys = [namespaceKey, addonNameKey, sopEndpointKey, alertSMTPFromAddrKey, rhobsEndpointKey,
     rhssoTokenEndpointKey, addonEnvironmentKey]"

lemmas env_key_defs = namespaceKey_def addonNameKey_def sopEndpointKey_def alertSMTPFromAddrKey_def
  rhobsEndpointKey_def rhssoTokenEndpointKey_def addonEnvironmentKey_def

text \<open>
  The loop ranges over a Go map, in an order that the language leaves open: \<open>order\<close> is the order in
  which the keys come.
\<close>

fun setupEnvMap_loop :: "environ \<Rightarrow> string list \<Rightarrow> (string, string) fmap \<Rightarrow>
    gerr + (string, string) fmap" where
  "setupEnvMap_loop osenv [] envMap = Inr envMap"
| "setupEnvMap_loop osenv (key # keys) envMap =
     (case osenv key of
        None \<Rightarrow> Inl (PlainErr (key @ '' environment variable not set''))
      | Some value \<Rightarrow> setupEnvMap_loop osenv keys (fmupd key value envMap))"

definition setupEnvMap :: "environ \<Rightarrow> string list \<Rightarrow> gerr + (string, string) fmap" where
  "setupEnvMap osenv order =
     setupEnvMap_loop osenv order (fmap_of_list (map (\<lambda>k. (k, '''')) envKeys))"

text \<open>\<open>envMap[key]\<close>, the empty string where the key is absent.\<close>

definition env_at :: "(string, string) fmap \<Rightarrow> string \<Rightarrow> string" where
  "env_at envMap key = (case fmlookup envMap key of None \<Rightarrow> '''' | Some v \<Rightarrow> v)"

text \<open>The fields of the \<open>ManagedMCGReconciler\<close> literal of \<open>main\<close>.\<close>

definition reconcilerConfig :: "(string, string) fmap \<Rightarrow> config" where
  "reconcilerConfig envMap =
     (let addonName = env_at envMap addonNameKey in
      \<lparr>AddonConfigMapDeleteLabelKey = ''api.openshift.com/addon-'' @ addonName @ ''-delete'',
       AddonConfigMapName = addonName,
       AddonParamSecretName = ''addon-'' @ addonName @ ''-parameters'',
       DeadMansSnitchSecretName = addonName @ ''-deadmanssnitch'',
       CustomerNotificationHTMLPath = ''templates/customernotification.html'',
       SMTPSecretName = addonName @ ''-smtp'',
       SOPEndpoint = env_at envMap sopEndpointKey,
       AlertSMTPFrom = env_at envMap alertSMTPFromAddrKey,
       ConsolePort = 9002,
       PagerdutySecretName = addonName @ ''-pagerduty'',
       RHOBSSecretName = addonName @ ''-prom-remote-write'',
       RHOBSEndpoint = env_at envMap rhobsEndpointKey,
       RHSSOTokenEndpoint = env_at envMap rhssoTokenEndpointKey,
       AddonVariant = addonName,
       AddonEnvironment = env_at envMap addonEnvironmentKey\<rparr>)"

definition lookupImages :: "environ \<Rightarrow> ('w, unit) ract" where
  "lookupImages osenv =
     (case osenv ''NOOBAA_CORE_IMAGE'' of
        None \<Rightarrow> failA (PlainErr ''NOOBAA_CORE_IMAGE environment variable not set'')
      | Some noobaaCoreImage \<Rightarrow>
          thenA (setR (\<lambda>r. r\<lparr>rImages := (rImages r)\<lparr>imgNooBaaCore := noobaaCoreImage\<rparr>\<rparr>))
         (case osenv ''NOOBAA_DB_IMAGE'' of
            None \<Rightarrow> failA (PlainErr ''NOOBAA_DB_IMAGE environment variable not set'')
          | Some noobaaDBImage \<Rightarrow>
              setR (\<lambda>r. r\<lparr>rImages := (rImages r)\<lparr>imgNooBaaDB := noobaaDBImage\<rparr>\<rparr>)))"

section \<open>Creation of the ManagedMCG resource\<close>

definition initialManagedMCG :: "(string, string) fmap \<Rightarrow> managedmcg object" where
  "initialManagedMCG envMap = \<lparr>
     ObjectMeta = zero_meta\<lparr>mName := ManagedMCGName, mNamespace := env_at envMap namespaceKey,
       mFinalizers := [ManagedMCGFinalizer]\<rparr>,
     Body = zero_managedmcg\<rparr>"

definition ensureManagedMCG ::
  "'w env \<Rightarrow> (string, string) fmap \<Rightarrow> (('r, 'w) sys, unit) act" where
  "ensureManagedMCG E envMap =
     bindA (tryA (clientCreate E kManagedMCG (initialManagedMCG envMap))) (\<lambda>res.
       case res of
         Inr _ \<Rightarrow> retA ()
       | Inl err \<Rightarrow>
           if IsAlreadyExists err then retA ()
           else failA (WrapErr ''failed to create ManagedMCG resource'' err))"

section \<open>Predicates of the watches\<close>

datatype watch_event =
    CreateEvent kobject | UpdateEvent kobject kobject | DeleteEvent kobject | GenericEvent kobject

fun event_objects :: "watch_event \<Rightarrow> kobject list" where
  "event_objects (CreateEvent ob) = [ob]"
| "event_objects (UpdateEvent old new) = [old, new]"
| "event_objects (DeleteEvent ob) = [ob]"
| "event_objects (GenericEvent ob) = [ob]"

fun NewPredicateFuncs :: "(kobject \<Rightarrow> bool) \<Rightarrow> watch_event \<Rightarrow> bool" where
  "NewPredicateFuncs p (CreateEvent ob) = p ob"
| "NewPredicateFuncs p (UpdateEvent old new) = p new"
| "NewPredicateFuncs p (DeleteEvent ob) = p ob"
| "NewPredicateFuncs p (GenericEvent ob) = p ob"

fun GenerationChangedPredicate :: "watch_event \<Rightarrow> bool" where
  "GenerationChangedPredicate (UpdateEvent old new) =
     (mGeneration (ObjectMeta new) \<noteq> mGeneration (ObjectMeta old))"
| "GenerationChangedPredicate _ = True"

definition configMapPredicate :: "config \<Rightarrow> kobject \<Rightarrow> bool" where
  "configMapPredicate c client =
     (let name = mName (ObjectMeta client) in
      if name = AddonConfigMapName c then
        (if gm_lookup (mLabels (ObjectMeta client)) (AddonConfigMapDeleteLabelKey c) \<noteq> None
         then True else False)
      else if name = alertmanagerConfigName then True
      else False)"

definition prometheusRulesPredicate :: "kobject \<Rightarrow> bool" where
  "prometheusRulesPredicate client =
     (let labels = mLabels (ObjectMeta client) in
      labels = NilMap \<or> gm_str labels monLabelKey \<noteq> monLabelValue)"

definition secretPredicate :: "config \<Rightarrow> kobject \<Rightarrow> bool" where
  "secretPredicate c client =
     (let name = mName (ObjectMeta client) in
      name = AddonParamSecretName c \<or> name = PagerdutySecretName c \<or>
      name = DeadMansSnitchSecretName c \<or> name = SMTPSecretName c \<or> name = RHOBSSecretName c)"

definition noobaaPredicate :: "kobject \<Rightarrow> bool" where
  "noobaaPredicate client = has_prefix (mName (ObjectMeta client)) noobaaName"

text \<open>The predicate on bucket classes acts on their claims and lets every event through.\<close>

fun bucketclassPredicate :: "'w env \<Rightarrow> watch_event \<Rightarrow> ('w, bool) ract" where
  "bucketclassPredicate E (CreateEvent ob) =
     (case retype kBucketClass ob of
        None \<Rightarrow> panicA ''nil pointer dereference''
      | Some bucketClass \<Rightarrow> thenA (bucketClassAdded E bucketClass) (retA True))"
| "bucketclassPredicate E (DeleteEvent ob) =
     (if mName (ObjectMeta ob) = ''noobaa-default-bucket-class'' then retA True
      else thenA (bucketClassDeleted E ob) (retA True))"
| "bucketclassPredicate E _ = retA True"

section \<open>Event handlers\<close>

text \<open>\<open>enqueueManagedMCGRequest\<close>, \<open>enqueueBucketClassRequest\<close>\<close>

definition managedMCGRequest :: "kobject \<Rightarrow> nn list" where
  "managedMCGRequest client =
     [\<lparr>nnNamespace = mNamespace (ObjectMeta client), nnName = ManagedMCGName\<rparr>]"

text \<open>\<open>EnqueueRequestsFromMapFunc\<close>: a request is added to the queue once per event.\<close>

definition mapAndEnqueue :: "(kobject \<Rightarrow> nn list) \<Rightarrow> nn list \<Rightarrow> kobject \<Rightarrow> nn list" where
  "mapAndEnqueue toRequests reqs ob =
     fold (\<lambda>req reqs. if req \<in> set reqs then reqs else reqs @ [req]) (toRequests ob) reqs"

definition EnqueueRequestsFromMapFunc :: "(kobject \<Rightarrow> nn list) \<Rightarrow> watch_event \<Rightarrow> nn list" where
  "EnqueueRequestsFromMapFunc toRequests ev =
     fold (\<lambda>ob reqs. mapAndEnqueue toRequests reqs ob) (event_objects ev) []"

fun EnqueueRequestForObject :: "watch_event \<Rightarrow> nn list" where
  "EnqueueRequestForObject (UpdateEvent old new) = [object_key new]"
| "EnqueueRequestForObject (CreateEvent ob) = [object_key ob]"
| "EnqueueRequestForObject (DeleteEvent ob) = [object_key ob]"
| "EnqueueRequestForObject (GenericEvent ob) = [object_key ob]"

text \<open>
  \<open>EnqueueRequestForOwner\<close> with \<open>IsController\<close> and a namespaced owner type.
\<close>

definition ownerRequest :: "kind \<Rightarrow> kobject \<Rightarrow> nn list" where
  "ownerRequest ownerType ob =
     (case GetControllerOf (ObjectMeta ob) of
        None \<Rightarrow> []
      | Some ref \<Rightarrow>
          (case ParseGroupVersion (orAPIVersion ref) of
             None \<Rightarrow> []
           | Some (refGroup, _) \<Rightarrow>
               (case kind_gvk ownerType of (g, _, kd) \<Rightarrow>
                  if orKind ref = kd \<and> refGroup = g
                  then [\<lparr>nnNamespace = mNamespace (ObjectMeta ob), nnName = orName ref\<rparr>] else [])))"

definition EnqueueRequestForOwner :: "kind \<Rightarrow> watch_event \<Rightarrow> nn list" where
  "EnqueueRequestForOwner ownerType ev =
     fold (\<lambda>ob reqs. mapAndEnqueue (ownerRequest ownerType) reqs ob) (event_objects ev) []"

section \<open>The watches of the controller\<close>

record 'w watch =
  wKind :: kind
  wPredicate :: "watch_event \<Rightarrow> ('w, bool) ract"
  wHandler :: "watch_event \<Rightarrow> nn list"

text \<open>A predicate that reads the configuration of the receiver.\<close>

definition cfgPredicate :: "(config \<Rightarrow> kobject \<Rightarrow> bool) \<Rightarrow> watch_event \<Rightarrow> ('w, bool) ract" where
  "cfgPredicate p ev = getR (\<lambda>r. NewPredicateFuncs (p (rCfg r)) ev)"

definition forWatch :: "'w watch" where
  "forWatch = \<lparr>wKind = KManagedMCG, wPredicate = (\<lambda>ev. retA (GenerationChangedPredicate ev)),
     wHandler = EnqueueRequestForObject\<rparr>"

definition ownsWatch :: "kind \<Rightarrow> 'w watch" where
  "ownsWatch k = \<lparr>wKind = k, wPredicate = (\<lambda>_. retA True),
     wHandler = EnqueueRequestForOwner KManagedMCG\<rparr>"

definition controllerWatches :: "'w env \<Rightarrow> 'w watch list" where
  "controllerWatches E = [
     forWatch,
     ownsWatch KConfigMap,
     ownsWatch KService,
     ownsWatch KNetworkPolicy,
     \<lparr>wKind = KConfigMap, wPredicate = cfgPredicate configMapPredicate,
      wHandler = EnqueueRequestsFromMapFunc managedMCGRequest\<rparr>,
     \<lparr>wKind = KNooBaa, wPredicate = cfgPredicate (\<lambda>_. noobaaPredicate),
      wHandler = EnqueueRequestsFromMapFunc managedMCGRequest\<rparr>,
     \<lparr>wKind = KSecret, wPredicate = cfgPredicate secretPredicate,
      wHandler = EnqueueRequestsFromMapFunc managedMCGRequest\<rparr>,
     \<lparr>wKind = KPrometheusRule, wPredicate = cfgPredicate (\<lambda>_. prometheusRulesPredicate),
      wHandler = EnqueueRequestsFromMapFunc managedMCGRequest\<rparr>,
     \<lparr>wKind = KBucketClass, wPredicate = bucketclassPredicate E,
      wHandler = EnqueueRequestsFromMapFunc managedMCGRequest\<rparr>]"

text \<open>One event of a watch: the handler runs when the predicate lets the event through.\<close>

definition onEvent :: "'w watch \<Rightarrow> watch_event \<Rightarrow> ('w, nn list) ract" where
  "onEvent w ev = bindA (wPredicate w ev) (\<lambda>b. retA (if b then wHandler w ev else []))"

text \<open>The requests that the watches of a kind enqueue for an event on an object of that kind.\<close>

fun deliver :: "'w watch list \<Rightarrow> kind \<Rightarrow> watch_event \<Rightarrow> ('w, nn list) ract" where
  "deliver [] k ev = retA []"
| "deliver (w # ws) k ev =
     (if wKind w = k
      then bindA (onEvent w ev) (\<lambda>q. bindA (deliver ws k ev) (\<lambda>q'. retA (q @ q')))
      else deliver ws k ev)"

definition SetupWithManager :: "'w env \<Rightarrow> environ \<Rightarrow> gerr option \<Rightarrow> ('w, 'w watch list) ract" where
  "SetupWithManager E osenv completeErr =
     thenA (lookupImages osenv)
           (case completeErr of
              Some err \<Rightarrow> failA (WrapErr ''error setting up ManagedMCG controller'' err)
            | None \<Rightarrow> retA (controllerWatches E))"

section \<open>The main function\<close>

text \<open>
  The manager of controller-runtime: the results of creating it, of completing the controller and
  of running it. \<open>main\<close> returns the exit code of the process.
\<close>

record manager =
  mgrNew :: "gerr option"
  mgrComplete :: "gerr option"
  mgrStart :: "gerr option"

definition main :: "'w env \<Rightarrow> manager \<Rightarrow> environ \<Rightarrow> string list \<Rightarrow> ('w, nat) ract" where
  "main E mgr osenv order =
     (case setupEnvMap osenv order of
        Inl _ \<Rightarrow> retA 1
      | Inr envMap \<Rightarrow>
          if mgrNew mgr \<noteq> None then retA 1
          else
            thenA (setR (rCfg_update (\<lambda>_. reconcilerConfig envMap)))
           (bindA (tryA (SetupWithManager E osenv (mgrComplete mgr))) (\<lambda>res.
              case res of
                Inl _ \<Rightarrow> retA 1
              | Inr _ \<Rightarrow>
                  bindA (tryA (ensureManagedMCG E envMap)) (\<lambda>res.
                    case res of
                      Inl _ \<Rightarrow> retA 1
                    | Inr _ \<Rightarrow> retA (if mgrStart mgr \<noteq> None then 1 else 0)))))"

section \<open>The environment variables\<close>

lemma map_of_tabulate: "map_of (map (\<lambda>k. (k, f k)) xs) k = (if k \<in> set xs then Some (f k) else None)"
  by (induction xs) auto

lemma setupEnvMap_loop_eq:
  "setupEnvMap_loop osenv keys m =
     (if list_all (\<lambda>k. osenv k \<noteq> None) keys
      then Inr (m ++\<^sub>f fmap_of_list (map (\<lambda>k. (k, the (osenv k))) keys))
      else Inl (PlainErr (hd (filter (\<lambda>k. osenv k = None) keys) @ '' environment variable not set'')))"
proof (induction keys arbitrary: m)
  case Nil
  then show ?case by (auto intro!: fmap_ext)
next
  case (Cons k keys)
  have "fmupd k v m ++\<^sub>f fmap_of_list (map (\<lambda>k. (k, the (osenv k))) keys) =
      m ++\<^sub>f fmap_of_list (map (\<lambda>k. (k, the (osenv k))) (k # keys))" if "osenv k = Some v" for v
    by (rule fmap_ext) (use that in \<open>auto simp: fmlookup_of_list map_of_tabulate fset_of_list_elem\<close>)
  with Cons show ?case by (cases "osenv k") auto
qed

lemma setupEnvMap_values:
  assumes "set order = set envKeys"
  shows "fmap_of_list (map (\<lambda>k. (k, '''')) envKeys) ++\<^sub>f fmap_of_list (map (\<lambda>k. (k, the (osenv k))) order) =
    fmap_of_list (map (\<lambda>k. (k, the (osenv k))) envKeys)"
proof (rule fmap_ext)
  fix k
  show "fmlookup (fmap_of_list (map (\<lambda>k. (k, [])) envKeys) ++\<^sub>f
      fmap_of_list (map (\<lambda>k. (k, the (osenv k))) order)) k =
      fmlookup (fmap_of_list (map (\<lambda>k. (k, the (osenv k))) envKeys)) k"
    using assms by (auto simp: fmlookup_of_list map_of_tabulate fset_of_list_elem)
qed

lemma setupEnvMap_eq:
  assumes "set order = set envKeys"
  shows "setupEnvMap osenv order =
    (if list_all (\<lambda>k. osenv k \<noteq> None) envKeys
     then Inr (fmap_of_list (map (\<lambda>k. (k, the (osenv k))) envKeys))
     else Inl (PlainErr (hd (filter (\<lambda>k. osenv k = None) order) @ '' environment variable not set'')))"
  using assms setupEnvMap_values [of order osenv]
  by (auto simp: setupEnvMap_def setupEnvMap_loop_eq list_all_iff)

section \<open>The ManagedMCG resource\<close>

abbreviation initialKey :: "(string, string) fmap \<Rightarrow> nn" where
  "initialKey envMap \<equiv> \<lparr>nnNamespace = env_at envMap namespaceKey, nnName = ManagedMCGName\<rparr>"

text \<open>
  Against the in-memory server \<open>ensureManagedMCG\<close> always succeeds; it leaves an existing resource
  as it is and otherwise stores the resource with the finalizer of the operator; a second start of
  the operator changes nothing.
\<close>

lemma ensureManagedMCG_creates_once:
  "\<exists>w. ensureManagedMCG (fakeEnv ma un) envMap s = (Ok (), s\<lparr>wd := w\<rparr>) \<and>
     tracked w = (tracked (wd s))(KManagedMCG := (tracked (wd s) KManagedMCG)(initialKey envMap :=
       (case tracked (wd s) KManagedMCG (initialKey envMap) of
          Some ob \<Rightarrow> Some ob
        | None \<Rightarrow> Some (setRV ''1'' (untype kManagedMCG (initialManagedMCG envMap)))))) \<and>
     ensureManagedMCG (fakeEnv ma un) envMap (s\<lparr>wd := w\<rparr>) = (Ok (), s\<lparr>wd := w\<rparr>)"
proof -
  let ?ob = "untype kManagedMCG (initialManagedMCG envMap)"
  have ob: "mName (ObjectMeta ?ob) \<noteq> ''''" "mResourceVersion (ObjectMeta ?ob) = ''''"
    "obj_kind ?ob = KManagedMCG" "object_key ?ob = initialKey envMap"
    by (simp_all add: initialManagedMCG_def untype_def zero_meta_def ManagedMCGName_def object_key_def kManagedMCG_def)
  have exists: "ensureManagedMCG (fakeEnv ma un) envMap t = (Ok (), t)"
    if "tracked (wd t) KManagedMCG (initialKey envMap) = Some x" for t x
    using that ob by (simp add: ensureManagedMCG_def clientCreate_def reqA_def act_unfold vt_Create_def tracker_add_spec)
  show ?thesis
  proof (cases "tracked (wd s) KManagedMCG (initialKey envMap)")
    case None
    let ?w = "(wd s)\<lparr>clObjects := AList.update (obj_id (setRV ''1'' ?ob)) (setRV ''1'' ?ob) (clObjects (wd s))\<rparr>"
    have w: "tracked ?w = (tracked (wd s))(KManagedMCG := (tracked (wd s) KManagedMCG)(initialKey envMap :=
        Some (setRV ''1'' ?ob)))"
      using ob by (subst tracked_update) simp
    have "retype kManagedMCG (setRV ''1'' ?ob) \<noteq> None"
      using tk_managedmcg.retype_total [of "setRV ''1'' ?ob"] ob(3) by auto
    with None ob have "ensureManagedMCG (fakeEnv ma un) envMap s = (Ok (), s\<lparr>wd := ?w\<rparr>)"
      by (auto simp: ensureManagedMCG_def clientCreate_def decodeA_def reqA_def act_unfold vt_Create_def tracker_add_spec)
    moreover have "ensureManagedMCG (fakeEnv ma un) envMap (s\<lparr>wd := ?w\<rparr>) = (Ok (), s\<lparr>wd := ?w\<rparr>)"
      using w by (intro exists) simp
    ultimately show ?thesis using w None by (intro exI [of _ ?w]) simp
  next
    case (Some x)
    then have "tracked (wd s) = (tracked (wd s))(KManagedMCG := (tracked (wd s) KManagedMCG)(initialKey envMap := Some x))"
      by (auto simp: fun_eq_iff)
    with Some exists [OF Some] show ?thesis by (intro exI [of _ "wd s"]) simp
  qed
qed

section \<open>The exit code\<close>

text \<open>
  C35. The process ends with exit code 0 or 1, and with 0 exactly when all variables of the environment
  are set, both images are named, the manager could be created, completed and run, and the
  ManagedMCG resource could be created or existed already.
\<close>

theorem main_exit_code:
  assumes "set order = set envKeys"
  shows "fst (main E mgr osenv order s) = Ok
    (let ob = untype kManagedMCG (initialManagedMCG (fmap_of_list (map (\<lambda>k. (k, the (osenv k))) envKeys))) in
     if list_all (\<lambda>k. osenv k \<noteq> None) envKeys \<and> osenv ''NOOBAA_CORE_IMAGE'' \<noteq> None \<and>
        osenv ''NOOBAA_DB_IMAGE'' \<noteq> None \<and>
        mgrNew mgr = None \<and> mgrComplete mgr = None \<and> mgrStart mgr = None \<and>
        (case fetched kManagedMCG (fst (eCreate E ob (wd s))) of
           Inr _ \<Rightarrow> True | Inl e \<Rightarrow> IsAlreadyExists e)
     then 0 else 1)"
  unfolding main_def setupEnvMap_eq [OF assms]
  by (auto simp: SetupWithManager_def lookupImages_def ensureManagedMCG_def clientCreate_def decodeA_def
      reqA_def setR_def act_unfold fetched_def Let_def split: option.split prod.split sum.split)

theorem main_exit_code_witness:
  "fst (main (fakeEnv (\<lambda>_. Inr ''yaml'') (\<lambda>_ gs. Inr gs)) \<lparr>mgrNew = None, mgrComplete = None, mgrStart = None\<rparr>
     (\<lambda>k. Some ''x'') (rev envKeys) (sampleStart [])) = Ok 0"
  by (subst main_exit_code)
    (simp_all add: list_all_iff sample_defs fake_defs initialManagedMCG_def untype_def ManagedMCGName_def
      zero_meta_def fetched_def retype_def kManagedMCG_def)

section \<open>What an event enqueues\<close>

text \<open>The object a predicate on objects looks at: the new one of an update.\<close>

definition subject :: "watch_event \<Rightarrow> kobject" where
  "subject ev = last (event_objects ev)"

lemma NewPredicateFuncs_subject [simp]: "NewPredicateFuncs p ev = p (subject ev)"
  by (cases ev) (simp_all add: subject_def)

text \<open>The map functions of the controller: one request per namespace among the objects of the event.\<close>

definition namespaceRequests :: "watch_event \<Rightarrow> nn list" where
  "namespaceRequests ev =
     map (\<lambda>ns. \<lparr>nnNamespace = ns, nnName = ManagedMCGName\<rparr>)
       (case ev of UpdateEvent old new \<Rightarrow>
          (if mNamespace (ObjectMeta old) = mNamespace (ObjectMeta new)
           then [mNamespace (ObjectMeta new)]
           else [mNamespace (ObjectMeta old), mNamespace (ObjectMeta new)])
        | _ \<Rightarrow> [mNamespace (ObjectMeta (subject ev))])"

lemma EnqueueRequestsFromMapFunc_namespace:
  "EnqueueRequestsFromMapFunc managedMCGRequest ev = namespaceRequests ev"
  by (cases ev) (auto simp: EnqueueRequestsFromMapFunc_def mapAndEnqueue_def managedMCGRequest_def
      namespaceRequests_def subject_def)

lemma prometheusRulesPredicate_iff:
  "prometheusRulesPredicate ob \<longleftrightarrow> gm_lookup (mLabels (ObjectMeta ob)) monLabelKey \<noteq> Some monLabelValue"
  by (auto simp: prometheusRulesPredicate_def gm_str_def Let_def monLabelValue_def split: option.splits)

lemmas watch_defs = controllerWatches_def onEvent_def forWatch_def ownsWatch_def cfgPredicate_def
  EnqueueRequestsFromMapFunc_namespace getR_def readA_def retA_def bindA_def

lemma deliver_ManagedMCG: "deliver (controllerWatches E) KManagedMCG ev s =
  (Ok (if GenerationChangedPredicate ev then EnqueueRequestForObject ev else []), s)"
  by (simp add: watch_defs)

lemma deliver_NooBaa: "deliver (controllerWatches E) KNooBaa ev s =
  (Ok (if noobaaPredicate (subject ev) then namespaceRequests ev else []), s)"
  by (simp add: watch_defs)

lemma deliver_Secret: "deliver (controllerWatches E) KSecret ev s =
  (Ok (if secretPredicate (rCfg (rc s)) (subject ev) then namespaceRequests ev else []), s)"
  by (simp add: watch_defs)

lemma deliver_PrometheusRule: "deliver (controllerWatches E) KPrometheusRule ev s =
  (Ok (if prometheusRulesPredicate (subject ev) then namespaceRequests ev else []), s)"
  by (simp add: watch_defs)

lemma deliver_ConfigMap: "deliver (controllerWatches E) KConfigMap ev s =
  (Ok (EnqueueRequestForOwner KManagedMCG ev @
     (if configMapPredicate (rCfg (rc s)) (subject ev) then namespaceRequests ev else [])), s)"
  by (simp add: watch_defs)


end
