(* ===== verification/Readiness.thy ===== *)
theory Readiness
  imports Setup
begin

text \<open>
  The readiness probe, a process of its own (\<open>readinessProbe/main.go\<close>,
  \<open>readinessProbe/readiness/server.go\<close>): an HTTP server whose answer is the readiness of the four
  components in the status of the ManagedMCG resource.
\<close>

definition listenAddr :: string where
  "listenAddr = '':8081''"

definition readinessPath :: string where
  "readinessPath = ''/readyz/''"

definition NamespaceEnvVarName :: string where
  "NamespaceEnvVarName = ''NAMESPACE''"

definition isReady :: "'w env \<Rightarrow> nn \<Rightarrow> (('r, 'w) sys, bool) act" where
  "isReady E managedMCGResource =
     bindA (wrapA ''error while ensuring managedMCG''
              (clientGet E kManagedMCG managedMCGResource)) (\<lambda>managedMCG.
       let comps = mstComponents (mcgStatus (Body managedMCG));
           ready = (csNoobaa comps = ComponentReady \<and> csPrometheus comps = ComponentReady \<and>
             csAlertmanager comps = ComponentReady \<and> csConsole comps = ComponentReady)
       in retA ready)"

text \<open>The status code that the handler writes.\<close>

definition readyzHandler :: "'w env \<Rightarrow> nn \<Rightarrow> (('r, 'w) sys, nat) act" where
  "readyzHandler E managedMCGResource =
     bindA (tryA (isReady E managedMCGResource)) (\<lambda>res.
       case res of
         Inl _ \<Rightarrow> retA 500
       | Inr ready \<Rightarrow> if ready then retA 200 else retA 503)"

text \<open>
  The start of the probe: the key that the server is run with, or the exit code. \<open>clientErr\<close> is the
  result of creating the client.
\<close>

definition probeMain :: "gerr option \<Rightarrow> environ \<Rightarrow> nat + nn" where
  "probeMain clientErr osenv =
     (if clientErr \<noteq> None then Inl 1
      else
        (case osenv NamespaceEnvVarName of
           None \<Rightarrow> Inl 2
         | Some ns \<Rightarrow> Inr \<lparr>nnNamespace = ns, nnName = ''managedmcg''\<rparr>))"

section \<open>Readiness and uninstallation\<close>

text \<open>
  C37. The probe answers 500 when it cannot fetch the resource, 200 when the components of the fetched
  resource are exactly as the operator wants them before it uninstalls itself, and 503 otherwise;
  it never fails and sends one read.
\<close>

theorem readyz_agrees_with_uninstall:
  "readyzHandler E key s =
     (case eGet E KManagedMCG key (wd s) of (a, w) \<Rightarrow>
        (Ok (case fetched kManagedMCG a of
               Inl _ \<Rightarrow> 500
             | Inr mcg \<Rightarrow> if areComponentsReadyForUninstall (r\<lparr>rManagedMCG := mcg\<rparr>) then 200 else 503),
         s\<lparr>wd := w\<rparr>))"
  by (simp add: readyzHandler_def isReady_def clientGet_eq areComponentsReadyForUninstall_def components_def
      Let_def act_unfold split: prod.split sum.split)

text \<open>
  The operator and the probe, started with the same environment, are about the same resource: the
  one that \<open>main\<close> creates is the one the probe reads and the one that the events in its namespace
  ask to reconcile.
\<close>

lemma one_resource:
  assumes "set order = set envKeys" and "setupEnvMap osenv order = Inr envMap"
  shows "probeMain None osenv = Inr (object_key (initialManagedMCG envMap)) \<and>
    managedMCGRequest (ob\<lparr>ObjectMeta := (ObjectMeta ob)\<lparr>mNamespace := env_at envMap namespaceKey\<rparr>\<rparr>) =
      [object_key (initialManagedMCG envMap)]"
proof -
  have ns: "osenv namespaceKey \<noteq> None" and env: "envMap = fmap_of_list (map (\<lambda>k. (k, the (osenv k))) envKeys)"
    using assms(2) setupEnvMap_eq [OF assms(1), of osenv]
    by (auto simp: envKeys_def split: if_splits)
  have "env_at envMap namespaceKey = the (osenv namespaceKey)"
    by (simp add: env env_at_def fmlookup_of_list map_of_tabulate envKeys_def)
  with ns show ?thesis
    by (auto simp: probeMain_def NamespaceEnvVarName_def namespaceKey_def initialManagedMCG_def object_key_def
        managedMCGRequest_def ManagedMCGName_def)
qed

end
