(* ===== verification/Convergence.thy ===== *)
theory Convergence
  imports Controller
begin

text \<open>
  The mutations that the operator passes to \<open>CreateOrUpdate\<close>, as instances of \<open>converging\<close>: the
  controller reference is set, then the desired body and labels are assigned. For each of them a
  second reconciliation against the same server finds nothing to do.
\<close>

text \<open>A mutation that owns the object and then rewrites it with a function \<open>h\<close>.\<close>

definition ownedG ::
  "(reconciler \<Rightarrow> 'b object \<Rightarrow> 'b object) \<Rightarrow> reconciler \<Rightarrow> 'b object \<Rightarrow> gerr + 'b object" where
  "ownedG h r x =
     (case SetControllerReference KManagedMCG (ObjectMeta (rManagedMCG r)) (ObjectMeta x) of
        Inl err \<Rightarrow> Inl (WrapErr ''failed to set controller reference'' err)
      | Inr m \<Rightarrow> Inr (h r (x\<lparr>ObjectMeta := m\<rparr>)))"

locale owned = typed_server E inv stored K
  for E :: "'w env" and inv :: "'w \<Rightarrow> bool" and stored :: "'w \<Rightarrow> kind \<Rightarrow> nn \<Rightarrow> kobject option"
    and K :: "'b kdesc" +
  fixes F :: "(reconciler, 'b) field" and h :: "reconciler \<Rightarrow> 'b object \<Rightarrow> 'b object"
    and m :: "('w, unit) ract"
  assumes lens: "fst F (snd F u r) = u (fst F r)" "snd F u (snd F u' r) = snd F (\<lambda>x. u (u' x)) r"
    and apart: "rManagedMCG (snd F u r) = rManagedMCG r" "h (snd F u r) = h r"
    and m_runs: "m s = (Ok (), s\<lparr>rc := snd F (h (rc s)) (rc s)\<rparr>)"
    and h_meta: "mOwnerReferences (ObjectMeta (h r x)) = mOwnerReferences (ObjectMeta x)"
      "mNamespace (ObjectMeta (h r x)) = mNamespace (ObjectMeta x)"
      "mDeletionTimestamp (ObjectMeta (h r x)) = mDeletionTimestamp (ObjectMeta x)"
    and h_stable: "semantic_DeepEqual (untype K x') (untype K (set_rv v (h r x))) \<Longrightarrow>
      semantic_DeepEqual (untype K x') (untype K (h r x'))"
begin

lemma owned_run:
  "thenA (own F) m s =
     (case ownedG h (rc s) (fst F (rc s)) of
        Inl err \<Rightarrow> (Err err, s)
      | Inr y \<Rightarrow> (Ok (), s\<lparr>rc := snd F (\<lambda>_. y) (rc s)\<rparr>))"
  by (simp add: ownedG_def own_def getR_def setF_def setR_def act_unfold m_runs apart lens
      split: sum.split)

lemma ownedG_meta:
  assumes "ownedG h r x = Inr y"
  shows "\<exists>mm. SetControllerReference KManagedMCG (ObjectMeta (rManagedMCG r)) (ObjectMeta x) = Inr mm \<and>
      y = h r (x\<lparr>ObjectMeta := mm\<rparr>) \<and> mOwnerReferences (ObjectMeta y) = mOwnerReferences mm"
  using assms by (auto simp: ownedG_def h_meta split: sum.splits)

end

sublocale owned \<subseteq> converging E inv stored K F "ownedG h" "thenA (own F) m"
proof
  fix u r
  show "fst F (snd F u r) = u (fst F r)" by (rule lens)
next
  fix s :: "(reconciler, 'w) sys" and u s'
  assume "thenA (own F) m s = (Ok u, s')"
  then show "\<exists>y. ownedG h (rc s) (fst F (rc s)) = Inr y \<and> s' = s\<lparr>rc := snd F (\<lambda>_. y) (rc s)\<rparr>"
    by (auto simp: owned_run split: sum.splits)
next
  fix s :: "(reconciler, 'w) sys" and y
  assume "ownedG h (rc s) (fst F (rc s)) = Inr y"
  then show "thenA (own F) m s = (Ok (), s\<lparr>rc := snd F (\<lambda>_. y) (rc s)\<rparr>)"
    by (simp add: owned_run)
next
  fix u r
  show "ownedG h (snd F u r) = ownedG h r"
    by (simp add: ownedG_def fun_eq_iff apart cong: sum.case_cong)
next
  fix r x y
  assume "ownedG h r x = Inr y"
  then show "mDeletionTimestamp (ObjectMeta y) = mDeletionTimestamp (ObjectMeta x)"
    by (auto simp: ownedG_def h_meta SetControllerReference_Inr_iff split: sum.splits)
next
  fix r x y x' v
  assume y: "ownedG h r x = Inr y"
    and sem: "semantic_DeepEqual (untype K x') (untype K (set_rv v y))"
  obtain mm where mm: "SetControllerReference KManagedMCG (ObjectMeta (rManagedMCG r)) (ObjectMeta x) = Inr mm"
    and y': "y = h r (x\<lparr>ObjectMeta := mm\<rparr>)"
    using ownedG_meta [OF y] by blast
  have "norm_meta (ObjectMeta x') = norm_meta ((ObjectMeta y)\<lparr>mResourceVersion := v\<rparr>)"
    using sem by (simp add: semantic_DeepEqual_def untype_def)
  then have "mOwnerReferences (ObjectMeta x') = mOwnerReferences (ObjectMeta y)"
    and "mNamespace (ObjectMeta x') = mNamespace (ObjectMeta y)"
    by (cases "ObjectMeta x'"; cases "ObjectMeta y"; simp add: norm_meta_def)+
  then have "mOwnerReferences (ObjectMeta x') = mOwnerReferences mm"
    and "mNamespace (ObjectMeta x') = mNamespace (ObjectMeta x)"
    using mm by (auto simp: y' h_meta SetControllerReference_Inr_iff)
  then have "SetControllerReference KManagedMCG (ObjectMeta (rManagedMCG r)) (ObjectMeta x') =
      Inr (ObjectMeta x')"
    by (rule SetControllerReference_stable [OF mm])
  then have "ownedG h r x' = Inr (h r x')" by (simp add: ownedG_def)
  with h_stable sem show "\<exists>y'. ownedG h r x' = Inr y' \<and> semantic_DeepEqual (untype K x') (untype K y')"
    by (auto simp: y')
qed

text \<open>What a successful run has stored: the desired body, with the ManagedMCG as its controller.\<close>

context owned
begin

lemma enforces:
  assumes "inv (wd s)" and "CreateOrUpdate E K F (thenA (own F) m) s = (Ok res, s')"
    and "\<And>ob. stored (wd s) (kdKind K) (object_key (fst F (rc s))) = Some ob \<Longrightarrow> \<not> terminating ob"
  shows "\<exists>ob x v. stored (wd s') (kdKind K) (object_key (fst F (rc s))) = Some ob \<and>
    semantic_DeepEqual ob (untype K (set_rv v (h (rc s) x))) \<and>
    GetControllerOf (ObjectMeta ob) =
      Some (controllerRef KManagedMCG (ObjectMeta (rManagedMCG (rc s))))"
proof -
  obtain ob x y v where ob: "stored (wd s') (kdKind K) (object_key (fst F (rc s))) = Some ob"
    and y: "ownedG h (rc s) x = Inr y"
    and sem: "semantic_DeepEqual ob (untype K (set_rv v y))"
    using CreateOrUpdate_settles [OF assms] by (auto simp: settled_def)
  obtain mm where mm: "SetControllerReference KManagedMCG (ObjectMeta (rManagedMCG (rc s)))
      (ObjectMeta x) = Inr mm"
    and y': "y = h (rc s) (x\<lparr>ObjectMeta := mm\<rparr>)"
    and refs: "mOwnerReferences (ObjectMeta y) = mOwnerReferences mm"
    using ownedG_meta [OF y] by blast
  have "norm_meta (ObjectMeta ob) = norm_meta ((ObjectMeta y)\<lparr>mResourceVersion := v\<rparr>)"
    using sem by (simp add: semantic_DeepEqual_def untype_def)
  then have "mOwnerReferences (ObjectMeta ob) = mOwnerReferences mm"
    by (cases "ObjectMeta ob"; cases "ObjectMeta y") (simp add: norm_meta_def refs [symmetric])
  then have "GetControllerOf (ObjectMeta ob) =
      Some (controllerRef KManagedMCG (ObjectMeta (rManagedMCG (rc s))))"
    using SetControllerReference_controller [OF mm] by (simp add: GetControllerOf_def)
  with ob sem y' show ?thesis by blast
qed

end

interpretation ingress: owned "fakeEnv ma un" cluster_wf tracked kNetworkPolicy fIngressNetworkPolicy
  "\<lambda>_ x. x\<lparr>Body := NetworkPolicyTemplate\<rparr>"
  "setBody fIngressNetworkPolicy (\<lambda>_. NetworkPolicyTemplate)" for ma un
  by unfold_locales (auto simp: setBody_def setR_def modA_def semantic_DeepEqual_def untype_def)


interpretation proxy: owned "fakeEnv ma un" cluster_wf tracked kNetworkPolicy
  fPrometheusProxyNetworkPolicy "\<lambda>_ x. x\<lparr>Body := PrometheusProxyNetworkPolicyTemplate\<rparr>"
  "setBody fPrometheusProxyNetworkPolicy (\<lambda>_. PrometheusProxyNetworkPolicyTemplate)" for ma un
  by unfold_locales (auto simp: setBody_def setR_def modA_def semantic_DeepEqual_def untype_def)

interpretation rbac: owned "fakeEnv ma un" cluster_wf tracked kConfigMap fKubeRBACConfigMap
  "\<lambda>_ x. x\<lparr>Body := KubeRBACProxyConfigMap\<rparr>"
  "setBody fKubeRBACConfigMap (\<lambda>_. KubeRBACProxyConfigMap)" for ma un
  by unfold_locales (auto simp: setBody_def setR_def modA_def semantic_DeepEqual_def untype_def)

text \<open>The rule of the dead man's snitch: the template carries a label map, so the label is set.\<close>

definition dmsGroups :: "string \<Rightarrow> rule_group list" where
  "dmsGroups ns = (case dmsRuleGroups ns of Ok gs \<Rightarrow> gs | _ \<Rightarrow> [])"

lemma dmsRuleGroups_Ok: "dmsRuleGroups ns = Ok (dmsGroups ns)"
  by (simp add: dmsGroups_def dmsRuleGroups_def DMSPrometheusRuleTemplate_def onRules_def
      putRuleLabel_def gm_put_def gm_of_def)

interpretation dms: owned "fakeEnv ma un" cluster_wf tracked kPrometheusRule fDmsRule
  "\<lambda>r x. x\<lparr>Body := dmsGroups (rNamespace r)\<rparr>"
  "bindA (getR rNamespace) (\<lambda>ns. bindA (liftA (dmsRuleGroups ns))
     (\<lambda>desired. setBody fDmsRule (\<lambda>_. desired)))" for ma un
  by unfold_locales
    (auto simp: dmsRuleGroups_Ok setBody_def setR_def getR_def act_unfold semantic_DeepEqual_def untype_def)

text \<open>Alertmanager: the body of the template with the selector, and the monitoring label.\<close>

definition alertmanagerBody :: "alertmanager \<Rightarrow> alertmanager" where
  "alertmanagerBody b = b\<lparr>amSpec := (amSpec AlertmanagerTemplate)\<lparr>
     asAlertmanagerConfigSelector := Some \<lparr>lsMatchLabels = gm_of [(monLabelKey, monLabelValue)],
       lsMatchExpressions = []\<rparr>\<rparr>\<rparr>"

definition labelled :: "string \<Rightarrow> string \<Rightarrow> object_meta \<Rightarrow> object_meta" where
  "labelled k v m = m\<lparr>mLabels := GoMap (fmupd k v (gm_fmap (mLabels m)))\<rparr>"

lemma labelled_simps [simp]:
  "mOwnerReferences (labelled k v m) = mOwnerReferences m"
  "mNamespace (labelled k v m) = mNamespace m"
  "mDeletionTimestamp (labelled k v m) = mDeletionTimestamp m"
  by (simp_all add: labelled_def)

lemma labelled_stable:
  assumes "norm_meta m' = norm_meta ((labelled k v m)\<lparr>mResourceVersion := rv\<rparr>)"
  shows "norm_meta (labelled k v m') = norm_meta m'"
proof -
  have "gm_norm (mLabels m') = gm_norm (mLabels (labelled k v m))"
    using assms by (cases m'; cases m) (simp add: norm_meta_def labelled_def)
  then have "gm_fmap (mLabels m') = fmupd k v (gm_fmap (mLabels m))"
    by (simp add: gm_norm_def labelled_def gm_fmap_def)
  then show ?thesis
    by (cases m') (simp add: norm_meta_def labelled_def gm_norm_def gm_fmap_def)
qed

lemma alertmanagerBody_stable:
  "norm_body (BAlertmanager b') = norm_body (BAlertmanager (alertmanagerBody b)) \<Longrightarrow>
   norm_body (BAlertmanager (alertmanagerBody b')) = norm_body (BAlertmanager b')"
  by (cases b'; cases b) (simp add: alertmanagerBody_def)

lemma alertmanager_stable:
  assumes "semantic_DeepEqual (untype kAlertmanager x') (untype kAlertmanager (set_rv v (x\<lparr>
      ObjectMeta := labelled k l (ObjectMeta x), Body := alertmanagerBody (Body x)\<rparr>)))"
  shows "semantic_DeepEqual (untype kAlertmanager x') (untype kAlertmanager (x'\<lparr>
      ObjectMeta := labelled k l (ObjectMeta x'), Body := alertmanagerBody (Body x')\<rparr>))"
  using assms labelled_stable [where m' = "ObjectMeta x'" and m = "ObjectMeta x" and k = k and v = l and rv = v]
    alertmanagerBody_stable [of "Body x'" "Body x"]
  by (simp add: semantic_DeepEqual_def untype_def kAlertmanager_def del: norm_body.simps)

interpretation alertm: owned "fakeEnv ma un" cluster_wf tracked kAlertmanager fAlertmanager
  "\<lambda>_ x. x\<lparr>ObjectMeta := labelled monLabelKey monLabelValue (ObjectMeta x),
     Body := alertmanagerBody (Body x)\<rparr>"
  "thenA (setBody fAlertmanager alertmanagerBody)
     (setMetaA fAlertmanager (\<lambda>m. AddLabel m monLabelKey monLabelValue))" for ma un
  by unfold_locales
    (auto simp: setBody_def setMetaA_def setF_def setR_def getR_def act_unfold AddLabel_Ok
      labelled_def [symmetric] intro: alertmanager_stable)

section \<open>Enforcement and convergence of the maintained resources\<close>

definition live :: "cluster \<Rightarrow> kind \<Rightarrow> nn \<Rightarrow> bool" where
  "live c k n = (case tracked c k n of None \<Rightarrow> True | Some ob \<Rightarrow> \<not> terminating ob)"

lemma liveD: "live c k n \<Longrightarrow> tracked c k n = Some ob \<Longrightarrow> \<not> terminating ob"
  by (simp add: live_def)

lemma reconcileIngressNetworkPolicy_run:
  "reconcileIngressNetworkPolicy E s = (Ok (), s') \<longleftrightarrow>
     (\<exists>res. CreateOrUpdate E kNetworkPolicy fIngressNetworkPolicy (thenA (own fIngressNetworkPolicy)
       (setBody fIngressNetworkPolicy (\<lambda>_. NetworkPolicyTemplate))) s = (Ok res, s'))"
  by (auto simp: reconcileIngressNetworkPolicy_def act_unfold split: prod.splits outcome.splits)

lemma reconcileAlertmanager_run:
  "reconcileAlertmanager E s = (Ok (), s') \<longleftrightarrow>
     (\<exists>res. CreateOrUpdate E kAlertmanager fAlertmanager (thenA (own fAlertmanager)
       (thenA (setBody fAlertmanager alertmanagerBody)
         (setMetaA fAlertmanager (\<lambda>m. AddLabel m monLabelKey monLabelValue)))) s = (Ok res, s'))"
  by (auto simp: reconcileAlertmanager_def alertmanagerBody_def [abs_def] act_unfold
      split: prod.splits outcome.splits)

lemma reconcileDMSPrometheusRule_run:
  "reconcileDMSPrometheusRule E s = (Ok (), s') \<longleftrightarrow>
     (\<exists>res. CreateOrUpdate E kPrometheusRule fDmsRule (thenA (own fDmsRule)
       (bindA (getR rNamespace) (\<lambda>ns. bindA (liftA (dmsRuleGroups ns))
         (\<lambda>desired. setBody fDmsRule (\<lambda>_. desired))))) s = (Ok res, s'))"
  by (auto simp: reconcileDMSPrometheusRule_def act_unfold split: prod.splits outcome.splits)

lemma ownedG_cong:
  "ObjectMeta (rManagedMCG r) = ObjectMeta (rManagedMCG r') \<Longrightarrow> h r = h r' \<Longrightarrow> ownedG h r = ownedG h r'"
  by (simp add: ownedG_def fun_eq_iff cong: sum.case_cong)

text \<open>
  C21. A run of \<open>reconcileIngressNetworkPolicy\<close> that succeeds against a server that nobody else writes
  to leaves the network policy with the specification of the template and with the ManagedMCG as
  its controller, whatever was stored under its name before: drift is corrected, a missing policy
  is created.
\<close>

theorem reconcileIngressNetworkPolicy_enforces:
  assumes "cluster_wf (wd s)"
    and "live (wd s) KNetworkPolicy (object_key (rIngressNetworkPolicy (rc s)))"
    and "reconcileIngressNetworkPolicy (fakeEnv ma un) s = (Ok (), s')"
  shows "\<exists>ob. tracked (wd s') KNetworkPolicy (object_key (rIngressNetworkPolicy (rc s))) = Some ob \<and>
    norm_body (Body ob) = norm_body (BNetworkPolicy NetworkPolicyTemplate) \<and>
    GetControllerOf (ObjectMeta ob) =
      Some (controllerRef KManagedMCG (ObjectMeta (rManagedMCG (rc s))))"
proof -
  from assms(3) obtain res where "CreateOrUpdate (fakeEnv ma un) kNetworkPolicy fIngressNetworkPolicy
      (thenA (own fIngressNetworkPolicy) (setBody fIngressNetworkPolicy (\<lambda>_. NetworkPolicyTemplate))) s
      = (Ok res, s')"
    by (auto simp: reconcileIngressNetworkPolicy_run)
  from ingress.enforces [OF assms(1) this] show ?thesis
    using assms(2) by (auto simp: semantic_DeepEqual_def untype_def kNetworkPolicy_def dest: liveD)
qed

theorem reconcileIngressNetworkPolicy_enforces_witness:
  "\<exists>ob. tracked (wd (snd (reconcileIngressNetworkPolicy sampleEnv
        (sampleStart [untype kManagedMCG sampleMCG])))) KNetworkPolicy
      (object_key (rIngressNetworkPolicy sampleReconciler)) = Some ob \<and>
    norm_body (Body ob) = norm_body (BNetworkPolicy NetworkPolicyTemplate) \<and>
    GetControllerOf (ObjectMeta ob) = Some (controllerRef KManagedMCG (ObjectMeta sampleMCG))"
  using reconcileIngressNetworkPolicy_enforces
    [of "sampleStart [untype kManagedMCG sampleMCG]" "\<lambda>_. Inr ''yaml''" "\<lambda>_ gs. Inr gs"
      "snd (reconcileIngressNetworkPolicy sampleEnv (sampleStart [untype kManagedMCG sampleMCG]))"]
  by (simp add: cluster_wf_def live_def reconcileIngressNetworkPolicy_def client_defs sample_defs
      init_defs name_defs fake_defs kdesc_defs owner_defs)

text \<open>
  C23. Once \<open>reconcileAlertmanager\<close> has succeeded, running it again against the same server, with the
  same owner and name, succeeds and changes no stored object, not even a resource version.
\<close>

theorem reconcileAlertmanager_converges:
  assumes "cluster_wf (wd s)" and "live (wd s) KAlertmanager (object_key (rAlertmanager (rc s)))"
    and "reconcileAlertmanager (fakeEnv ma un) s = (Ok (), s')"
    and "wd t = wd s'" and "object_key (rAlertmanager (rc t)) = object_key (rAlertmanager (rc s))"
    and "ObjectMeta (rManagedMCG (rc t)) = ObjectMeta (rManagedMCG (rc s))"
  shows "\<exists>t'. reconcileAlertmanager (fakeEnv ma un) t = (Ok (), t') \<and> tracked (wd t') = tracked (wd s')"
proof -
  from assms(3) obtain res where run: "CreateOrUpdate (fakeEnv ma un) kAlertmanager fAlertmanager
      (thenA (own fAlertmanager) (thenA (setBody fAlertmanager alertmanagerBody)
        (setMetaA fAlertmanager (\<lambda>m. AddLabel m monLabelKey monLabelValue)))) s = (Ok res, s')"
    by (auto simp: reconcileAlertmanager_run)
  have "\<exists>t'. CreateOrUpdate (fakeEnv ma un) kAlertmanager fAlertmanager
      (thenA (own fAlertmanager) (thenA (setBody fAlertmanager alertmanagerBody)
        (setMetaA fAlertmanager (\<lambda>m. AddLabel m monLabelKey monLabelValue)))) t =
      (Ok OperationResultNone, t') \<and> tracked (wd t') = tracked (wd s')"
    by (rule alertm.CreateOrUpdate_converges [OF assms(1) run])
      (use assms in \<open>auto dest: liveD intro: ownedG_cong\<close>)
  then show ?thesis unfolding reconcileAlertmanager_run by blast
qed

theorem reconcileAlertmanager_converges_witness:
  "\<exists>t'. reconcileAlertmanager sampleEnv
      \<lparr>rc = sampleReconciler, wd = wd (snd (reconcileAlertmanager sampleEnv (sampleStart [])))\<rparr> = (Ok (), t') \<and>
    tracked (wd t') = tracked (wd (snd (reconcileAlertmanager sampleEnv (sampleStart []))))"
proof -
  have "fst (reconcileAlertmanager (fakeEnv (\<lambda>_. Inr ''yaml'') (\<lambda>_ gs. Inr gs)) (sampleStart [])) = Ok ()"
    by (simp add: reconcileAlertmanager_def client_defs sample_defs init_defs name_defs fake_defs
        kdesc_defs owner_defs AddLabel_Ok)
  then have run: "reconcileAlertmanager (fakeEnv (\<lambda>_. Inr ''yaml'') (\<lambda>_ gs. Inr gs)) (sampleStart []) =
      (Ok (), snd (reconcileAlertmanager (fakeEnv (\<lambda>_. Inr ''yaml'') (\<lambda>_ gs. Inr gs)) (sampleStart [])))"
    by (metis prod.collapse)
  show ?thesis
    unfolding sampleEnv_def
    by (rule reconcileAlertmanager_converges [OF _ _ run])
      (simp_all add: cluster_wf_def live_def tracked_def sampleStart_def clusterOf_def)
qed

end
