(* ===== verification/Resources.thy ===== *)
theory Resources
  imports Convergence
begin

text \<open>
  What the operator does to the resources that it shares with others: it scales the OCS operator
  down, registers its plug-in with the console, keeps the specification of NooBaa, and creates the
  objects of its console plug-in.
\<close>

section \<open>The OCS operator\<close>

definition scaled :: "strategy_deployment_spec \<Rightarrow> strategy_deployment_spec" where
  "scaled d = (if sdName d \<in> set ocsDeployments then d\<lparr>sdReplicas := Some 0\<rparr> else d)"

definition replicas_unset :: "strategy_deployment_spec \<Rightarrow> bool" where
  "replicas_unset d \<longleftrightarrow> sdName d \<in> set ocsDeployments \<and> sdReplicas d = None"

lemma scaled_simps [simp]: "sdName (scaled d) = sdName d" "scaled (scaled d) = scaled d"
  "\<not> replicas_unset (scaled d)"
  by (simp_all add: scaled_def replicas_unset_def)

lemma scaled_id: "scaled d = d \<longleftrightarrow> sdName d \<in> set ocsDeployments \<longrightarrow> sdReplicas d = Some 0"
  by (cases d) (auto simp: scaled_def)

lemma scaled_Some:
  assumes "sdName d \<in> set ocsDeployments" and "sdReplicas d = Some n"
  shows "(if n \<noteq> 0 then d\<lparr>sdReplicas := Some 0\<rparr> else d) = scaled d" "scaled d \<noteq> d \<longleftrightarrow> n \<noteq> 0"
  using assms by (cases d; auto simp: scaled_def)+

lemma downscale_eq:
  "downscale ds c =
     (if list_ex replicas_unset ds then Panic ''nil pointer dereference''
      else Ok (map scaled ds, c \<or> map scaled ds \<noteq> ds))"
proof (induction ds c rule: downscale.induct)
  case (1 c)
  then show ?case by simp
next
  case (2 d ds c)
  show ?case
  proof (cases "sdName d \<in> set ocsDeployments")
    case True
    show ?thesis
    proof (cases "sdReplicas d")
      case None
      with True show ?thesis by (simp add: replicas_unset_def)
    next
      case (Some n)
      have "downscale (d # ds) c = (case downscale ds (c \<or> n \<noteq> 0) of
          Ok (es, c') \<Rightarrow> Ok (scaled d # es, c') | Err e \<Rightarrow> Err e | Panic p \<Rightarrow> Panic p)"
        using True Some scaled_Some(1) [OF True Some] by (cases "n = 0") (auto simp: Let_def split: outcome.split)
      then show ?thesis
        using 2(1) [OF True Some refl refl] scaled_Some(2) [OF True Some] Some
        by (auto simp: replicas_unset_def)
    qed
  next
    case False
    then have "scaled d = d" "\<not> replicas_unset d" by (simp_all add: scaled_def replicas_unset_def)
    with 2(2) [OF False] False show ?thesis by simp
  qed
qed

text \<open>
  C38. The loop over the deployments of the OCS operator sets the replicas of the three deployments it
  names to zero, leaves every other deployment as it is and reports a change exactly when there was
  one; it panics exactly when one of the three leaves its replicas unset. What it returns it would
  not change again.
\<close>

theorem downscale_spec:
  "downscale ds c =
     (if list_ex replicas_unset ds then Panic ''nil pointer dereference''
      else Ok (map scaled ds, if map scaled ds = ds then c else True)) \<and>
   downscale (map scaled ds) False = Ok (map scaled ds, False)"
  by (simp add: downscale_eq list_ex_iff)

text \<open>
  The CSV of the OCS operator is left alone until NooBaa is ready; then the first CSV with the
  prefix is sent back with its deployments scaled down, and nothing is sent when they are down
  already. An unset number of replicas ends the process.
\<close>

lemma reconcileOCSCSV_result:
  "reconcileOCSCSV E s =
     (if csNoobaa (components (rc s)) \<noteq> ComponentReady then (Ok (), s)
      else case getCSVByPrefix E ''ocs-operator'' s of
        (Ok csv', t) \<Rightarrow>
          (let ds = csvDeploymentSpecs (Body csv') in
           if list_ex replicas_unset ds then (Panic ''nil pointer dereference'', t)
           else if map scaled ds = ds then (Ok (), t)
           else wrapA ''failed to update OCS CSV''
             (r_updateLocal E kCSV (csv'\<lparr>Body := (Body csv')\<lparr>csvDeploymentSpecs := map scaled ds\<rparr>\<rparr>)) t)
      | (Err e, t) \<Rightarrow> (Err e, t)
      | (Panic p, t) \<Rightarrow> (Panic p, t))"
  by (simp add: reconcileOCSCSV_def getR_def act_unfold downscale_eq Let_def split: prod.split outcome.split)

section \<open>NooBaa\<close>

text \<open>
  The default backing store is the well-known name where a listed store starts with it, the first
  listed store otherwise, and the empty name when there is none or the list fails; the fetch never
  makes the reconciliation fail.
\<close>

lemma getDefaultBackingStore_result:
  "getDefaultBackingStore E s =
     (case r_list E kBackingStore s of
        (Ok items, t) \<Rightarrow>
          (Ok (if list_ex (\<lambda>b. has_prefix (mName (ObjectMeta b)) DefaultBackingStore) items
               then DefaultBackingStore
               else case items of [] \<Rightarrow> '''' | b # _ \<Rightarrow> mName (ObjectMeta b)), t)
      | (Err _, t) \<Rightarrow> (Ok '''', t)
      | (Panic p, t) \<Rightarrow> (Panic p, t))"
  by (auto simp: getDefaultBackingStore_def act_unfold list_ex_iff split: prod.split outcome.split list.split)


text \<open>The specification that the sources assign: the template with resources, images, type and endpoints.\<close>

definition desiredNoobaaSpec :: "image_map \<Rightarrow> noobaa_spec" where
  "desiredNoobaaSpec images = NoobaaTemplate\<lparr>
     nsCoreResources := Some (at_init (GetResourceRequirements ''noobaa-core'')),
     nsDBResources := Some (at_init (GetResourceRequirements ''noobaa-db'')),
     nsDBVolumeResources := Some (at_init (GetResourceRequirements ''noobaa-db-vol'')),
     nsImage := Some (imgNooBaaCore images), nsDBImage := Some (imgNooBaaDB images),
     nsDBType := ''postgres'',
     nsEndpoints := Some \<lparr>epMinCount = 1, epMaxCount = 2, epAdditionalVirtualHosts = [],
       epResources = Some (at_init (GetResourceRequirements ''noobaa-endpoint''))\<rparr>\<rparr>"

lemma setNoobaaDesiredState_Ok:
  "\<exists>y. setNoobaaDesiredState images (newObj n ns (zero_noobaa\<lparr>nooSpec := NoobaaTemplate\<rparr>)) = Ok y \<and>
     nooSpec (Body y) = desiredNoobaaSpec images \<and> mLabels (ObjectMeta y) = gm_of [(''app'', ''noobaa'')]"
  by (simp add: setNoobaaDesiredState_def desiredNoobaaSpec_def newObj_def at_init_def
      GetResourceRequirements_def ResourceRequirements_def)

text \<open>
  C39. The mutation of the NooBaa resource never fails: it replaces the specification by the desired
  one, sets the annotation of the default backing store exactly when the object fetched before had
  none and a store is known, and changes nothing else. In particular the label \<open>app=noobaa\<close> of the
  desired object is not applied.
\<close>

theorem mutateNoobaa_result:
  "mutateNoobaa annotations store desired s =
     (let old = rNoobaa (rc s);
          new = old\<lparr>Body := (Body old)\<lparr>nooSpec := nooSpec (Body desired)\<rparr>,
            ObjectMeta := (if gm_str annotations ''default-backing-store'' = '''' \<and> store \<noteq> ''''
              then (ObjectMeta old)\<lparr>mAnnotations := GoMap (fmupd ''default-backing-store'' store
                     (gm_fmap (mAnnotations (ObjectMeta old))))\<rparr>
              else ObjectMeta old)\<rparr>
      in (Ok (), s\<lparr>rc := (rc s)\<lparr>rNoobaa := new\<rparr>\<rparr>))"
  by (auto simp: mutateNoobaa_def setMetaA_def setBody_def setF_def setR_def getR_def act_unfold
      AddAnnotation_Ok gm_str_def Let_def split: option.splits)

text \<open>What a reconciliation of NooBaa may send: its own object, with the desired specification.\<close>

fun noobaa_requests :: "nn \<Rightarrow> image_map \<Rightarrow> request \<Rightarrow> bool" where
  "noobaa_requests key images (ReqCreate ob) =
     (object_key ob = key \<and> (case Body ob of BNooBaa b \<Rightarrow> nooSpec b = desiredNoobaaSpec images | _ \<Rightarrow> False))"
| "noobaa_requests key images (ReqUpdate ob) =
     (object_key ob = key \<and> (case Body ob of BNooBaa b \<Rightarrow> nooSpec b = desiredNoobaaSpec images | _ \<Rightarrow> False))"
| "noobaa_requests key images (ReqStatusUpdate ob) = False"
| "noobaa_requests key images (ReqDelete k n) = False"
| "noobaa_requests key images q = True"

interpretation noob: write_frame "recording E" "log_within (noobaa_requests key images)"
  "noobaa_requests key images" "{}" "{}" "{}" for E key images
  by unfold_locales simp_all

lemma r_list_rc: "r_list E K s = (out, t) \<Longrightarrow> rc t = rc s"
  by (auto simp: r_list_def getR_def clientList_def reqA_def act_unfold
      split: prod.splits sum.splits option.splits outcome.splits)

lemma getDefaultBackingStore_Ok: "\<exists>store t. getDefaultBackingStore E s = (Ok store, t) \<and> rc t = rc s"
proof -
  obtain out t where list: "r_list E kBackingStore s = (out, t)" by fastforce
  then have "rc t = rc s" by (rule r_list_rc)
  moreover have "out \<noteq> Panic p" for p
    using list by (auto simp: r_list_def getR_def clientList_def reqA_def act_unfold
        split: prod.splits sum.splits option.splits outcome.splits)
  ultimately show ?thesis
    using list by (cases out) (auto simp: getDefaultBackingStore_def act_unfold split: list.split)
qed

lemma CreateOrUpdate_noobaa_requests:
  assumes "nooSpec (Body desired) = desiredNoobaaSpec images"
    and "log_within (noobaa_requests (object_key (rNoobaa (rc s))) images) (wd s)"
  shows "log_within (noobaa_requests (object_key (rNoobaa (rc s))) images)
    (wd (snd (CreateOrUpdate (recording E) kNooBaa fNoobaa (mutateNoobaa annotations store desired) s)))"
proof (rule rec.CreateOrUpdate_writes)
  show "keepsA (onW (log_within (noobaa_requests (object_key (rNoobaa (rc s))) images)))
      (mutateNoobaa annotations store desired)"
    unfolding mutateNoobaa_def by (intro keeps_intros rec.keeps_setMetaA rec.keeps_setBody)
  show "(\<lambda>ob. nooSpec (Body ob) = desiredNoobaaSpec images) (fst fNoobaa (rc t'))"
    if "mutateNoobaa annotations store desired t = (Ok u, t')"
    for t :: "(reconciler, event list \<times> 'a) sys" and u t'
    using that assms(1) by (auto simp: mutateNoobaa_def setMetaA_def setBody_def setF_def setR_def getR_def
        act_unfold AddAnnotation_Ok split: if_splits option.splits)
qed (use assms in \<open>auto simp: untype_def kNooBaa_def object_key_def\<close>)

text \<open>
  C34. The reconciliation of NooBaa writes the NooBaa resource of its namespace only, always with the
  specification of the template completed by the resource table and the images of the environment,
  whatever was stored before; it deletes nothing and leaves the status alone.
\<close>

theorem reconcileNoobaaComponent_requests:
  "log_within (noobaa_requests (object_key (rNoobaa r)) (rImages r))
     (wd (snd (reconcileNoobaaComponent (recording E) (start r w))))"
proof -
  let ?P = "noobaa_requests (object_key (rNoobaa r)) (rImages r)"
  obtain store t where store: "getDefaultBackingStore (recording E) (start r w) = (Ok store, t)"
    and t: "rc t = r"
    using getDefaultBackingStore_Ok [of "recording E" "start r w"] by (auto simp: start_def)
  obtain desired where desired: "setNoobaaDesiredState (rImages r)
      (newObj '''' '''' (zero_noobaa\<lparr>nooSpec := NoobaaTemplate\<rparr>)) = Ok desired"
    and spec: "nooSpec (Body desired) = desiredNoobaaSpec (rImages r)"
    using setNoobaaDesiredState_Ok by blast
  have "log_within ?P (wd t)"
    using keepsAD [OF noob.keeps_getDefaultBackingStore _ store] by (simp add: onW_def start_def log_within_def requests_def)
  then have "log_within ?P (wd (snd (CreateOrUpdate (recording E) kNooBaa fNoobaa
      (mutateNoobaa (mAnnotations (ObjectMeta (rNoobaa r))) store desired) t)))"
    using CreateOrUpdate_noobaa_requests [OF spec, of t] t by simp
  then show ?thesis
    using store t desired
    by (auto simp: reconcileNoobaaComponent_def getR_def act_unfold start_def split: prod.split outcome.split)
qed

section \<open>The console\<close>

text \<open>How often the plug-in is registered with a console object.\<close>

definition registered :: "kobject \<Rightarrow> nat" where
  "registered ob = (case Body ob of BConsole b \<Rightarrow> count_list (conPlugins b) mcgmsConsoleName | _ \<Rightarrow> 0)"

interpretation consoles: typed_server "fakeEnv ma un" cluster_wf tracked kConsole for ma un
  by unfold_locales

lemma registered_semantic: "semantic_DeepEqual a b \<Longrightarrow> registered a = registered b"
  by (cases "Body a"; cases "Body b") (auto simp: semantic_DeepEqual_def registered_def)

lemma registered_untype: "registered (untype kConsole x) = count_list (conPlugins (Body x)) mcgmsConsoleName"
  by (simp add: registered_def untype_def kConsole_def)

lemma count_list_pos: "0 < count_list xs x \<longleftrightarrow> x \<in> set xs"
  by (metis count_list_0_iff gr0I less_irrefl)

lemma consoles_listed:
  assumes "cluster_wf (wd s)"
  shows "\<exists>ys. clientList (fakeEnv ma un) kConsole '''' s = (Ok ys, s) \<and>
    ((\<exists>c \<in> set ys. Contains (conPlugins (Body c)) mcgmsConsoleName) \<longleftrightarrow>
     (\<exists>n ob. tracked (wd s) KConsole n = Some ob \<and> 0 < registered ob))"
proof -
  obtain ys where list: "clientList (fakeEnv ma un) kConsole '''' s = (Ok ys, s)"
    and ys: "map (untype kConsole) ys = map json_roundtrip (tracker_List KConsole '''' (wd s))"
    using tk_console.fake_clientList [OF assms, of ma un "''''"] by auto
  have reg: "registered (json_roundtrip ob) = registered ob" for ob
    by (rule registered_semantic) simp
  have "(\<exists>c \<in> set ys. Contains (conPlugins (Body c)) mcgmsConsoleName) \<longleftrightarrow>
      (\<exists>x \<in> set (map (untype kConsole) ys). 0 < registered x)"
    by (simp add: registered_untype count_list_pos)
  also have "\<dots> \<longleftrightarrow> (\<exists>n ob. tracked (wd s) KConsole n = Some ob \<and> 0 < registered ob)"
    unfolding ys by (simp add: reg Bex_def set_tracker_List [OF assms]) blast
  finally show ?thesis using list by blast
qed

text \<open>The mutation of the console object: the name of the plug-in is appended.\<close>

abbreviation with_plugin :: "operator_console object \<Rightarrow> operator_console object" where
  "with_plugin x \<equiv> x\<lparr>Body := (Body x)\<lparr>conPlugins := conPlugins (Body x) @ [mcgmsConsoleName]\<rparr>\<rparr>"

abbreviation addPlugin :: "('w, unit) ract" where
  "addPlugin \<equiv> setBody fOperatorConsole (\<lambda>b. b\<lparr>conPlugins := conPlugins b @ [mcgmsConsoleName]\<rparr>)"

lemma registered_added:
  "registered (untype kConsole (with_plugin x)) = Suc (registered (untype kConsole x))"
  by (simp add: registered_untype)

lemma registered_set_rv: "registered (untype kConsole (set_rv v x)) = registered (untype kConsole x)"
  by (simp add: registered_untype)

lemma addPlugin_creates:
  assumes wf: "cluster_wf (wd s)" and none: "tracked (wd s) KConsole (object_key (rOperatorConsole (rc s))) = None"
    and run: "CreateOrUpdate (fakeEnv ma un) kConsole fOperatorConsole addPlugin s = (Ok res, s')"
  shows "cluster_wf (wd s') \<and> (\<exists>ob.
    tracked (wd s') = (tracked (wd s))(KConsole := (tracked (wd s) KConsole)
      (object_key (rOperatorConsole (rc s)) := Some ob)) \<and>
    registered ob = Suc (registered (untype kConsole (rOperatorConsole (rc s)))))"
proof -
  let ?x = "rOperatorConsole (rc s)"
  obtain e w where get: "clientGet (fakeEnv ma un) kConsole (object_key ?x) s = (Err e, s\<lparr>wd := w\<rparr>)"
    and e: "IsNotFound e" and w: "cluster_wf w" "tracked w = tracked (wd s)"
    using consoles.clientGet_missing [of s "object_key ?x" ma un] wf none by auto
  let ?t = "s\<lparr>wd := w, rc := rOperatorConsole_update with_plugin (rc s)\<rparr>"
  have "\<exists>z t'. clientCreate (fakeEnv ma un) kConsole (with_plugin ?x) ?t = (Ok z, t') \<and> wd s' = wd t'"
    using run get e
    by (auto simp: CreateOrUpdate_def mutateF_def getF_def createF_def keyF_def getR_def setF_def setR_def
        setBody_def act_unfold object_key_def split: prod.splits outcome.splits)
  then obtain z t' where cr: "clientCreate (fakeEnv ma un) kConsole (with_plugin ?x) ?t = (Ok z, t')"
    and s': "wd s' = wd t'" by blast
  have key: "object_key (with_plugin ?x) = object_key ?x" by (simp add: object_key_def)
  from consoles.clientCreate_Ok [OF _ cr] w s' key show ?thesis
    by (auto simp: registered_set_rv registered_added)
qed

lemma addPlugin_updates:
  assumes wf: "cluster_wf (wd s)"
    and some: "tracked (wd s) KConsole (object_key (rOperatorConsole (rc s))) = Some ob" "\<not> terminating ob"
    and run: "CreateOrUpdate (fakeEnv ma un) kConsole fOperatorConsole addPlugin s = (Ok res, s')"
  shows "cluster_wf (wd s') \<and> (\<exists>ob'.
    tracked (wd s') = (tracked (wd s))(KConsole := (tracked (wd s) KConsole)
      (object_key (rOperatorConsole (rc s)) := Some ob')) \<and>
    registered ob' = Suc (registered ob))"
proof -
  let ?key = "object_key (rOperatorConsole (rc s))"
  obtain x w where get: "clientGet (fakeEnv ma un) kConsole ?key s = (Ok x, s\<lparr>wd := w\<rparr>)"
    and sem: "semantic_DeepEqual (untype kConsole x) ob" and w: "cluster_wf w" "tracked w = tracked (wd s)"
    using consoles.clientGet_found [of s ?key ob ma un] wf some by auto
  let ?t = "s\<lparr>wd := w, rc := (rc s)\<lparr>rOperatorConsole := with_plugin x\<rparr>\<rparr>"
  have ne: "\<not> semantic_DeepEqual (untype kConsole x) (untype kConsole (with_plugin x))"
    using registered_semantic [of "untype kConsole x" "untype kConsole (with_plugin x)"] registered_added [of x]
    by auto
  have "object_key (with_plugin x) = object_key x" by (simp add: object_key_def)
  also have "\<dots> = ?key"
    using semantic_DeepEqual_key [OF sem] fake.stored_id [OF wf some(1)] by simp
  finally have key: "object_key (with_plugin x) = ?key" .
  have "\<exists>z t'. clientUpdate (fakeEnv ma un) kConsole (with_plugin x) ?t = (Ok z, t') \<and> wd s' = wd t'"
    using run get ne key
    by (auto simp: CreateOrUpdate_def mutateF_def getF_def updateF_def keyF_def getR_def setF_def setR_def
        setBody_def act_unfold comp_def split: prod.splits outcome.splits if_splits)
  then obtain z t' where up: "clientUpdate (fakeEnv ma un) kConsole (with_plugin x) ?t = (Ok z, t')"
    and s': "wd s' = wd t'" by blast
  have "mDeletionTimestamp (ObjectMeta x) = mDeletionTimestamp (ObjectMeta ob)"
    using sem by (cases "ObjectMeta x"; cases "ObjectMeta ob")
      (auto simp: semantic_DeepEqual_def norm_meta_def untype_def)
  then have "\<not> terminating (with_plugin x)" using some(2) by (simp add: terminating_def)
  from consoles.clientUpdate_Ok [OF _ up this] w s' key registered_semantic [OF sem] show ?thesis
    by (auto simp: registered_set_rv registered_added)
qed



section \<open>The console plug-in\<close>


text \<open>A Service without ports and a ConsolePlugin without a backend.\<close>

definition driftedConsole :: "kobject list" where
  "driftedConsole =
     [untype kDeployment (GetDeployment ''ns''),
      \<lparr>ObjectMeta = zero_meta\<lparr>mName := ''mcg-ms-console-service'', mNamespace := ''ns'',
         mOwnerReferences := [controllerRef KDeployment (ObjectMeta (GetDeployment ''ns''))]\<rparr>,
       Body = BService zero_service\<rparr>,
      \<lparr>ObjectMeta = zero_meta\<lparr>mName := ''mcg-ms-console''\<rparr>, Body = BConsolePlugin zero_console_plugin\<rparr>]"


end
