(* ===== verification/Status.thy ===== *)
theory Status
  imports Controller
begin

section \<open>What the component states mean\<close>

text \<open>
  The state of a component as a function of the server's answers: of the answer \<open>a\<close> about the
  component's own resource and, where that resource is served by a workload, of the answer \<open>b\<close>
  about the workload. An answer of the wrong kind is a decoding error.
\<close>

definition absentState :: "gerr \<Rightarrow> component_state" where
  "absentState e = (if IsNotFound e then ComponentNotFound else ComponentUnknown)"

definition noobaaState :: "gerr + kobject \<Rightarrow> component_state" where
  "noobaaState a = (case fetched kNooBaa a of
     Inl e \<Rightarrow> absentState e
   | Inr n \<Rightarrow> if nooPhase (Body n) = ''Ready'' then ComponentReady else ComponentPending)"

definition replicaState :: "workload kdesc \<Rightarrow> int32 option \<Rightarrow> gerr + kobject \<Rightarrow> component_state" where
  "replicaState K desired b = (case fetched K b of
     Inl _ \<Rightarrow> ComponentPending
   | Inr wl \<Rightarrow>
       if sint (case desired of None \<Rightarrow> 1 | Some n \<Rightarrow> n) \<le> sint (wlReadyReplicas (Body wl))
       then ComponentReady else ComponentPending)"

definition prometheusState :: "gerr + kobject \<Rightarrow> gerr + kobject \<Rightarrow> component_state" where
  "prometheusState a b = (case fetched kPrometheus a of
     Inl e \<Rightarrow> absentState e
   | Inr p \<Rightarrow> replicaState kStatefulSet (psReplicas (promSpec (Body p))) b)"

definition alertmanagerState :: "gerr + kobject \<Rightarrow> gerr + kobject \<Rightarrow> component_state" where
  "alertmanagerState a b = (case fetched kAlertmanager a of
     Inl e \<Rightarrow> absentState e
   | Inr p \<Rightarrow> replicaState kStatefulSet (asReplicas (amSpec (Body p))) b)"

definition consoleState :: "gerr + kobject \<Rightarrow> gerr + kobject \<Rightarrow> component_state" where
  "consoleState a b = (case fetched kConsolePlugin a of
     Inl e \<Rightarrow> absentState e
   | Inr p \<Rightarrow> replicaState kDeployment None b)"

lemmas state_defs = absentState_def noobaaState_def replicaState_def prometheusState_def
  alertmanagerState_def consoleState_def

lemmas status_update_defs = UpdateNoobaaComponentStatus_def UpdatePrometheusComponentStatus_def
  UpdateAlertmanagerComponentStatus_def UpdateConsoleComponentStatus_def stateOfFetch_def
  workloadState_def setComponents_def components_def CheckReplicaStatus_def setBody_def setR_def
  getR_def r_get_eq r_getLocal_eq

lemma component_updates_Ok [simp]:
  "fst (UpdateNoobaaComponentStatus E s) = Ok ()" "fst (UpdatePrometheusComponentStatus E s) = Ok ()"
  "fst (UpdateAlertmanagerComponentStatus E s) = Ok ()" "fst (UpdateConsoleComponentStatus E s) = Ok ()"
  by (simp_all add: status_update_defs act_unfold
      split: prod.split sum.split option.split outcome.split)

lemma UpdateNoobaaComponentStatus_components:
  "components (rc (snd (UpdateNoobaaComponentStatus E s))) = (components (rc s))\<lparr>csNoobaa :=
     noobaaState (fst (eGet E KNooBaa (object_key (rNoobaa (rc s))) (wd s)))\<rparr>"
  by (simp add: status_update_defs act_unfold state_defs
      split: prod.split sum.split option.split outcome.split)

lemma UpdatePrometheusComponentStatus_components:
  "components (rc (snd (UpdatePrometheusComponentStatus E s))) = (components (rc s))\<lparr>csPrometheus :=
     (case eGet E KPrometheus (object_key (rPrometheus (rc s))) (wd s) of (a, w) \<Rightarrow>
        prometheusState a (fst (eGet E KStatefulSet
          \<lparr>nnNamespace = rNamespace (rc s), nnName = ''prometheus-'' @ prometheusName\<rparr> w)))\<rparr>"
  by (simp add: status_update_defs act_unfold state_defs
      split: prod.split sum.split option.split outcome.split)

lemma UpdateAlertmanagerComponentStatus_components:
  "components (rc (snd (UpdateAlertmanagerComponentStatus E s))) = (components (rc s))\<lparr>csAlertmanager :=
     (case eGet E KAlertmanager (object_key (rAlertmanager (rc s))) (wd s) of (a, w) \<Rightarrow>
        alertmanagerState a (fst (eGet E KStatefulSet
          \<lparr>nnNamespace = rNamespace (rc s), nnName = ''alertmanager-'' @ alertmanagerName\<rparr> w)))\<rparr>"
  by (simp add: status_update_defs act_unfold state_defs
      split: prod.split sum.split option.split outcome.split)

lemma UpdateConsoleComponentStatus_components:
  "components (rc (snd (UpdateConsoleComponentStatus E s))) = (components (rc s))\<lparr>csConsole :=
     (case eGet E KConsolePlugin (object_key (rConsole (rc s))) (wd s) of (a, w) \<Rightarrow>
        consoleState a (fst (eGet E KDeployment
          \<lparr>nnNamespace = rNamespace (rc s), nnName = mcgmsConsoleName\<rparr> w)))\<rparr>"
  by (simp add: status_update_defs act_unfold state_defs
      split: prod.split sum.split option.split outcome.split)


lemma component_updates_rc:
  "rPrometheus (rc (snd (UpdateNoobaaComponentStatus E s))) = rPrometheus (rc s)"
  "rAlertmanager (rc (snd (UpdateNoobaaComponentStatus E s))) = rAlertmanager (rc s)"
  "rConsole (rc (snd (UpdateNoobaaComponentStatus E s))) = rConsole (rc s)"
  "rNamespace (rc (snd (UpdateNoobaaComponentStatus E s))) = rNamespace (rc s)"
  "rAlertmanager (rc (snd (UpdatePrometheusComponentStatus E s))) = rAlertmanager (rc s)"
  "rConsole (rc (snd (UpdatePrometheusComponentStatus E s))) = rConsole (rc s)"
  "rNamespace (rc (snd (UpdatePrometheusComponentStatus E s))) = rNamespace (rc s)"
  "rConsole (rc (snd (UpdateAlertmanagerComponentStatus E s))) = rConsole (rc s)"
  "rNamespace (rc (snd (UpdateAlertmanagerComponentStatus E s))) = rNamespace (rc s)"
  by (simp_all add: status_update_defs act_unfold
      split: prod.split sum.split option.split outcome.split)

lemma component_updates_wd:
  assumes "\<And>k n w. snd (eGet E k n w) = w"
  shows "wd (snd (UpdateNoobaaComponentStatus E s)) = wd s"
    and "wd (snd (UpdatePrometheusComponentStatus E s)) = wd s"
    and "wd (snd (UpdateAlertmanagerComponentStatus E s)) = wd s"
    and "wd (snd (UpdateConsoleComponentStatus E s)) = wd s"
proof -
  obtain answer where "eGet E = (\<lambda>k n w. (answer k n w, w))"
    using assms that [of "\<lambda>k n w. fst (eGet E k n w)"] by (simp add: fun_eq_iff prod_eq_iff)
  then show "wd (snd (UpdateNoobaaComponentStatus E s)) = wd s"
    "wd (snd (UpdatePrometheusComponentStatus E s)) = wd s"
    "wd (snd (UpdateAlertmanagerComponentStatus E s)) = wd s"
    "wd (snd (UpdateConsoleComponentStatus E s)) = wd s"
    by (simp_all add: status_update_defs act_unfold
        split: prod.split sum.split option.split outcome.split)
qed

lemma updateComponentStatus_eq:
  "updateComponentStatus E s =
     UpdateConsoleComponentStatus E (snd (UpdateAlertmanagerComponentStatus E
       (snd (UpdatePrometheusComponentStatus E (snd (UpdateNoobaaComponentStatus E s))))))"
  by (simp add: updateComponentStatus_def thenA_run)

text \<open>
  C19. The refresh of the component status always returns, and against a server whose reads change
  nothing it gives every component the state of its table: \<open>NotFound\<close> and \<open>Unknown\<close> for the two
  kinds of failed fetch, \<open>Ready\<close> for NooBaa exactly in the phase Ready, and for the others
  \<open>Ready\<close> exactly when the workload is there with the wanted number of ready replicas, one where
  the resource does not say. The previous states do not matter.
\<close>

theorem updateComponentStatus_table:
  assumes "\<And>k n w. snd (eGet E k n w) = w"
  shows "fst (updateComponentStatus E s) = Ok () \<and> wd (snd (updateComponentStatus E s)) = wd s \<and>
    components (rc (snd (updateComponentStatus E s))) =
      (let answer = (\<lambda>k n. fst (eGet E k n (wd s)));
           workload = (\<lambda>k name. answer k \<lparr>nnNamespace = rNamespace (rc s), nnName = name\<rparr>)
       in \<lparr>csNoobaa = noobaaState (answer KNooBaa (object_key (rNoobaa (rc s)))),
           csPrometheus = prometheusState (answer KPrometheus (object_key (rPrometheus (rc s))))
             (workload KStatefulSet (''prometheus-'' @ prometheusName)),
           csAlertmanager = alertmanagerState (answer KAlertmanager (object_key (rAlertmanager (rc s))))
             (workload KStatefulSet (''alertmanager-'' @ alertmanagerName)),
           csConsole = consoleState (answer KConsolePlugin (object_key (rConsole (rc s))))
             (workload KDeployment mcgmsConsoleName)\<rparr>)"
  by (cases "components (rc s)")
    (simp add: updateComponentStatus_eq UpdateConsoleComponentStatus_components
      UpdateAlertmanagerComponentStatus_components UpdatePrometheusComponentStatus_components
      UpdateNoobaaComponentStatus_components component_updates_rc component_updates_wd [OF assms]
      assms Let_def case_prod_unfold)

theorem updateComponentStatus_table_witness:
  "components (rc (snd (updateComponentStatus sampleEnv (sampleStart [
       untype kNooBaa (newObj noobaaName ''ns'' (zero_noobaa\<lparr>nooPhase := ''Ready''\<rparr>)),
       untype kPrometheus (newObj prometheusName ''ns'' zero_prometheus),
       untype kConsolePlugin (newObj mcgmsConsoleName ''ns'' zero_console_plugin),
       untype kDeployment (newObj mcgmsConsoleName ''ns'' \<lparr>wlReadyReplicas = 1, wlRest = ''''\<rparr>)])))) =
     \<lparr>csNoobaa = ComponentReady, csPrometheus = ComponentPending, csAlertmanager = ComponentNotFound,
      csConsole = ComponentReady\<rparr>"
proof -
  have "\<And>k n w. snd (eGet sampleEnv k n w) = w"
    by (simp add: sampleEnv_def fake_Get_def split: sum.split)
  from updateComponentStatus_table [OF this] show ?thesis
    by (simp add: sample_defs init_defs name_defs fake_defs kdesc_defs state_defs fetched_def untype_def retype_def)
qed

end
