(* ===== verification/Safety.thy ===== *)
theory Safety
  imports Status
begin

text \<open>
  What a reconciliation may send to the API server, and after what. Runs are observed through the
  recording environment: \<open>guarded P Q l\<close> states that the log \<open>l\<close> has no request \<open>Q\<close> before the first
  event \<open>P\<close>, whatever the server answers and whatever others do to the cluster meanwhile.
\<close>

section \<open>Guarded logs\<close>

definition guarded :: "(event \<Rightarrow> bool) \<Rightarrow> (request \<Rightarrow> bool) \<Rightarrow> event list \<Rightarrow> bool" where
  "guarded P Q l \<longleftrightarrow> \<not> list_ex (\<lambda>e. Q (ev_request e)) (takeWhile (\<lambda>e. \<not> P e) l)"

lemma guarded_Nil [simp]: "guarded P Q []"
  by (simp add: guarded_def)

lemma guarded_snoc:
  "guarded P Q (l @ [e]) \<longleftrightarrow> guarded P Q l \<and> (list_ex P l \<or> P e \<or> \<not> Q (ev_request e))"
proof (cases "list_ex P l")
  case True
  then have "takeWhile (\<lambda>e. \<not> P e) (l @ [e]) = takeWhile (\<lambda>e. \<not> P e) l"
    by (auto simp: list_ex_iff intro: takeWhile_append1)
  with True show ?thesis by (simp add: guarded_def)
next
  case False
  then have none: "\<And>x. x \<in> set l \<Longrightarrow> \<not> P x" by (auto simp: list_ex_iff)
  then have l: "takeWhile (\<lambda>e. \<not> P e) l = l" by (simp add: takeWhile_eq_all_conv)
  have le: "takeWhile (\<lambda>e. \<not> P e) (l @ [e]) = l @ takeWhile (\<lambda>e. \<not> P e) [e]"
    using none by (simp add: takeWhile_append2)
  show ?thesis unfolding guarded_def l le using False by auto
qed

text \<open>Before the event: nothing guarded is admitted. After it: everything is.\<close>

abbreviation guardedW :: "(event \<Rightarrow> bool) \<Rightarrow> (request \<Rightarrow> bool) \<Rightarrow> event list \<times> 'w \<Rightarrow> bool" where
  "guardedW P Q lw \<equiv> guarded P Q (fst lw)"

abbreviation releasedW :: "(event \<Rightarrow> bool) \<Rightarrow> (request \<Rightarrow> bool) \<Rightarrow> event list \<times> 'w \<Rightarrow> bool" where
  "releasedW P Q lw \<equiv> guarded P Q (fst lw) \<and> list_ex P (fst lw)"

interpretation gd: request_frame "recording E" "guardedW P Q" "\<lambda>q. \<not> Q q" for E P Q
  by unfold_locales (simp_all add: recording_def record_op_log guarded_snoc)

interpretation rl: write_frame "recording E" "releasedW P Q" "\<lambda>_. True" UNIV UNIV UNIV for E P Q
  by unfold_locales (simp_all add: recording_def record_op_log guarded_snoc)

text \<open>Requests guarded by the kind of their object.\<close>

fun is_delete :: "kind set \<Rightarrow> request \<Rightarrow> bool" where
  "is_delete ks (ReqDelete k n) = (k \<in> ks)"
| "is_delete ks _ = False"

fun is_write :: "kind set \<Rightarrow> request \<Rightarrow> bool" where
  "is_write ks (ReqDelete k n) = (k \<in> ks)"
| "is_write ks (ReqCreate ob) = (obj_kind ob \<in> ks)"
| "is_write ks (ReqUpdate ob) = (obj_kind ob \<in> ks)"
| "is_write ks _ = False"

fun drops_finalizer :: "request \<Rightarrow> bool" where
  "drops_finalizer (ReqUpdate ob) =
     (obj_kind ob = KManagedMCG \<and> ManagedMCGFinalizer \<notin> set (mFinalizers (ObjectMeta ob)))"
| "drops_finalizer _ = False"

interpretation gdel: write_frame "recording E" "guardedW P (is_delete ks)"
  "\<lambda>q. \<not> is_delete ks q" UNIV UNIV "- ks" for E P ks
  by unfold_locales simp_all

interpretation gwr: write_frame "recording E" "guardedW P (is_write ks)"
  "\<lambda>q. \<not> is_write ks q" "- ks" UNIV "- ks" for E P ks
  by unfold_locales simp_all

interpretation gfin: write_frame "recording E" "guardedW P drops_finalizer"
  "\<lambda>q. \<not> drops_finalizer q" "- {KManagedMCG}" UNIV UNIV for E P
  by unfold_locales auto

lemma guarded_keeps:
  "keepsA (onW (guardedW P Q)) m \<Longrightarrow> guarded P Q (fst (wd s)) \<Longrightarrow> guarded P Q (log_of (m s))"
  by (simp add: keepsA_def onW_def)

lemma guarded_released:
  "keepsA (onW (releasedW P Q)) m \<Longrightarrow> guarded P Q (fst (wd s)) \<Longrightarrow> list_ex P (fst (wd s)) \<Longrightarrow>
   guarded P Q (log_of (m s))"
  by (simp add: keepsA_def onW_def)

lemma guarded_seq:
  assumes "guarded P Q (log_of (m s))"
    and "\<And>a s'. m s = (Ok a, s') \<Longrightarrow> guarded P Q (fst (wd s')) \<Longrightarrow> guarded P Q (log_of (f a s'))"
  shows "guarded P Q (log_of (bindA m f s))"
  using assms by (cases "m s"; cases "fst (m s)") (auto simp: bindA_def)

lemma snd_tryA [simp]: "snd (tryA m s) = snd (m s)"
  by (simp add: tryA_def split: prod.split outcome.split)

section \<open>Nothing is uninstalled unless the deletion key is there\<close>

fun deletion_key_read :: "string \<Rightarrow> config \<Rightarrow> event \<Rightarrow> bool" where
  "deletion_key_read ns c (EvGet k n (Inr ob)) =
     (k = KConfigMap \<and> n = \<lparr>nnNamespace = ns, nnName = AddonConfigMapName c\<rparr> \<and>
      gm_lookup (mLabels (ObjectMeta ob)) (AddonConfigMapDeleteLabelKey c) \<noteq> None)"
| "deletion_key_read ns c _ = False"

lemma verifyAddonDeletionKey_True:
  assumes "verifyAddonDeletionKey (recording E) s = (Ok True, s')"
  shows "list_ex (deletion_key_read (rNamespace (rc s)) (rCfg (rc s))) (fst (wd s'))"
  using assms
  by (auto simp: verifyAddonDeletionKey_def client_defs recording_def record_op_def act_unfold
      kConfigMap_def split: prod.splits sum.splits option.splits outcome.splits if_splits)


lemma reconcilePhases_guarded:
  assumes "guarded (deletion_key_read (rNamespace (rc s)) (rCfg (rc s)))
      (is_delete {KManagedMCG, KCSV}) (fst (wd s))"
  shows "guarded (deletion_key_read (rNamespace (rc s)) (rCfg (rc s)))
      (is_delete {KManagedMCG, KCSV}) (log_of (reconcilePhases (recording E) s))"
  unfolding reconcilePhases_def
proof (rule guarded_seq)
  show "guarded (deletion_key_read (rNamespace (rc s)) (rCfg (rc s)))
      (is_delete {KManagedMCG, KCSV}) (log_of (verifyAddonDeletionKey (recording E) s))"
    by (rule guarded_keeps [OF gdel.keeps_verifyAddonDeletionKey assms])
next
  fix found s'
  assume run: "verifyAddonDeletionKey (recording E) s = (Ok found, s')"
    and "guarded (deletion_key_read (rNamespace (rc s)) (rCfg (rc s)))
      (is_delete {KManagedMCG, KCSV}) (fst (wd s'))"
  then show "guarded (deletion_key_read (rNamespace (rc s)) (rCfg (rc s)))
      (is_delete {KManagedMCG, KCSV}) (log_of (dispatchPhases (recording E) found s'))"
  proof (cases found)
    case True
    with run verifyAddonDeletionKey_True [of E s s'] have "list_ex (deletion_key_read (rNamespace (rc s)) (rCfg (rc s))) (fst (wd s'))"
      by simp
    with \<open>guarded _ _ (fst (wd s'))\<close> show ?thesis
      by (intro guarded_released rl.keeps_dispatchPhases) auto
  next
    case False
    with \<open>guarded _ _ (fst (wd s'))\<close> show ?thesis
      by (intro guarded_keeps gdel.keeps_dispatchPhases) (auto simp: removed_kinds_def)
  qed
qed

text \<open>The receiver's namespace and configuration outlive the first fetch.\<close>

lemma r_get_ManagedMCG_rc:
  "rNamespace (rc (snd (r_get E kManagedMCG fManagedMCG s))) = rNamespace (rc s) \<and>
   rCfg (rc (snd (r_get E kManagedMCG fManagedMCG s))) = rCfg (rc s)"
  by (simp add: client_defs split: prod.split sum.split option.split outcome.split)

lemma reconcileFetched_guarded:
  assumes "guarded (deletion_key_read (rNamespace (rc s)) (rCfg (rc s)))
      (is_delete {KManagedMCG, KCSV}) (fst (wd s))"
  shows "guarded (deletion_key_read (rNamespace (rc s)) (rCfg (rc s)))
      (is_delete {KManagedMCG, KCSV}) (log_of (reconcileFetched (recording E) s))"
  unfolding reconcileFetched_def
  by (rule guarded_seq)
    (auto simp: reconcilePhases_guarded [OF assms]
      intro!: guarded_keeps keeps_intros gdel.keeps_updateStatus)

text \<open>
  C1. A reconciliation asks for the deletion of the ManagedMCG resource or of the operator's own CSV
  only after it has read the addon's config map and found the deletion label of the configuration
  on it, whatever the API server answers and whatever the receiver held before.
\<close>

theorem uninstall_only_with_deletion_key:
  fixes E :: "'w env"
  shows "guarded (deletion_key_read (nnNamespace req) (rCfg r)) (is_delete {KManagedMCG, KCSV})
     (log_of (Reconcile (recording E) req (start r w)))"
proof -
  let ?P = "deletion_key_read (nnNamespace req) (rCfg r)"
  let ?Q = "is_delete {KManagedMCG, KCSV}"
  let ?s = "\<lparr>rc = initializeReconciler req r, wd = ([], w)\<rparr> :: (reconciler, event list \<times> 'w) sys"
  let ?s' = "snd (r_get (recording E) kManagedMCG fManagedMCG ?s)"
  have rc: "rNamespace (rc ?s) = nnNamespace req" "rCfg (rc ?s) = rCfg r"
    by (simp_all add: initializeReconciler_def initializePrometheusReconciler_def Let_def)
  have "guarded ?P ?Q (fst (wd ?s'))"
    by (intro guarded_keeps gd.keeps_r_get) simp_all
  then have fetched: "guarded ?P ?Q (log_of (reconcileFetched (recording E) ?s'))"
    using reconcileFetched_guarded [of ?s' E] r_get_ManagedMCG_rc [of "recording E" ?s] rc by simp
  have "guarded ?P ?Q (log_of (bindA (tryA (r_get (recording E) kManagedMCG fManagedMCG)) (\<lambda>res.
       case res of
         Inl err \<Rightarrow> if IsNotFound err then reconcileFetched (recording E) else failA err
       | Inr _ \<Rightarrow> reconcileFetched (recording E)) ?s))"
    using fetched \<open>guarded ?P ?Q (fst (wd ?s'))\<close>
    by (auto simp: bindA_def tryA_def failA_def split: prod.split outcome.split sum.split)
  then show ?thesis
    by (simp add: Reconcile_def start_def thenA_def setR_def modA_def bindA_def)
qed

section \<open>The finalizer outlives NooBaa\<close>

fun noobaa_not_found :: "event \<Rightarrow> bool" where
  "noobaa_not_found (EvGet k n (Inl e)) = (k = KNooBaa \<and> IsNotFound e)"
| "noobaa_not_found _ = False"

text \<open>The log only grows, so an event once recorded stays recorded.\<close>

lemma list_ex_prefix: "prefix l l' \<Longrightarrow> list_ex P l \<Longrightarrow> list_ex P l'"
  by (auto simp: prefix_def)

interpretation growk: write_frame "recording E" "\<lambda>lw. prefix l (fst lw)" "\<lambda>_. True" UNIV UNIV UNIV for E l
  by unfold_locales simp_all

lemma recorded_grows:
  assumes "\<And>l. keepsA (onW (\<lambda>lw. prefix l (fst lw))) m" and "list_ex P (fst (wd s))"
  shows "list_ex P (log_of (m s))"
  using assms(1) [of "fst (wd s)"] list_ex_prefix [OF _ assms(2)] by (simp add: keepsA_def onW_def)

lemma keeps_component_updates [keeps_intros]:
  "keepsA (onW (\<lambda>lw. prefix l (fst lw))) (UpdatePrometheusComponentStatus (recording E))"
  "keepsA (onW (\<lambda>lw. prefix l (fst lw))) (UpdateAlertmanagerComponentStatus (recording E))"
  "keepsA (onW (\<lambda>lw. prefix l (fst lw))) (UpdateConsoleComponentStatus (recording E))"
  unfolding UpdatePrometheusComponentStatus_def UpdateAlertmanagerComponentStatus_def
    UpdateConsoleComponentStatus_def stateOfFetch_def
  by (intro keeps_intros growk.keeps_workloadState growk.keeps_setComponents grow.keeps_r_get
      grow.keeps_getR; simp)+

lemma UpdateNoobaaComponentStatus_recorded:
  "noobaaState (fst (eGet (recording E) KNooBaa n lw)) = ComponentNotFound \<Longrightarrow>
   list_ex noobaa_not_found (fst (snd (eGet (recording E) KNooBaa n lw)))"
  by (auto simp: recording_def record_op_def noobaaState_def absentState_def fetched_def
      split: prod.splits sum.splits option.splits if_splits)

lemma UpdateNoobaaComponentStatus_wd:
  "wd (snd (UpdateNoobaaComponentStatus E s)) =
     snd (eGet E KNooBaa (object_key (rNoobaa (rc s))) (wd s))"
  by (simp add: status_update_defs act_unfold split: prod.split sum.split)

lemma updateComponentStatus_NotFound:
  assumes "updateComponentStatus (recording E) s = (Ok u, s')"
    and "csNoobaa (components (rc s')) = ComponentNotFound"
  shows "list_ex noobaa_not_found (fst (wd s'))"
proof -
  let ?s1 = "snd (UpdateNoobaaComponentStatus (recording E) s)"
  have s': "s' = snd (UpdateConsoleComponentStatus (recording E)
      (snd (UpdateAlertmanagerComponentStatus (recording E)
        (snd (UpdatePrometheusComponentStatus (recording E) ?s1)))))"
    using assms(1) by (metis snd_conv updateComponentStatus_eq)
  have "noobaaState (fst (eGet (recording E) KNooBaa (object_key (rNoobaa (rc s))) (wd s))) =
      ComponentNotFound"
    using assms(2) unfolding s'
    by (simp add: UpdateConsoleComponentStatus_components UpdateAlertmanagerComponentStatus_components
        UpdatePrometheusComponentStatus_components UpdateNoobaaComponentStatus_components)
  then have "list_ex noobaa_not_found (fst (wd ?s1))"
    by (simp add: UpdateNoobaaComponentStatus_wd UpdateNoobaaComponentStatus_recorded)
  then show ?thesis
    unfolding s'
    by (rule recorded_grows [OF keeps_component_updates(3) recorded_grows
          [OF keeps_component_updates(2) recorded_grows [OF keeps_component_updates(1)]]])
qed

text \<open>The resource that \<open>addManagedMCG\<close> sends has the finalizer.\<close>

lemma keeps_addManagedMCG_finalizer:
  "keepsA (onW (guardedW P drops_finalizer)) (addManagedMCG (recording E))"
  by (auto simp: keepsA_def onW_def addManagedMCG_def setFinalizers_def client_defs recording_def
      record_op_def guarded_snoc kManagedMCG_def split: prod.split sum.split option.split outcome.split)

lemma keeps_maintenancePhase_finalizer:
  "keepsA (onW (guardedW P drops_finalizer)) (maintenancePhase (recording E) found)"
  unfolding maintenancePhase_def maintainManagedMCG_def
  by (intro keeps_intros keeps_addManagedMCG_finalizer gfin.keeps_updateAddonParams
      gfin.keeps_reconcileResources gfin.keeps_uninstallWhenReady gd.keeps_getR gd.keeps_setR
      gd.keeps_setBody)
    (auto simp: maintained_kinds_def)

lemma keeps_removeNoobaa_finalizer:
  "keepsA (onW (guardedW P drops_finalizer)) (removeNoobaa (recording E))"
  by (intro gfin.keeps_removeNoobaa) auto


lemma dispatchPhases_finalizer:
  assumes "guarded noobaa_not_found drops_finalizer (fst (wd s))"
  shows "guarded noobaa_not_found drops_finalizer (log_of (dispatchPhases (recording E) found s))"
  unfolding dispatchPhases_def thenA_def
proof (rule guarded_seq)
  show "guarded noobaa_not_found drops_finalizer (log_of (updateComponentStatus (recording E) s))"
    by (rule guarded_keeps [OF gfin.keeps_updateComponentStatus assms])
next
  fix u s'
  assume run: "updateComponentStatus (recording E) s = (Ok u, s')"
    and g: "guarded noobaa_not_found drops_finalizer (fst (wd s'))"
  have del: "guarded noobaa_not_found drops_finalizer (log_of (deletionPhase (recording E) s'))"
  proof (cases "csNoobaa (components (rc s')) = ComponentNotFound")
    case True
    with run have "list_ex noobaa_not_found (fst (wd s'))"
      by (rule updateComponentStatus_NotFound)
    with g show ?thesis by (intro guarded_released rl.keeps_deletionPhase) auto
  next
    case False
    then have "deletionPhase (recording E) s' = removeNoobaa (recording E) s'"
      by (simp add: deletionPhase_def getR_def readA_def bindA_def)
    with g show ?thesis by (simp add: guarded_keeps keeps_removeNoobaa_finalizer)
  qed
  have rest: "guarded noobaa_not_found drops_finalizer
      (log_of (maintenancePhase (recording E) found s'))"
    "guarded noobaa_not_found drops_finalizer (log_of (removeOLMComponents (recording E) s'))"
    using g
    by (auto intro!: guarded_keeps keeps_maintenancePhase_finalizer gfin.keeps_removeOLMComponents)
  show "guarded noobaa_not_found drops_finalizer
     (log_of (bindA (getR rManagedMCG) (\<lambda>mcg.
       if \<not> time_IsZero (mDeletionTimestamp (ObjectMeta mcg)) then deletionPhase (recording E)
       else if mUID (ObjectMeta mcg) \<noteq> [] then maintenancePhase (recording E) found
       else if found then removeOLMComponents (recording E)
       else retA ()) s'))"
    using del rest g by (simp add: getR_def readA_def bindA_def retA_def)
qed

lemma reconcileFetched_finalizer:
  assumes "guarded noobaa_not_found drops_finalizer (fst (wd s))"
  shows "guarded noobaa_not_found drops_finalizer (log_of (reconcileFetched (recording E) s))"
proof -
  have "guarded noobaa_not_found drops_finalizer (log_of (reconcilePhases (recording E) s))"
    unfolding reconcilePhases_def
    by (rule guarded_seq)
      (auto intro!: guarded_keeps [OF gfin.keeps_verifyAddonDeletionKey] dispatchPhases_finalizer assms)
  then show ?thesis
    unfolding reconcileFetched_def
    by (intro guarded_seq) (auto intro!: guarded_keeps keeps_intros gfin.keeps_updateStatus)
qed

text \<open>
  C3. No reconciliation sends an update of the ManagedMCG resource that lacks its finalizer before the
  API server has answered, in the same reconciliation, that the NooBaa resource does not exist: the
  resource cannot disappear while NooBaa is there, whatever state the receiver was left in.
\<close>

theorem finalizer_kept_while_noobaa_exists:
  fixes E :: "'w env"
  shows "guarded noobaa_not_found drops_finalizer (log_of (Reconcile (recording E) req (start r w)))"
proof -
  let ?s = "\<lparr>rc = initializeReconciler req r, wd = ([], w)\<rparr> :: (reconciler, event list \<times> 'w) sys"
  have "guarded noobaa_not_found drops_finalizer
      (log_of (r_get (recording E) kManagedMCG fManagedMCG ?s))"
    by (intro guarded_keeps gd.keeps_r_get) simp_all
  then have "guarded noobaa_not_found drops_finalizer
     (log_of (bindA (tryA (r_get (recording E) kManagedMCG fManagedMCG)) (\<lambda>res.
       case res of
         Inl err \<Rightarrow> if IsNotFound err then reconcileFetched (recording E) else failA err
       | Inr _ \<Rightarrow> reconcileFetched (recording E)) ?s))"
    by (intro guarded_seq) (auto simp: failA_def intro: reconcileFetched_finalizer split: sum.split)
  then show ?thesis
    by (simp add: Reconcile_def start_def thenA_def setR_def modA_def bindA_def)
qed

section \<open>The order of the removal\<close>

fun bucketclasses_empty :: "event \<Rightarrow> bool" where
  "bucketclasses_empty (EvList k ns (Inr obs)) = (k = KBucketClass \<and> obs = [])"
| "bucketclasses_empty _ = False"

fun noobaa_deleted :: "event \<Rightarrow> bool" where
  "noobaa_deleted (EvDelete k n res) =
     (k = KNooBaa \<and> (case res of Inl e \<Rightarrow> IsNotFound e | Inr _ \<Rightarrow> True))"
| "noobaa_deleted _ = False"

lemma those_Nil: "those xs = Some [] \<longleftrightarrow> xs = []"
  by (cases xs) (auto split: option.splits)

lemma bucketClassesGone_True:
  assumes "bucketClassesGone (recording E) s = (Ok True, s')"
  shows "list_ex bucketclasses_empty (fst (wd s'))"
  using assms
  by (auto simp: bucketClassesGone_def r_list_def clientList_def getR_def reqA_def act_unfold
      recording_def record_op_def kBucketClass_def those_Nil
      split: prod.splits sum.splits option.splits outcome.splits)

lemma drainBucketClasses_Ok:
  assumes "drainBucketClasses (recording E) s = (Ok u, s')"
  shows "list_ex bucketclasses_empty (fst (wd s'))"
  using assms unfolding drainBucketClasses_def Let_def
  by (auto elim!: bindA_Ok thenA_Ok dest!: PollImmediate_Ok bucketClassesGone_True)

lemma r_delete_noobaa_Ok:
  assumes "r_delete (recording E) kNooBaa n s = (Ok u, s')"
  shows "list_ex noobaa_deleted (fst (wd s'))"
  using assms
  by (auto simp: r_delete_def clientDelete_def reqA_def tryA_def bindA_def failA_def retA_def
      recording_def record_op_def kNooBaa_def split: prod.splits sum.splits if_splits)

lemma deleteNoobaaCR_Ok:
  assumes "deleteNoobaaCR (recording E) s = (Ok u, s')"
  shows "list_ex noobaa_deleted (fst (wd s'))"
proof -
  from assms obtain n t where "r_delete (recording E) kNooBaa n t = (Ok u, s')"
    unfolding deleteNoobaaCR_def by (auto elim!: thenA_Ok bindA_Ok)
  then show ?thesis by (rule r_delete_noobaa_Ok)
qed

lemma guarded_thenA:
  assumes "keepsA (onW (guardedW P Q)) m" and "guarded P Q (fst (wd s))"
    and "\<And>u s'. m s = (Ok u, s') \<Longrightarrow> list_ex P (fst (wd s'))"
    and "keepsA (onW (releasedW P Q)) m'"
  shows "guarded P Q (log_of (thenA m m' s))"
  unfolding thenA_def
  by (rule guarded_seq) (auto intro: guarded_keeps guarded_released assms)

text \<open>
  C12. The removal of NooBaa goes in order: nothing is written to the NooBaa resource before a list of
  the bucket classes has come back empty, and no backing store or namespace store is deleted before
  the deletion of the NooBaa resource has been accepted or found it gone.
\<close>

theorem removeNoobaa_order:
  fixes E :: "'w env"
  shows "guarded bucketclasses_empty (is_write {KNooBaa}) (log_of (removeNoobaa (recording E) (start r w))) \<and>
    guarded noobaa_deleted (is_delete {KBackingStore, KNamespaceStore})
      (log_of (removeNoobaa (recording E) (start r w)))"
proof
  show "guarded bucketclasses_empty (is_write {KNooBaa})
      (log_of (removeNoobaa (recording E) (start r w)))"
    unfolding removeNoobaa_def
    by (rule guarded_thenA)
      (auto simp: start_def intro: drainBucketClasses_Ok
        intro!: gwr.keeps_drainBucketClasses keepsA_thenA rl.keeps_deleteNoobaaCR rl.keeps_deleteStores)
next
  let ?Q = "is_delete {KBackingStore, KNamespaceStore}"
  have "guarded noobaa_deleted ?Q (log_of (drainBucketClasses (recording E) (start r w)))"
    by (intro guarded_keeps gdel.keeps_drainBucketClasses) (simp_all add: start_def)
  then show "guarded noobaa_deleted ?Q (log_of (removeNoobaa (recording E) (start r w)))"
    unfolding removeNoobaa_def thenA_def
    by (rule guarded_seq)
      (auto simp: thenA_def [symmetric] intro!: guarded_thenA gdel.keeps_deleteNoobaaCR
        rl.keeps_deleteStores intro: deleteNoobaaCR_Ok)
qed

section \<open>Deletion of the resource, kinds, status\<close>

lemma r_delete_eq:
  "r_delete E K key s =
     (case eDelete E (kdKind K) key (wd s) of (res, w) \<Rightarrow>
        (case res of
           Inl e \<Rightarrow> (if IsNotFound e then Ok () else Err (WrapErr ''failed to delete'' e), s\<lparr>wd := w\<rparr>)
         | Inr _ \<Rightarrow> (Ok (), s\<lparr>wd := w\<rparr>)))"
  by (simp add: r_delete_def clientDelete_def reqA_def tryA_def bindA_def failA_def retA_def
      split: prod.split sum.split)

lemma maintainManagedMCG_no_delete:
  "ReqDelete k n \<notin> set (requests (log_of (maintainManagedMCG (recording E) (start r w))))"
proof -
  have "keepsA (onW (log_within (kinds_within UNIV UNIV {}))) (maintainManagedMCG (recording E))"
    by (intro kw.keeps_maintainManagedMCG) auto
  from sent_within [OF this, of r w] show ?thesis by (force simp: log_within_def)
qed

lemma uninstallWhenReady_log:
  "log_of (uninstallWhenReady (recording E) found s) = fst (wd s) @
     (if found \<and> areComponentsReadyForUninstall (rc s)
      then [EvDelete KManagedMCG (object_key (rManagedMCG (rc s)))
        (fst (eDelete E KManagedMCG (object_key (rManagedMCG (rc s))) (snd (wd s))))] else [])"
  by (simp add: uninstallWhenReady_def keyF_def getR_def act_unfold r_delete_eq recording_def
      record_op_def split: prod.split sum.split)


text \<open>
  C18. A reconciliation creates and updates objects of the maintained kinds and the ManagedMCG resource
  only, writes the status of the latter only, and deletes objects of the six kinds of an
  uninstallation only; the maintenance of the resources deletes nothing at all.
\<close>

theorem Reconcile_kinds:
  "log_within (kinds_within (insert KManagedMCG maintained_kinds) {KManagedMCG} removed_kinds)
     (wd (snd (Reconcile (recording E) req (start r w)))) \<and>
   log_within (kinds_within maintained_kinds {} {})
     (wd (snd (reconcileResources (recording E) (start r w))))"
  by (intro conjI sent_within kw.keeps_Reconcile kw.keeps_reconcileResources) auto

text \<open>
  C20. The status is written last and also when the phases failed: whatever they did, the request after
  their requests is one status update with the resource as they left it, where the resource has a
  UID, and nothing otherwise; and the reconciliation returns the error of the phases rather than
  the one of the status update.
\<close>

theorem status_update_last:
  "case reconcilePhases (recording E) s of
     (Panic p, s1) \<Rightarrow> reconcileFetched (recording E) s = (Panic p, s1)
   | (out, s1) \<Rightarrow>
       requests (log_of (reconcileFetched (recording E) s)) = requests (fst (wd s1)) @
         (if mUID (ObjectMeta (rManagedMCG (rc s1))) \<noteq> ''''
          then [ReqStatusUpdate (untype kManagedMCG (rManagedMCG (rc s1)))] else []) \<and>
       (case out of
          Err e \<Rightarrow> fst (reconcileFetched (recording E) s) = Err (WrapErr ''error reconciling ManagedMCG'' e)
        | _ \<Rightarrow> fst (reconcileFetched (recording E) s) \<in> insert (Ok ())
            (range (\<lambda>e. Err (WrapErr ''error updating ManagedMCG status'' e))))"
  by (simp add: reconcileFetched_def updateStatus_def clientStatusUpdate_def reqA_def decodeA_def
      getR_def setF_def setR_def act_unfold requests_def recording_def record_op_def
      split: prod.split outcome.split sum.split option.split)

section \<open>The operator's own CSV\<close>

lemma r_list_no_panic: "r_list E K s \<noteq> (Panic p, t)"
  by (simp add: r_list_def clientList_def reqA_def getR_def act_unfold
      split: prod.split sum.split option.split outcome.split)

text \<open>
  \<open>getCSVByPrefix\<close> returns the first listed CSV whose name starts with the prefix, and an error
  when the list fails or has none.
\<close>

lemma getCSVByPrefix_first:
  "case getCSVByPrefix E name s of
     (Ok csv, s') \<Rightarrow> \<exists>pre post. r_list E kCSV s = (Ok (pre @ csv # post), s') \<and>
       has_prefix (mName (ObjectMeta csv)) name \<and>
       list_all (\<lambda>c. \<not> has_prefix (mName (ObjectMeta c)) name) pre
   | (Err _, s') \<Rightarrow> (case r_list E kCSV s of
       (Ok items, t) \<Rightarrow> t = s' \<and> list_all (\<lambda>c. \<not> has_prefix (mName (ObjectMeta c)) name) items
     | (Err _, t) \<Rightarrow> t = s' | _ \<Rightarrow> False)
   | (Panic _, _) \<Rightarrow> False"
proof (cases "r_list E kCSV s")
  case (Pair out t)
  show ?thesis
  proof (cases out)
    case (Ok items)
    show ?thesis
    proof (cases "find (\<lambda>csv. has_prefix (mName (ObjectMeta csv)) name) items")
      case None
      then have "list_all (\<lambda>c. \<not> has_prefix (mName (ObjectMeta c)) name) items"
        by (auto simp: find_None_iff list_all_iff)
      with Pair Ok None show ?thesis
        by (simp add: getCSVByPrefix_def bindA_def wrapA_def failA_def)
    next
      case (Some csv)
      from find_first_split [OF Some] Pair Ok Some show ?thesis
        by (fastforce simp: getCSVByPrefix_def bindA_def wrapA_def retA_def list_all_iff)
    qed
  next
    case (Err e)
    with Pair show ?thesis by (simp add: getCSVByPrefix_def bindA_def wrapA_def)
  next
    case (Panic p)
    with Pair r_list_no_panic show ?thesis by fast
  qed
qed

text \<open>
  C31. \<open>removeOLMComponents\<close> reports nothing when the operator's CSV could not be found or listed: its
  result is the result of the deletion where there is a CSV, and success in every other case, as
  the error of the lookup is bound in an inner scope and lost.
\<close>

theorem removeOLMComponents_result:
  "fst (removeOLMComponents E s) =
     (case getCSVByPrefix E deployerCSVPrefix s of
        (Ok csv, t) \<Rightarrow> (case fst (eDelete E KCSV (object_key csv) (wd t)) of
            Inl e \<Rightarrow> if IsNotFound e then Ok ()
                     else Err (WrapErr ''failed to delete CSV'' (WrapErr ''failed to delete'' e))
          | Inr _ \<Rightarrow> Ok ())
      | (Err _, _) \<Rightarrow> Ok ()
      | (Panic p, _) \<Rightarrow> Panic p)"
  by (simp add: removeOLMComponents_def act_unfold r_delete_eq split: prod.split outcome.split sum.split)

end
