(* ===== verification/Lifecycle.thy ===== *)
theory Lifecycle
  imports Safety Resources
begin

text \<open>
  Whole reconciliations against the in-memory server: how the ManagedMCG resource and NooBaa come
  to an end.
\<close>

section \<open>Steps that only read\<close>

lemma fake_Get_snd [simp]: "snd (fake_Get k n c) = c"
  by (simp add: fake_Get_def split: sum.split)

lemma fake_Get_eq: "fake_Get k n c = (map_sum id json_roundtrip (tracker_Get k n c), c)"
  by (simp add: fake_Get_def split: sum.split)

lemma verifyAddonDeletionKey_fake: "\<exists>b. verifyAddonDeletionKey (fakeEnv ma un) s = (Ok b, s)"
proof -
  let ?a = "fetched kConfigMap (fst (fake_Get KConfigMap
    \<lparr>nnNamespace = rNamespace (rc s), nnName = AddonConfigMapName (rCfg (rc s))\<rparr> (wd s)))"
  show ?thesis
    by (cases ?a) (auto simp: verifyAddonDeletionKey_def getR_def r_getLocal_eq act_unfold fake_Get_eq ex_bool_eq)
qed

lemma component_updates_meta:
  "ObjectMeta (rManagedMCG (rc (snd (UpdateNoobaaComponentStatus E s)))) = ObjectMeta (rManagedMCG (rc s))"
  "ObjectMeta (rManagedMCG (rc (snd (UpdatePrometheusComponentStatus E s)))) = ObjectMeta (rManagedMCG (rc s))"
  "ObjectMeta (rManagedMCG (rc (snd (UpdateAlertmanagerComponentStatus E s)))) = ObjectMeta (rManagedMCG (rc s))"
  "ObjectMeta (rManagedMCG (rc (snd (UpdateConsoleComponentStatus E s)))) = ObjectMeta (rManagedMCG (rc s))"
  by (simp_all add: status_update_defs act_unfold
      split: prod.split sum.split option.split outcome.split)

lemma updateComponentStatus_fake:
  "\<exists>s'. updateComponentStatus (fakeEnv ma un) s = (Ok (), s') \<and> wd s' = wd s \<and>
     ObjectMeta (rManagedMCG (rc s')) = ObjectMeta (rManagedMCG (rc s)) \<and>
     csNoobaa (components (rc s')) = noobaaState (fst (fake_Get KNooBaa (object_key (rNoobaa (rc s))) (wd s)))"
proof -
  have reads: "snd (eGet (fakeEnv ma un) k n w) = w" for k n w by simp
  have "fst (updateComponentStatus (fakeEnv ma un) s) = Ok ()"
    by (simp add: updateComponentStatus_eq)
  then show ?thesis
    by (intro exI [of _ "snd (updateComponentStatus (fakeEnv ma un) s)"])
      (simp add: updateComponentStatus_eq component_updates_wd [OF reads] component_updates_meta
        UpdateConsoleComponentStatus_components UpdateAlertmanagerComponentStatus_components
        UpdatePrometheusComponentStatus_components UpdateNoobaaComponentStatus_components prod_eq_iff)
qed

section \<open>The end of the ManagedMCG resource\<close>

text \<open>The update that removes the last finalizer of a terminating object removes the object.\<close>

lemma vt_Update_last_finalizer:
  assumes "tracked c (obj_kind ob) (object_key ob) = Some old"
    and "mName (ObjectMeta ob) \<noteq> ''''" and "mResourceVersion (ObjectMeta ob) = mResourceVersion (ObjectMeta old)"
    and "ParseUint64 (mResourceVersion (ObjectMeta old)) \<noteq> None"
    and "terminating ob" and "mFinalizers (ObjectMeta ob) = []"
  shows "\<exists>v. vt_Update ob c = (Inr (setRV v ob), c\<lparr>clObjects := AList.delete (obj_kind ob, object_key ob) (clObjects c)\<rparr>)"
proof -
  obtain n where n: "ParseUint64 (mResourceVersion (ObjectMeta old)) = Some n" using assms(4) by blast
  then have "mResourceVersion (ObjectMeta old) \<noteq> ''''" by (auto simp: ParseUint64_def undec_def)
  with n assms show ?thesis
    by (auto simp: vt_Update_def vt_replace_def tracker_Get_def tracker_Delete_def terminating_def Let_def)
qed

lemma retype_managedmcg: "obj_kind ob = KManagedMCG \<Longrightarrow> \<exists>x. retype kManagedMCG ob = Some x \<and> untype kManagedMCG x = ob"
  using tk_managedmcg.retype_total [of ob] tk_managedmcg.untype_retype by force

lemma Remove_only [simp]: "Remove [x] x = []"
  by (simp add: Remove_def)

lemma removeManagedMCG_last_finalizer:
  fixes s :: "(reconciler, cluster) sys"
  defines "mcg \<equiv> rManagedMCG (rc s)"
  assumes "tracked (wd s) KManagedMCG (object_key mcg) = Some old"
    and "mName (ObjectMeta mcg) \<noteq> ''''" and "mFinalizers (ObjectMeta mcg) = [ManagedMCGFinalizer]"
    and "mResourceVersion (ObjectMeta mcg) = mResourceVersion (ObjectMeta old)"
    and "ParseUint64 (mResourceVersion (ObjectMeta old)) \<noteq> None"
    and "terminating mcg"
  shows "\<exists>s'. removeManagedMCG (fakeEnv ma un) s = (Ok (), s') \<and>
    mUID (ObjectMeta (rManagedMCG (rc s'))) = mUID (ObjectMeta mcg) \<and>
    mName (ObjectMeta (rManagedMCG (rc s'))) = mName (ObjectMeta mcg) \<and>
    object_key (rManagedMCG (rc s')) = object_key mcg \<and>
    tracked (wd s') = (tracked (wd s))(KManagedMCG := (tracked (wd s) KManagedMCG)(object_key mcg := None))"
proof -
  let ?bare = "mcg\<lparr>ObjectMeta := (ObjectMeta mcg)\<lparr>mFinalizers := []\<rparr>\<rparr>"
  let ?ob = "untype kManagedMCG ?bare"
  have id: "obj_kind ?ob = KManagedMCG" "object_key ?ob = object_key mcg"
    by (simp_all add: untype_def object_key_def kManagedMCG_def)
  obtain v where up: "vt_Update ?ob (wd s) =
      (Inr (setRV v ?ob), (wd s)\<lparr>clObjects := AList.delete (KManagedMCG, object_key mcg) (clObjects (wd s))\<rparr>)"
    using vt_Update_last_finalizer [of "wd s" ?ob old] assms(2-) id
    by (auto simp: untype_def terminating_def)
  let ?new = "?bare\<lparr>ObjectMeta := (ObjectMeta ?bare)\<lparr>mResourceVersion := v\<rparr>\<rparr>"
  have again: "retype kManagedMCG (setRV v ?ob) = Some ?new"
    by (simp add: setRV_def untype_def retype_def kManagedMCG_def)
  show ?thesis
    using assms(4) unfolding mcg_def
    by (simp add: removeManagedMCG_def setFinalizers_def r_update_def updateF_def clientUpdate_def reqA_def
        decodeA_def getR_def setR_def setF_def act_unfold up [unfolded mcg_def] again [unfolded mcg_def]
        tracked_delete object_key_def)
qed

lemma updateStatus_gone:
  assumes "tracked (wd s) KManagedMCG (object_key (rManagedMCG (rc s))) = None"
    and "mUID (ObjectMeta (rManagedMCG (rc s))) \<noteq> ''''" and "mName (ObjectMeta (rManagedMCG (rc s))) \<noteq> ''''"
  shows "\<exists>e. updateStatus (fakeEnv ma un) s = (Ok (Inl e), s) \<and> IsNotFound e"
proof -
  let ?ob = "untype kManagedMCG (rManagedMCG (rc s))"
  have "obj_kind ?ob = KManagedMCG" "object_key ?ob = object_key (rManagedMCG (rc s))"
    "mName (ObjectMeta ?ob) = mName (ObjectMeta (rManagedMCG (rc s)))"
    by (simp_all add: untype_def object_key_def kManagedMCG_def)
  then have "\<exists>e. vt_Update ?ob (wd s) = (Inl e, wd s) \<and> IsNotFound e"
    using assms(1,3) by (simp add: vt_Update_def tracker_Get_def allowsCreateOnUpdate_def)
  then show ?thesis
    using assms(2) by (auto simp: updateStatus_def getR_def clientStatusUpdate_def reqA_def fake_StatusUpdate_def act_unfold)
qed

text \<open>A reconciliation of a stored resource goes on with a copy of it.\<close>

lemma Reconcile_found:
  assumes "cluster_wf (wd s)" and "tracked (wd s) KManagedMCG req = Some ob"
  shows "\<exists>x. untype kManagedMCG x = json_roundtrip ob \<and> ObjectMeta x = ObjectMeta (json_roundtrip ob) \<and>
    Reconcile (fakeEnv ma un) req s =
      reconcileFetched (fakeEnv ma un) (s\<lparr>rc := (initializeReconciler req (rc s))\<lparr>rManagedMCG := x\<rparr>\<rparr>)"
proof -
  have "obj_kind ob = KManagedMCG" using cluster_wf_tracked [OF assms] by (simp add: obj_id_def)
  then obtain x where x: "retype kManagedMCG (json_roundtrip ob) = Some x" "untype kManagedMCG x = json_roundtrip ob"
    using retype_managedmcg [of "json_roundtrip ob"] by auto
  have om: "ObjectMeta x = ObjectMeta (json_roundtrip ob)"
    using arg_cong [OF x(2), of ObjectMeta] by (simp add: untype_def)
  have key: "object_key (rManagedMCG (initializeReconciler req (rc s))) = req"
    by (simp add: init_defs Let_def object_key_def)
  have "r_get (fakeEnv ma un) kManagedMCG fManagedMCG (s\<lparr>rc := initializeReconciler req (rc s)\<rparr>) =
      (Ok (), s\<lparr>rc := (initializeReconciler req (rc s))\<lparr>rManagedMCG := x\<rparr>\<rparr>)"
    using assms(2) x(1) by (simp add: r_get_eq key fake_Get_def tracker_Get_def fetched_def kManagedMCG_def)
  then show ?thesis
    using x(2) om by (intro exI [of _ x]) (simp add: Reconcile_def setR_def act_unfold)
qed

lemma deletion_run:
  assumes "cluster_wf c" and "tracked c KManagedMCG req = Some ob"
    and "terminating ob" and "mFinalizers (ObjectMeta ob) = [ManagedMCGFinalizer]"
    and "mUID (ObjectMeta ob) \<noteq> ''''" and "nnName req \<noteq> ''''"
    and "ParseUint64 (mResourceVersion (ObjectMeta ob)) \<noteq> None"
    and "tracked c KNooBaa \<lparr>nnNamespace = nnNamespace req, nnName = noobaaName\<rparr> = None"
  shows "\<exists>e s'. Reconcile (fakeEnv ma un) req \<lparr>rc = r, wd = c\<rparr> = (Err e, s') \<and> IsNotFound e \<and>
    tracked (wd s') = (tracked c)(KManagedMCG := (tracked c KManagedMCG)(req := None))"
proof -
  let ?E = "fakeEnv ma un"
  let ?s0 = "\<lparr>rc = initializeReconciler req r, wd = c\<rparr>"
  have id: "object_key ob = req" using cluster_wf_tracked [OF assms(1,2)] by (simp add: obj_id_def)
  obtain x where om: "ObjectMeta x = ObjectMeta (json_roundtrip ob)"
    and run: "Reconcile ?E req \<lparr>rc = r, wd = c\<rparr> = reconcileFetched ?E \<lparr>rc = (rc ?s0)\<lparr>rManagedMCG := x\<rparr>, wd = c\<rparr>"
    using Reconcile_found [of "\<lparr>rc = r, wd = c\<rparr>" req ob ma un] assms(1,2) by auto
  have meta: "mFinalizers (ObjectMeta x) = [ManagedMCGFinalizer]" "mUID (ObjectMeta x) = mUID (ObjectMeta ob)"
    "mResourceVersion (ObjectMeta x) = mResourceVersion (ObjectMeta ob)"
    "terminating x" "object_key x = req"
    using assms(3,4) id by (simp_all add: om json_roundtrip_def object_key_def terminating_def)
  then have name: "mName (ObjectMeta x) \<noteq> ''''" using assms(6) by (auto simp: object_key_def)
  define s1 where "s1 = \<lparr>rc = (rc ?s0)\<lparr>rManagedMCG := x\<rparr>, wd = c\<rparr>"
  have nkey: "object_key (rNoobaa (initializeReconciler req r)) = \<lparr>nnNamespace = nnNamespace req, nnName = noobaaName\<rparr>"
    by (simp add: init_defs Let_def object_key_def)
  obtain b where b: "verifyAddonDeletionKey ?E s1 = (Ok b, s1)" using verifyAddonDeletionKey_fake by blast
  obtain s2 where s2: "updateComponentStatus ?E s1 = (Ok (), s2)" "wd s2 = c"
    "ObjectMeta (rManagedMCG (rc s2)) = ObjectMeta x"
    "csNoobaa (components (rc s2)) = ComponentNotFound"
    using updateComponentStatus_fake [of ma un s1] assms(8)
    by (auto simp: s1_def nkey fake_Get_def tracker_Get_def noobaaState_def fetched_def absentState_def)
  have "object_key (rManagedMCG (rc s2)) = req" "terminating (rManagedMCG (rc s2))"
    using meta s2(3) by (simp_all add: object_key_def terminating_def)
  then obtain s3 where s3: "removeManagedMCG ?E s2 = (Ok (), s3)"
    "mUID (ObjectMeta (rManagedMCG (rc s3))) = mUID (ObjectMeta ob)"
    "mName (ObjectMeta (rManagedMCG (rc s3))) \<noteq> ''''" "object_key (rManagedMCG (rc s3)) = req"
    "tracked (wd s3) = (tracked c)(KManagedMCG := (tracked c KManagedMCG)(req := None))"
    using removeManagedMCG_last_finalizer [of s2 ob ma un] assms(2,7) meta name s2 by auto
  have "reconcilePhases ?E s1 = (Ok (), s3)"
    using \<open>terminating (rManagedMCG (rc s2))\<close> b s2 s3(1)
    by (simp add: reconcilePhases_def dispatchPhases_def deletionPhase_def getR_def act_unfold terminating_def)
  moreover obtain e where "updateStatus ?E s3 = (Ok (Inl e), s3)" "IsNotFound e"
    using updateStatus_gone [of s3 ma un] s3 assms(5) by auto
  ultimately have "reconcileFetched ?E s1 = (Err (WrapErr ''error updating ManagedMCG status'' e), s3)"
    by (simp add: reconcileFetched_def act_unfold)
  with run s3(5) \<open>IsNotFound e\<close> show ?thesis by (simp add: s1_def)
qed

text \<open>
  C32. When the ManagedMCG resource is being deleted, carries the operator's finalizer only and NooBaa
  is gone, one reconciliation ends its life: nothing else on the server changes. The reconciliation
  nevertheless reports an error, as it then updates the status of a resource that is not there.
\<close>

theorem deletion_completes:
  assumes "cluster_wf c" and "tracked c KManagedMCG req = Some ob"
    and "terminating ob" and "mFinalizers (ObjectMeta ob) = [ManagedMCGFinalizer]"
    and "mUID (ObjectMeta ob) \<noteq> ''''" and "nnName req \<noteq> ''''"
    and "ParseUint64 (mResourceVersion (ObjectMeta ob)) \<noteq> None"
    and "tracked c KNooBaa \<lparr>nnNamespace = nnNamespace req, nnName = noobaaName\<rparr> = None"
  shows "\<exists>e s'. Reconcile (fakeEnv ma un) req \<lparr>rc = r, wd = c\<rparr> = (Err e, s') \<and> IsNotFound e \<and>
    tracked (wd s') = (tracked c)(KManagedMCG := (tracked c KManagedMCG)(req := None))"
  using assms by (rule deletion_run)

lemma cluster_wf_single [simp]: "cluster_wf (clusterOf [ob])"
  by (simp add: cluster_wf_def clusterOf_def)

definition terminatingMCG :: kobject where
  "terminatingMCG = untype kManagedMCG (sampleMCG\<lparr>ObjectMeta := (ObjectMeta sampleMCG)\<lparr>mDeletionTimestamp := Some 1\<rparr>\<rparr>)"

lemma terminatingMCG_simps:
  "obj_kind terminatingMCG = KManagedMCG" "object_key terminatingMCG = sampleKey"
  "ObjectMeta terminatingMCG = (ObjectMeta sampleMCG)\<lparr>mDeletionTimestamp := Some 1\<rparr>"
  by (simp_all add: terminatingMCG_def untype_def kManagedMCG_def object_key_def sampleMCG_def sampleKey_def)

lemma tracked_single:
  "tracked (clusterOf [ob]) k n = (if obj_kind ob = k \<and> object_key ob = n then Some ob else None)"
  by (simp add: tracked_def clusterOf_def obj_id_def)

lemma terminatingMCG_numeric: "ParseUint64 (mResourceVersion (ObjectMeta terminatingMCG)) = Some 7"
  by (simp add: terminatingMCG_simps sampleMCG_def ParseUint64_def undec_def char_digit_def)

lemma terminatingMCG_terminating: "terminating terminatingMCG"
  by (simp add: terminating_def terminatingMCG_simps time_IsZero_def)

theorem deletion_completes_witness:
  "\<exists>e s'. Reconcile sampleEnv sampleKey \<lparr>rc = sampleReconciler, wd = clusterOf [terminatingMCG]\<rparr> = (Err e, s') \<and>
     IsNotFound e \<and> tracked (wd s') KManagedMCG sampleKey = None"
proof -
  have "\<exists>e s'. Reconcile (fakeEnv (\<lambda>_. Inr ''yaml'') (\<lambda>_ gs. Inr gs)) sampleKey
      \<lparr>rc = sampleReconciler, wd = clusterOf [terminatingMCG]\<rparr> = (Err e, s') \<and> IsNotFound e \<and>
    tracked (wd s') = (tracked (clusterOf [terminatingMCG]))
      (KManagedMCG := (tracked (clusterOf [terminatingMCG]) KManagedMCG)(sampleKey := None))"
    by (rule deletion_completes [where ob = terminatingMCG])
      (simp_all add: tracked_single terminatingMCG_simps(1,2) terminatingMCG_numeric terminatingMCG_terminating,
       simp_all add: terminatingMCG_simps sampleMCG_def sampleKey_def ManagedMCGName_def)
  then show ?thesis by (auto simp: sampleEnv_def)
qed

end
