(* ===== verification/Panics.thy ===== *)
theory Panics
  imports Safety Resources
begin

text \<open>
  Where the operator can panic. Nil dereferences, reads out of range and assignments to nil maps are
  outcomes of the model; this theory follows them through every operation of a reconciliation and
  finds that only the contents of a CSV that the server has listed can cause one.
\<close>

named_theorems panic_intros "rules that follow panics through an action"

section \<open>The calculus\<close>

text \<open>When an action panics the log of requests shows an event of the kind \<open>P\<close>.\<close>

definition panics_if :: "(event \<Rightarrow> bool) \<Rightarrow> (('r, event list \<times> 'w) sys, 'a) act \<Rightarrow> bool" where
  "panics_if P m \<longleftrightarrow> (\<forall>s p t. m s = (Panic p, t) \<longrightarrow> list_ex P (fst (wd t)))"

lemma panics_if_basic [panic_intros]:
  "panics_if P (retA a)" "panics_if P (failA e)" "panics_if P (readA f)" "panics_if P (modA g)"
  "panics_if P (getR h)" "panics_if P (setR k)" "panics_if P (setF F ob)" "panics_if P (keyF F)"
  "panics_if P (reqA q)" "panics_if P (waitA E)"
  by (simp_all add: panics_if_def act_unfold getR_def setR_def setF_def keyF_def reqA_def waitA_def
      split: prod.split sum.split)

lemma panics_if_liftA [panic_intros]: "(\<And>p. r \<noteq> Panic p) \<Longrightarrow> panics_if P (liftA r)"
  by (simp add: panics_if_def liftA_def)

lemma panics_if_bindA [panic_intros]:
  "panics_if P m \<Longrightarrow> (\<And>a. panics_if P (f a)) \<Longrightarrow> panics_if P (bindA m f)"
  by (fastforce simp: panics_if_def bindA_def split: prod.splits outcome.splits)

lemma panics_if_thenA [panic_intros]: "panics_if P m \<Longrightarrow> panics_if P n \<Longrightarrow> panics_if P (thenA m n)"
  by (simp add: thenA_def panics_if_bindA)

lemma panics_if_wrapA [panic_intros]: "panics_if P m \<Longrightarrow> panics_if P (wrapA msg m)"
  by (fastforce simp: panics_if_def wrapA_def split: prod.splits outcome.splits)

lemma panics_if_tryA [panic_intros]: "panics_if P m \<Longrightarrow> panics_if P (tryA m)"
  by (fastforce simp: panics_if_def tryA_def split: prod.splits outcome.splits)

lemma panics_if_whenA [panic_intros]: "(b \<Longrightarrow> panics_if P m) \<Longrightarrow> panics_if P (whenA b m)"
  by (simp add: whenA_def panics_if_basic)

lemma panics_if_if [panic_intros]:
  "(b \<Longrightarrow> panics_if P m) \<Longrightarrow> (\<not> b \<Longrightarrow> panics_if P n) \<Longrightarrow> panics_if P (if b then m else n)"
  by simp

lemma panics_if_cases [panic_intros]:
  "(\<And>e. x = Inl e \<Longrightarrow> panics_if P (f e)) \<Longrightarrow> (\<And>a. x = Inr a \<Longrightarrow> panics_if P (g a)) \<Longrightarrow>
   panics_if P (case x of Inl e \<Rightarrow> f e | Inr a \<Rightarrow> g a)"
  "(y = None \<Longrightarrow> panics_if P m) \<Longrightarrow> (\<And>a. y = Some a \<Longrightarrow> panics_if P (h a)) \<Longrightarrow>
   panics_if P (case y of None \<Rightarrow> m | Some a \<Rightarrow> h a)"
  "(\<And>a b. z = (a, b) \<Longrightarrow> panics_if P (k a b)) \<Longrightarrow> panics_if P (case z of (a, b) \<Rightarrow> k a b)"
  "(xs = [] \<Longrightarrow> panics_if P m) \<Longrightarrow> (\<And>a as. xs = a # as \<Longrightarrow> panics_if P (l a as)) \<Longrightarrow>
   panics_if P (case xs of [] \<Rightarrow> m | a # as \<Rightarrow> l a as)"
  by (auto split: sum.split option.split prod.split list.split)

lemma panics_if_Let [panic_intros]: "panics_if P (f x) \<Longrightarrow> panics_if P (Let x f)"
  by simp

lemma panics_if_forA [panic_intros]: "(\<And>x. x \<in> set xs \<Longrightarrow> panics_if P (f x)) \<Longrightarrow> panics_if P (forA f xs)"
  by (induction xs) (auto intro!: panic_intros)

section \<open>Requests, polling, CreateOrUpdate\<close>

lemma panics_if_client [panic_intros]:
  "panics_if P (decodeA K ko)" "panics_if P (clientGet E K key)" "panics_if P (clientList E K ns)"
  "panics_if P (clientCreate E K ob)" "panics_if P (clientUpdate E K ob)"
  "panics_if P (clientStatusUpdate E K ob)" "panics_if P (clientDelete E K key)"
  "panics_if P (getF E K F)" "panics_if P (createF E K F)" "panics_if P (updateF E K F)"
  unfolding getF_def createF_def updateF_def clientGet_def clientList_def clientCreate_def clientUpdate_def
    clientStatusUpdate_def clientDelete_def decodeA_def
  by (intro panic_intros)+

lemma panics_if_WaitFor: "panics_if P c \<Longrightarrow> panics_if P (WaitFor E n c)"
  by (induction n) (auto intro!: panic_intros)

lemma panics_if_PollImmediate [panic_intros]: "panics_if P c \<Longrightarrow> panics_if P (PollImmediate E i t c)"
  unfolding PollImmediate_def by (intro panic_intros panics_if_WaitFor)

lemma panics_if_CreateOrUpdate [panic_intros]: "panics_if P f \<Longrightarrow> panics_if P (CreateOrUpdate E K F f)"
  unfolding CreateOrUpdate_def mutateF_def by (intro panic_intros)

lemma panics_if_r [panic_intros]:
  "panics_if P (r_get E K F)" "panics_if P (r_getLocal E K key)" "panics_if P (r_list E K)"
  "panics_if P (r_update E K F)" "panics_if P (r_updateLocal E K' ob)" "panics_if P (r_delete E K key)"
  "panics_if P (own F)" "panics_if P (setBody F' b)" "panics_if P (getCSVByPrefix E n)"
  unfolding r_get_def r_getLocal_def r_list_def r_update_def r_updateLocal_def r_delete_def own_def setBody_def
    getCSVByPrefix_def
  by (intro panic_intros)+

lemma panics_if_setMetaA [panic_intros]:
  "(\<And>m p. f m \<noteq> Panic p) \<Longrightarrow> panics_if P (setMetaA F f)"
  unfolding setMetaA_def by (intro panic_intros)

lemma AddLabel_no_panic [panic_intros]: "AddLabel m k v \<noteq> Panic p" "AddAnnotation m k v \<noteq> Panic p"
  by (simp_all add: AddLabel_Ok AddAnnotation_Ok)

lemma panics_if_withLocal [panic_intros]: "panics_if P m \<Longrightarrow> panics_if P (withLocal x m)"
  by (fastforce simp: panics_if_def withLocal_def split: prod.splits)

section \<open>The CSVs\<close>

text \<open>
  The two faults a CSV can have: one of the deployments of the OCS operator leaves its replicas
  unset, or the CSV of the deployer has no deployment of its controller manager.
\<close>

definition bad_csv :: "kobject \<Rightarrow> bool" where
  "bad_csv ob = (case Body ob of
     BCSV c \<Rightarrow>
       has_prefix (mName (ObjectMeta ob)) ''ocs-operator'' \<and> list_ex replicas_unset (csvDeploymentSpecs c) \<or>
       has_prefix (mName (ObjectMeta ob)) deployerCSVPrefix \<and>
         \<not> list_ex (\<lambda>d. sdName d = ''mcg-osd-deployer-controller-manager'') (csvDeploymentSpecs c)
   | _ \<Rightarrow> False)"

fun bad_csv_listed :: "event \<Rightarrow> bool" where
  "bad_csv_listed (EvList k ns (Inr obs)) = (k = KCSV \<and> list_ex bad_csv obs)"
| "bad_csv_listed _ = False"

lemma find_SomeD: "find Q xs = Some x \<Longrightarrow> x \<in> set xs \<and> Q x"
  by (induction xs) (auto split: if_splits)

lemma those_mapD: "those (map f xs) = Some ys \<Longrightarrow> y \<in> set ys \<Longrightarrow> \<exists>x \<in> set xs. f x = Some y"
  by (induction xs arbitrary: ys) (auto split: option.splits)

lemma kind_kCSV: "kdKind kCSV = KCSV"
  by (simp add: kCSV_def)

lemma getCSVByPrefix_listed:
  assumes "getCSVByPrefix (recording E) pre s = (Ok csv', t)"
  shows "has_prefix (mName (ObjectMeta csv')) pre \<and>
    (bad_csv (untype kCSV csv') \<longrightarrow> list_ex bad_csv_listed (fst (wd t)))"
proof -
  obtain obs items where log: "EvList KCSV (rNamespace (rc s)) (Inr obs) \<in> set (fst (wd t))"
    and items: "those (map (retype kCSV) obs) = Some items"
    and found: "find (\<lambda>csv. has_prefix (mName (ObjectMeta csv)) pre) items = Some csv'"
    using assms
    by (auto simp: getCSVByPrefix_def r_list_def clientList_def reqA_def getR_def act_unfold recording_def
        record_op_def kind_kCSV split: prod.splits sum.splits option.splits outcome.splits) blast
  obtain ob where "ob \<in> set obs" "retype kCSV ob = Some csv'"
    using find_SomeD [OF found] those_mapD [OF items] by blast
  then have "untype kCSV csv' \<in> set obs" by (simp add: tk_csv.untype_retype)
  then show ?thesis
    using log find_SomeD [OF found] by (auto simp: list_ex_iff intro!: bexI)
qed

text \<open>The CSV is put to use right after the list: a panic there is one on a bad CSV.\<close>

lemma panics_if_CSV [panic_intros]:
  assumes "m = getCSVByPrefix (recording E) pre \<or> m = wrapA msg (getCSVByPrefix (recording E) pre)"
    and g: "\<And>csv' p. has_prefix (mName (ObjectMeta csv')) pre \<Longrightarrow> g csv' = Panic p \<Longrightarrow> bad_csv (untype kCSV csv')"
    and h: "\<And>csv' a. panics_if bad_csv_listed (h csv' a)"
  shows "panics_if bad_csv_listed (bindA m (\<lambda>csv'. bindA (liftA (g csv')) (h csv')))"
  unfolding panics_if_def
proof (intro allI impI)
  fix s p t
  assume run: "bindA m (\<lambda>csv'. bindA (liftA (g csv')) (h csv')) s = (Panic p, t)"
  have m: "panics_if bad_csv_listed m" using assms(1) by (auto intro: panic_intros)
  show "list_ex bad_csv_listed (fst (wd t))"
  proof (cases "m s")
    case (Pair res s')
    show ?thesis
    proof (cases res)
      case (Ok csv')
      then have "getCSVByPrefix (recording E) pre s = (Ok csv', s')" using Pair assms(1) by auto
      note listed = getCSVByPrefix_listed [OF this]
      from run Pair Ok have "bindA (liftA (g csv')) (h csv') s' = (Panic p, t)" by (simp add: bindA_def)
      then show ?thesis
        using g [of csv'] listed h [of csv']
        by (auto simp: bindA_def liftA_def panics_if_def split: outcome.splits)
    qed (use run Pair m in \<open>auto simp: bindA_def panics_if_def\<close>)
  qed
qed

lemma bad_csv_ocs:
  "has_prefix (mName (ObjectMeta csv')) ''ocs-operator'' \<Longrightarrow> downscale (csvDeploymentSpecs (Body csv')) False = Panic p \<Longrightarrow>
   bad_csv (untype kCSV csv')"
  by (auto simp: bad_csv_def downscale_eq untype_def kCSV_def split: if_splits)

lemma last_with_acc: "fold (\<lambda>x acc. if name x = n then Some x else acc) xs acc = None \<longleftrightarrow>
   acc = None \<and> \<not> list_ex (\<lambda>x. name x = n) xs"
  by (induction xs arbitrary: acc) auto

lemma bad_csv_deployer:
  "has_prefix (mName (ObjectMeta csv')) deployerCSVPrefix \<Longrightarrow> kubeRbacImageOf csv' = Panic p \<Longrightarrow>
   bad_csv (untype kCSV csv')"
  by (auto simp: bad_csv_def kubeRbacImageOf_def last_with_def last_with_acc untype_def kCSV_def
      split: option.splits)

section \<open>Operations on the template of Prometheus\<close>

text \<open>What the reads of the Prometheus object rely on, and what the template provides.\<close>

definition remote_write_set :: "prometheus_spec \<Rightarrow> bool" where
  "remote_write_set ps \<longleftrightarrow> psRemoteWrite ps = [template_remote_write]"

definition alerting_set :: "prometheus_spec \<Rightarrow> bool" where
  "alerting_set ps \<longleftrightarrow> (\<exists>am rest. psAlerting ps = Some (am # rest))"

lemma PrometheusTemplate_set:
  "remote_write_set (PrometheusTemplate\<lparr>psContainers := cs\<rparr>)" "alerting_set (PrometheusTemplate\<lparr>psContainers := cs\<rparr>)"
  by (simp_all add: remote_write_set_def alerting_set_def PrometheusTemplate_def)

lemma configureRemoteWriteSpec_template: "configureRemoteWriteSpec c a template_remote_write \<noteq> Panic p"
  by (simp add: configureRemoteWriteSpec_def template_remote_write_def gm_put_def gm_of_def)

lemma configureRHOBSRemoteWrite_no_panic:
  assumes "remote_write_set (promSpec (Body (rPrometheus (rc s))))"
  shows "configureRHOBSRemoteWrite E s \<noteq> (Panic p, t)"
  using assms configureRemoteWriteSpec_template
  by (auto simp: configureRHOBSRemoteWrite_def configureRHOBS_fetched_def setRemoteWrite0_def setBody_def
      remote_write_set_def r_get_eq getR_def setR_def act_unfold Let_def
      split: prod.splits sum.splits option.splits outcome.splits if_splits)

lemma setAlertmanagerNamespace_run:
  assumes "alerting_set (promSpec (Body (rPrometheus (rc s))))"
  shows "\<exists>ams. setAlertmanagerNamespace ns s = setBody fPrometheus (\<lambda>b. b\<lparr>promSpec := (promSpec b)\<lparr>psAlerting := ams\<rparr>\<rparr>) s"
  using assms by (auto simp: setAlertmanagerNamespace_def alerting_set_def bindA_getR)

lemma afterTemplate_no_panic:
  assumes "remote_write_set (promSpec (Body (rPrometheus (rc s))))" "alerting_set (promSpec (Body (rPrometheus (rc s))))"
  shows "thenA (setAlertmanagerNamespace ns) (thenA (setBody fPrometheus (\<lambda>b. b\<lparr>promSpec := (promSpec b)\<lparr>
      psAdditionalAlertRelabelConfigs := sel\<rparr>\<rparr>)) (configureRHOBSRemoteWrite E)) s \<noteq> (Panic p, t)"
proof -
  obtain ams where "setAlertmanagerNamespace ns s =
      setBody fPrometheus (\<lambda>b. b\<lparr>promSpec := (promSpec b)\<lparr>psAlerting := ams\<rparr>\<rparr>) s"
    using setAlertmanagerNamespace_run [OF assms(2)] by blast
  with assms(1) show ?thesis
    by (simp add: thenA_run setBody_run configureRHOBSRemoteWrite_no_panic remote_write_set_def)
qed

section \<open>The operations of a reconciliation\<close>

lemma panics_if_afterTemplate:
  "panics_if P (thenA (setBody fPrometheus (\<lambda>b. b\<lparr>promSpec := PrometheusTemplate\<lparr>psContainers := cs\<rparr>\<rparr>))
    (bindA (getR rNamespace) (\<lambda>ns. thenA (setAlertmanagerNamespace ns)
      (thenA (setBody fPrometheus (\<lambda>b. b\<lparr>promSpec := (promSpec b)\<lparr>psAdditionalAlertRelabelConfigs := sel\<rparr>\<rparr>))
        (configureRHOBSRemoteWrite E)))))"
  by (simp add: panics_if_def thenA_run setBody_run bindA_getR afterTemplate_no_panic PrometheusTemplate_set)

lemma panics_if_mutatePrometheus [panic_intros]: "panics_if bad_csv_listed (mutatePrometheus (recording E))"
  unfolding mutatePrometheus_def
  by (rule panics_if_thenA [OF panics_if_r(7)], rule panics_if_thenA, (intro panic_intros)[1],
      rule panics_if_CSV [where pre = deployerCSVPrefix])
    (auto intro!: panics_if_afterTemplate bad_csv_deployer)

lemma configReceivers_no_panic:
  "mapO (configReceiver1 c smtpData dmsURL addresses smtpHTML) (acReceivers AlertmanagerConfigTemplate) \<noteq> Panic p"
  by (simp add: AlertmanagerConfigTemplate_def template_receivers_def configReceiver1_def
      configPagerduty_def configWebhook_def configEmail_def)

lemma dmsRuleGroups_no_panic: "dmsRuleGroups ns \<noteq> Panic p"
  by (simp add: dmsRuleGroups_Ok)

lemma setNoobaaDesiredState_no_panic: "setNoobaaDesiredState images n \<noteq> Panic p"
  by (simp add: setNoobaaDesiredState_def GetResourceRequirements_def ResourceRequirements_def)

lemma panics_if_pieces [panic_intros]:
  "panics_if P (configReceiver url addrs html)" "panics_if P (addLabelA l v)"
  "panics_if P (labelAndUpdate E K ob)" "panics_if P (labelPrometheusRule E gs)"
  unfolding configReceiver_def addLabelA_def labelAndUpdate_def labelPrometheusRule_def addLabel_eq
  by (intro panic_intros configReceivers_no_panic; simp)+

lemma panics_if_monitoring [panic_intros]:
  "panics_if bad_csv_listed (reconcileAlertMonitoring (recording E))"
  unfolding reconcileAlertMonitoring_def reconcileAlertRelabelConfigSecret_def reconcilePrometheus_def
    reconcileAlertmanager_def reconcileAlertmanagerConfig_def mutateAlertmanagerConfig_def checkPrerequisites_def
    configureNotifications_def checkSmtpParams_def reconcileMonitoringResources_def reconcileDMSPrometheusRule_def
    reconcileNoobaaRules_def mutateNoobaaRules_def labelNoobaaRules_def
  by (intro panic_intros dmsRuleGroups_no_panic)

lemma panics_if_noobaa [panic_intros]: "panics_if P (reconcileNoobaaComponent E)"
  unfolding reconcileNoobaaComponent_def getDefaultBackingStore_def mutateNoobaa_def
  by (intro panic_intros setNoobaaDesiredState_no_panic)

lemma panics_if_ocs [panic_intros]: "panics_if bad_csv_listed (reconcileOCSCSV (recording E))"
  unfolding reconcileOCSCSV_def
  by (intro panics_if_bindA [OF panics_if_basic(5)] panics_if_if panics_if_basic panics_if_CSV [where msg = "[]"])
    (auto intro!: panic_intros bad_csv_ocs)

lemma panics_if_resources [panic_intros]: "panics_if bad_csv_listed (reconcileResources (recording E))"
  unfolding reconcileResources_def ensureConsolePlugin_def mutateConsoleService_def ignoreAlreadyExists_def
    reconcileConsoleCluster_def reconcileKubeRBACConfigMap_def reconcilePrometheusService_def
    reconcilePrometheusProxyNetworkPolicy_def reconcileIngressNetworkPolicy_def
  by (intro panic_intros)

lemma panics_if_status [panic_intros]: "panics_if P (updateComponentStatus E)"
  unfolding updateComponentStatus_def UpdateNoobaaComponentStatus_def UpdatePrometheusComponentStatus_def
    UpdateAlertmanagerComponentStatus_def UpdateConsoleComponentStatus_def stateOfFetch_def setComponents_def
    workloadState_def
  by (intro panic_intros)

lemma panics_if_removal [panic_intros]: "panics_if P (removeNoobaa E)" "panics_if P (removeOLMComponents E)"
  "panics_if P (removeManagedMCG E)" "panics_if P (addManagedMCG E)"
  unfolding removeNoobaa_def drainBucketClasses_def deleteNoobaaCR_def deleteStores_def deleteNamed_def
    bucketClassesGone_def removeOLMComponents_def removeManagedMCG_def addManagedMCG_def setFinalizers_def
  by (intro panic_intros)+

lemma panics_if_Reconcile: "panics_if bad_csv_listed (Reconcile (recording E) req)"
  unfolding Reconcile_def reconcileFetched_def reconcilePhases_def dispatchPhases_def deletionPhase_def
    maintenancePhase_def maintainManagedMCG_def uninstallWhenReady_def updateAddonParams_def
    verifyAddonDeletionKey_def updateStatus_def
  by (intro panic_intros)

section \<open>The only causes of a panic\<close>

text \<open>
  C16. The process can only crash in a reconciliation on the contents of a CSV: when \<open>Reconcile\<close> panics,
  the server has listed a CSV of the OCS operator that leaves the replicas of one of the three
  deployments unset, or one of the deployer without the deployment of its controller manager.
  Every other nil dereference, index and map assignment of the code is reached with a value.
\<close>

theorem Reconcile_panics_on_bad_csv:
  "case Reconcile (recording E) req (start r w) of
     (Panic _, s') \<Rightarrow> list_ex bad_csv_listed (fst (wd s'))
   | _ \<Rightarrow> True"
  using panics_if_Reconcile [of E req] by (auto simp: panics_if_def split: prod.split outcome.split)

end
