(* ===== verification/Anchor.thy ===== *)
theory Anchor
  imports Safety
begin

text \<open>
  What a reconciliation leaves alone in the receiver. The working objects come and go with every
  request; the configuration, the images, the namespace and the metadata of the ManagedMCG resource
  are what all operations rely on, and only the operations on the ManagedMCG resource itself touch
  the last of them.
\<close>

section \<open>Observations of the receiver\<close>

definition kept :: "('r \<Rightarrow> 'a) \<Rightarrow> 'a \<Rightarrow> ('r, 'w) sys \<Rightarrow> bool" where
  "kept g v s \<longleftrightarrow> g (rc s) = v"

text \<open>A field that the observation does not see.\<close>

definition apart :: "('r \<Rightarrow> 'a) \<Rightarrow> ('r, 'b) field \<Rightarrow> bool" where
  "apart g F \<longleftrightarrow> (\<forall>u r. g (snd F u r) = g r)"

lemma kept_reqA [keeps_intros]: "keepsA (kept g v) (reqA f)"
  by (simp add: keepsA_def kept_def reqA_def split: prod.split sum.split)

lemma kept_waitA [keeps_intros]: "keepsA (kept g v) (waitA E)"
  by (simp add: keepsA_def kept_def waitA_def split: prod.split)

lemma kept_getR [keeps_intros]: "keepsA (kept g v) (getR f)"
  by (simp add: getR_def keepsA_readA)

lemma kept_keyF [keeps_intros]: "keepsA (kept g v) (keyF F)"
  by (simp add: keyF_def kept_getR)

lemma kept_setR [keeps_intros]: "(\<And>r. g (f r) = g r) \<Longrightarrow> keepsA (kept g v) (setR f)"
  by (simp add: setR_def keepsA_def modA_def kept_def)

lemma kept_setF [keeps_intros]: "apart g F \<Longrightarrow> keepsA (kept g v) (setF F ob)"
  unfolding setF_def by (intro keeps_intros) (simp add: apart_def)

lemma kept_client [keeps_intros]:
  "keepsA (kept g v) (decodeA K ko)" "keepsA (kept g v) (clientGet E K key)"
  "keepsA (kept g v) (clientList E K ns)" "keepsA (kept g v) (clientCreate E K ob)"
  "keepsA (kept g v) (clientUpdate E K ob)" "keepsA (kept g v) (clientStatusUpdate E K ob)"
  "keepsA (kept g v) (clientDelete E K key)"
  unfolding clientGet_def clientList_def clientCreate_def clientUpdate_def clientStatusUpdate_def
    clientDelete_def decodeA_def
  by (intro keeps_intros)+

lemma kept_fields [keeps_intros]:
  "apart g F \<Longrightarrow> keepsA (kept g v) (getF E K F)" "apart g F \<Longrightarrow> keepsA (kept g v) (createF E K F)"
  "apart g F \<Longrightarrow> keepsA (kept g v) (updateF E K F)"
  unfolding getF_def createF_def updateF_def
  by (intro keeps_intros; assumption)+

lemma kept_WaitFor: "keepsA (kept g v) c \<Longrightarrow> keepsA (kept g v) (WaitFor E n c)"
  by (induction n) (auto intro!: keeps_intros)

lemma kept_PollImmediate [keeps_intros]:
  "keepsA (kept g v) c \<Longrightarrow> keepsA (kept g v) (PollImmediate E i t c)"
  unfolding PollImmediate_def by (intro keeps_intros kept_WaitFor)

lemma kept_CreateOrUpdate [keeps_intros]:
  "apart g F \<Longrightarrow> keepsA (kept g v) f \<Longrightarrow> keepsA (kept g v) (CreateOrUpdate E K F f)"
  unfolding CreateOrUpdate_def mutateF_def by (intro keeps_intros; assumption)

lemma kept_r [keeps_intros]:
  fixes F :: "(reconciler, 'b) field"
  shows "apart g F \<Longrightarrow> keepsA (kept g v) (r_get E K F)" "keepsA (kept g v) (r_getLocal E K key)"
  "keepsA (kept g v) (r_list E K)" "apart g F \<Longrightarrow> keepsA (kept g v) (r_update E K F)"
  "keepsA (kept g v) (r_updateLocal E K ob)" "keepsA (kept g v) (r_delete E K key)"
  "apart g F \<Longrightarrow> keepsA (kept g v) (own F)" "apart g F \<Longrightarrow> keepsA (kept g v) (setBody F b)"
  "apart g F \<Longrightarrow> keepsA (kept g v) (setMetaA F h)" "keepsA (kept g v) (getCSVByPrefix E n)"
  unfolding r_get_def r_getLocal_def r_list_def r_update_def r_updateLocal_def r_delete_def own_def
    setBody_def setMetaA_def getCSVByPrefix_def
  by (intro keeps_intros; simp add: apart_def)+

lemma kept_withLocal [keeps_intros]:
  fixes m :: "(('r \<times> 'x, 'w) sys, 'a) act"
  assumes "keepsA (kept (\<lambda>(r, x). g r) v) m"
  shows "keepsA (kept g v) (withLocal x m)"
  unfolding keepsA_def
proof (intro allI impI)
  fix s :: "('r, 'w) sys"
  assume "kept g v s"
  then have "kept (\<lambda>(r, x). g r) v (snd (m \<lparr>rc = (rc s, x), wd = wd s\<rparr>))"
    using assms by (simp add: keepsA_def kept_def)
  then show "kept g v (snd (withLocal x m s))"
    by (simp add: withLocal_def kept_def split_def)
qed

section \<open>The anchor\<close>

definition anchor :: "reconciler \<Rightarrow> config \<times> image_map \<times> string \<times> object_meta" where
  "anchor r = (rCfg r, rImages r, rNamespace r, ObjectMeta (rManagedMCG r))"

abbreviation anchored :: "config \<times> image_map \<times> string \<times> object_meta \<Rightarrow> (reconciler, 'w) sys \<Rightarrow> bool" where
  "anchored \<equiv> kept anchor"

lemma apart_local [simp]: "apart (\<lambda>(r, x). g r) (snd, \<lambda>f (r, x). (r, f x))"
  by (auto simp: apart_def)

lemma anchor_body [keeps_intros]: "keepsA (anchored v) (setBody fManagedMCG f)"
  unfolding setBody_def by (intro keeps_intros) (simp add: anchor_def)

lemma anchored_monitoring [keeps_intros]: "keepsA (anchored v) (reconcileAlertMonitoring E)"
  unfolding reconcileAlertMonitoring_def reconcileAlertRelabelConfigSecret_def reconcilePrometheus_def
    mutatePrometheus_def setAlertmanagerNamespace_def configureRHOBSRemoteWrite_def configureRHOBS_fetched_def
    setRemoteWrite0_def reconcileAlertmanager_def reconcileAlertmanagerConfig_def mutateAlertmanagerConfig_def
    checkPrerequisites_def configureNotifications_def checkSmtpParams_def configReceiver_def
    reconcileMonitoringResources_def labelAndUpdate_def labelPrometheusRule_def reconcileDMSPrometheusRule_def
    reconcileNoobaaRules_def mutateNoobaaRules_def labelNoobaaRules_def addLabelA_def
  by (intro keeps_intros; simp add: apart_def anchor_def)

lemma anchored_resources [keeps_intros]: "keepsA (anchored v) (reconcileResources E)"
  unfolding reconcileResources_def reconcileNoobaaComponent_def getDefaultBackingStore_def mutateNoobaa_def
    ensureConsolePlugin_def mutateConsoleService_def ignoreAlreadyExists_def reconcileConsoleCluster_def
    reconcileOCSCSV_def reconcileKubeRBACConfigMap_def reconcilePrometheusService_def
    reconcilePrometheusProxyNetworkPolicy_def reconcileIngressNetworkPolicy_def
  by (intro keeps_intros; simp add: apart_def anchor_def split_def)

lemma anchored_status [keeps_intros]: "keepsA (anchored v) (updateComponentStatus E)"
  unfolding updateComponentStatus_def UpdateNoobaaComponentStatus_def UpdatePrometheusComponentStatus_def
    UpdateAlertmanagerComponentStatus_def UpdateConsoleComponentStatus_def stateOfFetch_def setComponents_def
    workloadState_def
  by (intro keeps_intros; simp add: apart_def anchor_def)

lemma anchored_removal [keeps_intros]:
  "keepsA (anchored v) (removeNoobaa E)" "keepsA (anchored v) (removeOLMComponents E)"
  "keepsA (anchored v) (uninstallWhenReady E b)" "keepsA (anchored v) (verifyAddonDeletionKey E)"
  "keepsA (anchored v) (updateAddonParams E)"
  unfolding removeNoobaa_def drainBucketClasses_def deleteNoobaaCR_def deleteStores_def deleteNamed_def
    bucketClassesGone_def removeOLMComponents_def setFinalizers_def uninstallWhenReady_def
    verifyAddonDeletionKey_def updateAddonParams_def
  by (intro keeps_intros; simp add: apart_def anchor_def)+

section \<open>What survives a reconciliation\<close>

text \<open>The part of the anchor that nothing changes once the receiver is initialised.\<close>

definition settings :: "reconciler \<Rightarrow> config \<times> image_map \<times> string" where
  "settings r = (rCfg r, rImages r, rNamespace r)"

lemma anchored_settings: "(\<And>v. keepsA (anchored v) m) \<Longrightarrow> keepsA (kept settings v) m"
  unfolding keepsA_def kept_def anchor_def settings_def by blast

lemma settings_field [simp]: "apart settings fManagedMCG"
  by (simp add: apart_def settings_def)

lemma settings_reconcileFetched: "keepsA (kept settings v) (reconcileFetched E)"
  unfolding reconcileFetched_def reconcilePhases_def dispatchPhases_def deletionPhase_def maintenancePhase_def
    maintainManagedMCG_def removeManagedMCG_def addManagedMCG_def setFinalizers_def updateStatus_def
  by (intro keeps_intros anchored_settings [OF anchored_resources] anchored_settings [OF anchored_status]
      anchored_settings [OF anchored_removal(1)] anchored_settings [OF anchored_removal(2)]
      anchored_settings [OF anchored_removal(3)] anchored_settings [OF anchored_removal(4)]
      anchored_settings [OF anchored_removal(5)]; simp add: settings_def)


end
