(* ===== verification/Independence.thy ===== *)
theory Independence
  imports Safety
begin

text \<open>
  Whether one reconciliation can feel the previous one. The receiver lives as long as the process
  and \<open>initializeReconciler\<close> resets its fields one by one; the reconcile strategy is not among
  them. An action is blind to what an observation of the receiver leaves out when it answers and
  acts alike on receivers that the observation does not tell apart.
\<close>

named_theorems blind_intros "rules that follow blindness through an action"

section \<open>Blind actions\<close>

definition alike :: "('r \<Rightarrow> 'r) \<Rightarrow> ('r, 'w) sys \<Rightarrow> ('r, 'w) sys \<Rightarrow> bool" where
  "alike g s t \<longleftrightarrow> wd s = wd t \<and> g (rc s) = g (rc t)"

definition blindA :: "('r \<Rightarrow> 'r) \<Rightarrow> (('r, 'w) sys, 'a) act \<Rightarrow> bool" where
  "blindA g m \<longleftrightarrow> (\<forall>s t. alike g s t \<longrightarrow> fst (m s) = fst (m t) \<and> alike g (snd (m s)) (snd (m t)))"

text \<open>A field that the observation shows in full.\<close>

definition seen :: "('r \<Rightarrow> 'r) \<Rightarrow> ('r, 'b) field \<Rightarrow> bool" where
  "seen g F \<longleftrightarrow> (\<forall>r. g (g r) = g r \<and> fst F (g r) = fst F r) \<and> (\<forall>h r. g (snd F h r) = snd F h (g r))"

lemma blindAD:
  "blindA g m \<Longrightarrow> alike g s t \<Longrightarrow> fst (m s) = fst (m t)"
  "blindA g m \<Longrightarrow> alike g s t \<Longrightarrow> alike g (snd (m s)) (snd (m t))"
  by (simp_all add: blindA_def)

lemma blindAI:
  "(\<And>s t. alike g s t \<Longrightarrow> fst (m s) = fst (m t) \<and> alike g (snd (m s)) (snd (m t))) \<Longrightarrow> blindA g m"
  by (simp add: blindA_def)

lemma blind_basic [blind_intros]:
  "blindA g (retA a)" "blindA g (failA e)" "blindA g (panicA p)" "blindA g (liftA x)"
  by (simp_all add: blindA_def act_unfold)

lemma blind_bindA [blind_intros]:
  assumes "blindA g m" and "\<And>a. blindA g (f a)"
  shows "blindA g (bindA m f)"
proof (rule blindAI)
  fix s t :: "('a, 'b) sys"
  assume st: "alike g s t"
  obtain x s' where s': "m s = (x, s')" by fastforce
  obtain t' where t': "m t = (x, t')" and st': "alike g s' t'"
    using blindAD [OF assms(1) st] s' by (metis prod.collapse fst_conv snd_conv)
  show "fst (bindA m f s) = fst (bindA m f t) \<and> alike g (snd (bindA m f s)) (snd (bindA m f t))"
    using blindAD [OF assms(2) st'] st' by (cases x) (simp_all add: bindA_def s' t')
qed

lemma blind_thenA [blind_intros]: "blindA g m \<Longrightarrow> blindA g n \<Longrightarrow> blindA g (thenA m n)"
  unfolding thenA_def by (rule blind_bindA)

lemma wrapA_prod: "wrapA msg m s =
    (case fst (m s) of Ok a \<Rightarrow> Ok a | Err e \<Rightarrow> Err (WrapErr msg e) | Panic p \<Rightarrow> Panic p, snd (m s))"
  by (simp add: wrapA_def split: prod.split outcome.split)

lemma tryA_prod: "tryA m s =
    (case fst (m s) of Ok a \<Rightarrow> Ok (Inr a) | Err e \<Rightarrow> Ok (Inl e) | Panic p \<Rightarrow> Panic p, snd (m s))"
  by (simp add: tryA_def split: prod.split outcome.split)

lemma blind_wrapA [blind_intros]: "blindA g m \<Longrightarrow> blindA g (wrapA msg m)"
  by (simp add: blindA_def wrapA_prod)

lemma blind_tryA [blind_intros]: "blindA g m \<Longrightarrow> blindA g (tryA m)"
  by (simp add: blindA_def tryA_prod)

lemma blind_whenA [blind_intros]: "blindA g m \<Longrightarrow> blindA g (whenA b m)"
  by (simp add: whenA_def blind_intros)

lemma blind_cases [blind_intros]:
  "blindA g m \<Longrightarrow> blindA g n \<Longrightarrow> blindA g (if b then m else n)"
  "(\<And>e. blindA g (f e)) \<Longrightarrow> (\<And>a. blindA g (h a)) \<Longrightarrow> blindA g (case x of Inl e \<Rightarrow> f e | Inr a \<Rightarrow> h a)"
  "blindA g m \<Longrightarrow> (\<And>a. blindA g (h' a)) \<Longrightarrow> blindA g (case o' of None \<Rightarrow> m | Some a \<Rightarrow> h' a)"
  "blindA g m \<Longrightarrow> (\<And>y ys. blindA g (k y ys)) \<Longrightarrow> blindA g (case xs of [] \<Rightarrow> m | y # ys \<Rightarrow> k y ys)"
  "(\<And>a b. blindA g (l a b)) \<Longrightarrow> blindA g (case q of (a, b) \<Rightarrow> l a b)"
  by (simp_all split: sum.split option.split list.split prod.split)

lemma blind_Let [blind_intros]: "blindA g (f x) \<Longrightarrow> blindA g (Let x f)"
  by simp

lemma blind_forA [blind_intros]: "(\<And>x. blindA g (f x)) \<Longrightarrow> blindA g (forA f xs)"
  by (induction xs) (auto intro!: blind_intros)

lemma blind_reqA [blind_intros]: "blindA g (reqA f)"
  by (auto simp: blindA_def reqA_def alike_def split: prod.split sum.split)

lemma blind_waitA [blind_intros]: "blindA g (waitA E)"
  by (auto simp: blindA_def waitA_def alike_def split: prod.split)

lemma blind_getR [blind_intros]: "(\<And>r. f (g r) = f r) \<Longrightarrow> blindA g (getR f)"
  unfolding blindA_def alike_def getR_def readA_def by (metis fst_conv snd_conv)

lemma blind_setR [blind_intros]: "(\<And>r. g (f (g r)) = g (f r)) \<Longrightarrow> blindA g (setR f)"
  unfolding blindA_def alike_def setR_def modA_def by simp metis

text \<open>After a step that overwrites what the observation leaves out, nothing can tell the runs apart.\<close>

lemma blind_collapse:
  assumes "\<And>r. f (g r) = f r"
  shows "blindA g (thenA (setR f) n)"
proof (rule blindAI)
  fix s t :: "('a, 'b) sys"
  assume "alike g s t"
  then have "s\<lparr>rc := f (rc s)\<rparr> = t\<lparr>rc := f (rc t)\<rparr>"
    using assms by (cases s; cases t) (auto simp: alike_def, metis)
  then have "thenA (setR f) n s = thenA (setR f) n t" by (simp add: setR_def act_unfold)
  then show "fst (thenA (setR f) n s) = fst (thenA (setR f) n t) \<and>
      alike g (snd (thenA (setR f) n s)) (snd (thenA (setR f) n t))"
    by (simp add: alike_def)
qed

section \<open>Requests and fields\<close>

lemma blind_client [blind_intros]:
  "blindA g (decodeA K ko)" "blindA g (clientGet E K key)" "blindA g (clientList E K ns)"
  "blindA g (clientCreate E K ob)" "blindA g (clientUpdate E K ob)" "blindA g (clientStatusUpdate E K ob)"
  "blindA g (clientDelete E K key)"
  unfolding clientGet_def clientList_def clientCreate_def clientUpdate_def clientStatusUpdate_def
    clientDelete_def decodeA_def
  by (intro blind_intros)+

lemma blind_keyF [blind_intros]: "seen g F \<Longrightarrow> blindA g (keyF F)"
  unfolding keyF_def by (intro blind_intros) (simp add: seen_def)

lemma blind_setF [blind_intros]: "seen g F \<Longrightarrow> blindA g (setF F ob)"
  unfolding setF_def by (intro blind_intros) (simp add: seen_def)

lemma blind_fields [blind_intros]:
  "seen g F \<Longrightarrow> blindA g (getF E K F)" "seen g F \<Longrightarrow> blindA g (createF E K F)" "seen g F \<Longrightarrow> blindA g (updateF E K F)"
  unfolding getF_def createF_def updateF_def
  by (intro blind_intros; simp add: seen_def)+

lemma blind_WaitFor: "blindA g c \<Longrightarrow> blindA g (WaitFor E n c)"
  by (induction n) (auto intro!: blind_intros)

lemma blind_PollImmediate [blind_intros]: "blindA g c \<Longrightarrow> blindA g (PollImmediate E i t c)"
  unfolding PollImmediate_def by (intro blind_intros blind_WaitFor)

lemma blind_CreateOrUpdate [blind_intros]:
  assumes "seen g F" and "blindA g f"
  shows "blindA g (CreateOrUpdate E K F f)"
  unfolding CreateOrUpdate_def mutateF_def by (intro blind_intros assms; use assms in \<open>simp add: seen_def\<close>)

lemma blind_withLocal [blind_intros]:
  fixes m :: "(('r \<times> 'x, 'w) sys, 'a) act"
  assumes "blindA (\<lambda>(r, x). (g r, x)) m"
  shows "blindA g (withLocal x m)"
proof (rule blindAI)
  fix s t :: "('r, 'w) sys"
  let ?l = "\<lambda>s. \<lparr>rc = (rc s, x), wd = wd s\<rparr>"
  assume "alike g s t"
  then have "alike (\<lambda>(r, x). (g r, x)) (?l s) (?l t)" by (simp add: alike_def)
  from blindAD [OF assms this] show
    "fst (withLocal x m s) = fst (withLocal x m t) \<and> alike g (snd (withLocal x m s)) (snd (withLocal x m t))"
    by (simp add: withLocal_def alike_def split_def)
qed

lemma seen_local [simp]: "(\<And>r. g (g r) = g r) \<Longrightarrow> seen (\<lambda>(r, x). (g r, x)) (snd, \<lambda>f (r, x). (r, f x))"
  by (auto simp: seen_def)

section \<open>The receiver without its strategy\<close>

definition unset :: "reconciler \<Rightarrow> reconciler" where
  "unset r = r\<lparr>rReconcileStrategy := ''''\<rparr>"

lemma blind_r [blind_intros]:
  fixes F :: "(reconciler, 'b) field"
  shows "seen unset F \<Longrightarrow> blindA unset (r_get E K F)" "blindA unset (r_getLocal E K key)"
  "blindA unset (r_list E K)" "seen unset F \<Longrightarrow> blindA unset (r_update E K F)"
  "blindA unset (r_updateLocal E K ob)" "blindA unset (r_delete E K key)"
  "seen unset F \<Longrightarrow> blindA unset (own F)" "seen unset F \<Longrightarrow> blindA unset (setBody F b)"
  "seen unset F \<Longrightarrow> blindA unset (setMetaA F h)" "blindA unset (getCSVByPrefix E n)"
  unfolding r_get_def r_getLocal_def r_list_def r_update_def r_updateLocal_def r_delete_def own_def
    setBody_def setMetaA_def getCSVByPrefix_def
  by (intro blind_intros; simp add: seen_def unset_def)+

lemma blind_monitoring [blind_intros]: "blindA unset (reconcileAlertMonitoring E)"
  unfolding reconcileAlertMonitoring_def reconcileAlertRelabelConfigSecret_def reconcilePrometheus_def
    mutatePrometheus_def setAlertmanagerNamespace_def configureRHOBSRemoteWrite_def configureRHOBS_fetched_def
    setRemoteWrite0_def reconcileAlertmanager_def reconcileAlertmanagerConfig_def mutateAlertmanagerConfig_def
    checkPrerequisites_def configureNotifications_def checkSmtpParams_def configReceiver_def
    reconcileMonitoringResources_def labelAndUpdate_def labelPrometheusRule_def reconcileDMSPrometheusRule_def
    reconcileNoobaaRules_def mutateNoobaaRules_def labelNoobaaRules_def addLabelA_def
  by (intro blind_intros; simp add: seen_def unset_def)

lemma blind_resources [blind_intros]: "blindA unset (reconcileResources E)"
  unfolding reconcileResources_def reconcileNoobaaComponent_def getDefaultBackingStore_def mutateNoobaa_def
    ensureConsolePlugin_def mutateConsoleService_def ignoreAlreadyExists_def reconcileConsoleCluster_def
    reconcileOCSCSV_def reconcileKubeRBACConfigMap_def reconcilePrometheusService_def
    reconcilePrometheusProxyNetworkPolicy_def reconcileIngressNetworkPolicy_def
  by (intro blind_intros; simp add: seen_def unset_def components_def split_def)

lemma blind_status [blind_intros]: "blindA unset (updateComponentStatus E)"
  unfolding updateComponentStatus_def UpdateNoobaaComponentStatus_def UpdatePrometheusComponentStatus_def
    UpdateAlertmanagerComponentStatus_def UpdateConsoleComponentStatus_def stateOfFetch_def setComponents_def
    workloadState_def
  by (intro blind_intros; simp add: seen_def unset_def)

lemma blind_removal [blind_intros]:
  "blindA unset (removeNoobaa E)" "blindA unset (removeOLMComponents E)"
  "blindA unset (uninstallWhenReady E b)" "blindA unset (verifyAddonDeletionKey E)"
  "blindA unset (updateAddonParams E)"
  unfolding removeNoobaa_def drainBucketClasses_def deleteNoobaaCR_def deleteStores_def deleteNamed_def
    bucketClassesGone_def removeOLMComponents_def setFinalizers_def uninstallWhenReady_def
    verifyAddonDeletionKey_def updateAddonParams_def
  by (intro blind_intros; simp add: seen_def unset_def components_def areComponentsReadyForUninstall_def)+

lemma blind_maintainManagedMCG [blind_intros]: "blindA unset (maintainManagedMCG E)"
proof -
  have "blindA unset (addManagedMCG E)"
    unfolding addManagedMCG_def setFinalizers_def by (intro blind_intros; simp add: seen_def unset_def)
  then show ?thesis
    unfolding maintainManagedMCG_def
    by (intro blind_bindA blind_thenA [where m = "whenA _ _"] blind_whenA blind_collapse blind_getR)
      (simp_all add: unset_def)
qed

lemma blind_reconcileFetched: "blindA unset (reconcileFetched E)"
  unfolding reconcileFetched_def reconcilePhases_def dispatchPhases_def deletionPhase_def maintenancePhase_def
    removeManagedMCG_def setFinalizers_def updateStatus_def
  by (intro blind_intros; simp add: seen_def unset_def components_def)

text \<open>The strategy is the only field that survives the initialisation.\<close>

lemma unset_initializeReconciler:
  "unset (initializeReconciler req r) =
   unset (initializeReconciler req ((newReconciler (rCfg r))\<lparr>rImages := rImages r\<rparr>))"
  by (simp add: unset_def initializeReconciler_def initializePrometheusReconciler_def newReconciler_def Let_def)

text \<open>
  C14. A reconciliation cannot feel the one before it: with the same server it sends the same requests
  and returns the same as that of an operator that has just started with the same configuration
  and images, whatever earlier requests, failures included, have left in the receiver.
\<close>

theorem Reconcile_starts_afresh:
  "let a = Reconcile E req \<lparr>rc = r, wd = w\<rparr>;
       b = Reconcile E req \<lparr>rc = (newReconciler (rCfg r))\<lparr>rImages := rImages r\<rparr>, wd = w\<rparr>
   in fst a = fst b \<and> wd (snd a) = wd (snd b)"
proof -
  let ?run = "bindA (tryA (r_get E kManagedMCG fManagedMCG)) (\<lambda>res.
       case res of
         Inl err \<Rightarrow> if IsNotFound err then reconcileFetched E else failA err
       | Inr _ \<Rightarrow> reconcileFetched E)"
  have run: "Reconcile E req \<lparr>rc = r', wd = w\<rparr> = ?run \<lparr>rc = initializeReconciler req r', wd = w\<rparr>" for r'
    by (simp add: Reconcile_def setR_def thenA_def bindA_def modA_def)
  have blind: "blindA unset ?run"
    by (intro blind_intros blind_reconcileFetched) (simp add: seen_def unset_def)
  have same: "alike unset \<lparr>rc = initializeReconciler req r, wd = w\<rparr>
      \<lparr>rc = initializeReconciler req ((newReconciler (rCfg r))\<lparr>rImages := rImages r\<rparr>), wd = w\<rparr>"
    unfolding alike_def by (simp only: sys.select_convs unset_initializeReconciler [of req r] simp_thms)
  show ?thesis
    using blindAD [OF blind same] by (simp only: run Let_def alike_def simp_thms)
qed

end
