(* ===== verification/Store.thy ===== *)
theory Store
  imports Fake_Client
begin

text \<open>
  The abstract server: a map from kinds and names to objects, with the rules of resource versions,
  finalizers and deletion. The in-memory server, which keeps a list of objects and works through a
  tracker, implements it.
\<close>

section \<open>The specification\<close>

type_synonym store = "kind \<Rightarrow> nn \<Rightarrow> kobject option"

definition put :: "kobject \<Rightarrow> store \<Rightarrow> store" where
  "put ob st = st(obj_kind ob := (st (obj_kind ob))(object_key ob := Some ob))"

definition remove :: "kind \<Rightarrow> nn \<Rightarrow> store \<Rightarrow> store" where
  "remove k n st = st(k := (st k)(n := None))"

text \<open>The version after a stored one; an empty version counts as zero.\<close>

definition next_version :: "string \<Rightarrow> string option" where
  "next_version v = map_option (\<lambda>n. dec ((n + 1) mod 2 ^ 64)) (ParseUint64 (if v = '''' then ''0'' else v))"

definition create_spec :: "kobject \<Rightarrow> store \<Rightarrow> (gerr + kobject) \<times> store" where
  "create_spec ob st =
     (let m = ObjectMeta ob; new = setRV ''1'' ob in
      if mName m = '''' then (Inl (NewInvalid ''name is required''), st)
      else if mResourceVersion m \<noteq> '''' then
        (Inl (NewBadRequest ''resourceVersion can not be set for Create requests''), st)
      else if st (obj_kind ob) (object_key ob) \<noteq> None then (Inl (NewAlreadyExists (mName m)), st)
      else (Inr new, put new st))"

text \<open>
  An update must name the stored version, except that some kinds accept an update without one. It
  ends the life of an object that is terminating and has no finalizer left.
\<close>

definition replace_spec :: "kobject \<Rightarrow> kobject \<Rightarrow> store \<Rightarrow> (gerr + kobject) \<times> store" where
  "replace_spec old ob st =
     (let v = mResourceVersion (ObjectMeta ob); v\<^sub>0 = mResourceVersion (ObjectMeta old) in
      if v \<noteq> v\<^sub>0 \<and> \<not> (v = '''' \<and> allowsUnconditionalUpdate (obj_kind ob)) then
        (Inl (NewConflict (mName (ObjectMeta ob))), st)
      else case next_version v\<^sub>0 of
        None \<Rightarrow> (Inl (PlainErr ''can not convert resourceVersion to int''), st)
      | Some v\<^sub>1 \<Rightarrow> (Inr (setRV v\<^sub>1 ob),
          if terminating ob \<and> mFinalizers (ObjectMeta ob) = [] then remove (obj_kind ob) (object_key ob) st
          else put (setRV v\<^sub>1 ob) st))"

definition update_spec :: "kobject \<Rightarrow> store \<Rightarrow> (gerr + kobject) \<times> store" where
  "update_spec ob st =
     (if mName (ObjectMeta ob) = '''' then (Inl (NewInvalid ''name is required''), st)
      else case st (obj_kind ob) (object_key ob) of
        Some old \<Rightarrow> replace_spec old ob st
      | None \<Rightarrow> if allowsCreateOnUpdate (obj_kind ob) then create_spec ob st
                else (Inl (NewNotFound (mName (ObjectMeta ob))), st))"

text \<open>An object with finalizers is marked, one without is removed at once.\<close>

definition delete_spec :: "nat \<Rightarrow> kind \<Rightarrow> nn \<Rightarrow> store \<Rightarrow> (gerr + unit) \<times> store" where
  "delete_spec now k n st =
     (case st k n of
        None \<Rightarrow> (Inl (NewNotFound (nnName n)), st)
      | Some old \<Rightarrow>
          if mFinalizers (ObjectMeta old) = [] then (Inr (), remove k n st)
          else map_prod (map_sum id (\<lambda>_. ())) id
            (update_spec (old\<lparr>ObjectMeta := (ObjectMeta old)\<lparr>mDeletionTimestamp := Some now\<rparr>\<rparr>) st))"

text \<open>A store as the server can hold it: every object under its own kind and name.\<close>

definition store_wf :: "store \<Rightarrow> bool" where
  "store_wf st \<longleftrightarrow> (\<forall>k n ob. st k n = Some ob \<longrightarrow> obj_kind ob = k \<and> object_key ob = n)"

section \<open>The in-memory server implements it\<close>

abbreviation absS :: "'a \<times> cluster \<Rightarrow> 'a \<times> store" where
  "absS \<equiv> map_prod id tracked"

lemma store_wf_tracked: "cluster_wf c \<Longrightarrow> store_wf (tracked c)"
  using cluster_wf_tracked by (fastforce simp: store_wf_def obj_id_def)

lemma tracked_put: "tracked (c\<lparr>clObjects := AList.update (obj_id ob) ob (clObjects c)\<rparr>) = put ob (tracked c)"
  by (simp add: put_def tracked_update)

lemma tracked_put_setRV:
  "tracked (c\<lparr>clObjects := AList.update (obj_id ob) (setRV v ob) (clObjects c)\<rparr>) = put (setRV v ob) (tracked c)"
  using tracked_put [where c = c and ob = "setRV v ob"] by simp

lemma tracked_remove: "tracked (c\<lparr>clObjects := AList.delete (k, n) (clObjects c)\<rparr>) = remove k n (tracked c)"
  by (simp add: remove_def tracked_delete)

lemma create_refines: "absS (vt_Create ob c) = create_spec ob (tracked c)"
  by (simp add: vt_Create_def create_spec_def tracker_add_spec tracked_put_setRV Let_def)

lemma replace_refines:
  assumes "tracked c (obj_kind ob) (object_key ob) = Some old"
  shows "absS (vt_replace old ob c) = replace_spec old ob (tracked c)"
  using assms
  by (auto simp: vt_replace_def replace_spec_def next_version_def Let_def tracker_add_spec tracker_Delete_def
      terminating_def tracked_remove tracked_put_setRV split: option.split)

lemma update_refines: "absS (vt_Update ob c) = update_spec ob (tracked c)"
  by (simp add: vt_Update_def update_spec_def tracker_Get_def replace_refines create_refines object_key_def
      split: option.split)

lemma delete_refines:
  "absS (deleteObject k n c) = delete_spec (clNow c) k n (tracked c)"
proof (cases "tracked c k n")
  case None
  then show ?thesis by (simp add: deleteObject_def delete_spec_def tracker_Get_def tracker_Delete_def)
next
  case (Some old)
  let ?marked = "old\<lparr>ObjectMeta := (ObjectMeta old)\<lparr>mDeletionTimestamp := Some (clNow c)\<rparr>\<rparr>"
  have "absS (vt_Update ?marked c) = update_spec ?marked (tracked c)" by (rule update_refines)
  from this [symmetric] Some show ?thesis
    by (simp add: deleteObject_def delete_spec_def tracker_Get_def tracker_Delete_def tracked_remove
        split: prod.split sum.split)
qed

text \<open>Writes keep both forms of the store well formed.\<close>

lemma store_wf_put: "store_wf st \<Longrightarrow> store_wf (put ob st)"
  by (auto simp: store_wf_def put_def)

lemma store_wf_remove: "store_wf st \<Longrightarrow> store_wf (remove k n st)"
  by (auto simp: store_wf_def remove_def)

lemma wf_vt_Create: "cluster_wf c \<Longrightarrow> cluster_wf (snd (vt_Create ob c))"
  by (cases "vt_Create ob c"; cases "fst (vt_Create ob c)")
    (auto dest!: vt_Create_Inl vt_Create_Inr intro: cluster_wf_update)

lemma cluster_wf_update_setRV:
  "cluster_wf c \<Longrightarrow> cluster_wf (c\<lparr>clObjects := AList.update (obj_id ob) (setRV v ob) (clObjects c)\<rparr>)"
  using cluster_wf_update [where c = c and ob = "setRV v ob"] by simp

lemma wf_vt_replace: "cluster_wf c \<Longrightarrow> cluster_wf (snd (vt_replace old ob c))"
  by (cases "vt_replace old ob c"; cases "fst (vt_replace old ob c)")
    (auto dest!: vt_replace_Inl vt_replace_Inr intro!: cluster_wf_update_setRV cluster_wf_delete)

lemma wf_vt_Update: "cluster_wf c \<Longrightarrow> cluster_wf (snd (vt_Update ob c))"
  by (simp add: vt_Update_def wf_vt_Create wf_vt_replace split: sum.split)

lemma wf_deleteObject: "cluster_wf c \<Longrightarrow> cluster_wf (snd (deleteObject k n c))"
  using wf_vt_Update [of c]
  by (auto simp: deleteObject_def tracker_Delete_def tracker_Get_def cluster_wf_delete
      split: option.split prod.split sum.split) (metis snd_conv)+

section \<open>Effects of a write\<close>

lemma create_spec_cases:
  "snd (create_spec ob st) = st \<or>
   st (obj_kind ob) (object_key ob) = None \<and> snd (create_spec ob st) = put (setRV ''1'' ob) st"
  by (simp add: create_spec_def Let_def)

lemma replace_spec_cases:
  "snd (replace_spec old ob st) = st \<or>
   (\<exists>v. snd (replace_spec old ob st) = put (setRV v ob) st) \<and> \<not> (terminating ob \<and> mFinalizers (ObjectMeta ob) = []) \<or>
   terminating ob \<and> mFinalizers (ObjectMeta ob) = [] \<and>
     snd (replace_spec old ob st) = remove (obj_kind ob) (object_key ob) st"
  by (auto simp: replace_spec_def Let_def split: option.split)

lemma update_spec_cases:
  "snd (update_spec ob st) = st \<or>
   (st (obj_kind ob) (object_key ob) = None \<longrightarrow> allowsCreateOnUpdate (obj_kind ob)) \<and>
     (\<exists>v. snd (update_spec ob st) = put (setRV v ob) st) \<or>
   terminating ob \<and> mFinalizers (ObjectMeta ob) = [] \<and>
     snd (update_spec ob st) = remove (obj_kind ob) (object_key ob) st"
  using create_spec_cases [of ob st] replace_spec_cases [of _ ob st]
  by (cases "st (obj_kind ob) (object_key ob)") (auto simp: update_spec_def)

lemma delete_spec_cases:
  assumes "store_wf st"
  shows "snd (delete_spec now k n st) = st \<or>
    (\<exists>old. st k n = Some old \<and> mFinalizers (ObjectMeta old) = [] \<and> snd (delete_spec now k n st) = remove k n st) \<or>
    (\<exists>old new. st k n = Some old \<and> mFinalizers (ObjectMeta new) = mFinalizers (ObjectMeta old) \<and>
       obj_id new = (k, n) \<and> snd (delete_spec now k n st) = put new st)"
proof (cases "st k n")
  case (Some old)
  let ?marked = "old\<lparr>ObjectMeta := (ObjectMeta old)\<lparr>mDeletionTimestamp := Some now\<rparr>\<rparr>"
  have id: "obj_id (setRV v ?marked) = (k, n)" for v
    using assms Some by (simp add: store_wf_def obj_id_def object_key_def)
  show ?thesis
  proof (cases "mFinalizers (ObjectMeta old) = []")
    case False
    with update_spec_cases [of ?marked st] Some
    consider "snd (update_spec ?marked st) = st" | v where "snd (update_spec ?marked st) = put (setRV v ?marked) st"
      by auto
    then show ?thesis
    proof cases
      case 2
      with False Some id [of v] show ?thesis
        by (intro disjI2 exI [of _ old] exI [of _ "setRV v ?marked"]) (simp add: delete_spec_def)
    qed (use False Some in \<open>simp add: delete_spec_def\<close>)
  qed (use Some in \<open>simp add: delete_spec_def\<close>)
qed (simp add: delete_spec_def)


end
