(* ===== verification/Protection.thy ===== *)
theory Protection
  imports Lifecycle Anchor Store
begin

text \<open>
  Why the finalizer protects NooBaa: as long as NooBaa is stored, so is the ManagedMCG resource with
  the operator's finalizer. The locale \<open>protecting\<close> states what a reconciliation needs for that of the
  server and of everybody else who writes to it, and carries the proof through every operation.
\<close>

section \<open>The invariant\<close>

abbreviation noobaaKey :: "nn \<Rightarrow> nn" where
  "noobaaKey req \<equiv> \<lparr>nnNamespace = nnNamespace req, nnName = noobaaName\<rparr>"

abbreviation has_finalizer :: "('b, 'm) object_scheme \<Rightarrow> bool" where
  "has_finalizer ob \<equiv> ManagedMCGFinalizer \<in> set (mFinalizers (ObjectMeta ob))"

definition held :: "nn \<Rightarrow> cluster \<Rightarrow> bool" where
  "held req c \<longleftrightarrow> cluster_wf c \<and>
     (case tracked c KManagedMCG req of None \<Rightarrow> False | Some ob \<Rightarrow> has_finalizer ob)"

definition noobaa_gone :: "nn \<Rightarrow> cluster \<Rightarrow> bool" where
  "noobaa_gone req c \<longleftrightarrow> cluster_wf c \<and> tracked c KNooBaa (noobaaKey req) = None"

definition protected :: "nn \<Rightarrow> cluster \<Rightarrow> bool" where
  "protected req c \<longleftrightarrow> cluster_wf c \<and> (tracked c KNooBaa (noobaaKey req) \<noteq> None \<longrightarrow> held req c)"

lemma protected_iff: "protected req c \<longleftrightarrow> noobaa_gone req c \<or> held req c"
  by (auto simp: protected_def noobaa_gone_def held_def)

section \<open>Requests that keep it\<close>

lemma absS_snd: "absS x = y \<Longrightarrow> tracked (snd x) = snd y"
  by (metis snd_map_prod)

lemmas request_effects = absS_snd [OF create_refines] absS_snd [OF update_refines] absS_snd [OF delete_refines]

fun keeps_finalizer :: "request \<Rightarrow> bool" where
  "keeps_finalizer (ReqUpdate ob) = (obj_kind ob = KManagedMCG \<longrightarrow> has_finalizer ob)"
| "keeps_finalizer (ReqStatusUpdate ob) = (obj_kind ob = KManagedMCG \<longrightarrow> has_finalizer ob)"
| "keeps_finalizer _ = True"

fun no_noobaa_create :: "request \<Rightarrow> bool" where
  "no_noobaa_create (ReqCreate ob) = (obj_kind ob \<noteq> KNooBaa)"
| "no_noobaa_create _ = True"

lemma creates_services_only: "allowsCreateOnUpdate k \<Longrightarrow> k = KService"
  by (cases k) (simp_all add: allowsCreateOnUpdate_def)

lemma held_create: "held req c \<Longrightarrow> held req (snd (vt_Create ob c))"
  using create_spec_cases [of ob "tracked c"]
  by (auto simp: held_def wf_vt_Create request_effects put_def)

lemma held_update:
  assumes "held req c" and "obj_kind ob = KManagedMCG \<Longrightarrow> has_finalizer ob"
  shows "held req (snd (vt_Update ob c))"
proof -
  have "mFinalizers (ObjectMeta ob) = [] \<Longrightarrow> obj_kind ob \<noteq> KManagedMCG" using assms(2) by auto
  then show ?thesis
    using update_spec_cases [of ob "tracked c"] assms
    by (auto simp: held_def wf_vt_Update request_effects put_def remove_def)
qed

lemma held_delete: "held req c \<Longrightarrow> held req (snd (deleteObject k n c))"
  using delete_spec_cases [OF store_wf_tracked, of c "clNow c" k n]
  by (auto simp: held_def wf_deleteObject request_effects put_def remove_def obj_id_def)

lemma noobaa_gone_create:
  "noobaa_gone req c \<Longrightarrow> obj_id ob \<noteq> (KNooBaa, noobaaKey req) \<Longrightarrow> noobaa_gone req (snd (vt_Create ob c))"
  using create_spec_cases [of ob "tracked c"]
  by (auto simp: noobaa_gone_def wf_vt_Create request_effects put_def obj_id_def)

lemma noobaa_gone_update: "noobaa_gone req c \<Longrightarrow> noobaa_gone req (snd (vt_Update ob c))"
  using update_spec_cases [of ob "tracked c"]
  by (auto simp: noobaa_gone_def wf_vt_Update request_effects put_def remove_def dest: creates_services_only)

lemma noobaa_gone_delete: "noobaa_gone req c \<Longrightarrow> noobaa_gone req (snd (deleteObject k n c))"
  using delete_spec_cases [OF store_wf_tracked, of c "clNow c" k n]
  by (auto simp: noobaa_gone_def wf_deleteObject request_effects put_def remove_def obj_id_def)

lemma fake_reads:
  "snd (fake_Get k n c) = c" "snd (fake_List k ns c) = c" "snd (fake_ReadFile p c) = c"
  "tracked (snd (fake_wait c)) = tracked c" "cluster_wf (snd (fake_wait c)) = cluster_wf c"
  by (simp_all add: fake_List_def fake_ReadFile_def fake_wait_def tracked_def cluster_wf_def fun_eq_iff split: nat.split)

lemma wait_simps: "held req (snd (fake_wait c)) = held req c" "noobaa_gone req (snd (fake_wait c)) = noobaa_gone req c"
  by (simp_all add: held_def noobaa_gone_def fake_reads)

interpretation gone: write_frame "fakeEnv ma un" "noobaa_gone req" no_noobaa_create
  "UNIV - {KNooBaa}" UNIV UNIV for ma un req
  by unfold_locales
    (auto simp: fake_reads(1-3) wait_simps noobaa_gone_create noobaa_gone_update noobaa_gone_delete
      fake_StatusUpdate_def obj_id_def)

text \<open>On the in-memory server the state of NooBaa is right about its existence.\<close>

lemma noobaaState_gone:
  assumes "cluster_wf c"
  shows "noobaaState (fst (fake_Get KNooBaa (noobaaKey req) c)) = ComponentNotFound \<longleftrightarrow> noobaa_gone req c"
proof (cases "tracked c KNooBaa (noobaaKey req)")
  case None
  with assms show ?thesis
    by (simp add: fake_Get_def tracker_Get_def noobaaState_def fetched_def absentState_def noobaa_gone_def)
next
  case (Some ob)
  then have "obj_kind (json_roundtrip ob) = KNooBaa" using cluster_wf_tracked [OF assms Some] by (simp add: obj_id_def)
  then obtain x where "retype kNooBaa (json_roundtrip ob) = Some x"
    using tk_noobaa.retype_total [of "json_roundtrip ob"] by (auto simp: kNooBaa_def)
  with Some show ?thesis
    by (simp add: fake_Get_def tracker_Get_def noobaaState_def fetched_def noobaa_gone_def
        ComponentNotFound_def ComponentReady_def ComponentPending_def)
qed

section \<open>Servers on which it can be relied\<close>

text \<open>
  What a server and everybody who talks to it must guarantee for the finalizer to protect NooBaa, as
  seen by the operator: \<open>H\<close> says that the resource is held, \<open>G\<close> that NooBaa is gone. Nobody else ends
  either; a NotFound is true; a fetched resource without the finalizer means that NooBaa is gone;
  and an update that was answered with success has happened.
\<close>

locale protecting =
  hd: write_frame E H keeps_finalizer "UNIV - {KManagedMCG}" "UNIV - {KManagedMCG}" UNIV +
  gn: write_frame E G no_noobaa_create "UNIV - {KNooBaa}" UNIV UNIV
  for E :: "'w env" and H :: "'w \<Rightarrow> bool" and G :: "'w \<Rightarrow> bool" +
  fixes req :: nn
  assumes noobaa_missing: "G w \<or> H w \<Longrightarrow> eGet E KNooBaa (noobaaKey req) w = (Inl e, w') \<Longrightarrow> IsNotFound e \<Longrightarrow> G w'"
    and resource_missing: "G w \<or> H w \<Longrightarrow> eGet E KManagedMCG req w = (Inl e, w') \<Longrightarrow> IsNotFound e \<Longrightarrow> G w'"
    and resource_found: "G w \<or> H w \<Longrightarrow> eGet E KManagedMCG req w = (Inr ob, w') \<Longrightarrow>
      object_key ob = req \<and> (if has_finalizer ob then H w' else G w')"
    and resource_updated: "G w \<or> H w \<Longrightarrow> obj_id ob = (KManagedMCG, req) \<Longrightarrow> has_finalizer ob \<Longrightarrow>
      eUpdate E ob w = (Inr ob', w') \<Longrightarrow> has_finalizer ob' \<and> H w'"

text \<open>
  What the receiver's copy of the resource says about the server: \<open>linked\<close> after the fetch, when a copy
  with the finalizer may be trusted; \<open>safe\<close> later, when the finalizer may have been added in vain.
\<close>

definition linked :: "('w \<Rightarrow> bool) \<Rightarrow> ('w \<Rightarrow> bool) \<Rightarrow> (reconciler, 'w) sys \<Rightarrow> bool" where
  "linked H G s \<longleftrightarrow> (if has_finalizer (rManagedMCG (rc s)) then H (wd s) else G (wd s))"

definition safe :: "('w \<Rightarrow> bool) \<Rightarrow> ('w \<Rightarrow> bool) \<Rightarrow> (reconciler, 'w) sys \<Rightarrow> bool" where
  "safe H G s \<longleftrightarrow> G (wd s) \<or> H (wd s) \<and> has_finalizer (rManagedMCG (rc s))"

lemma linked_safe: "linked H G s \<Longrightarrow> safe H G s"
  by (simp add: linked_def safe_def split: if_splits)

lemma anchored_meta:
  "(\<And>v. keepsA (anchored v) m) \<Longrightarrow> ObjectMeta (rManagedMCG (rc (snd (m s)))) = ObjectMeta (rManagedMCG (rc s))"
  unfolding keepsA_def kept_def anchor_def by blast

lemma keeps_linked:
  assumes "keepsA (onW H) m" and "keepsA (onW G) m" and "\<And>v. keepsA (anchored v) m"
  shows "keepsA (linked H G) m" and "keepsA (safe H G) m"
  using assms(1,2) anchored_meta [of m, OF assms(3)] by (auto simp: keepsA_def onW_def linked_def safe_def)

text \<open>The refresh of the states asks for NooBaa first.\<close>

lemma csNoobaa_updateComponentStatus:
  "csNoobaa (components (rc (snd (updateComponentStatus E s)))) =
     noobaaState (fst (eGet E KNooBaa (object_key (rNoobaa (rc s))) (wd s)))"
  by (simp add: updateComponentStatus_eq UpdateConsoleComponentStatus_components
      UpdateAlertmanagerComponentStatus_components UpdatePrometheusComponentStatus_components
      UpdateNoobaaComponentStatus_components split: prod.split)

lemma noobaaState_NotFound:
  "noobaaState a = ComponentNotFound \<Longrightarrow> \<exists>e. a = Inl e \<and> IsNotFound e"
  by (cases a) (auto simp: noobaaState_def absentState_def fetched_def ComponentNotFound_def ComponentReady_def
      ComponentPending_def ComponentUnknown_def split: option.splits if_splits)

lemma verifyAddonDeletionKey_rc: "rc (snd (verifyAddonDeletionKey E s)) = rc s"
  by (simp add: verifyAddonDeletionKey_def getR_def r_getLocal_eq act_unfold split: prod.split sum.split)

lemma verifyAddonDeletionKey_Ok: "\<exists>b. fst (verifyAddonDeletionKey E s) = Ok b"
  by (simp add: verifyAddonDeletionKey_def getR_def r_getLocal_eq act_unfold split: prod.split sum.split)
    (metis option.exhaust)

lemma snd_bindA_if: "snd (bindA m f s) = (case m s of (Ok a, t) \<Rightarrow> snd (f a t) | (_, t) \<Rightarrow> t)"
  by (simp add: bindA_def split: prod.split outcome.split)

section \<open>Reconciliations on such a server\<close>

context protecting
begin

lemma keeps_readers:
  "keepsA (linked H G) (verifyAddonDeletionKey E)" "keepsA (linked H G) (updateComponentStatus E)"
  by (intro keeps_linked hd.keeps_verifyAddonDeletionKey gn.keeps_verifyAddonDeletionKey
      hd.keeps_updateComponentStatus gn.keeps_updateComponentStatus anchored_removal anchored_status)+

lemma safe_uninstallWhenReady: "keepsA (safe H G) (uninstallWhenReady E b)"
  by (intro keeps_linked hd.keeps_uninstallWhenReady gn.keeps_uninstallWhenReady anchored_removal) simp_all

lemma safe_removeOLMComponents: "keepsA (safe H G) (removeOLMComponents E)"
  by (intro keeps_linked hd.keeps_removeOLMComponents gn.keeps_removeOLMComponents anchored_removal) simp_all

lemma gn_deleteNoobaaCR: "keepsA (onW G) (deleteNoobaaCR E)"
  unfolding deleteNoobaaCR_def setFinalizers_def
  by (intro keeps_intros gn.keeps_setR gn.keeps_updateF gn.keeps_keyF gn.keeps_r_delete) simp_all

lemma safe_removeNoobaa: "keepsA (safe H G) (removeNoobaa E)"
proof (rule keeps_linked)
  show "keepsA (onW H) (removeNoobaa E)" by (rule hd.keeps_removeNoobaa) simp_all
  show "keepsA (onW G) (removeNoobaa E)"
    unfolding removeNoobaa_def
    by (intro keeps_intros gn.keeps_drainBucketClasses gn.keeps_deleteStores gn_deleteNoobaaCR) simp_all
qed (rule anchored_removal)

definition holding :: "(reconciler, 'w) sys \<Rightarrow> bool" where
  "holding s \<longleftrightarrow> H (wd s) \<and> has_finalizer (rManagedMCG (rc s))"

lemma keeps_holding:
  assumes "keepsA (onW H) m" and "\<And>v. keepsA (anchored v) m"
  shows "keepsA holding m"
  using assms(1) anchored_meta [of m, OF assms(2)] by (auto simp: keepsA_def onW_def holding_def)

lemma holding_maintained:
  "keepsA holding
    (thenA (setR (\<lambda>r. r\<lparr>rReconcileStrategy := f r\<rparr>))
    (thenA (updateAddonParams E)
    (thenA (reconcileResources E)
    (bindA (getR rReconcileStrategy) (\<lambda>strategy.
       setBody fManagedMCG (\<lambda>b. b\<lparr>mcgStatus := (mcgStatus b)\<lparr>mstReconcileStrategy := strategy\<rparr>\<rparr>))))))"
  by (intro keeps_holding keeps_intros hd.keeps_setR hd.keeps_updateAddonParams hd.keeps_reconcileResources
      hd.keeps_getR hd.keeps_setBody)
    (auto simp: maintained_kinds_def anchor_def)

text \<open>The addition of the finalizer that reports success leaves the resource held.\<close>

lemma addManagedMCG_holds:
  assumes "G (wd s)" and "object_key (rManagedMCG (rc s)) = req"
    and "addManagedMCG E s = (res, t)"
  shows "case res of Ok _ \<Rightarrow> holding t | _ \<Rightarrow> G (wd t)"
proof -
  let ?mcg = "rManagedMCG (rc s)"
  let ?new = "?mcg\<lparr>ObjectMeta := (ObjectMeta ?mcg)\<lparr>mFinalizers := mFinalizers (ObjectMeta ?mcg) @ [ManagedMCGFinalizer]\<rparr>\<rparr>"
  let ?ob = "untype kManagedMCG ?new"
  have id: "obj_id ?ob = (KManagedMCG, req)" "has_finalizer ?ob"
    using assms(2) by (simp_all add: untype_def object_key_def obj_id_def kManagedMCG_def)
  obtain a w where answer: "eUpdate E ?ob (wd s) = (a, w)" by fastforce
  have gone: "G w" using gn.frame_update [of ?ob "wd s"] assms(1) answer by simp
  have held: "has_finalizer ob' \<and> H w" if "a = Inr ob'" for ob'
    using resource_updated [OF _ id, of "wd s" ob' w] assms(1) answer that by simp
  from assms(3) answer gone held show ?thesis
    by (auto simp: addManagedMCG_def setFinalizers_def r_update_def updateF_def clientUpdate_def reqA_def decodeA_def
        getR_def setR_def setF_def act_unfold holding_def retype_def split: sum.splits option.splits)
qed

lemma maintainManagedMCG_safe:
  assumes "linked H G s" and "object_key (rManagedMCG (rc s)) = req"
  shows "safe H G (snd (maintainManagedMCG E s))"
proof -
  let ?rest = "thenA (setR (\<lambda>r. r\<lparr>rReconcileStrategy :=
              (if msReconcileStrategy (mcgSpec (Body (rManagedMCG r))) = ReconcileStrategyNone
               then ReconcileStrategyNone else ReconcileStrategyStrict)\<rparr>))
    (thenA (updateAddonParams E)
    (thenA (reconcileResources E)
    (bindA (getR rReconcileStrategy) (\<lambda>strategy.
       setBody fManagedMCG (\<lambda>b. b\<lparr>mcgStatus := (mcgStatus b)\<lparr>mstReconcileStrategy := strategy\<rparr>\<rparr>)))))"
  have rest: "holding t \<Longrightarrow> safe H G (snd (?rest t))" for t
    using holding_maintained [unfolded keepsA_def] by (auto simp: safe_def holding_def)
  show ?thesis
  proof (cases "has_finalizer (rManagedMCG (rc s))")
    case True
    then have "maintainManagedMCG E s = ?rest s"
      by (simp add: maintainManagedMCG_def bindA_getR Contains_iff whenA_def thenA_def)
    moreover have "holding s" using assms(1) True by (simp add: linked_def holding_def)
    ultimately show ?thesis by (simp add: rest)
  next
    case False
    obtain res t where add: "addManagedMCG E s = (res, t)" by fastforce
    have "G (wd s)" using assms(1) False by (simp add: linked_def)
    note added = addManagedMCG_holds [OF this assms(2) add]
    have "maintainManagedMCG E s = thenA (addManagedMCG E) ?rest s"
      using False by (simp add: maintainManagedMCG_def bindA_getR Contains_iff whenA_def)
    with added rest [of t] show ?thesis
      by (cases res) (auto simp: thenA_def bindA_def add safe_def)
  qed
qed

lemma maintenancePhase_safe:
  assumes "linked H G s" and "object_key (rManagedMCG (rc s)) = req"
  shows "safe H G (snd (maintenancePhase E b s))"
  using maintainManagedMCG_safe [OF assms] safe_uninstallWhenReady [unfolded keepsA_def]
  by (auto simp: maintenancePhase_def thenA_def snd_bindA_if split: prod.split outcome.split)

lemma deletionPhase_safe:
  assumes "linked H G s" and "csNoobaa (components (rc s)) = ComponentNotFound \<Longrightarrow> G (wd s)"
  shows "safe H G (snd (deletionPhase E s))"
proof (cases "csNoobaa (components (rc s)) = ComponentNotFound")
  case True
  with assms(2) have "onW G (snd (removeManagedMCG E s))"
    using gn.keeps_removeManagedMCG [unfolded keepsA_def] by (simp add: onW_def)
  with True show ?thesis by (simp add: deletionPhase_def bindA_getR safe_def onW_def)
next
  case False
  with linked_safe [OF assms(1)] safe_removeNoobaa [unfolded keepsA_def] show ?thesis
    by (simp add: deletionPhase_def bindA_getR)
qed

lemma status_NotFound:
  assumes "linked H G s" and "object_key (rNoobaa (rc s)) = noobaaKey req"
    and "csNoobaa (components (rc (snd (updateComponentStatus E s)))) = ComponentNotFound"
  shows "G (wd (snd (updateComponentStatus E s)))"
proof -
  let ?s1 = "snd (UpdateNoobaaComponentStatus E s)"
  obtain a w where get: "eGet E KNooBaa (noobaaKey req) (wd s) = (a, w)" by fastforce
  with assms(2,3) obtain e where "a = Inl e" "IsNotFound e"
    using noobaaState_NotFound by (auto simp: csNoobaa_updateComponentStatus)
  moreover have "G (wd s) \<or> H (wd s)" using assms(1) by (auto simp: linked_def split: if_splits)
  ultimately have "onW G ?s1"
    using noobaa_missing [of "wd s" e w] get assms(2) by (simp add: onW_def UpdateNoobaaComponentStatus_wd)
  moreover have "keepsA (onW G) (UpdatePrometheusComponentStatus E)"
    "keepsA (onW G) (UpdateAlertmanagerComponentStatus E)" "keepsA (onW G) (UpdateConsoleComponentStatus E)"
    unfolding UpdatePrometheusComponentStatus_def UpdateAlertmanagerComponentStatus_def
      UpdateConsoleComponentStatus_def stateOfFetch_def
    by (intro keeps_intros gn.adm_intros; simp)+
  ultimately show ?thesis by (simp add: updateComponentStatus_eq keepsA_def onW_def)
qed

lemma dispatchPhases_safe:
  assumes "linked H G s" and "object_key (rManagedMCG (rc s)) = req" and "object_key (rNoobaa (rc s)) = noobaaKey req"
  shows "safe H G (snd (dispatchPhases E b s))"
proof -
  let ?t = "snd (updateComponentStatus E s)"
  have t: "fst (updateComponentStatus E s) = Ok ()" by (simp add: updateComponentStatus_eq)
  have linked: "linked H G ?t" using keeps_readers(2) assms(1) by (simp add: keepsA_def)
  have key: "object_key (rManagedMCG (rc ?t)) = req"
    using assms(2) anchored_meta [where m = "updateComponentStatus E" and s = s, OF anchored_status]
    by (simp add: object_key_def)
  have "safe H G (snd (deletionPhase E ?t))"
    by (rule deletionPhase_safe [OF linked]) (rule status_NotFound [OF assms(1,3)])
  moreover have "safe H G (snd (maintenancePhase E b ?t))" by (rule maintenancePhase_safe [OF linked key])
  moreover have "safe H G (snd (removeOLMComponents E ?t))"
    using safe_removeOLMComponents linked_safe [OF linked] by (simp add: keepsA_def)
  ultimately show ?thesis
    using t linked_safe [OF linked] by (simp add: dispatchPhases_def thenA_run bindA_getR retA_def)
qed

lemma updateStatus_protected:
  assumes "safe H G s"
  shows "G (wd (snd (updateStatus E s))) \<or> H (wd (snd (updateStatus E s)))"
proof (cases "G (wd s)")
  case True
  then show ?thesis using gn.keeps_updateStatus [unfolded keepsA_def] by (simp add: onW_def)
next
  case False
  with assms have "H (wd s)" and "has_finalizer (untype kManagedMCG (rManagedMCG (rc s)))"
    by (simp_all add: safe_def untype_def)
  then have "H (snd (eStatusUpdate E (untype kManagedMCG (rManagedMCG (rc s))) (wd s)))" and "H (wd s)"
    by (auto intro: hd.frame_status)
  then show ?thesis
    by (auto simp: updateStatus_def getR_def clientStatusUpdate_def reqA_def decodeA_def setF_def setR_def
        act_unfold split: prod.split sum.split option.split)
qed

lemma reconcileFetched_protected:
  assumes "linked H G s" and "object_key (rManagedMCG (rc s)) = req" and "object_key (rNoobaa (rc s)) = noobaaKey req"
  shows "G (wd (snd (reconcileFetched E s))) \<or> H (wd (snd (reconcileFetched E s)))"
proof -
  obtain b t where t: "verifyAddonDeletionKey E s = (Ok b, t)"
    using verifyAddonDeletionKey_Ok by (metis prod.collapse)
  have "linked H G t" by (rule keepsAD [OF keeps_readers(1) assms(1) t])
  moreover have "rc t = rc s" using verifyAddonDeletionKey_rc [of E s] t by simp
  ultimately have "safe H G (snd (reconcilePhases E s))"
    using dispatchPhases_safe [of t b] assms(2,3) t by (simp add: reconcilePhases_def snd_bindA_if)
  moreover have "wd (snd (reconcileFetched E s)) = wd (snd (reconcilePhases E s)) \<or>
      wd (snd (reconcileFetched E s)) = wd (snd (updateStatus E (snd (reconcilePhases E s))))"
    by (simp add: reconcileFetched_def bindA_tryA snd_bindA_if act_unfold split: prod.split outcome.split sum.split)
  ultimately show ?thesis
    using updateStatus_protected [of "snd (reconcilePhases E s)"] by (auto simp: safe_def)
qed

lemma Reconcile_protected:
  assumes "G (wd s) \<or> H (wd s)"
  shows "G (wd (snd (Reconcile E req s))) \<or> H (wd (snd (Reconcile E req s)))"
proof -
  let ?s0 = "s\<lparr>rc := initializeReconciler req (rc s)\<rparr>"
  have key: "object_key (rManagedMCG (rc ?s0)) = req" "object_key (rNoobaa (rc ?s0)) = noobaaKey req"
    "mFinalizers (ObjectMeta (rManagedMCG (rc ?s0))) = []"
    by (simp_all add: init_defs Let_def object_key_def)
  obtain a w where get: "eGet E KManagedMCG req (wd s) = (a, w)" by fastforce
  have Reconcile: "Reconcile E req s =
      (case fetched kManagedMCG a of
         Inl e \<Rightarrow> if IsNotFound e then reconcileFetched E (?s0\<lparr>wd := w\<rparr>)
           else (Err (WrapErr ''error getting'' e), ?s0\<lparr>wd := w\<rparr>)
       | Inr x \<Rightarrow> reconcileFetched E (?s0\<lparr>wd := w, rc := (rc ?s0)\<lparr>rManagedMCG := x\<rparr>\<rparr>))"
    using get key(1)
    by (simp add: Reconcile_def setR_def r_get_eq act_unfold kManagedMCG_def split: sum.split)
  show ?thesis
  proof (cases a)
    case (Inl e)
    show ?thesis
    proof (cases "IsNotFound e")
      case True
      then have "linked H G (?s0\<lparr>wd := w\<rparr>)"
        using resource_missing [OF assms] get Inl key(3) by (simp add: linked_def)
      with reconcileFetched_protected [of "?s0\<lparr>wd := w\<rparr>"] key(1,2) True Inl show ?thesis
        by (simp add: Reconcile fetched_def)
    next
      case False
      with Inl get assms show ?thesis
        using gn.frame_get [OF gn.adm_get] hd.frame_get [OF hd.adm_get]
        by (simp add: Reconcile fetched_def) (metis snd_conv)
    qed
  next
    case (Inr ob)
    note found = resource_found [OF assms get [unfolded Inr]]
    show ?thesis
    proof (cases "retype kManagedMCG ob")
      case None
      with Inr found show ?thesis by (auto simp: Reconcile fetched_def split: if_splits)
    next
      case (Some x)
      then have "ObjectMeta x = ObjectMeta ob" by (auto simp: retype_def)
      with found have "linked H G (?s0\<lparr>wd := w, rc := (rc ?s0)\<lparr>rManagedMCG := x\<rparr>\<rparr>)" "object_key x = req"
        by (simp_all add: linked_def object_key_def)
      with reconcileFetched_protected [of "?s0\<lparr>wd := w, rc := (rc ?s0)\<lparr>rManagedMCG := x\<rparr>\<rparr>"] key(2) Some Inr
      show ?thesis by (simp add: Reconcile fetched_def)
    qed
  qed
qed

lemma bucket_protected:
  assumes "G (wd s) \<or> H (wd s)"
  shows "G (wd (snd (bucketClassAdded E bc s))) \<or> H (wd (snd (bucketClassAdded E bc s)))"
    and "G (wd (snd (bucketClassDeleted E bc' s))) \<or> H (wd (snd (bucketClassDeleted E bc' s)))"
  using assms gn.keeps_bucketClassAdded [of bc] hd.keeps_bucketClassAdded [of bc]
    gn.keeps_bucketClassDeleted [of bc'] hd.keeps_bucketClassDeleted [of bc']
  by (auto simp: keepsA_def onW_def)

end

end
