(* ===== verification/Interleaving.thy ===== *)
theory Interleaving
  imports Protection
begin

text \<open>
  The in-memory server as the operator meets it in a cluster: other clients send their requests
  between any two requests of a reconciliation, requests and answers are lost, and the operator
  may crash at any point. The finalizer protects NooBaa all the same.
\<close>

section \<open>Other clients and faults\<close>

datatype client_op = OtherCreate kobject | OtherUpdate kobject | OtherDelete kind nn | PassTime nat nat

fun client_run :: "client_op \<Rightarrow> cluster \<Rightarrow> cluster" where
  "client_run (OtherCreate ob) c = snd (vt_Create ob c)"
| "client_run (OtherUpdate ob) c = snd (vt_Update ob c)"
| "client_run (OtherDelete k n) c = snd (deleteObject k n c)"
| "client_run (PassTime now ticks) c = c\<lparr>clNow := now, clTicks := ticks\<rparr>"

text \<open>
  Others may do anything except create a NooBaa resource under the operator's name and take its
  finalizer away: the operator of NooBaa updates and deletes its resource, users delete the
  ManagedMCG resource, the bucket class handlers create and delete claims, and so on.
\<close>

fun client_fair :: "nn \<Rightarrow> client_op \<Rightarrow> bool" where
  "client_fair req (OtherCreate ob) = (obj_id ob \<noteq> (KNooBaa, noobaaKey req))"
| "client_fair req (OtherUpdate ob) = (obj_kind ob = KManagedMCG \<longrightarrow> has_finalizer ob)"
| "client_fair req _ = True"

text \<open>
  What becomes of a request: it is served, it never reaches the server, or it is served and the
  answer is lost. The error of a lost request is one of the transport, never NotFound.
\<close>

datatype fault = Served | Lost gerr | Unanswered gerr

fun fault_fair :: "fault \<Rightarrow> bool" where
  "fault_fair Served = True"
| "fault_fair (Lost e) = (\<not> IsNotFound e)"
| "fault_fair (Unanswered e) = (\<not> IsNotFound e)"

text \<open>
  A turn says what others do before the next request and what becomes of that request. When the
  turns are used up the server is out of reach, so that a short list of turns is a crash: for the
  server, an operator that crashes and one that nobody hears any more are the same.
\<close>

type_synonym turn = "client_op list \<times> fault"

definition turn_fair :: "nn \<Rightarrow> turn \<Rightarrow> bool" where
  "turn_fair req = (\<lambda>(ops, f). list_all (client_fair req) ops \<and> fault_fair f)"

definition others :: "client_op list \<Rightarrow> cluster \<Rightarrow> cluster" where
  "others ops c = fold client_run ops c"

abbreviation Offline :: gerr where
  "Offline \<equiv> PlainErr ''connection refused''"

fun served :: "(cluster \<Rightarrow> (gerr + 'a) \<times> cluster) \<Rightarrow> turn list \<times> cluster \<Rightarrow> (gerr + 'a) \<times> (turn list \<times> cluster)" where
  "served f ([], c) = (Inl Offline, ([], c))"
| "served f ((ops, Served) # ts, c) = (case f (others ops c) of (a, c') \<Rightarrow> (a, (ts, c')))"
| "served f ((ops, Lost e) # ts, c) = (Inl e, (ts, others ops c))"
| "served f ((ops, Unanswered e) # ts, c) = (Inl e, (ts, snd (f (others ops c))))"

fun waited :: "turn list \<times> cluster \<Rightarrow> bool \<times> (turn list \<times> cluster)" where
  "waited ([], c) = (False, ([], c))"
| "waited ((ops, f) # ts, c) = (case fake_wait (others ops c) of (b, c') \<Rightarrow> (b, (ts, c')))"

definition sharedEnv ::
  "((string \<times> string) list list \<Rightarrow> gerr + string) \<Rightarrow>
   (string \<Rightarrow> rule_group list \<Rightarrow> gerr + rule_group list) \<Rightarrow> (turn list \<times> cluster) env" where
  "sharedEnv marshal unmarshal = \<lparr>
     eGet = (\<lambda>k n. served (fake_Get k n)), eList = (\<lambda>k ns. served (fake_List k ns)),
     eCreate = (\<lambda>ob. served (vt_Create ob)), eUpdate = (\<lambda>ob. served (vt_Update ob)),
     eStatusUpdate = (\<lambda>ob. served (fake_StatusUpdate ob)), eDelete = (\<lambda>k n. served (deleteObject k n)),
     eWait = waited, eReadFile = (\<lambda>p (ts, c). (fst (fake_ReadFile p c), (ts, c))),
     eYamlMarshal = marshal, eYamlUnmarshalRules = unmarshal\<rparr>"

section \<open>Invariants between the requests\<close>

definition fairly :: "nn \<Rightarrow> (cluster \<Rightarrow> bool) \<Rightarrow> turn list \<times> cluster \<Rightarrow> bool" where
  "fairly req I = (\<lambda>(ts, c). list_all (turn_fair req) ts \<and> I c)"

lemma fairly_iff [simp]: "fairly req I (ts, c) \<longleftrightarrow> list_all (turn_fair req) ts \<and> I c"
  by (simp add: fairly_def)

definition stable :: "nn \<Rightarrow> (cluster \<Rightarrow> bool) \<Rightarrow> bool" where
  "stable req I \<longleftrightarrow> (\<forall>op c. client_fair req op \<longrightarrow> I c \<longrightarrow> I (client_run op c))"

lemma others_keeps: "stable req I \<Longrightarrow> I c \<Longrightarrow> list_all (client_fair req) ops \<Longrightarrow> I (others ops c)"
  unfolding others_def by (induction ops arbitrary: c) (simp_all add: stable_def)

lemma served_snd:
  "snd (served f ((ops, Served) # ts, c)) = (ts, snd (f (others ops c)))"
  "snd (waited ((ops, g) # ts, c)) = (ts, snd (fake_wait (others ops c)))"
  by (simp_all split: prod.split)

lemma served_keeps:
  assumes "stable req I" and "\<And>c. I c \<Longrightarrow> I (snd (f c))" and "fairly req I w"
  shows "fairly req I (snd (served f w))"
  using assms(2,3) others_keeps [OF assms(1)]
  by (induction f w rule: served.induct) (simp_all add: turn_fair_def served_snd del: served.simps(2))

lemma waited_keeps:
  assumes "stable req I" and "\<And>c. I (snd (fake_wait c)) = I c" and "fairly req I w"
  shows "fairly req I (snd (waited w))"
  using assms(2,3) others_keeps [OF assms(1)]
  by (induction w rule: waited.induct) (simp_all add: turn_fair_def served_snd del: waited.simps(2))

lemma stable_held: "stable req (held req)"
  unfolding stable_def
proof (intro allI impI)
  fix op c
  assume "client_fair req op" and "held req c"
  then show "held req (client_run op c)"
    by (cases op) (auto simp: held_create held_update held_delete, simp add: held_def tracked_def cluster_wf_def)
qed

lemma stable_gone: "stable req (noobaa_gone req)"
  unfolding stable_def
proof (intro allI impI)
  fix op c
  assume "client_fair req op" and "noobaa_gone req c"
  then show "noobaa_gone req (client_run op c)"
    by (cases op) (auto simp: noobaa_gone_create noobaa_gone_update noobaa_gone_delete,
      simp add: noobaa_gone_def tracked_def cluster_wf_def)
qed

text \<open>What an answer of the shared server says about the state it was given in.\<close>

lemma served_Inr:
  assumes "served f w = (Inr a, w')"
  shows "\<exists>ops ts. w = ((ops, Served) # ts, snd w) \<and> f (others ops (snd w)) = (Inr a, snd w') \<and> fst w' = ts"
  using assms by (induction f w rule: served.induct) (auto split: prod.splits)

lemma served_NotFound:
  assumes "served f w = (Inl e, w')" and "IsNotFound e" and "list_all (turn_fair req) (fst w)"
  shows "\<exists>ops ts. w = ((ops, Served) # ts, snd w) \<and> f (others ops (snd w)) = (Inl e, snd w') \<and> fst w' = ts"
  using assms by (induction f w rule: served.induct) (auto simp: turn_fair_def split: prod.splits)

lemma noobaa_gone_or_held:
  assumes "noobaa_gone req c \<or> held req c" and "list_all (client_fair req) ops"
  shows "protected req (others ops c)"
  using assms others_keeps [OF stable_held _ assms(2)] others_keeps [OF stable_gone _ assms(2)]
  by (auto simp: protected_iff)

lemma vt_Update_holds:
  assumes "cluster_wf c" and "obj_id ob = (KManagedMCG, req)" and "has_finalizer ob"
    and "vt_Update ob c = (Inr ob', c')"
  shows "has_finalizer ob' \<and> held req c'"
proof -
  have "\<not> (terminating ob \<and> mFinalizers (ObjectMeta ob) = [])" using assms(3) by auto
  then obtain v where v: "ob' = setRV v ob" and c': "c' = c\<lparr>clObjects := AList.update (obj_id ob') ob' (clObjects c)\<rparr>"
    using vt_Update_Inr [OF assms(4)] by auto
  have "tracked c' = put ob' (tracked c)" by (simp add: c' tracked_put)
  moreover have "cluster_wf c'" using wf_vt_Update [OF assms(1), of ob] assms(4) by simp
  ultimately show ?thesis
    using assms(2,3) by (simp add: v held_def put_def obj_id_def)
qed

lemma sharedEnv_simps [simp]:
  "eGet (sharedEnv ma un) k n = served (fake_Get k n)" "eList (sharedEnv ma un) k ns = served (fake_List k ns)"
  "eCreate (sharedEnv ma un) ob = served (vt_Create ob)" "eUpdate (sharedEnv ma un) ob = served (vt_Update ob)"
  "eStatusUpdate (sharedEnv ma un) ob = served (vt_Update ob)"
  "eDelete (sharedEnv ma un) k n = served (deleteObject k n)" "eWait (sharedEnv ma un) = waited"
  "eReadFile (sharedEnv ma un) p w = (fst (fake_ReadFile p (snd w)), w)"
  by (simp_all add: sharedEnv_def fake_StatusUpdate_def [abs_def] split: prod.split)

lemma shared_held: "write_frame (sharedEnv ma un) (fairly req (held req)) keeps_finalizer
    (UNIV - {KManagedMCG}) (UNIV - {KManagedMCG}) UNIV"
  by unfold_locales
    (auto simp: fake_reads(1-3) wait_simps held_create held_delete
      intro!: served_keeps waited_keeps stable_held held_update)

lemma shared_gone: "write_frame (sharedEnv ma un) (fairly req (noobaa_gone req)) no_noobaa_create
    (UNIV - {KNooBaa}) UNIV UNIV"
  by unfold_locales
    (auto simp: fake_reads(1-3) wait_simps noobaa_gone_create noobaa_gone_update noobaa_gone_delete obj_id_def
      intro!: served_keeps waited_keeps stable_gone)

text \<open>A read that was served tells the state after the turn.\<close>

lemma served_read:
  assumes "fairly req (noobaa_gone req) w \<or> fairly req (held req) w"
    and "served (fake_Get k n) w = (a, w')" and "\<And>e. a = Inl e \<Longrightarrow> IsNotFound e"
  shows "list_all (turn_fair req) (fst w') \<and> protected req (snd w') \<and>
    a = map_sum id json_roundtrip (tracker_Get k n (snd w'))"
proof -
  have fair: "list_all (turn_fair req) (fst w)" using assms(1) by (cases w) auto
  obtain ops ts where w: "w = ((ops, Served) # ts, snd w)" and f: "fake_Get k n (others ops (snd w)) = (a, snd w')"
    and w': "fst w' = ts"
    using served_Inr [of "fake_Get k n" w _ w'] served_NotFound [of "fake_Get k n" w _ w'] assms(2,3) fair
    by (cases a) blast+
  have "fst w = (ops, Served) # ts" by (subst w) simp
  with fair have turns: "list_all (client_fair req) ops" "list_all (turn_fair req) ts"
    by (simp_all add: turn_fair_def)
  have "noobaa_gone req (snd w) \<or> held req (snd w)" using assms(1) by (cases w) auto
  then have "protected req (others ops (snd w))" using noobaa_gone_or_held turns(1) by blast
  with f w' turns(2) show ?thesis by (auto simp: fake_Get_eq)
qed

lemma fairly_split: "fairly req I w \<longleftrightarrow> list_all (turn_fair req) (fst w) \<and> I (snd w)"
  by (simp add: fairly_def split_def)

lemma tracker_NotFound: "Inl e = map_sum id json_roundtrip (tracker_Get k n c) \<Longrightarrow> tracked c k n = None"
  by (simp add: tracker_Get_def split: option.splits)

lemma tracker_found: "Inr ob = map_sum id json_roundtrip (tracker_Get k n c) \<Longrightarrow>
    \<exists>ob'. tracked c k n = Some ob' \<and> ob = json_roundtrip ob'"
  by (simp add: tracker_Get_def split: option.splits)

interpretation shared: protecting "sharedEnv ma un" "fairly req (held req)" "fairly req (noobaa_gone req)" req
  for ma un req
proof (intro protecting.intro shared_held shared_gone protecting_axioms.intro)
  fix w :: "turn list \<times> cluster" and e ob w' ob'
  assume inv: "fairly req (noobaa_gone req) w \<or> fairly req (held req) w"
  show "fairly req (noobaa_gone req) w'"
    if "eGet (sharedEnv ma un) KNooBaa (noobaaKey req) w = (Inl e, w')" "IsNotFound e"
    using served_read [OF inv, of KNooBaa "noobaaKey req" "Inl e" w'] that
    by (auto simp: fairly_split noobaa_gone_def protected_def dest: tracker_NotFound)
  show "fairly req (noobaa_gone req) w'"
    if "eGet (sharedEnv ma un) KManagedMCG req w = (Inl e, w')" "IsNotFound e"
    using served_read [OF inv, of KManagedMCG req "Inl e" w'] that
    by (auto simp: fairly_split noobaa_gone_def protected_def held_def dest!: tracker_NotFound)
  show "object_key ob = req \<and>
      (if has_finalizer ob then fairly req (held req) w' else fairly req (noobaa_gone req) w')"
    if "eGet (sharedEnv ma un) KManagedMCG req w = (Inr ob, w')"
  proof -
    have read: "list_all (turn_fair req) (fst w')" "protected req (snd w')"
      "Inr ob = map_sum id json_roundtrip (tracker_Get KManagedMCG req (snd w'))"
      using served_read [OF inv, of KManagedMCG req "Inr ob" w'] that by auto
    from tracker_found [OF read(3)] obtain ob' where ob': "tracked (snd w') KManagedMCG req = Some ob'"
      "ob = json_roundtrip ob'" by blast
    have wf: "cluster_wf (snd w')" using read(2) by (simp add: protected_def)
    with cluster_wf_tracked [OF wf ob'(1)] ob' read show ?thesis
      by (auto simp: fairly_split held_def protected_def noobaa_gone_def json_roundtrip_def obj_id_def object_key_def)
  qed
  show "has_finalizer ob' \<and> fairly req (held req) w'"
    if ob: "obj_id ob = (KManagedMCG, req)" "has_finalizer ob" and put: "eUpdate (sharedEnv ma un) ob w = (Inr ob', w')"
  proof -
    obtain ops ts where w: "w = ((ops, Served) # ts, snd w)"
      and f: "vt_Update ob (others ops (snd w)) = (Inr ob', snd w')" and w': "fst w' = ts"
      using served_Inr [of "vt_Update ob" w ob' w'] put by auto
    have "fst w = (ops, Served) # ts" by (subst w) simp
    with inv have turns: "list_all (client_fair req) ops" "list_all (turn_fair req) ts"
      and now: "noobaa_gone req (snd w) \<or> held req (snd w)"
      by (auto simp: fairly_split turn_fair_def)
    have "cluster_wf (others ops (snd w))"
      using noobaa_gone_or_held [OF now turns(1)] by (simp add: protected_def)
    from vt_Update_holds [OF this ob f] w' turns(2) show ?thesis by (simp add: fairly_split)
  qed
qed

section \<open>Histories\<close>

text \<open>The operator's state with the turns of its next run, and what is left of it after the run.\<close>

definition sharing :: "turn list \<Rightarrow> (reconciler, cluster) sys \<Rightarrow> (reconciler, turn list \<times> cluster) sys" where
  "sharing ts s = \<lparr>rc = rc s, wd = (ts, wd s)\<rparr>"

definition settled :: "(reconciler, turn list \<times> cluster) sys \<Rightarrow> (reconciler, cluster) sys" where
  "settled s = \<lparr>rc = rc s, wd = snd (wd s)\<rparr>"

text \<open>
  One step of the whole system: a reconciliation of the resource or the handling of a bucket class
  event, each with its turns; a request of another client while the operator is idle; or a new
  start of the operator, with any receiver.
\<close>

inductive system_step ::
  "((string \<times> string) list list \<Rightarrow> gerr + string) \<Rightarrow> (string \<Rightarrow> rule_group list \<Rightarrow> gerr + rule_group list) \<Rightarrow>
   nn \<Rightarrow> (reconciler, cluster) sys \<Rightarrow> (reconciler, cluster) sys \<Rightarrow> bool" for ma un req where
  reconcile: "list_all (turn_fair req) ts \<Longrightarrow>
    system_step ma un req s (settled (snd (Reconcile (sharedEnv ma un) req (sharing ts s))))"
| class_added: "list_all (turn_fair req) ts \<Longrightarrow>
    system_step ma un req s (settled (snd (bucketClassAdded (sharedEnv ma un) bc (sharing ts s))))"
| class_deleted: "list_all (turn_fair req) ts \<Longrightarrow> system_step ma un req s
    (settled (snd (bucketClassDeleted (sharedEnv ma un) (bc :: bucket_class object) (sharing ts s))))"
| other: "client_fair req op \<Longrightarrow> system_step ma un req s (s\<lparr>wd := client_run op (wd s)\<rparr>)"
| restart: "system_step ma un req s (s\<lparr>rc := r\<rparr>)"

inductive history ::
  "((string \<times> string) list list \<Rightarrow> gerr + string) \<Rightarrow> (string \<Rightarrow> rule_group list \<Rightarrow> gerr + rule_group list) \<Rightarrow>
   nn \<Rightarrow> (reconciler, cluster) sys \<Rightarrow> (reconciler, cluster) sys \<Rightarrow> bool" for ma un req where
  start: "history ma un req s s"
| more: "history ma un req s t \<Longrightarrow> system_step ma un req t u \<Longrightarrow> history ma un req s u"

lemmas history_intros [intro] = history.intros system_step.intros

lemma sharing_protected:
  assumes "list_all (turn_fair req) ts"
  shows "fairly req (noobaa_gone req) (wd (sharing ts s)) \<or> fairly req (held req) (wd (sharing ts s)) \<longleftrightarrow>
    protected req (wd s)"
  using assms by (simp add: sharing_def protected_iff)

lemma settled_protected:
  "fairly req (noobaa_gone req) (wd s) \<or> fairly req (held req) (wd s) \<Longrightarrow> protected req (wd (settled s))"
  by (auto simp: settled_def protected_iff fairly_split)

lemma system_step_protected:
  "system_step ma un req s t \<Longrightarrow> protected req (wd s) \<Longrightarrow> protected req (wd t)"
proof (induction rule: system_step.induct)
  case (reconcile ts s)
  then show ?case by (intro settled_protected shared.Reconcile_protected) (simp add: sharing_protected)
next
  case (class_added ts s bc)
  then show ?case by (intro settled_protected shared.bucket_protected) (simp add: sharing_protected)
next
  case (class_deleted ts s bc)
  then show ?case by (intro settled_protected shared.bucket_protected) (simp add: sharing_protected)
next
  case (other op s)
  then show ?case using stable_held stable_gone by (auto simp: protected_iff stable_def)
qed simp

text \<open>
  C2. In every state that a history leads to, NooBaa is stored only together with the ManagedMCG
  resource, which then carries the operator's finalizer: nobody loses the resource that manages a
  NooBaa that is still there, whatever others do before, after and between the requests of the
  operator, whatever requests and answers are lost, and wherever the operator crashes.
\<close>

theorem noobaa_protected:
  assumes "history ma un req s t" and "protected req (wd s)"
  shows "tracked (wd t) KNooBaa (noobaaKey req) \<noteq> None \<longrightarrow>
    (\<exists>ob. tracked (wd t) KManagedMCG req = Some ob \<and> has_finalizer ob)"
proof -
  from assms have "protected req (wd t)"
    by (induction rule: history.induct) (auto intro: system_step_protected)
  then show ?thesis by (auto simp: protected_def held_def split: option.splits)
qed

definition sampleNoobaa :: kobject where
  "sampleNoobaa = untype kNooBaa (newObj noobaaName ''ns'' zero_noobaa)"

lemma sampleNoobaa_id: "obj_id sampleNoobaa = (KNooBaa, noobaaKey sampleKey)"
  by (simp add: sampleNoobaa_def untype_def kNooBaa_def obj_id_def newObj_def zero_meta_def object_key_def sampleKey_def)

text \<open>
  A user deletes the resource just before the first request of a reconciliation, which is lost: the
  resource and NooBaa are both still there.
\<close>

theorem noobaa_protected_witness:
  "let c = clusterOf [untype kManagedMCG sampleMCG, sampleNoobaa];
       t = settled (snd (Reconcile (sharedEnv (\<lambda>_. Inr ''yaml'') (\<lambda>_ gs. Inr gs)) sampleKey
         (sharing [([OtherDelete KManagedMCG sampleKey], Lost (PlainErr ''timeout''))]
           \<lparr>rc = sampleReconciler, wd = c\<rparr>)))
   in tracked (wd t) KNooBaa (noobaaKey sampleKey) \<noteq> None \<and>
      (\<exists>ob. tracked (wd t) KManagedMCG sampleKey = Some ob \<and> has_finalizer ob)"
proof -
  let ?c = "clusterOf [untype kManagedMCG sampleMCG, sampleNoobaa]"
  let ?s = "\<lparr>rc = sampleReconciler, wd = ?c\<rparr>"
  let ?ts = "[([OtherDelete KManagedMCG sampleKey], Lost (PlainErr ''timeout''))]"
  let ?t = "settled (snd (Reconcile (sharedEnv (\<lambda>_. Inr ''yaml'') (\<lambda>_ gs. Inr gs)) sampleKey (sharing ?ts ?s)))"
  have mcg: "obj_id (untype kManagedMCG sampleMCG) = (KManagedMCG, sampleKey)"
    by (simp add: untype_def kManagedMCG_def obj_id_def sampleMCG_def object_key_def sampleKey_def)
  have wf: "cluster_wf ?c" by (simp add: cluster_wf_def clusterOf_def mcg sampleNoobaa_id)
  have "tracked ?c KManagedMCG sampleKey = Some (untype kManagedMCG sampleMCG)"
    by (simp add: tracked_def clusterOf_def mcg)
  with wf have "protected sampleKey (wd ?s)"
    by (simp add: protected_def held_def untype_def sampleMCG_def)
  moreover have "history (\<lambda>_. Inr ''yaml'') (\<lambda>_ gs. Inr gs) sampleKey ?s ?t"
    by (rule history.more [OF history.start system_step.reconcile]) (simp add: turn_fair_def)
  ultimately have "tracked (wd ?t) KNooBaa (noobaaKey sampleKey) \<noteq> None \<longrightarrow>
      (\<exists>ob. tracked (wd ?t) KManagedMCG sampleKey = Some ob \<and> has_finalizer ob)"
    by (rule noobaa_protected [rotated])
  moreover have "wd ?t = snd (deleteObject KManagedMCG sampleKey ?c)"
    by (simp add: Reconcile_def setR_def r_get_eq act_unfold sharing_def settled_def others_def fetched_def
        split: prod.split)
  moreover have "tracked (snd (deleteObject KManagedMCG sampleKey ?c)) KNooBaa (noobaaKey sampleKey) \<noteq> None"
  proof -
    have "tracked ?c KNooBaa (noobaaKey sampleKey) \<noteq> None"
      by (simp add: tracked_def clusterOf_def sampleNoobaa_id)
    then show ?thesis
      using delete_spec_cases [OF store_wf_tracked [OF wf], of "clNow ?c" KManagedMCG sampleKey]
      by (auto simp: request_effects put_def remove_def obj_id_def)
  qed
  ultimately show ?thesis by (simp only: Let_def) simp
qed

end
