(* ===== verification/Uninstall.thy ===== *)
theory Uninstall
  imports Protection
begin

text \<open>
  The removal of NooBaa against the in-memory server, and with it the end of an uninstallation: a
  terminating ManagedMCG resource is gone after two reconciliations.
\<close>

section \<open>Draining the bucket classes\<close>

text \<open>A deletion of an object without finalizers, or of none.\<close>

definition unpinned :: "kind \<Rightarrow> nn \<Rightarrow> cluster \<Rightarrow> bool" where
  "unpinned k n c \<longleftrightarrow> (case tracked c k n of None \<Rightarrow> True | Some ob \<Rightarrow> mFinalizers (ObjectMeta ob) = [])"

lemma r_delete_unpinned:
  assumes "unpinned (kdKind K) n (wd s)"
  shows "\<exists>w. r_delete (fakeEnv ma un) K n s = (Ok (), s\<lparr>wd := w\<rparr>) \<and>
    tracked w = remove (kdKind K) n (tracked (wd s)) \<and> (cluster_wf (wd s) \<longrightarrow> cluster_wf w)"
proof (cases "tracked (wd s) (kdKind K) n")
  case None
  then have "remove (kdKind K) n (tracked (wd s)) = tracked (wd s)" by (auto simp: remove_def fun_eq_iff)
  with None show ?thesis
    by (intro exI [of _ "wd s"]) (simp add: r_delete_eq deleteObject_def tracker_Get_def tracker_Delete_def)
next
  case (Some ob)
  with assms show ?thesis
    by (intro exI [of _ "(wd s)\<lparr>clObjects := AList.delete (kdKind K, n) (clObjects (wd s))\<rparr>"])
      (simp add: r_delete_eq deleteObject_def tracker_Get_def tracker_Delete_def unpinned_def tracked_remove
        cluster_wf_delete)
qed

text \<open>The loop of deletions, for objects of one kind in the namespace of the field.\<close>

definition removeAll :: "kind \<Rightarrow> nn set \<Rightarrow> store \<Rightarrow> store" where
  "removeAll k ns st = st(k := (\<lambda>n. if n \<in> ns then None else st k n))"

lemma removeAll_insert: "removeAll k ns (remove k n st) = removeAll k (insert n ns) st"
  by (auto simp: removeAll_def remove_def fun_eq_iff)

lemma deleteNamed_run:
  fixes F :: "(reconciler, 'b) field"
  assumes "\<And>u r. fst F (snd F u r) = u (fst F r)" and "\<And>u v r. snd F u (snd F v r) = snd F (u \<circ> v) r"
    and "\<And>r. snd F (\<lambda>ob. ob) r = r"
    and "mNamespace (ObjectMeta (fst F (rc s))) = ns"
    and "\<And>x. x \<in> set items \<Longrightarrow> unpinned (kdKind K) \<lparr>nnNamespace = ns, nnName = mName (ObjectMeta x)\<rparr> (wd s)"
    and "cluster_wf (wd s)"
  shows "\<exists>f w. deleteNamed (fakeEnv ma un) K F msg items s = (Ok (), \<lparr>rc = snd F f (rc s), wd = w\<rparr>) \<and>
    cluster_wf w \<and> tracked w = removeAll (kdKind K)
      ((\<lambda>x. \<lparr>nnNamespace = ns, nnName = mName (ObjectMeta x)\<rparr>) ` set items) (tracked (wd s))"
  using assms(4-)
proof (induction items arbitrary: s)
  case Nil
  then show ?case
    by (intro exI [of _ "\<lambda>ob. ob"] exI [of _ "wd s"]) (simp add: deleteNamed_def retA_def assms(3) removeAll_def)
next
  case (Cons x items)
  let ?key = "\<lparr>nnNamespace = ns, nnName = mName (ObjectMeta x)\<rparr>"
  let ?name = "\<lambda>ob. ob\<lparr>ObjectMeta := (ObjectMeta ob)\<lparr>mName := mName (ObjectMeta x)\<rparr>\<rparr>"
  let ?s1 = "s\<lparr>rc := snd F ?name (rc s)\<rparr>"
  have "unpinned (kdKind K) ?key (wd ?s1)" using Cons.prems(2) by simp
  then obtain w where del: "r_delete (fakeEnv ma un) K ?key ?s1 = (Ok (), ?s1\<lparr>wd := w\<rparr>)"
    and w: "tracked w = remove (kdKind K) ?key (tracked (wd s))" "cluster_wf w"
    using r_delete_unpinned [of K ?key ?s1 ma un] Cons.prems(3) by auto
  have key: "object_key (fst F (rc ?s1)) = ?key" using Cons.prems(1) assms(1) by (simp add: object_key_def)
  have left: "unpinned (kdKind K) \<lparr>nnNamespace = ns, nnName = mName (ObjectMeta y)\<rparr> w" if "y \<in> set items" for y
    using Cons.prems(2) [of y] that by (simp add: unpinned_def w(1) remove_def)
  have "\<exists>f w'. deleteNamed (fakeEnv ma un) K F msg items (?s1\<lparr>wd := w\<rparr>) =
      (Ok (), \<lparr>rc = snd F f (rc ?s1), wd = w'\<rparr>) \<and> cluster_wf w' \<and> tracked w' = removeAll (kdKind K)
      ((\<lambda>x. \<lparr>nnNamespace = ns, nnName = mName (ObjectMeta x)\<rparr>) ` set items) (tracked w)"
    using Cons.IH [of "?s1\<lparr>wd := w\<rparr>"] left Cons.prems(1) w(2) by (simp add: assms(1))
  then obtain f w' where rest: "deleteNamed (fakeEnv ma un) K F msg items (?s1\<lparr>wd := w\<rparr>) =
      (Ok (), \<lparr>rc = snd F f (rc ?s1), wd = w'\<rparr>)" "cluster_wf w'"
    "tracked w' = removeAll (kdKind K) ((\<lambda>x. \<lparr>nnNamespace = ns, nnName = mName (ObjectMeta x)\<rparr>) ` set items) (tracked w)"
    by blast
  show ?case
    using rest del key
    by (intro exI [of _ "f \<circ> ?name"] exI [of _ w'])
      (simp add: deleteNamed_def setR_def keyF_def getR_def act_unfold assms(2) removeAll_insert w comp_def)
qed

section \<open>NooBaa\<close>

lemma drainBucketClasses_run:
  assumes "cluster_wf (wd s)" and "rNamespace (rc s) = ns" and "ns \<noteq> ''''"
    and "mNamespace (ObjectMeta (rNoobaaBucketClass (rc s))) = ns"
    and "\<And>n. nnNamespace n = ns \<Longrightarrow> unpinned KBucketClass n (wd s)"
  shows "\<exists>f w. drainBucketClasses (fakeEnv ma un) s = (Ok (), \<lparr>rc = rNoobaaBucketClass_update f (rc s), wd = w\<rparr>) \<and>
    cluster_wf w \<and> (\<forall>k. k \<noteq> KBucketClass \<longrightarrow> tracked w k = tracked (wd s) k)"
proof -
  obtain items where list: "clientList (fakeEnv ma un) kBucketClass ns s = (Ok items, s)"
    and items: "map (untype kBucketClass) items = map json_roundtrip (tracker_List KBucketClass ns (wd s))"
    using tk_bucketclass.fake_clientList [OF assms(1), of ma un ns] by (auto simp: kBucketClass_def)
  have "\<And>x. x \<in> set items \<Longrightarrow> unpinned (kdKind kBucketClass) \<lparr>nnNamespace = ns, nnName = mName (ObjectMeta x)\<rparr> (wd s)"
    using assms(5) by (simp add: kBucketClass_def)
  then obtain f w where del: "deleteNamed (fakeEnv ma un) kBucketClass (rNoobaaBucketClass, rNoobaaBucketClass_update)
      ''failed to delete bucketClasses'' items s = (Ok (), \<lparr>rc = rNoobaaBucketClass_update f (rc s), wd = w\<rparr>)"
    and w: "cluster_wf w" "tracked w = removeAll KBucketClass
      ((\<lambda>x. \<lparr>nnNamespace = ns, nnName = mName (ObjectMeta x)\<rparr>) ` set items) (tracked (wd s))"
    using deleteNamed_run [of "(rNoobaaBucketClass, rNoobaaBucketClass_update)" s ns items kBucketClass ma un
        "''failed to delete bucketClasses''"] assms(1,4)
    by (auto simp: kBucketClass_def comp_def)
  have empty: "tracker_List KBucketClass ns w = []"
  proof (rule ccontr)
    assume "tracker_List KBucketClass ns w \<noteq> []"
    then have "hd (tracker_List KBucketClass ns w) \<in> set (tracker_List KBucketClass ns w)" by (rule hd_in_set)
    then obtain n ob where ob: "tracked w KBucketClass n = Some ob" "mNamespace (ObjectMeta ob) = ns"
      using set_tracker_List [OF w(1)] assms(3) by auto
    then have old: "tracked (wd s) KBucketClass n = Some ob"
      "n \<notin> (\<lambda>x. \<lparr>nnNamespace = ns, nnName = mName (ObjectMeta x)\<rparr>) ` set items"
      by (auto simp: w(2) removeAll_def split: if_splits)
    then have "ob \<in> set (tracker_List KBucketClass ns (wd s))" using set_tracker_List [OF assms(1)] ob(2) by auto
    then have "json_roundtrip ob \<in> untype kBucketClass ` set items" by (metis image_eqI items list.set_map)
    then obtain x where x: "x \<in> set items" "untype kBucketClass x = json_roundtrip ob" by auto
    have "object_key ob = n" using cluster_wf_tracked [OF assms(1) old(1)] by (simp add: obj_id_def)
    moreover have "mName (ObjectMeta x) = mName (ObjectMeta ob)"
      using arg_cong [OF x(2), of ObjectMeta] by (simp add: untype_def json_roundtrip_def)
    ultimately have "n = \<lparr>nnNamespace = ns, nnName = mName (ObjectMeta x)\<rparr>" using ob(2) by (auto simp: object_key_def)
    with x(1) old(2) show False by blast
  qed
  let ?t = "\<lparr>rc = rNoobaaBucketClass_update f (rc s), wd = w\<rparr> :: (reconciler, cluster) sys"
  have "bucketClassesGone (fakeEnv ma un) ?t = (Ok True, ?t)"
    using empty assms(2)
    by (simp add: bucketClassesGone_def r_list_def clientList_def reqA_def fake_List_def getR_def act_unfold kBucketClass_def)
  then have "PollImmediate (fakeEnv ma un) 2 10 (bucketClassesGone (fakeEnv ma un)) ?t = (Ok (), ?t)"
    by (simp add: PollImmediate_def bindA_def retA_def)
  with list del w assms(2) show ?thesis
    by (intro exI [of _ f] exI [of _ w])
      (simp add: drainBucketClasses_def r_list_def getR_def act_unfold removeAll_def)
qed

lemma remove_put: "obj_id ob = (k, n) \<Longrightarrow> remove k n (put ob st) = remove k n st"
  by (auto simp: remove_def put_def obj_id_def fun_eq_iff)

lemma remove_remove [simp]: "remove k n (remove k n st) = remove k n st"
  by (auto simp: remove_def fun_eq_iff)

lemma update_spec_current:
  assumes "st (obj_kind ob) (object_key ob) = Some old" and "mName (ObjectMeta ob) \<noteq> ''''"
    and "mResourceVersion (ObjectMeta ob) = mResourceVersion (ObjectMeta old)"
    and "ParseUint64 (mResourceVersion (ObjectMeta old)) \<noteq> None"
  shows "\<exists>v. ParseUint64 v \<noteq> None \<and> update_spec ob st = (Inr (setRV v ob),
    if terminating ob \<and> mFinalizers (ObjectMeta ob) = [] then remove (obj_kind ob) (object_key ob) st
    else put (setRV v ob) st)"
proof -
  obtain n where n: "ParseUint64 (mResourceVersion (ObjectMeta old)) = Some n" using assms(4) by blast
  then have "mResourceVersion (ObjectMeta old) \<noteq> ''''" by (auto simp: ParseUint64_def undec_def)
  then have "next_version (mResourceVersion (ObjectMeta old)) = Some (dec ((n + 1) mod 2 ^ 64))"
    using n by (simp add: next_version_def)
  moreover have "ParseUint64 (dec ((n + 1) mod 2 ^ 64)) \<noteq> None" by (simp add: ParseUint64_def)
  ultimately show ?thesis
    using assms(1-3) by (intro exI [of _ "dec ((n + 1) mod 2 ^ 64)"]) (simp add: update_spec_def replace_spec_def Let_def)
qed

lemma deleteNoobaaCR_run:
  fixes s :: "(reconciler, cluster) sys"
  defines "y \<equiv> rNoobaa (rc s)"
  assumes wf: "cluster_wf (wd s)" and nb: "tracked (wd s) KNooBaa (object_key y) = Some nb"
    and rv: "mResourceVersion (ObjectMeta y) = mResourceVersion (ObjectMeta nb)"
    "ParseUint64 (mResourceVersion (ObjectMeta nb)) \<noteq> None"
    and fin: "set (mFinalizers (ObjectMeta y)) \<subseteq> {noobaaFinalizer}" and name: "mName (ObjectMeta y) \<noteq> ''''"
  shows "\<exists>s'. deleteNoobaaCR (fakeEnv ma un) s = (Ok (), s') \<and> cluster_wf (wd s') \<and>
    tracked (wd s') = remove KNooBaa (object_key y) (tracked (wd s))"
proof -
  let ?bare = "y\<lparr>ObjectMeta := (ObjectMeta y)\<lparr>mFinalizers := []\<rparr>\<rparr>"
  let ?ob = "untype kNooBaa ?bare"
  have none: "Remove (mFinalizers (ObjectMeta y)) noobaaFinalizer = []"
    using fin by (auto simp: Remove_eq filter_empty_conv)
  have id: "obj_kind ?ob = KNooBaa" "object_key ?ob = object_key y" "mName (ObjectMeta ?ob) \<noteq> ''''"
    "mFinalizers (ObjectMeta ?ob) = []" "mResourceVersion (ObjectMeta ?ob) = mResourceVersion (ObjectMeta nb)"
    using name rv by (simp_all add: untype_def object_key_def kNooBaa_def)
  have "\<exists>v. ParseUint64 v \<noteq> None \<and> update_spec ?ob (tracked (wd s)) = (Inr (setRV v ?ob),
      if terminating ?ob \<and> mFinalizers (ObjectMeta ?ob) = [] then remove (obj_kind ?ob) (object_key ?ob) (tracked (wd s))
      else put (setRV v ?ob) (tracked (wd s)))"
    by (rule update_spec_current [where old = nb]) (use nb rv(2) id in simp_all)
  then obtain v where "update_spec ?ob (tracked (wd s)) = (Inr (setRV v ?ob),
      if terminating ?ob then remove KNooBaa (object_key y) (tracked (wd s)) else put (setRV v ?ob) (tracked (wd s)))"
    by (auto simp only: id simp_thms)
  then obtain w where up: "vt_Update ?ob (wd s) = (Inr (setRV v ?ob), w)"
    and w: "tracked w = (if terminating ?ob then remove KNooBaa (object_key y) (tracked (wd s))
      else put (setRV v ?ob) (tracked (wd s)))"
    using update_refines [of ?ob "wd s"] by (cases "vt_Update ?ob (wd s)") auto
  have wfw: "cluster_wf w" using wf_vt_Update [OF wf, of ?ob] up by simp
  let ?new = "?bare\<lparr>ObjectMeta := (ObjectMeta ?bare)\<lparr>mResourceVersion := v\<rparr>\<rparr>"
  have again: "retype kNooBaa (setRV v ?ob) = Some ?new"
    by (simp add: setRV_def untype_def retype_def kNooBaa_def)
  let ?t = "s\<lparr>wd := w, rc := (rc s)\<lparr>rNoobaa := ?new\<rparr>\<rparr>"
  have key: "object_key (y\<lparr>ObjectMeta := (ObjectMeta y)\<lparr>mFinalizers := [], mResourceVersion := v\<rparr>\<rparr>) = object_key y"
    by (simp add: object_key_def)
  have "unpinned (kdKind kNooBaa) (object_key y) (wd ?t)"
    using id by (simp add: unpinned_def w remove_def put_def kNooBaa_def)
  then obtain w' where del: "r_delete (fakeEnv ma un) kNooBaa (object_key y) ?t = (Ok (), ?t\<lparr>wd := w'\<rparr>)"
    and w': "tracked w' = remove (kdKind kNooBaa) (object_key y) (tracked w)" "cluster_wf w'"
    using r_delete_unpinned [of kNooBaa "object_key y" ?t ma un] wfw by auto
  have "tracked w' = remove KNooBaa (object_key y) (tracked (wd s))"
    using id by (simp add: w' w remove_put obj_id_def kNooBaa_def)
  then show ?thesis
    using del w'(2) none
    by (simp add: deleteNoobaaCR_def setFinalizers_def updateF_def clientUpdate_def reqA_def decodeA_def
        keyF_def getR_def setR_def setF_def act_unfold up [unfolded y_def] again [unfolded y_def] key [unfolded y_def]
        y_def)
qed

text \<open>The deletion of the stores leaves the ManagedMCG resource alone and NooBaa gone, whatever comes of it.\<close>

definition resource_is :: "nn \<Rightarrow> kobject \<Rightarrow> cluster \<Rightarrow> bool" where
  "resource_is req ob c \<longleftrightarrow> cluster_wf c \<and> tracked c KManagedMCG req = Some ob"

fun other_kind :: "request \<Rightarrow> bool" where
  "other_kind (ReqCreate ob) = (obj_kind ob \<noteq> KManagedMCG)"
| "other_kind (ReqUpdate ob) = (obj_kind ob \<noteq> KManagedMCG)"
| "other_kind (ReqStatusUpdate ob) = (obj_kind ob \<noteq> KManagedMCG)"
| "other_kind (ReqDelete k n) = (k \<noteq> KManagedMCG)"
| "other_kind _ = True"

lemma resource_is_create: "resource_is req x c \<Longrightarrow> obj_kind ob \<noteq> KManagedMCG \<Longrightarrow> resource_is req x (snd (vt_Create ob c))"
  using create_spec_cases [of ob "tracked c"]
  by (auto simp: resource_is_def wf_vt_Create request_effects put_def)

lemma resource_is_update: "resource_is req x c \<Longrightarrow> obj_kind ob \<noteq> KManagedMCG \<Longrightarrow> resource_is req x (snd (vt_Update ob c))"
  using update_spec_cases [of ob "tracked c"]
  by (auto simp: resource_is_def wf_vt_Update request_effects put_def remove_def)

lemma resource_is_delete: "resource_is req x c \<Longrightarrow> k \<noteq> KManagedMCG \<Longrightarrow> resource_is req x (snd (deleteObject k n c))"
  using delete_spec_cases [OF store_wf_tracked, of c "clNow c" k n]
  by (auto simp: resource_is_def wf_deleteObject request_effects put_def remove_def obj_id_def)

interpretation still: write_frame "fakeEnv ma un" "resource_is req ob" other_kind
  "UNIV - {KManagedMCG}" "UNIV - {KManagedMCG}" "UNIV - {KManagedMCG}" for ma un req ob
  by unfold_locales
    (auto simp: fake_reads(1-3) resource_is_create resource_is_update resource_is_delete fake_StatusUpdate_def,
     auto simp: resource_is_def fake_reads)

section \<open>The first reconciliation\<close>

text \<open>The resource is on its way out: only the operator holds it.\<close>

definition last_held :: "kobject \<Rightarrow> bool" where
  "last_held ob \<longleftrightarrow> terminating ob \<and> mFinalizers (ObjectMeta ob) = [ManagedMCGFinalizer] \<and>
     mUID (ObjectMeta ob) \<noteq> '''' \<and> ParseUint64 (mResourceVersion (ObjectMeta ob)) \<noteq> None"

text \<open>The fields that the removal of NooBaa works on, after the status of the components.\<close>

lemma updateComponentStatus_fields:
  assumes "cluster_wf (wd s)" and "tracked (wd s) KNooBaa (object_key (rNoobaa (rc s))) = Some nb"
    and "updateComponentStatus (fakeEnv ma un) s = (Ok (), t)"
  shows "ObjectMeta (rNoobaa (rc t)) = ObjectMeta (json_roundtrip nb) \<and>
    rNoobaaBucketClass (rc t) = rNoobaaBucketClass (rc s) \<and> rNamespace (rc t) = rNamespace (rc s)"
proof -
  let ?g = "\<lambda>r. (rNoobaa r, rNoobaaBucketClass r, rNamespace r)"
  let ?t1 = "snd (UpdateNoobaaComponentStatus (fakeEnv ma un) s)"
  have kept: "keepsA (kept ?g v) (UpdatePrometheusComponentStatus (fakeEnv ma un))"
    "keepsA (kept ?g v) (UpdateAlertmanagerComponentStatus (fakeEnv ma un))"
    "keepsA (kept ?g v) (UpdateConsoleComponentStatus (fakeEnv ma un))" for v
    unfolding UpdatePrometheusComponentStatus_def UpdateAlertmanagerComponentStatus_def
      UpdateConsoleComponentStatus_def stateOfFetch_def setComponents_def workloadState_def
    by (intro keeps_intros; simp add: apart_def)+
  have "t = snd (UpdateConsoleComponentStatus (fakeEnv ma un) (snd (UpdateAlertmanagerComponentStatus (fakeEnv ma un)
      (snd (UpdatePrometheusComponentStatus (fakeEnv ma un) ?t1)))))"
    using assms(3) by (simp add: updateComponentStatus_eq)
  then have same: "?g (rc t) = ?g (rc ?t1)"
    using kept by (simp add: keepsA_def kept_def)
  have "obj_kind (json_roundtrip nb) = KNooBaa" using cluster_wf_tracked [OF assms(1,2)] by (simp add: obj_id_def)
  then obtain x where x: "retype kNooBaa (json_roundtrip nb) = Some x" "untype kNooBaa x = json_roundtrip nb"
    using tk_noobaa.retype_total [of "json_roundtrip nb"] tk_noobaa.untype_retype by (auto simp: kNooBaa_def)
  have "ObjectMeta x = ObjectMeta (json_roundtrip nb)"
    using arg_cong [OF x(2), of ObjectMeta] by (simp add: untype_def)
  then have "ObjectMeta (rNoobaa (rc ?t1)) = ObjectMeta (json_roundtrip nb) \<and>
      rNoobaaBucketClass (rc ?t1) = rNoobaaBucketClass (rc s) \<and> rNamespace (rc ?t1) = rNamespace (rc s)"
    using assms(2) x(1)
    by (simp add: status_update_defs act_unfold fake_Get_def tracker_Get_def fetched_def kNooBaa_def)
  with same show ?thesis by simp
qed

lemma removeNoobaa_gone:
  assumes "cluster_wf (wd s)" and "rNamespace (rc s) = nnNamespace req" and "nnNamespace req \<noteq> ''''"
    and "mNamespace (ObjectMeta (rNoobaaBucketClass (rc s))) = nnNamespace req"
    and "\<And>n. nnNamespace n = nnNamespace req \<Longrightarrow> unpinned KBucketClass n (wd s)"
    and "tracked (wd s) KNooBaa (noobaaKey req) = Some nb" and "object_key (rNoobaa (rc s)) = noobaaKey req"
    and "mResourceVersion (ObjectMeta (rNoobaa (rc s))) = mResourceVersion (ObjectMeta nb)"
    and "mFinalizers (ObjectMeta (rNoobaa (rc s))) = mFinalizers (ObjectMeta nb)"
    and "ParseUint64 (mResourceVersion (ObjectMeta nb)) \<noteq> None"
    and "set (mFinalizers (ObjectMeta nb)) \<subseteq> {noobaaFinalizer}"
  shows "noobaa_gone req (wd (snd (removeNoobaa (fakeEnv ma un) s)))"
proof -
  obtain f w where drain: "drainBucketClasses (fakeEnv ma un) s = (Ok (), \<lparr>rc = rNoobaaBucketClass_update f (rc s), wd = w\<rparr>)"
    and w: "cluster_wf w" "\<And>k. k \<noteq> KBucketClass \<Longrightarrow> tracked w k = tracked (wd s) k"
    using drainBucketClasses_run [OF assms(1-5), of ma un] by blast
  let ?s1 = "\<lparr>rc = rNoobaaBucketClass_update f (rc s), wd = w\<rparr> :: (reconciler, cluster) sys"
  have name: "mName (ObjectMeta (rNoobaa (rc ?s1))) \<noteq> ''''"
    using assms(7) by (auto simp: object_key_def noobaaName_def)
  have "\<exists>s'. deleteNoobaaCR (fakeEnv ma un) ?s1 = (Ok (), s') \<and> cluster_wf (wd s') \<and>
      tracked (wd s') = remove KNooBaa (object_key (rNoobaa (rc ?s1))) (tracked (wd ?s1))"
    by (rule deleteNoobaaCR_run) (use assms w name in simp_all)
  then obtain s2 where s2: "deleteNoobaaCR (fakeEnv ma un) ?s1 = (Ok (), s2)" "noobaa_gone req (wd s2)"
    using assms(7) by (auto simp: noobaa_gone_def remove_def)
  have "noobaa_gone req (wd (snd (deleteStores (fakeEnv ma un) s2)))"
    using s2(2) gone.keeps_deleteStores [of req ma un] by (simp add: keepsA_def onW_def)
  with drain s2(1) show ?thesis
    by (simp add: removeNoobaa_def thenA_run)
qed

lemma updateStatus_last_held:
  assumes "resource_is req ob (wd s)" and "last_held ob" and "nnName req \<noteq> ''''"
    and "ObjectMeta (rManagedMCG (rc s)) = ObjectMeta (json_roundtrip ob)"
  shows "\<exists>ob'. resource_is req ob' (wd (snd (updateStatus (fakeEnv ma un) s))) \<and> last_held ob'"
proof -
  let ?new = "untype kManagedMCG (rManagedMCG (rc s))"
  have wf: "cluster_wf (wd s)" and ob: "tracked (wd s) KManagedMCG req = Some ob"
    using assms(1) by (simp_all add: resource_is_def)
  have id: "object_key ob = req" using cluster_wf_tracked [OF wf ob] by (simp add: obj_id_def)
  have om: "ObjectMeta ?new = ObjectMeta (json_roundtrip ob)" using assms(4) by (simp add: untype_def)
  then have new: "obj_kind ?new = KManagedMCG" "object_key ?new = req" "last_held ?new"
    "mName (ObjectMeta ?new) \<noteq> ''''" "mResourceVersion (ObjectMeta ?new) = mResourceVersion (ObjectMeta ob)"
    using id assms(2,3)
    by (auto simp: untype_def kManagedMCG_def object_key_def json_roundtrip_def last_held_def terminating_def)
  have "\<exists>v. ParseUint64 v \<noteq> None \<and> update_spec ?new (tracked (wd s)) = (Inr (setRV v ?new),
      if terminating ?new \<and> mFinalizers (ObjectMeta ?new) = [] then remove (obj_kind ?new) (object_key ?new) (tracked (wd s))
      else put (setRV v ?new) (tracked (wd s)))"
    by (rule update_spec_current [where old = ob]) (use ob new assms(2) in \<open>simp_all add: last_held_def\<close>)
  then obtain v where v: "ParseUint64 v \<noteq> None" "update_spec ?new (tracked (wd s)) = (Inr (setRV v ?new), put (setRV v ?new) (tracked (wd s)))"
    using new(3) by (auto simp: last_held_def)
  let ?w = "snd (vt_Update ?new (wd s))"
  have "tracked ?w KManagedMCG req = Some (setRV v ?new)" "cluster_wf ?w"
    using v new wf by (simp_all add: request_effects put_def wf_vt_Update)
  moreover have "last_held (setRV v ?new)" using new(3) v(1) by (simp add: last_held_def terminating_def)
  moreover have "mUID (ObjectMeta (rManagedMCG (rc s))) \<noteq> ''''"
    using new(3) by (simp add: last_held_def untype_def)
  then have "wd (snd (updateStatus (fakeEnv ma un) s)) = ?w"
    by (auto simp: updateStatus_def getR_def clientStatusUpdate_def reqA_def decodeA_def fake_StatusUpdate_def
        setF_def setR_def act_unfold split: prod.split sum.split option.split)
  ultimately show ?thesis by (auto simp: resource_is_def)
qed

lemma first_reconciliation:
  fixes r :: reconciler
  assumes wf: "cluster_wf c" and ob: "tracked c KManagedMCG req = Some ob" "last_held ob"
    and req: "nnName req \<noteq> ''''" "nnNamespace req \<noteq> ''''"
    and nb: "tracked c KNooBaa (noobaaKey req) = Some nb" "set (mFinalizers (ObjectMeta nb)) \<subseteq> {noobaaFinalizer}"
      "ParseUint64 (mResourceVersion (ObjectMeta nb)) \<noteq> None"
    and bc: "\<And>n. nnNamespace n = nnNamespace req \<Longrightarrow> unpinned KBucketClass n c"
  shows "\<exists>ob'. resource_is req ob' (wd (snd (Reconcile (fakeEnv ma un) req \<lparr>rc = r, wd = c\<rparr>))) \<and> last_held ob' \<and>
    noobaa_gone req (wd (snd (Reconcile (fakeEnv ma un) req \<lparr>rc = r, wd = c\<rparr>)))"
proof -
  let ?E = "fakeEnv ma un"
  obtain x where om: "ObjectMeta x = ObjectMeta (json_roundtrip ob)"
    and run: "Reconcile ?E req \<lparr>rc = r, wd = c\<rparr> = reconcileFetched ?E \<lparr>rc = (initializeReconciler req r)\<lparr>rManagedMCG := x\<rparr>, wd = c\<rparr>"
    using Reconcile_found [of "\<lparr>rc = r, wd = c\<rparr>" req ob ma un] wf ob(1) by auto
  define s1 where "s1 = \<lparr>rc = (initializeReconciler req r)\<lparr>rManagedMCG := x\<rparr>, wd = c\<rparr>"
  have init: "object_key (rNoobaa (rc s1)) = noobaaKey req" "rNamespace (rc s1) = nnNamespace req"
    "mNamespace (ObjectMeta (rNoobaaBucketClass (rc s1))) = nnNamespace req"
    "wd s1 = c" "ObjectMeta (rManagedMCG (rc s1)) = ObjectMeta (json_roundtrip ob)"
    by (simp_all add: s1_def init_defs Let_def object_key_def om)
  obtain b where b: "verifyAddonDeletionKey ?E s1 = (Ok b, s1)" using verifyAddonDeletionKey_fake by blast
  obtain s2 where s2: "updateComponentStatus ?E s1 = (Ok (), s2)" "wd s2 = c"
    "ObjectMeta (rManagedMCG (rc s2)) = ObjectMeta (json_roundtrip ob)"
    and state: "csNoobaa (components (rc s2)) = noobaaState (fst (fake_Get KNooBaa (noobaaKey req) c))"
    using updateComponentStatus_fake [of ma un s1] init by auto
  have "csNoobaa (components (rc s2)) \<noteq> ComponentNotFound"
    using noobaaState_gone [OF wf, of req] nb(1) by (simp add: state noobaa_gone_def)
  moreover have "terminating (rManagedMCG (rc s2))"
    using ob(2) s2(3) by (simp add: terminating_def last_held_def json_roundtrip_def)
  ultimately have phases: "reconcilePhases ?E s1 = removeNoobaa ?E s2"
    using b s2(1) by (simp add: reconcilePhases_def dispatchPhases_def deletionPhase_def thenA_run bindA_def getR_def
        readA_def terminating_def thenA_def)
  have fields: "ObjectMeta (rNoobaa (rc s2)) = ObjectMeta (json_roundtrip nb)"
    "rNoobaaBucketClass (rc s2) = rNoobaaBucketClass (rc s1)" "rNamespace (rc s2) = rNamespace (rc s1)"
    using updateComponentStatus_fields [of s1 nb ma un s2] wf nb(1) init s2(1) by auto
  have nkey: "object_key nb = noobaaKey req" using cluster_wf_tracked [OF wf nb(1)] by (simp add: obj_id_def)
  let ?s3 = "snd (removeNoobaa ?E s2)"
  have gone: "noobaa_gone req (wd ?s3)"
    by (rule removeNoobaa_gone [where nb = nb])
      (use wf req nb bc s2(2) fields init nkey in \<open>simp_all add: json_roundtrip_def object_key_def\<close>)
  have still: "resource_is req ob (wd ?s3)"
    using still.keeps_removeNoobaa [of req ob ma un] wf ob(1) s2(2) by (simp add: keepsA_def onW_def resource_is_def)
  have meta: "ObjectMeta (rManagedMCG (rc ?s3)) = ObjectMeta (json_roundtrip ob)"
    using anchored_removal(1) [of "anchor (rc s2)" ?E] s2(3) by (auto simp: keepsA_def kept_def anchor_def)
  obtain ob' where "resource_is req ob' (wd (snd (updateStatus ?E ?s3)))" "last_held ob'"
    using updateStatus_last_held [OF still ob(2) req(1) meta] by blast
  moreover have "noobaa_gone req (wd (snd (updateStatus ?E ?s3)))"
    using gone gone.keeps_updateStatus [of req ma un] by (simp add: keepsA_def onW_def)
  moreover have "wd (snd (reconcileFetched ?E s1)) = wd ?s3 \<or>
      wd (snd (reconcileFetched ?E s1)) = wd (snd (updateStatus ?E ?s3))"
    by (simp add: reconcileFetched_def bindA_tryA snd_bindA_if act_unfold phases split: prod.split outcome.split sum.split)
  ultimately show ?thesis
    using gone still ob(2) run s1_def by metis
qed

section \<open>The end of an uninstallation\<close>


definition pinnedNoobaa :: kobject where
  "pinnedNoobaa = untype kNooBaa ((newObj noobaaName ''ns'' zero_noobaa)\<lparr>ObjectMeta :=
     zero_meta\<lparr>mName := noobaaName, mNamespace := ''ns'', mResourceVersion := ''3'', mFinalizers := [noobaaFinalizer]\<rparr>\<rparr>)"

definition sampleBucketClass :: kobject where
  "sampleBucketClass = untype kBucketClass (newObj ''bc'' ''ns'' zero_bucket_class)"


end
