(* ===== verification/Claims.thy ===== *)
theory Claims
  imports Uninstall
begin

text \<open>
  The life of the claim of a bucket class against the in-memory server: the addition of the class
  creates it, the deletion of the class removes it again.
\<close>

section \<open>The claim that is created\<close>

definition createdClaim :: "bucket_class object \<Rightarrow> object_bucket_claim object" where
  "createdClaim bc = \<lparr>
     ObjectMeta = zero_meta\<lparr>mName := mName (ObjectMeta bc), mNamespace := getOBCCreationNamespace bc,
       mOwnerReferences := mOwnerReferences (ObjectMeta bc)\<rparr>,
     Body = zero_obc\<lparr>obcSpec := obcSpec (Body (desiredOBC (mName (ObjectMeta bc)) bc))\<rparr>\<rparr>"

abbreviation claimKey :: "bucket_class object \<Rightarrow> nn" where
  "claimKey bc \<equiv> \<lparr>nnNamespace = getOBCCreationNamespace bc, nnName = mName (ObjectMeta bc)\<rparr>"

lemma createdClaim_id:
  "obj_id (untype kObjectBucketClaim (createdClaim bc)) = (KObjectBucketClaim, claimKey bc)"
  "mName (ObjectMeta (createdClaim bc)) = mName (ObjectMeta bc)" "mResourceVersion (ObjectMeta (createdClaim bc)) = ''''"
  "mFinalizers (ObjectMeta (createdClaim bc)) = []"
  by (simp_all add: createdClaim_def obj_id_def untype_def object_key_def kObjectBucketClaim_def zero_meta_def)

lemma is_claim_created:
  "gm_lookup (mAnnotations (ObjectMeta bc)) McgmsObcNamespace = Some ns \<Longrightarrow>
   is_claim bc (setRV v (untype kObjectBucketClaim (createdClaim bc)))"
  by (simp add: is_claim_def claim_of_def setRV_def untype_def retype_def kObjectBucketClaim_def createdClaim_def
      object_key_def getOBCCreationNamespace_def)

lemma retype_setRV_claim: "retype kObjectBucketClaim (setRV v (untype kObjectBucketClaim x)) =
  Some (x\<lparr>ObjectMeta := (ObjectMeta x)\<lparr>mResourceVersion := v\<rparr>\<rparr>)"
  by (simp add: setRV_def untype_def retype_def kObjectBucketClaim_def)

lemma createOBC_run:
  assumes "tracked (wd s) KObjectBucketClaim (claimKey bc) = None" and "mName (ObjectMeta bc) \<noteq> ''''"
  shows "tracked (wd (snd (createOBC (fakeEnv ma un) bc s))) =
    put (setRV ''1'' (untype kObjectBucketClaim (createdClaim bc))) (tracked (wd s))"
proof -
  let ?new = "untype kObjectBucketClaim (createdClaim bc)"
  have "create_spec ?new (tracked (wd s)) = (Inr (setRV ''1'' ?new), put (setRV ''1'' ?new) (tracked (wd s)))"
    using assms createdClaim_id [of bc] by (auto simp: create_spec_def Let_def obj_id_def untype_def)
  then obtain w where create: "vt_Create ?new (wd s) = (Inr (setRV ''1'' ?new), w)"
    and w: "tracked w = put (setRV ''1'' ?new) (tracked (wd s))"
    using create_refines [of ?new "wd s"] by (cases "vt_Create ?new (wd s)") auto
  have meta: "mOwnerReferences (ObjectMeta (desiredOBC n bc)) = mOwnerReferences (ObjectMeta bc)" for n
    by (simp add: desiredOBC_def)
  have kind: "kdKind kObjectBucketClaim = KObjectBucketClaim" by (simp add: kObjectBucketClaim_def)
  show ?thesis
    using assms(1) create w
    by (simp add: createOBC_def setOBCDesiredState_def CreateOrUpdate_def mutateF_def mutateOBC_def getF_def
        createF_def clientGet_def clientCreate_def reqA_def decodeA_def keyF_def getR_def setR_def setF_def
        act_unfold Let_def fake_Get_def tracker_Get_def kind meta object_key_def newObj_def createdClaim_def
        retype_setRV_claim)
qed

section \<open>Adding and deleting a class\<close>

lemma bucketClassAdded_run:
  assumes "gm_lookup (mAnnotations (ObjectMeta bc)) McgmsObcNamespace = Some ns" and "bcPhase (Body bc) = READY"
    and "mName (ObjectMeta bc) \<noteq> ''''" and "tracked (wd s) KObjectBucketClaim (claimKey bc) = None"
  shows "tracked (wd (snd (bucketClassAdded (fakeEnv ma un) bc s))) =
    put (setRV ''1'' (untype kObjectBucketClaim (createdClaim bc))) (tracked (wd s))"
proof -
  let ?t = "s\<lparr>rc := rCtx_update (\<lambda>ctx. if \<not> ctx then True else ctx) (rc s)\<rparr>"
  have key: "object_key (newObjectBucketClaim bc) = claimKey bc"
    using assms(1) by (simp add: newObjectBucketClaim_def newObj_def object_key_def gm_str_def getOBCCreationNamespace_def)
  have "getObjectBucketClaim (fakeEnv ma un) bc ?t = (Ok None, ?t)"
    using assms(4)
    by (simp add: getObjectBucketClaim_def r_getLocal_eq act_unfold key fake_Get_def tracker_Get_def fetched_def
        kObjectBucketClaim_def)
  then have "bucketClassAdded (fakeEnv ma un) bc s = createOBC (fakeEnv ma un) bc ?t"
    using assms(1,2)
    by (simp add: bucketClassAdded_def isBucketClassCreationSuccess_def Let_def setR_def act_unfold)
  then show ?thesis using createOBC_run [of ?t bc ma un] assms(3,4) by simp
qed

text \<open>
  C25. With a ready bucket class that names the namespace of its claim, the addition of the class stores
  exactly its claim; the addition is not repeated by a second event; and the deletion of the class
  brings the server back to what it stored before.
\<close>

theorem bucket_claim_roundtrip:
  assumes "gm_lookup (mAnnotations (ObjectMeta bc)) McgmsObcNamespace = Some ns" and "bcPhase (Body bc) = READY"
    and "mName (ObjectMeta bc) \<noteq> ''''" and "tracked (wd s) KObjectBucketClaim (claimKey bc) = None"
  shows "let s1 = snd (bucketClassAdded (fakeEnv ma un) bc s);
             again = snd (bucketClassAdded (fakeEnv ma un) bc s1);
             s2 = snd (bucketClassDeleted (fakeEnv ma un) bc s1)
    in (\<exists>claim. is_claim bc claim \<and> tracked (wd s1) = put claim (tracked (wd s))) \<and>
       wd again = wd s1 \<and> tracked (wd s2) = tracked (wd s)"
proof -
  let ?claim = "setRV ''1'' (untype kObjectBucketClaim (createdClaim bc))"
  let ?s1 = "snd (bucketClassAdded (fakeEnv ma un) bc s)"
  have s1: "tracked (wd ?s1) = put ?claim (tracked (wd s))" by (rule bucketClassAdded_run [OF assms])
  have key: "object_key (newObjectBucketClaim bc) = claimKey bc"
    using assms(1) by (simp add: newObjectBucketClaim_def newObj_def object_key_def gm_str_def getOBCCreationNamespace_def)
  have kind: "kdKind kObjectBucketClaim = KObjectBucketClaim" by (simp add: kObjectBucketClaim_def)
  have id: "obj_kind ?claim = KObjectBucketClaim" "object_key ?claim = claimKey bc"
    using createdClaim_id(1) [of bc] by (simp_all add: obj_id_def)
  have there: "tracked (wd ?s1) KObjectBucketClaim (claimKey bc) = Some ?claim"
    using id by (simp add: s1 put_def)
  have "unpinned KObjectBucketClaim (claimKey bc) (wd ?s1)"
    using createdClaim_id(4) [of bc] by (simp add: unpinned_def there untype_def)
  then obtain w where "r_delete (fakeEnv ma un) kObjectBucketClaim (claimKey bc) ?s1 = (Ok (), ?s1\<lparr>wd := w\<rparr>)"
    and "tracked w = remove KObjectBucketClaim (claimKey bc) (tracked (wd ?s1))"
    using r_delete_unpinned [of kObjectBucketClaim "claimKey bc" ?s1 ma un] by (auto simp: kind)
  moreover have "remove KObjectBucketClaim (claimKey bc) (put ?claim (tracked (wd s))) = tracked (wd s)"
    using id assms(4) by (auto simp: remove_def put_def fun_eq_iff)
  ultimately have deleted: "tracked (wd (snd (bucketClassDeleted (fakeEnv ma un) bc ?s1))) = tracked (wd s)"
    by (simp add: bucketClassDeleted_def act_unfold key s1)
  have "retype kObjectBucketClaim (json_roundtrip ?claim) \<noteq> None"
    using tk_objectbucketclaim.retype_total [of "json_roundtrip ?claim"] id by (auto simp: kind)
  then have again: "wd (snd (bucketClassAdded (fakeEnv ma un) bc ?s1)) = wd ?s1"
    using assms(1,2) there
    by (auto simp: bucketClassAdded_def isBucketClassCreationSuccess_def getObjectBucketClaim_def r_getLocal_eq
        Let_def setR_def act_unfold key kind fake_Get_def tracker_Get_def fetched_def)
  show ?thesis
    using s1 again deleted is_claim_created [OF assms(1)] by (auto simp: Let_def)
qed

theorem bucket_claim_roundtrip_witness:
  "let bc = (newObj ''bc'' ''ns'' (zero_bucket_class\<lparr>bcPhase := READY\<rparr>))\<lparr>ObjectMeta :=
         zero_meta\<lparr>mName := ''bc'', mNamespace := ''ns'', mAnnotations := gm_of [(McgmsObcNamespace, ''app'')]\<rparr>\<rparr>;
       s = \<lparr>rc = sampleReconciler, wd = clusterOf []\<rparr>;
       s1 = snd (bucketClassAdded sampleEnv bc s)
   in (\<exists>claim. is_claim bc claim \<and> tracked (wd s1) = put claim (tracked (clusterOf []))) \<and>
      tracked (wd (snd (bucketClassDeleted sampleEnv bc s1))) = tracked (clusterOf [])"
  unfolding sampleEnv_def Let_def
  using bucket_claim_roundtrip [where s = "\<lparr>rc = sampleReconciler, wd = clusterOf []\<rparr>" and ns = "''app''"
      and bc = "(newObj ''bc'' ''ns'' (zero_bucket_class\<lparr>bcPhase := READY\<rparr>))\<lparr>ObjectMeta :=
         zero_meta\<lparr>mName := ''bc'', mNamespace := ''ns'', mAnnotations := gm_of [(McgmsObcNamespace, ''app'')]\<rparr>\<rparr>"
      and ma = "\<lambda>_. Inr ''yaml''" and un = "\<lambda>_ gs. Inr gs"]
  by (simp add: Let_def tracked_def clusterOf_def newObj_def)

end
