(* ===== verification/Prometheus_Spec.thy ===== *)
theory Prometheus_Spec
  imports Panics
begin

text \<open>
  What the mutation of the Prometheus object produces: the template with the image of the proxy, the
  namespace of Alertmanager, the relabelling secret and, where the RHOBS secret exists, the remote
  write section that its data and the configuration describe.
\<close>

section \<open>Remote write\<close>

definition remoteWriteFor :: "config \<Rightarrow> string \<Rightarrow> remote_write_spec" where
  "remoteWriteFor c audience = template_remote_write\<lparr>rwURL := RHOBSEndpoint c,
     rwOAuth2 := Some \<lparr>
       oaClientIDSecret = Some (zero_selector\<lparr>sksName := RHOBSSecretName c,
         sksKey := rhobsRemoteWriteConfigIDSecretKey\<rparr>),
       oaClientSecret = zero_selector\<lparr>sksName := RHOBSSecretName c, sksKey := rhobsRemoteWriteConfigSecretName\<rparr>,
       oaTokenURL = RHSSOTokenEndpoint c, oaEndpointParams = gm_of [(''audience'', audience)], oaRest = ''''\<rparr>\<rparr>"

lemma configureRemoteWriteSpec_eq:
  "configureRemoteWriteSpec c audience template_remote_write = Ok (remoteWriteFor c audience)"
  by (simp add: configureRemoteWriteSpec_def template_remote_write_def remoteWriteFor_def gm_put_def gm_of_def)

text \<open>The section as a function of the secret that was read.\<close>

definition remoteWriteOf :: "config \<Rightarrow> string gomap object \<Rightarrow> remote_write_spec list option" where
  "remoteWriteOf c secret =
     (if mUID (ObjectMeta secret) = '''' then Some []
      else case (gm_lookup (Body secret) rhobsRemoteWriteConfigIDSecretKey,
                 gm_lookup (Body secret) rhobsRemoteWriteConfigSecretName,
                 gm_lookup (Body secret) ''rhobs-audience'') of
        (Some _, Some _, Some audience) \<Rightarrow> Some [remoteWriteFor c audience]
      | _ \<Rightarrow> None)"

lemma configureRHOBS_fetched_Ok:
  assumes "remote_write_set (promSpec (Body (rPrometheus (rc s))))"
    and "configureRHOBS_fetched s = (Ok u, s')"
  shows "\<exists>rws. remoteWriteOf (rCfg (rc s)) (rRhobsRemoteWriteConfigSecret (rc s)) = Some rws \<and>
    s' = s\<lparr>rc := rPrometheus_update (\<lambda>ob. ob\<lparr>Body := (Body ob)\<lparr>promSpec := (promSpec (Body ob))\<lparr>
      psRemoteWrite := rws\<rparr>\<rparr>\<rparr>) (rc s)\<rparr>"
  using assms
  by (auto simp: configureRHOBS_fetched_def setRemoteWrite0_def remote_write_set_def remoteWriteOf_def
      configureRemoteWriteSpec_eq getR_def readA_def liftA_def setBody_run failA_def Let_def bindA_def comp_def
      split: option.splits if_splits)

lemma configureRHOBSRemoteWrite_Ok:
  assumes "remote_write_set (promSpec (Body (rPrometheus (rc s))))"
    and "configureRHOBSRemoteWrite E s = (Ok u, s')"
  shows "\<exists>rws. remoteWriteOf (rCfg (rc s)) (rRhobsRemoteWriteConfigSecret (rc s')) = Some rws \<and>
    rCfg (rc s') = rCfg (rc s) \<and> rNamespace (rc s') = rNamespace (rc s) \<and> rManagedMCG (rc s') = rManagedMCG (rc s) \<and>
    rPrometheus (rc s') = (rPrometheus (rc s))\<lparr>Body := (Body (rPrometheus (rc s)))\<lparr>promSpec :=
      (promSpec (Body (rPrometheus (rc s))))\<lparr>psRemoteWrite := rws\<rparr>\<rparr>\<rparr>"
proof -
  let ?t = "snd (r_get E kSecret fRhobsRemoteWriteConfigSecret s)"
  have "configureRHOBS_fetched ?t = (Ok u, s')"
    using assms(2) r_get_no_panic [of E kSecret fRhobsRemoteWriteConfigSecret s]
    by (auto simp: configureRHOBSRemoteWrite_def bindA_tryA failA_def split: prod.splits outcome.splits if_splits)
  moreover obtain f w where t: "?t = s\<lparr>wd := w, rc := f (rc s)\<rparr>"
    and "f = id \<or> (\<exists>x. f = rRhobsRemoteWriteConfigSecret_update (\<lambda>_. x))"
    using r_get_rc [of E kSecret fRhobsRemoteWriteConfigSecret s] by auto
  moreover from this assms(1) have "remote_write_set (promSpec (Body (rPrometheus (rc ?t))))" by auto
  ultimately show ?thesis using configureRHOBS_fetched_Ok [of ?t u s'] by auto
qed

section \<open>The whole object\<close>

lemma getCSVByPrefix_rc: "getCSVByPrefix E n s = (Ok csv', t) \<Longrightarrow> \<exists>w. t = s\<lparr>wd := w\<rparr>"
  by (auto simp: getCSVByPrefix_def r_list_def clientList_def reqA_def getR_def act_unfold
      split: prod.splits sum.splits option.splits outcome.splits)

lemma getCSVByPrefix_prefix: "getCSVByPrefix E n s = (Ok csv', t) \<Longrightarrow> has_prefix (mName (ObjectMeta csv')) n"
  by (auto simp: getCSVByPrefix_def retA_def failA_def elim!: bindA_Ok dest!: find_SomeD split: option.splits)

definition prometheusSpecFor :: "string \<Rightarrow> string \<Rightarrow> remote_write_spec list \<Rightarrow> prometheus_spec" where
  "prometheusSpecFor img ns rws = PrometheusTemplate\<lparr>
     psContainers := set_proxy_image img (psContainers PrometheusTemplate),
     psAlerting := Some [\<lparr>aeNamespace = ns, aeName = ''alertmanager-operated'',
       aePort = intstr_FromString ''web'', aeRest = ''''\<rparr>],
     psAdditionalAlertRelabelConfigs := Some (zero_selector\<lparr>sksName := alertRelabelConfigSecretName,
       sksKey := alertRelabelConfigSecretKey\<rparr>),
     psRemoteWrite := rws\<rparr>"

lemma afterTemplate_Ok:
  assumes "promSpec (Body (rPrometheus (rc s))) = PrometheusTemplate\<lparr>psContainers := cs\<rparr>"
    and "cs = set_proxy_image img (psContainers PrometheusTemplate)"
    and "thenA (setAlertmanagerNamespace ns) (thenA (setBody fPrometheus (\<lambda>b. b\<lparr>promSpec := (promSpec b)\<lparr>
      psAdditionalAlertRelabelConfigs := Some (zero_selector\<lparr>sksName := alertRelabelConfigSecretName,
        sksKey := alertRelabelConfigSecretKey\<rparr>)\<rparr>\<rparr>)) (configureRHOBSRemoteWrite E)) s = (Ok u, s')"
  shows "\<exists>rws. remoteWriteOf (rCfg (rc s)) (rRhobsRemoteWriteConfigSecret (rc s')) = Some rws \<and>
    rCfg (rc s') = rCfg (rc s) \<and> rNamespace (rc s') = rNamespace (rc s) \<and> rManagedMCG (rc s') = rManagedMCG (rc s) \<and>
    ObjectMeta (rPrometheus (rc s')) = ObjectMeta (rPrometheus (rc s)) \<and>
    promSpec (Body (rPrometheus (rc s'))) = prometheusSpecFor img ns rws"
proof -
  let ?t = "s\<lparr>rc := rPrometheus_update (\<lambda>ob. ob\<lparr>Body := (Body ob)\<lparr>promSpec := (promSpec (Body ob))\<lparr>
      psAlerting := Some [\<lparr>aeNamespace = ns, aeName = ''alertmanager-operated'',
       aePort = intstr_FromString ''web'', aeRest = ''''\<rparr>],
      psAdditionalAlertRelabelConfigs := Some (zero_selector\<lparr>sksName := alertRelabelConfigSecretName,
        sksKey := alertRelabelConfigSecretKey\<rparr>)\<rparr>\<rparr>\<rparr>) (rc s)\<rparr>"
  have "configureRHOBSRemoteWrite E ?t = (Ok u, s')"
    using assms(1,3)
    by (simp add: setAlertmanagerNamespace_def bindA_getR thenA_run setBody_run PrometheusTemplate_def comp_def)
  from configureRHOBSRemoteWrite_Ok [OF _ this] show ?thesis
    using assms(1,2) by (auto simp: remote_write_set_def PrometheusTemplate_def prometheusSpecFor_def)
qed


end
