(* ===== verification/Deep_Copy.thy ===== *)
theory Deep_Copy
  imports Api_Types
begin

text \<open>
  The generated deep copies (\<open>api/v1alpha1/zz_generated.deepcopy.go\<close>, with those of the embedded
  metadata from \<open>apimachinery\<close>) over an explicit heap, where pointers, maps and the backing arrays of
  slices have addresses. Everywhere else the model treats objects as values and a copy as the
  identity; what entitles it to do so is shown here: a copy has the same contents and shares no
  memory with anything that existed before.
\<close>

section \<open>The heap\<close>

type_synonym ref = "nat option"

record type_meta =
  tmKind :: string
  tmAPIVersion :: string

record g_owner =
  goAPIVersion :: string
  goKind :: string
  goName :: string
  goUID :: string
  goController :: ref
  goBlockOwnerDeletion :: ref

record g_fields_v1 =
  gfRaw :: ref

record g_managed =
  gmManager :: string
  gmOperation :: string
  gmAPIVersion :: string
  gmTime :: ref
  gmFieldsType :: string
  gmFieldsV1 :: ref
  gmSubresource :: string

record g_meta =
  gName :: string
  gGenerateName :: string
  gNamespace :: string
  gSelfLink :: string
  gUID :: string
  gResourceVersion :: string
  gGeneration :: "64 word"
  gCreationTimestamp :: nat
  gDeletionTimestamp :: ref
  gDeletionGracePeriodSeconds :: ref
  gLabels :: ref
  gAnnotations :: ref
  gOwnerReferences :: ref
  gFinalizers :: ref
  gClusterName :: string
  gManagedFields :: ref

record g_list_meta =
  glSelfLink :: string
  glResourceVersion :: string
  glContinue :: string
  glRemainingItemCount :: ref

record g_mcg =
  gTypeMeta :: type_meta
  gObjectMeta :: g_meta
  gSpec :: managedmcg_spec
  gStatus :: managedmcg_status

record g_mcg_list =
  gListTypeMeta :: type_meta
  gListMeta :: g_list_meta
  gItems :: ref

datatype cell =
    CBool bool | CInt "64 word" | CTime nat | CMap "(string, string) fmap" | CStrings "string list"
  | CBytes "8 word list" | COwners "g_owner list" | CFields g_fields_v1 | CManaged "g_managed list"
  | CItems "g_mcg list" | CMCG g_mcg | CList g_mcg_list | CState component_state
  | CStates component_status_map | CSpec managedmcg_spec | CStatus managedmcg_status

type_synonym heap = "cell list"
type_synonym 'a hact = "(heap, 'a) act"

definition newA :: "cell \<Rightarrow> nat hact" where
  "newA c = (\<lambda>h. (Ok (length h), h @ [c]))"

definition storeA :: "nat \<Rightarrow> cell \<Rightarrow> unit hact" where
  "storeA a c = (\<lambda>h. (Ok (), h[a := c]))"

definition loadA :: "(cell \<Rightarrow> 'a option) \<Rightarrow> nat \<Rightarrow> 'a hact" where
  "loadA prj a = (\<lambda>h.
     case (if a < length h then prj (h ! a) else None) of
       None \<Rightarrow> (Panic ''invalid memory address'', h) | Some x \<Rightarrow> (Ok x, h))"

text \<open>
  How a Go type is kept in a cell: the cell of a value, the value of a cell, and the fresh value
  that \<open>new\<close> or \<open>make\<close> builds before it is filled from the source.
\<close>

record 'a tag =
  tInj :: "'a \<Rightarrow> cell"
  tPrj :: "cell \<Rightarrow> 'a option"
  tNew :: "'a \<Rightarrow> 'a"

section \<open>Copies\<close>

text \<open>
  \<open>if in.F != nil { in, out := &in.F, &out.F; *out = new(T); (*in).DeepCopyInto(*out) }\<close>: the cell
  is allocated before it is filled. \<open>DeepCopy\<close> has the same shape.
\<close>

definition ptr_copy :: "'a tag \<Rightarrow> ('a \<Rightarrow> 'a hact) \<Rightarrow> ref \<Rightarrow> ref hact" where
  "ptr_copy t copy in' =
     (case in' of
        None \<Rightarrow> retA None
      | Some a \<Rightarrow>
          bindA (loadA (tPrj t) a) (\<lambda>x.
          bindA (newA (tInj t (tNew t x))) (\<lambda>p.
          bindA (copy x) (\<lambda>y.
          thenA (storeA p (tInj t y)) (retA (Some p))))))"

text \<open>\<open>for i := range *in { (*in)[i].DeepCopyInto(&(*out)[i]) }\<close>\<close>

primrec list_copy :: "('a \<Rightarrow> 'a hact) \<Rightarrow> 'a list \<Rightarrow> 'a list hact" where
  "list_copy copy [] = retA []"
| "list_copy copy (x # xs) = bindA (copy x) (\<lambda>y. bindA (list_copy copy xs) (\<lambda>ys. retA (y # ys)))"

definition zero_owner :: g_owner where
  "zero_owner = \<lparr>goAPIVersion = '''', goKind = '''', goName = '''', goUID = '''', goController = None,
     goBlockOwnerDeletion = None\<rparr>"

definition zero_fields :: g_fields_v1 where
  "zero_fields = \<lparr>gfRaw = None\<rparr>"

definition zero_managed :: g_managed where
  "zero_managed = \<lparr>gmManager = '''', gmOperation = '''', gmAPIVersion = '''', gmTime = None, gmFieldsType = '''',
     gmFieldsV1 = None, gmSubresource = ''''\<rparr>"

definition zero_g_meta :: g_meta where
  "zero_g_meta = \<lparr>gName = '''', gGenerateName = '''', gNamespace = '''', gSelfLink = '''', gUID = '''',
     gResourceVersion = '''', gGeneration = 0, gCreationTimestamp = 0, gDeletionTimestamp = None,
     gDeletionGracePeriodSeconds = None, gLabels = None, gAnnotations = None, gOwnerReferences = None,
     gFinalizers = None, gClusterName = '''', gManagedFields = None\<rparr>"

definition zero_states :: component_status_map where
  "zero_states = \<lparr>csNoobaa = '''', csPrometheus = '''', csAlertmanager = '''', csConsole = ''''\<rparr>"

definition zero_g_mcg :: g_mcg where
  "zero_g_mcg = \<lparr>gTypeMeta = \<lparr>tmKind = '''', tmAPIVersion = ''''\<rparr>, gObjectMeta = zero_g_meta,
     gSpec = \<lparr>msReconcileStrategy = ''''\<rparr>,
     gStatus = \<lparr>mstReconcileStrategy = '''', mstComponents = zero_states\<rparr>\<rparr>"

definition zero_g_list :: g_mcg_list where
  "zero_g_list = \<lparr>gListTypeMeta = \<lparr>tmKind = '''', tmAPIVersion = ''''\<rparr>,
     gListMeta = \<lparr>glSelfLink = '''', glResourceVersion = '''', glContinue = '''', glRemainingItemCount = None\<rparr>,
     gItems = None\<rparr>"

abbreviation zeros :: "'a \<Rightarrow> 'a list \<Rightarrow> 'a list" where
  "zeros z xs \<equiv> replicate (length xs) z"

definition tBool :: "bool tag" where
  "tBool = \<lparr>tInj = CBool, tPrj = (\<lambda>c. case c of CBool x \<Rightarrow> Some x | _ \<Rightarrow> None), tNew = (\<lambda>_. False)\<rparr>"

definition tInt :: "64 word tag" where
  "tInt = \<lparr>tInj = CInt, tPrj = (\<lambda>c. case c of CInt x \<Rightarrow> Some x | _ \<Rightarrow> None), tNew = (\<lambda>_. 0)\<rparr>"

definition tTime :: "nat tag" where
  "tTime = \<lparr>tInj = CTime, tPrj = (\<lambda>c. case c of CTime x \<Rightarrow> Some x | _ \<Rightarrow> None), tNew = (\<lambda>_. 0)\<rparr>"

definition tMap :: "(string, string) fmap tag" where
  "tMap = \<lparr>tInj = CMap, tPrj = (\<lambda>c. case c of CMap x \<Rightarrow> Some x | _ \<Rightarrow> None), tNew = (\<lambda>_. fmempty)\<rparr>"

definition tStrings :: "string list tag" where
  "tStrings = \<lparr>tInj = CStrings, tPrj = (\<lambda>c. case c of CStrings x \<Rightarrow> Some x | _ \<Rightarrow> None), tNew = zeros ''''\<rparr>"

definition tBytes :: "8 word list tag" where
  "tBytes = \<lparr>tInj = CBytes, tPrj = (\<lambda>c. case c of CBytes x \<Rightarrow> Some x | _ \<Rightarrow> None), tNew = zeros 0\<rparr>"

definition tOwners :: "g_owner list tag" where
  "tOwners = \<lparr>tInj = COwners, tPrj = (\<lambda>c. case c of COwners x \<Rightarrow> Some x | _ \<Rightarrow> None), tNew = zeros zero_owner\<rparr>"

definition tFields :: "g_fields_v1 tag" where
  "tFields = \<lparr>tInj = CFields, tPrj = (\<lambda>c. case c of CFields x \<Rightarrow> Some x | _ \<Rightarrow> None), tNew = (\<lambda>_. zero_fields)\<rparr>"

definition tManaged :: "g_managed list tag" where
  "tManaged = \<lparr>tInj = CManaged, tPrj = (\<lambda>c. case c of CManaged x \<Rightarrow> Some x | _ \<Rightarrow> None),
     tNew = zeros zero_managed\<rparr>"

definition tItems :: "g_mcg list tag" where
  "tItems = \<lparr>tInj = CItems, tPrj = (\<lambda>c. case c of CItems x \<Rightarrow> Some x | _ \<Rightarrow> None), tNew = zeros zero_g_mcg\<rparr>"

definition tMCG :: "g_mcg tag" where
  "tMCG = \<lparr>tInj = CMCG, tPrj = (\<lambda>c. case c of CMCG x \<Rightarrow> Some x | _ \<Rightarrow> None), tNew = (\<lambda>_. zero_g_mcg)\<rparr>"

definition tList :: "g_mcg_list tag" where
  "tList = \<lparr>tInj = CList, tPrj = (\<lambda>c. case c of CList x \<Rightarrow> Some x | _ \<Rightarrow> None), tNew = (\<lambda>_. zero_g_list)\<rparr>"

definition tState :: "component_state tag" where
  "tState = \<lparr>tInj = CState, tPrj = (\<lambda>c. case c of CState x \<Rightarrow> Some x | _ \<Rightarrow> None), tNew = (\<lambda>_. '''')\<rparr>"

definition tStates :: "component_status_map tag" where
  "tStates = \<lparr>tInj = CStates, tPrj = (\<lambda>c. case c of CStates x \<Rightarrow> Some x | _ \<Rightarrow> None), tNew = (\<lambda>_. zero_states)\<rparr>"

definition tSpec :: "managedmcg_spec tag" where
  "tSpec = \<lparr>tInj = CSpec, tPrj = (\<lambda>c. case c of CSpec x \<Rightarrow> Some x | _ \<Rightarrow> None),
     tNew = (\<lambda>_. \<lparr>msReconcileStrategy = ''''\<rparr>)\<rparr>"

definition tStatus :: "managedmcg_status tag" where
  "tStatus = \<lparr>tInj = CStatus, tPrj = (\<lambda>c. case c of CStatus x \<Rightarrow> Some x | _ \<Rightarrow> None),
     tNew = (\<lambda>_. \<lparr>mstReconcileStrategy = '''', mstComponents = zero_states\<rparr>)\<rparr>"

section \<open>The embedded metadata\<close>

definition owner_DeepCopyInto :: "g_owner \<Rightarrow> g_owner hact" where
  "owner_DeepCopyInto in' =
     bindA (ptr_copy tBool retA (goController in')) (\<lambda>controller.
     bindA (ptr_copy tBool retA (goBlockOwnerDeletion in')) (\<lambda>block.
       retA (in'\<lparr>goController := controller, goBlockOwnerDeletion := block\<rparr>)))"

definition fields_DeepCopyInto :: "g_fields_v1 \<Rightarrow> g_fields_v1 hact" where
  "fields_DeepCopyInto in' =
     bindA (ptr_copy tBytes retA (gfRaw in')) (\<lambda>raw. retA (in'\<lparr>gfRaw := raw\<rparr>))"

definition managed_DeepCopyInto :: "g_managed \<Rightarrow> g_managed hact" where
  "managed_DeepCopyInto in' =
     bindA (ptr_copy tTime retA (gmTime in')) (\<lambda>time.
     bindA (ptr_copy tFields fields_DeepCopyInto (gmFieldsV1 in')) (\<lambda>fields.
       retA (in'\<lparr>gmTime := time, gmFieldsV1 := fields\<rparr>)))"

definition meta_DeepCopyInto :: "g_meta \<Rightarrow> g_meta hact" where
  "meta_DeepCopyInto in' =
     bindA (ptr_copy tTime retA (gDeletionTimestamp in')) (\<lambda>deletion.
     bindA (ptr_copy tInt retA (gDeletionGracePeriodSeconds in')) (\<lambda>grace.
     bindA (ptr_copy tMap retA (gLabels in')) (\<lambda>labels.
     bindA (ptr_copy tMap retA (gAnnotations in')) (\<lambda>annotations.
     bindA (ptr_copy tOwners (list_copy owner_DeepCopyInto) (gOwnerReferences in')) (\<lambda>owners.
     bindA (ptr_copy tStrings retA (gFinalizers in')) (\<lambda>finalizers.
     bindA (ptr_copy tManaged (list_copy managed_DeepCopyInto) (gManagedFields in')) (\<lambda>managed.
       retA (in'\<lparr>gDeletionTimestamp := deletion, gDeletionGracePeriodSeconds := grace, gLabels := labels,
         gAnnotations := annotations, gOwnerReferences := owners, gFinalizers := finalizers,
         gManagedFields := managed\<rparr>))))))))"

definition list_meta_DeepCopyInto :: "g_list_meta \<Rightarrow> g_list_meta hact" where
  "list_meta_DeepCopyInto in' =
     bindA (ptr_copy tInt retA (glRemainingItemCount in')) (\<lambda>count.
       retA (in'\<lparr>glRemainingItemCount := count\<rparr>))"

section \<open>The types of the operator\<close>

text \<open>What each method leaves in \<open>*out\<close>; structs of strings are copied by the assignment alone.\<close>

definition ComponentStatus_DeepCopyInto :: "component_state \<Rightarrow> component_state hact" where
  "ComponentStatus_DeepCopyInto in' = retA in'"

definition ComponentStatusMap_DeepCopyInto :: "component_status_map \<Rightarrow> component_status_map hact" where
  "ComponentStatusMap_DeepCopyInto in' =
     (let out = in' in
      retA (out\<lparr>csNoobaa := csNoobaa in', csPrometheus := csPrometheus in',
        csAlertmanager := csAlertmanager in', csConsole := csConsole in'\<rparr>))"

definition ManagedMCGSpec_DeepCopyInto :: "managedmcg_spec \<Rightarrow> managedmcg_spec hact" where
  "ManagedMCGSpec_DeepCopyInto in' = retA in'"

definition ManagedMCGStatus_DeepCopyInto :: "managedmcg_status \<Rightarrow> managedmcg_status hact" where
  "ManagedMCGStatus_DeepCopyInto in' =
     (let out = in' in retA (out\<lparr>mstComponents := mstComponents in'\<rparr>))"

definition ManagedMCG_DeepCopyInto :: "g_mcg \<Rightarrow> g_mcg hact" where
  "ManagedMCG_DeepCopyInto in' =
     (let out = in'\<lparr>gTypeMeta := gTypeMeta in'\<rparr> in
      bindA (meta_DeepCopyInto (gObjectMeta in')) (\<lambda>meta.
        retA (out\<lparr>gObjectMeta := meta, gSpec := gSpec in', gStatus := gStatus in'\<rparr>)))"

definition ManagedMCGList_DeepCopyInto :: "g_mcg_list \<Rightarrow> g_mcg_list hact" where
  "ManagedMCGList_DeepCopyInto in' =
     (let out = in'\<lparr>gListTypeMeta := gListTypeMeta in'\<rparr> in
      bindA (list_meta_DeepCopyInto (gListMeta in')) (\<lambda>meta.
      bindA (ptr_copy tItems (list_copy ManagedMCG_DeepCopyInto) (gItems in')) (\<lambda>items.
        retA (out\<lparr>gListMeta := meta, gItems := items\<rparr>))))"

text \<open>\<open>DeepCopy\<close>: a nil pointer is returned, anything else is copied into a new struct.\<close>

definition ComponentStatus_DeepCopy :: "ref \<Rightarrow> ref hact" where
  "ComponentStatus_DeepCopy = ptr_copy tState ComponentStatus_DeepCopyInto"

definition ComponentStatusMap_DeepCopy :: "ref \<Rightarrow> ref hact" where
  "ComponentStatusMap_DeepCopy = ptr_copy tStates ComponentStatusMap_DeepCopyInto"

definition ManagedMCGSpec_DeepCopy :: "ref \<Rightarrow> ref hact" where
  "ManagedMCGSpec_DeepCopy = ptr_copy tSpec ManagedMCGSpec_DeepCopyInto"

definition ManagedMCGStatus_DeepCopy :: "ref \<Rightarrow> ref hact" where
  "ManagedMCGStatus_DeepCopy = ptr_copy tStatus ManagedMCGStatus_DeepCopyInto"

definition ManagedMCG_DeepCopy :: "ref \<Rightarrow> ref hact" where
  "ManagedMCG_DeepCopy = ptr_copy tMCG ManagedMCG_DeepCopyInto"

definition ManagedMCGList_DeepCopy :: "ref \<Rightarrow> ref hact" where
  "ManagedMCGList_DeepCopy = ptr_copy tList ManagedMCGList_DeepCopyInto"

text \<open>
  \<open>DeepCopyObject\<close> returns an interface: \<open>None\<close> is the nil interface, \<open>Some r\<close> an interface that
  holds the pointer \<open>r\<close>. A nil pointer must not become an interface that is not nil.
\<close>

definition as_object :: "ref hact \<Rightarrow> ref option hact" where
  "as_object copy = bindA copy (\<lambda>c. case c of Some p \<Rightarrow> retA (Some (Some p)) | None \<Rightarrow> retA None)"

definition ManagedMCG_DeepCopyObject :: "ref \<Rightarrow> ref option hact" where
  "ManagedMCG_DeepCopyObject in' = as_object (ManagedMCG_DeepCopy in')"

definition ManagedMCGList_DeepCopyObject :: "ref \<Rightarrow> ref option hact" where
  "ManagedMCGList_DeepCopyObject in' = as_object (ManagedMCGList_DeepCopy in')"

section \<open>The contract of a copy\<close>

text \<open>
  \<open>same h x h' y\<close>: \<open>x\<close> in the heap \<open>h\<close> and \<open>y\<close> in \<open>h'\<close> have the same contents, all pointers followed;
  with itself a value is \<open>same\<close> when all its pointers lead to cells of the right type. \<open>cells h x\<close> is
  the memory that belongs to \<open>x\<close>. What a value is depends on its own memory only, and a copy has
  the same contents, in memory that is all new.
\<close>

definition agree :: "nat set \<Rightarrow> heap \<Rightarrow> heap \<Rightarrow> bool" where
  "agree A h h' \<longleftrightarrow> (\<forall>a\<in>A. a < length h \<and> a < length h' \<and> h' ! a = h ! a)"

locale copyable =
  fixes same :: "heap \<Rightarrow> 'a \<Rightarrow> heap \<Rightarrow> 'a \<Rightarrow> bool" and cells :: "heap \<Rightarrow> 'a \<Rightarrow> nat set"
    and copy :: "'a \<Rightarrow> 'a hact"
  assumes same_sym: "same h x h' y \<Longrightarrow> same h' y h x"
    and same_trans: "same h x h' y \<Longrightarrow> same h' y h'' z \<Longrightarrow> same h x h'' z"
    and same_cells: "same h x h' y \<Longrightarrow> a \<in> cells h' y \<Longrightarrow> a < length h'"
    and same_local: "same h x h x \<Longrightarrow> agree (cells h x) h h' \<Longrightarrow> same h x h' x \<and> cells h' x = cells h x"
    and copy_fresh: "same h x h x \<Longrightarrow>
      \<exists>y h'. copy x h = (Ok y, h') \<and> prefix h h' \<and> same h x h' y \<and> cells h' y \<subseteq> {length h..<length h'}"
begin

lemma same_right: "same h x h' y \<Longrightarrow> agree (cells h' y) h' h'' \<Longrightarrow> same h x h'' y \<and> cells h'' y = cells h' y"
  using same_local [of h' y h''] same_trans [of h x h' y h'' y] same_sym same_trans by blast

lemma same_refl: "same h x h' y \<Longrightarrow> same h x h x" "same h x h' y \<Longrightarrow> same h' y h' y"
  using same_sym same_trans by blast+

lemma prefix_agree: "prefix h h' \<Longrightarrow> same h x h x \<Longrightarrow> agree (cells h x) h h'"
  using same_cells [of h x h x] by (auto simp: agree_def prefix_def nth_append) (metis trans_less_add1)

lemma same_prefix: "same h x h x \<Longrightarrow> prefix h h' \<Longrightarrow> same h x h' x \<and> cells h' x = cells h x"
  using same_local prefix_agree by blast

text \<open>A copy made later, when the heap has grown, is still a copy of the value it was made from.\<close>

lemma copy_later:
  assumes "same h0 x h0 x" and "prefix h0 h"
  obtains y h' where "copy x h = (Ok y, h')" and "prefix h h'" and "same h0 x h' y"
    and "cells h' y \<subseteq> {length h..<length h'}"
  using copy_fresh [of h x] same_prefix [OF assms] same_refl same_trans by metis

end

section \<open>Contracts from contracts\<close>

lemma copyable_flat: "copyable (\<lambda>h x h' y. x = y) (\<lambda>_ _. {}) retA"
  by unfold_locales (auto simp: retA_def)

definition list_same :: "(heap \<Rightarrow> 'a \<Rightarrow> heap \<Rightarrow> 'a \<Rightarrow> bool) \<Rightarrow> heap \<Rightarrow> 'a list \<Rightarrow> heap \<Rightarrow> 'a list \<Rightarrow> bool" where
  "list_same S h xs h' ys = list_all2 (\<lambda>x y. S h x h' y) xs ys"

definition list_cells :: "(heap \<Rightarrow> 'a \<Rightarrow> nat set) \<Rightarrow> heap \<Rightarrow> 'a list \<Rightarrow> nat set" where
  "list_cells C h xs = (\<Union>x\<in>set xs. C h x)"

definition ptr_same ::
  "'a tag \<Rightarrow> (heap \<Rightarrow> 'a \<Rightarrow> heap \<Rightarrow> 'a \<Rightarrow> bool) \<Rightarrow> heap \<Rightarrow> ref \<Rightarrow> heap \<Rightarrow> ref \<Rightarrow> bool" where
  "ptr_same t S h r h' r' =
     (case r of None \<Rightarrow> r' = None
      | Some a \<Rightarrow> (case r' of None \<Rightarrow> False
          | Some b \<Rightarrow> a < length h \<and> b < length h' \<and>
              (\<exists>x y. tPrj t (h ! a) = Some x \<and> tPrj t (h' ! b) = Some y \<and> S h x h' y)))"

definition ptr_cells :: "'a tag \<Rightarrow> (heap \<Rightarrow> 'a \<Rightarrow> nat set) \<Rightarrow> heap \<Rightarrow> ref \<Rightarrow> nat set" where
  "ptr_cells t C h r =
     (case r of None \<Rightarrow> {}
      | Some a \<Rightarrow> insert a (case tPrj t (h ! a) of None \<Rightarrow> {} | Some x \<Rightarrow> C h x))"

definition tag_ok :: "'a tag \<Rightarrow> bool" where
  "tag_ok t \<longleftrightarrow> (\<forall>x. tPrj t (tInj t x) = Some x)"

lemma agree_Un [simp]: "agree (A \<union> B) h h' \<longleftrightarrow> agree A h h' \<and> agree B h h'"
  by (auto simp: agree_def)

lemma agree_UN: "agree (\<Union>x\<in>X. f x) h h' \<longleftrightarrow> (\<forall>x\<in>X. agree (f x) h h')"
  by (auto simp: agree_def)

lemma agree_insert: "agree (insert a A) h h' \<longleftrightarrow> a < length h \<and> a < length h' \<and> h' ! a = h ! a \<and> agree A h h'"
  by (auto simp: agree_def)

lemma prefix_store: "prefix h h' \<Longrightarrow> prefix h (h'[length h := c])"
  by (auto simp: prefix_def list_update_append)

lemma prefix_length: "prefix h h' \<Longrightarrow> length h \<le> length h'"
  by (rule prefix_length_le)

context copyable
begin

lemma list_fresh:
  assumes "list_same same h0 xs h0 xs" and "prefix h0 h"
  shows "\<exists>ys h'. list_copy copy xs h = (Ok ys, h') \<and> prefix h h' \<and> list_same same h0 xs h' ys \<and>
    list_cells cells h' ys \<subseteq> {length h..<length h'}"
  using assms
proof (induction xs arbitrary: h)
  case Nil
  then show ?case by (simp add: retA_def list_same_def list_cells_def)
next
  case (Cons x xs)
  from Cons.prems have x: "same h0 x h0 x" and xs: "list_same same h0 xs h0 xs" by (simp_all add: list_same_def)
  obtain y h1 where y: "copy x h = (Ok y, h1)" "prefix h h1" "same h0 x h1 y" "cells h1 y \<subseteq> {length h..<length h1}"
    using copy_later [OF x Cons.prems(2)] .
  have "prefix h0 h1" using Cons.prems(2) y(2) by (rule prefix_order.trans)
  from Cons.IH [OF xs this] obtain ys h2 where ys: "list_copy copy xs h1 = (Ok ys, h2)" "prefix h1 h2"
    "list_same same h0 xs h2 ys" "list_cells cells h2 ys \<subseteq> {length h1..<length h2}" by blast
  have "same h0 x h2 y \<and> cells h2 y = cells h1 y"
    using same_right [OF y(3)] prefix_agree [OF ys(2)] same_refl [OF y(3)] by blast
  moreover have "prefix h h2" using y(2) ys(2) by (rule prefix_order.trans)
  ultimately show ?case
    using y ys prefix_length [OF y(2)] prefix_length [OF ys(2)]
    by (auto simp: bindA_def retA_def list_same_def list_cells_def)
qed

lemma list_same_sym: "list_same same h x h' y \<Longrightarrow> list_same same h' y h x"
  unfolding list_same_def by (induction rule: list_all2_induct) (auto intro: same_sym)

lemma list_same_trans: "list_same same h x h' y \<Longrightarrow> list_same same h' y h'' z \<Longrightarrow> list_same same h x h'' z"
  unfolding list_same_def by (rule list_all2_trans [OF same_trans])

lemma list_same_cells: "list_same same h x h' y \<Longrightarrow> a \<in> list_cells cells h' y \<Longrightarrow> a < length h'"
  unfolding list_same_def list_cells_def by (induction rule: list_all2_induct) (auto dest: same_cells)

lemma list_same_local:
  "list_same same h xs h xs \<Longrightarrow> agree (list_cells cells h xs) h h' \<Longrightarrow>
   list_same same h xs h' xs \<and> list_cells cells h' xs = list_cells cells h xs"
  by (induction xs) (auto simp: list_same_def list_cells_def dest: same_local)

lemma copyable_list: "copyable (list_same same) (list_cells cells) (list_copy copy)"
  by unfold_locales
    (blast intro: list_same_sym list_same_trans dest: list_same_cells list_same_local list_fresh [OF _ prefix_order.refl])+

lemma ptr_fresh:
  assumes "tag_ok t" and "ptr_same t same h r h r"
  shows "\<exists>y h'. ptr_copy t copy r h = (Ok y, h') \<and> prefix h h' \<and> ptr_same t same h r h' y \<and>
    ptr_cells t cells h' y \<subseteq> {length h..<length h'}"
proof (cases r)
  case None
  then show ?thesis by (simp add: ptr_copy_def retA_def ptr_same_def ptr_cells_def)
next
  case (Some a)
  with assms(2) obtain x where x: "a < length h" "tPrj t (h ! a) = Some x" "same h x h x"
    by (auto simp: ptr_same_def)
  let ?h1 = "h @ [tInj t (tNew t x)]"
  obtain y h2 where y: "copy x ?h1 = (Ok y, h2)" "prefix ?h1 h2" "same h x h2 y"
    "cells h2 y \<subseteq> {length ?h1..<length h2}"
    using copy_later [OF x(3), of ?h1] by auto
  let ?h3 = "h2[length h := tInj t y]"
  have long: "length h < length h2" using prefix_length [OF y(2)] by simp
  have "agree (cells h2 y) h2 ?h3"
    using y(4) by (fastforce simp: agree_def)
  then have "same h x ?h3 y" "cells ?h3 y = cells h2 y" using same_right [OF y(3)] by blast+
  moreover have "prefix h ?h3"
    by (rule prefix_store) (use y(2) in \<open>auto simp: prefix_def\<close>)
  moreover have "ptr_copy t copy r h = (Ok (Some (length h)), ?h3)"
    using Some x y(1) by (simp add: ptr_copy_def loadA_def newA_def storeA_def act_unfold)
  ultimately show ?thesis
    using Some x y(4) long assms(1)
    by (auto simp: ptr_same_def ptr_cells_def tag_ok_def intro!: exI [of _ "Some (length h)"])
qed

lemma ptr_same_sym: "ptr_same t same h x h' y \<Longrightarrow> ptr_same t same h' y h x"
  by (auto simp: ptr_same_def split: option.splits intro: same_sym)

lemma ptr_same_trans: "ptr_same t same h x h' y \<Longrightarrow> ptr_same t same h' y h'' z \<Longrightarrow> ptr_same t same h x h'' z"
  by (cases x; cases y; cases z) (auto simp: ptr_same_def intro: same_trans)

lemma ptr_same_cells: "ptr_same t same h x h' y \<Longrightarrow> a \<in> ptr_cells t cells h' y \<Longrightarrow> a < length h'"
  by (cases x; cases y) (auto simp: ptr_same_def ptr_cells_def dest: same_cells)

lemma ptr_same_local:
  assumes "ptr_same t same h x h x" and "agree (ptr_cells t cells h x) h h'"
  shows "ptr_same t same h x h' x \<and> ptr_cells t cells h' x = ptr_cells t cells h x"
proof (cases x)
  case (Some a)
  with assms(1) obtain v where v: "tPrj t (h ! a) = Some v" "same h v h v" "a < length h"
    by (auto simp: ptr_same_def)
  with Some assms(2) same_local [OF v(2), of h'] show ?thesis
    by (simp add: ptr_same_def ptr_cells_def agree_insert)
qed (simp add: ptr_same_def ptr_cells_def)

lemma copyable_ptr:
  assumes "tag_ok t"
  shows "copyable (ptr_same t same) (ptr_cells t cells) (ptr_copy t copy)"
  by unfold_locales
    (blast intro: ptr_same_sym ptr_same_trans dest: ptr_same_cells ptr_same_local ptr_fresh [OF assms])+

end

text \<open>A struct is copied field by field: as a tuple of its reference fields and the rest.\<close>

definition pair_same ::
  "(heap \<Rightarrow> 'a \<Rightarrow> heap \<Rightarrow> 'a \<Rightarrow> bool) \<Rightarrow> (heap \<Rightarrow> 'b \<Rightarrow> heap \<Rightarrow> 'b \<Rightarrow> bool) \<Rightarrow>
   heap \<Rightarrow> 'a \<times> 'b \<Rightarrow> heap \<Rightarrow> 'a \<times> 'b \<Rightarrow> bool" where
  "pair_same S T h p h' q \<longleftrightarrow> S h (fst p) h' (fst q) \<and> T h (snd p) h' (snd q)"

definition pair_cells :: "(heap \<Rightarrow> 'a \<Rightarrow> nat set) \<Rightarrow> (heap \<Rightarrow> 'b \<Rightarrow> nat set) \<Rightarrow> heap \<Rightarrow> 'a \<times> 'b \<Rightarrow> nat set" where
  "pair_cells C D h p = C h (fst p) \<union> D h (snd p)"

definition pair_copy :: "('a \<Rightarrow> 'a hact) \<Rightarrow> ('b \<Rightarrow> 'b hact) \<Rightarrow> 'a \<times> 'b \<Rightarrow> ('a \<times> 'b) hact" where
  "pair_copy f g p = bindA (f (fst p)) (\<lambda>x. bindA (g (snd p)) (\<lambda>y. retA (x, y)))"

lemma pair_fresh:
  assumes f: "copyable S C f" and g: "copyable T D g" and p: "pair_same S T h p h p"
  shows "\<exists>q h'. pair_copy f g p h = (Ok q, h') \<and> prefix h h' \<and> pair_same S T h p h' q \<and>
    pair_cells C D h' q \<subseteq> {length h..<length h'}"
proof -
  from p have S: "S h (fst p) h (fst p)" and T: "T h (snd p) h (snd p)" by (simp_all add: pair_same_def)
  obtain x h1 where x: "f (fst p) h = (Ok x, h1)" "prefix h h1" "S h (fst p) h1 x" "C h1 x \<subseteq> {length h..<length h1}"
    using copyable.copy_fresh [OF f S] by blast
  obtain y h2 where y: "g (snd p) h1 = (Ok y, h2)" "prefix h1 h2" "T h (snd p) h2 y" "D h2 y \<subseteq> {length h1..<length h2}"
    using copyable.copy_later [OF g T x(2)] by metis
  have "S h (fst p) h2 x \<and> C h2 x = C h1 x"
    using copyable.same_right [OF f x(3)] copyable.prefix_agree [OF f y(2)] copyable.same_refl [OF f x(3)] by blast
  moreover have "prefix h h2" using x(2) y(2) by (rule prefix_order.trans)
  ultimately show ?thesis
    using x y prefix_length [OF x(2)] prefix_length [OF y(2)]
    by (auto simp: pair_copy_def bindA_def retA_def pair_same_def pair_cells_def intro!: exI [of _ "(x, y)"])
qed

lemma copyable_pair:
  assumes "copyable S C f" and "copyable T D g"
  shows "copyable (pair_same S T) (pair_cells C D) (pair_copy f g)"
proof
  fix h h' h'' :: heap and x y z a
  show "pair_same S T h' y h x" if "pair_same S T h x h' y"
    using that assms [THEN copyable.same_sym] by (simp add: pair_same_def)
  show "pair_same S T h x h'' z" if "pair_same S T h x h' y" "pair_same S T h' y h'' z"
    using that by (auto simp: pair_same_def intro: assms [THEN copyable.same_trans])
  show "a < length h'" if "pair_same S T h x h' y" "a \<in> pair_cells C D h' y"
    using that by (auto simp: pair_same_def pair_cells_def dest: assms [THEN copyable.same_cells])
  show "pair_same S T h x h' x \<and> pair_cells C D h' x = pair_cells C D h x"
    if "pair_same S T h x h x" "agree (pair_cells C D h x) h h'"
    using that assms(1) [THEN copyable.same_local, of h "fst x" h'] assms(2) [THEN copyable.same_local, of h "snd x" h']
    by (simp add: pair_same_def pair_cells_def)
qed (rule pair_fresh [OF assms])

lemma copyable_struct:
  assumes "copyable S C f"
    and "\<And>h x h' t. S h (tup x) h' t \<Longrightarrow> tup (untup t) = t"
    and "\<And>x. g x = bindA (f (tup x)) (\<lambda>t. retA (untup t))"
  shows "copyable (\<lambda>h x h' y. S h (tup x) h' (tup y)) (\<lambda>h x. C h (tup x)) g"
proof
  fix h h' h'' :: heap and x y z a
  show "\<exists>y h'. g x h = (Ok y, h') \<and> prefix h h' \<and> S h (tup x) h' (tup y) \<and> C h' (tup y) \<subseteq> {length h..<length h'}"
    if S: "S h (tup x) h (tup x)"
  proof -
    obtain t h' where "f (tup x) h = (Ok t, h')" "prefix h h'" "S h (tup x) h' t" "C h' t \<subseteq> {length h..<length h'}"
      using copyable.copy_fresh [OF assms(1) S] by blast
    then show ?thesis
      using assms(2,3) by (auto simp: bindA_def retA_def intro!: exI [of _ "untup t"])
  qed
qed (use assms(1) [THEN copyable.same_sym] assms(1) [THEN copyable.same_cells] assms(1) [THEN copyable.same_local] in
    \<open>blast intro: assms(1) [THEN copyable.same_trans]\<close>)+

lemma tags_ok [simp]:
  "tag_ok tBool" "tag_ok tInt" "tag_ok tTime" "tag_ok tMap" "tag_ok tStrings" "tag_ok tBytes" "tag_ok tOwners"
  "tag_ok tFields" "tag_ok tManaged" "tag_ok tItems" "tag_ok tMCG" "tag_ok tList" "tag_ok tState" "tag_ok tStates"
  "tag_ok tSpec" "tag_ok tStatus"
  by (simp_all add: tag_ok_def tBool_def tInt_def tTime_def tMap_def tStrings_def tBytes_def tOwners_def
      tFields_def tManaged_def tItems_def tMCG_def tList_def tState_def tStates_def tSpec_def tStatus_def)

section \<open>The contracts of the types\<close>

abbreviation flat_same :: "heap \<Rightarrow> 'a \<Rightarrow> heap \<Rightarrow> 'a \<Rightarrow> bool" where
  "flat_same h x h' y \<equiv> x = y"

abbreviation flat_cells :: "heap \<Rightarrow> 'a \<Rightarrow> nat set" where
  "flat_cells h x \<equiv> {}"

abbreviation flat_ptr :: "'a tag \<Rightarrow> heap \<Rightarrow> ref \<Rightarrow> heap \<Rightarrow> ref \<Rightarrow> bool" where
  "flat_ptr t \<equiv> ptr_same t flat_same"

abbreviation flat_ptr_cells :: "'a tag \<Rightarrow> heap \<Rightarrow> ref \<Rightarrow> nat set" where
  "flat_ptr_cells t \<equiv> ptr_cells t flat_cells"

named_theorems copyable_contracts "what is copied as its contract says"

lemmas [copyable_contracts] = copyable_pair copyable_flat copyable.copyable_ptr copyable.copyable_list

lemmas struct_simps = pair_same_def pair_copy_def bindA_assoc

definition owner_tup :: "g_owner \<Rightarrow> ref \<times> ref \<times> g_owner" where
  "owner_tup x = (goController x, goBlockOwnerDeletion x, x\<lparr>goController := None, goBlockOwnerDeletion := None\<rparr>)"

definition owner_same :: "heap \<Rightarrow> g_owner \<Rightarrow> heap \<Rightarrow> g_owner \<Rightarrow> bool" where
  "owner_same h x h' y \<longleftrightarrow>
     pair_same (flat_ptr tBool) (pair_same (flat_ptr tBool) flat_same) h (owner_tup x) h' (owner_tup y)"

definition owner_cells :: "heap \<Rightarrow> g_owner \<Rightarrow> nat set" where
  "owner_cells h x = pair_cells (flat_ptr_cells tBool) (pair_cells (flat_ptr_cells tBool) flat_cells) h (owner_tup x)"

interpretation owner: copyable owner_same owner_cells owner_DeepCopyInto
  unfolding owner_same_def [abs_def] owner_cells_def [abs_def]
  by (rule copyable_struct [where f = "pair_copy (ptr_copy tBool retA) (pair_copy (ptr_copy tBool retA) retA)"
        and untup = "\<lambda>(c, b, r). r\<lparr>goController := c, goBlockOwnerDeletion := b\<rparr>"],
      (intro copyable_contracts; simp)[1])
    (auto simp: owner_tup_def owner_DeepCopyInto_def struct_simps)

declare owner.copyable_axioms [copyable_contracts]

definition fields_tup :: "g_fields_v1 \<Rightarrow> ref \<times> g_fields_v1" where
  "fields_tup x = (gfRaw x, x\<lparr>gfRaw := None\<rparr>)"

definition fields_same :: "heap \<Rightarrow> g_fields_v1 \<Rightarrow> heap \<Rightarrow> g_fields_v1 \<Rightarrow> bool" where
  "fields_same h x h' y \<longleftrightarrow> pair_same (flat_ptr tBytes) flat_same h (fields_tup x) h' (fields_tup y)"

definition fields_cells :: "heap \<Rightarrow> g_fields_v1 \<Rightarrow> nat set" where
  "fields_cells h x = pair_cells (flat_ptr_cells tBytes) flat_cells h (fields_tup x)"

interpretation fields: copyable fields_same fields_cells fields_DeepCopyInto
  unfolding fields_same_def [abs_def] fields_cells_def [abs_def]
  by (rule copyable_struct [where f = "pair_copy (ptr_copy tBytes retA) retA" and untup = "\<lambda>(a, r). r\<lparr>gfRaw := a\<rparr>"],
      (intro copyable_contracts; simp)[1])
    (auto simp: fields_tup_def fields_DeepCopyInto_def struct_simps)

declare fields.copyable_axioms [copyable_contracts]

definition managed_tup :: "g_managed \<Rightarrow> ref \<times> ref \<times> g_managed" where
  "managed_tup x = (gmTime x, gmFieldsV1 x, x\<lparr>gmTime := None, gmFieldsV1 := None\<rparr>)"

definition managed_same :: "heap \<Rightarrow> g_managed \<Rightarrow> heap \<Rightarrow> g_managed \<Rightarrow> bool" where
  "managed_same h x h' y \<longleftrightarrow>
     pair_same (flat_ptr tTime) (pair_same (ptr_same tFields fields_same) flat_same) h (managed_tup x) h' (managed_tup y)"

definition managed_cells :: "heap \<Rightarrow> g_managed \<Rightarrow> nat set" where
  "managed_cells h x =
     pair_cells (flat_ptr_cells tTime) (pair_cells (ptr_cells tFields fields_cells) flat_cells) h (managed_tup x)"

interpretation managed: copyable managed_same managed_cells managed_DeepCopyInto
  unfolding managed_same_def [abs_def] managed_cells_def [abs_def]
  by (rule copyable_struct [where f = "pair_copy (ptr_copy tTime retA) (pair_copy (ptr_copy tFields fields_DeepCopyInto) retA)"
        and untup = "\<lambda>(a, b, r). r\<lparr>gmTime := a, gmFieldsV1 := b\<rparr>"],
      (intro copyable_contracts; simp)[1])
    (auto simp: managed_tup_def managed_DeepCopyInto_def struct_simps)

declare managed.copyable_axioms [copyable_contracts]

definition meta_tup ::
  "g_meta \<Rightarrow> ref \<times> ref \<times> ref \<times> ref \<times> ref \<times> ref \<times> ref \<times> g_meta" where
  "meta_tup x = (gDeletionTimestamp x, gDeletionGracePeriodSeconds x, gLabels x, gAnnotations x,
     gOwnerReferences x, gFinalizers x, gManagedFields x,
     x\<lparr>gDeletionTimestamp := None, gDeletionGracePeriodSeconds := None, gLabels := None, gAnnotations := None,
       gOwnerReferences := None, gFinalizers := None, gManagedFields := None\<rparr>)"

definition meta_same :: "heap \<Rightarrow> g_meta \<Rightarrow> heap \<Rightarrow> g_meta \<Rightarrow> bool" where
  "meta_same h x h' y \<longleftrightarrow>
     pair_same (flat_ptr tTime) (pair_same (flat_ptr tInt) (pair_same (flat_ptr tMap) (pair_same (flat_ptr tMap)
       (pair_same (ptr_same tOwners (list_same owner_same)) (pair_same (flat_ptr tStrings)
         (pair_same (ptr_same tManaged (list_same managed_same)) flat_same)))))) h (meta_tup x) h' (meta_tup y)"

definition meta_cells :: "heap \<Rightarrow> g_meta \<Rightarrow> nat set" where
  "meta_cells h x =
     pair_cells (flat_ptr_cells tTime) (pair_cells (flat_ptr_cells tInt) (pair_cells (flat_ptr_cells tMap)
       (pair_cells (flat_ptr_cells tMap) (pair_cells (ptr_cells tOwners (list_cells owner_cells))
         (pair_cells (flat_ptr_cells tStrings) (pair_cells (ptr_cells tManaged (list_cells managed_cells))
           flat_cells)))))) h (meta_tup x)"

interpretation meta: copyable meta_same meta_cells meta_DeepCopyInto
  unfolding meta_same_def [abs_def] meta_cells_def [abs_def]
  by (rule copyable_struct [where f = "pair_copy (ptr_copy tTime retA) (pair_copy (ptr_copy tInt retA)
          (pair_copy (ptr_copy tMap retA) (pair_copy (ptr_copy tMap retA)
          (pair_copy (ptr_copy tOwners (list_copy owner_DeepCopyInto)) (pair_copy (ptr_copy tStrings retA)
          (pair_copy (ptr_copy tManaged (list_copy managed_DeepCopyInto)) retA))))))"
        and untup = "\<lambda>(a, b, c, d, e, f, g, r). r\<lparr>gDeletionTimestamp := a, gDeletionGracePeriodSeconds := b,
          gLabels := c, gAnnotations := d, gOwnerReferences := e, gFinalizers := f, gManagedFields := g\<rparr>"],
      (intro copyable_contracts; simp)[1])
    (auto simp: meta_tup_def meta_DeepCopyInto_def struct_simps)

declare meta.copyable_axioms [copyable_contracts]

definition list_meta_tup :: "g_list_meta \<Rightarrow> ref \<times> g_list_meta" where
  "list_meta_tup x = (glRemainingItemCount x, x\<lparr>glRemainingItemCount := None\<rparr>)"

definition list_meta_same :: "heap \<Rightarrow> g_list_meta \<Rightarrow> heap \<Rightarrow> g_list_meta \<Rightarrow> bool" where
  "list_meta_same h x h' y \<longleftrightarrow> pair_same (flat_ptr tInt) flat_same h (list_meta_tup x) h' (list_meta_tup y)"

definition list_meta_cells :: "heap \<Rightarrow> g_list_meta \<Rightarrow> nat set" where
  "list_meta_cells h x = pair_cells (flat_ptr_cells tInt) flat_cells h (list_meta_tup x)"

interpretation list_meta: copyable list_meta_same list_meta_cells list_meta_DeepCopyInto
  unfolding list_meta_same_def [abs_def] list_meta_cells_def [abs_def]
  by (rule copyable_struct [where f = "pair_copy (ptr_copy tInt retA) retA" and untup = "\<lambda>(a, r). r\<lparr>glRemainingItemCount := a\<rparr>"],
      (intro copyable_contracts; simp)[1])
    (auto simp: list_meta_tup_def list_meta_DeepCopyInto_def struct_simps)

declare list_meta.copyable_axioms [copyable_contracts]

definition mcg_tup :: "g_mcg \<Rightarrow> g_meta \<times> g_mcg" where
  "mcg_tup x = (gObjectMeta x, x\<lparr>gObjectMeta := zero_g_meta\<rparr>)"

definition mcg_same :: "heap \<Rightarrow> g_mcg \<Rightarrow> heap \<Rightarrow> g_mcg \<Rightarrow> bool" where
  "mcg_same h x h' y \<longleftrightarrow> pair_same meta_same flat_same h (mcg_tup x) h' (mcg_tup y)"

definition mcg_cells :: "heap \<Rightarrow> g_mcg \<Rightarrow> nat set" where
  "mcg_cells h x = pair_cells meta_cells flat_cells h (mcg_tup x)"

interpretation mcg: copyable mcg_same mcg_cells ManagedMCG_DeepCopyInto
  unfolding mcg_same_def [abs_def] mcg_cells_def [abs_def]
  by (rule copyable_struct [where f = "pair_copy meta_DeepCopyInto retA" and untup = "\<lambda>(a, r). r\<lparr>gObjectMeta := a\<rparr>"],
      (intro copyable_contracts; simp)[1])
    (auto simp: mcg_tup_def ManagedMCG_DeepCopyInto_def struct_simps)

declare mcg.copyable_axioms [copyable_contracts]

definition mcgs_tup :: "g_mcg_list \<Rightarrow> g_list_meta \<times> ref \<times> g_mcg_list" where
  "mcgs_tup x = (gListMeta x, gItems x, x\<lparr>gListMeta := gListMeta zero_g_list, gItems := None\<rparr>)"

definition mcgs_same :: "heap \<Rightarrow> g_mcg_list \<Rightarrow> heap \<Rightarrow> g_mcg_list \<Rightarrow> bool" where
  "mcgs_same h x h' y \<longleftrightarrow>
     pair_same list_meta_same (pair_same (ptr_same tItems (list_same mcg_same)) flat_same) h (mcgs_tup x) h' (mcgs_tup y)"

definition mcgs_cells :: "heap \<Rightarrow> g_mcg_list \<Rightarrow> nat set" where
  "mcgs_cells h x =
     pair_cells list_meta_cells (pair_cells (ptr_cells tItems (list_cells mcg_cells)) flat_cells) h (mcgs_tup x)"

interpretation mcgs: copyable mcgs_same mcgs_cells ManagedMCGList_DeepCopyInto
  unfolding mcgs_same_def [abs_def] mcgs_cells_def [abs_def]
  by (rule copyable_struct [where f = "pair_copy list_meta_DeepCopyInto
          (pair_copy (ptr_copy tItems (list_copy ManagedMCG_DeepCopyInto)) retA)"
        and untup = "\<lambda>(a, b, r). r\<lparr>gListMeta := a, gItems := b\<rparr>"],
      (intro copyable_contracts; simp)[1])
    (auto simp: mcgs_tup_def ManagedMCGList_DeepCopyInto_def struct_simps)

declare mcgs.copyable_axioms [copyable_contracts]

interpretation mcg_object: copyable "ptr_same tMCG mcg_same" "ptr_cells tMCG mcg_cells" ManagedMCG_DeepCopy
  unfolding ManagedMCG_DeepCopy_def by (intro copyable_contracts) simp

interpretation mcgs_object: copyable "ptr_same tList mcgs_same" "ptr_cells tList mcgs_cells" ManagedMCGList_DeepCopy
  unfolding ManagedMCGList_DeepCopy_def by (intro copyable_contracts) simp

text \<open>The structs without references are copied by value.\<close>

interpretation states_object: copyable "flat_ptr tStates" "flat_ptr_cells tStates" ComponentStatusMap_DeepCopy
proof -
  have "ComponentStatusMap_DeepCopyInto = retA"
    by (simp add: ComponentStatusMap_DeepCopyInto_def fun_eq_iff Let_def)
  then show "copyable (flat_ptr tStates) (flat_ptr_cells tStates) ComponentStatusMap_DeepCopy"
    unfolding ComponentStatusMap_DeepCopy_def by (simp only:) (intro copyable_contracts, simp)
qed

interpretation state_object: copyable "flat_ptr tState" "flat_ptr_cells tState" ComponentStatus_DeepCopy
  unfolding ComponentStatus_DeepCopy_def ComponentStatus_DeepCopyInto_def [abs_def]
  by (intro copyable_contracts) simp

interpretation spec_object: copyable "flat_ptr tSpec" "flat_ptr_cells tSpec" ManagedMCGSpec_DeepCopy
  unfolding ManagedMCGSpec_DeepCopy_def ManagedMCGSpec_DeepCopyInto_def [abs_def]
  by (intro copyable_contracts) simp

interpretation status_object: copyable "flat_ptr tStatus" "flat_ptr_cells tStatus" ManagedMCGStatus_DeepCopy
  unfolding ManagedMCGStatus_DeepCopy_def ManagedMCGStatus_DeepCopyInto_def [abs_def] Let_def
  by (simp, intro copyable_contracts) simp

section \<open>Objects of the model in the heap\<close>

definition flat_view :: "'a tag \<Rightarrow> heap \<Rightarrow> ref \<Rightarrow> 'a option" where
  "flat_view t h r = (case r of None \<Rightarrow> None | Some a \<Rightarrow> tPrj t (h ! a))"

definition map_view :: "heap \<Rightarrow> ref \<Rightarrow> string gomap" where
  "map_view h r = (case flat_view tMap h r of None \<Rightarrow> NilMap | Some m \<Rightarrow> GoMap m)"

definition owner_view :: "heap \<Rightarrow> g_owner \<Rightarrow> owner_reference" where
  "owner_view h x = \<lparr>orAPIVersion = goAPIVersion x, orKind = goKind x, orName = goName x, orUID = goUID x,
     orBlockOwnerDeletion = flat_view tBool h (goBlockOwnerDeletion x),
     orController = flat_view tBool h (goController x)\<rparr>"

definition meta_view :: "heap \<Rightarrow> g_meta \<Rightarrow> object_meta" where
  "meta_view h x = \<lparr>mName = gName x, mNamespace = gNamespace x, mUID = gUID x, mResourceVersion = gResourceVersion x,
     mLabels = map_view h (gLabels x), mAnnotations = map_view h (gAnnotations x),
     mFinalizers = (case flat_view tStrings h (gFinalizers x) of None \<Rightarrow> [] | Some fs \<Rightarrow> fs),
     mOwnerReferences = (case flat_view tOwners h (gOwnerReferences x) of None \<Rightarrow> [] | Some rs \<Rightarrow> map (owner_view h) rs),
     mDeletionTimestamp = flat_view tTime h (gDeletionTimestamp x), mGeneration = gGeneration x, mRest = ''''\<rparr>"

definition mcg_view :: "heap \<Rightarrow> g_mcg \<Rightarrow> managedmcg object" where
  "mcg_view h x = \<lparr>ObjectMeta = meta_view h (gObjectMeta x), Body = \<lparr>mcgSpec = gSpec x, mcgStatus = gStatus x\<rparr>\<rparr>"

definition mcgs_view :: "heap \<Rightarrow> nat \<Rightarrow> managedmcg object list" where
  "mcgs_view h p =
     (case tPrj tList (h ! p) of
        None \<Rightarrow> []
      | Some l \<Rightarrow> (case flat_view tItems h (gItems l) of None \<Rightarrow> [] | Some xs \<Rightarrow> map (mcg_view h) xs))"

lemma flat_view_same: "flat_ptr t h r h' r' \<Longrightarrow> flat_view t h r = flat_view t h' r'"
  by (auto simp: ptr_same_def flat_view_def split: option.splits)

lemma owner_view_same: "owner_same h x h' y \<Longrightarrow> owner_view h x = owner_view h' y"
  by (cases x; cases y)
    (auto simp: owner_same_def owner_tup_def pair_same_def owner_view_def dest: flat_view_same)

lemma slice_view_same:
  assumes "ptr_same t (list_same S) h r h' r'" and "\<And>x y. S h x h' y \<Longrightarrow> v h x = v h' y"
  shows "(case flat_view t h r of None \<Rightarrow> [] | Some xs \<Rightarrow> map (v h) xs) =
    (case flat_view t h' r' of None \<Rightarrow> [] | Some xs \<Rightarrow> map (v h') xs)"
proof -
  have "list_all2 (S' :: 'a \<Rightarrow> 'a \<Rightarrow> bool) xs ys \<Longrightarrow> (\<And>x y. S' x y \<Longrightarrow> v h x = v h' y) \<Longrightarrow> map (v h) xs = map (v h') ys"
    for S' xs ys by (induction rule: list_all2_induct) auto
  with assms show ?thesis
    by (fastforce simp: ptr_same_def flat_view_def list_same_def split: option.splits)
qed

lemma meta_view_same:
  assumes "meta_same h x h' y"
  shows "meta_view h x = meta_view h' y"
proof -
  have flat: "flat_ptr tTime h (gDeletionTimestamp x) h' (gDeletionTimestamp y)" "flat_ptr tMap h (gLabels x) h' (gLabels y)"
    "flat_ptr tMap h (gAnnotations x) h' (gAnnotations y)" "flat_ptr tStrings h (gFinalizers x) h' (gFinalizers y)"
    and owners: "ptr_same tOwners (list_same owner_same) h (gOwnerReferences x) h' (gOwnerReferences y)"
    and rest: "snd (snd (snd (snd (snd (snd (snd (meta_tup x))))))) = snd (snd (snd (snd (snd (snd (snd (meta_tup y)))))))"
    using assms by (simp_all add: meta_same_def pair_same_def) (simp_all add: meta_tup_def)
  have "gName x = gName y" "gNamespace x = gNamespace y" "gUID x = gUID y" "gResourceVersion x = gResourceVersion y"
    "gGeneration x = gGeneration y"
    using rest by (cases x; cases y; simp add: meta_tup_def)+
  with flat [THEN flat_view_same] slice_view_same [OF owners, of owner_view] owner_view_same show ?thesis
    by (simp add: meta_view_def map_view_def)
qed

lemma mcg_view_same: "mcg_same h x h' y \<Longrightarrow> mcg_view h x = mcg_view h' y"
  by (cases x; cases y) (auto simp: mcg_same_def mcg_tup_def pair_same_def mcg_view_def dest: meta_view_same)

lemma mcgs_view_same:
  assumes "ptr_same tList mcgs_same h (Some p) h' (Some q)"
  shows "mcgs_view h p = mcgs_view h' q"
proof -
  obtain l l' where l: "tPrj tList (h ! p) = Some l" "tPrj tList (h' ! q) = Some l'" "mcgs_same h l h' l'"
    using assms by (auto simp: ptr_same_def)
  then have "ptr_same tItems (list_same mcg_same) h (gItems l) h' (gItems l')"
    by (simp add: mcgs_same_def mcgs_tup_def pair_same_def)
  from slice_view_same [OF this, of mcg_view] mcg_view_same l show ?thesis by (simp add: mcgs_view_def)
qed

lemma as_object_fresh:
  assumes "copyable S C copy" and "S h (Some p) h (Some p)" and "\<And>h p h'. \<not> S h (Some p) h' None"
  obtains q h' where "as_object (copy (Some p)) h = (Ok (Some (Some q)), h')" and "prefix h h'"
    and "S h (Some p) h' (Some q)" and "C h' (Some q) \<subseteq> {length h..<length h'}"
proof -
  obtain r h' where r: "copy (Some p) h = (Ok r, h')" "prefix h h'" "S h (Some p) h' r" "C h' r \<subseteq> {length h..<length h'}"
    using copyable.copy_fresh [OF assms(1,2)] by blast
  with assms(3) that show thesis by (cases r) (auto simp: as_object_def bindA_def retA_def)
qed


definition sampleHeap :: heap where
  "sampleHeap = [CMap (fmap_of_list [(''app'', ''mcg'')]), CStrings [''f''],
     CItems [zero_g_mcg\<lparr>gObjectMeta := zero_g_meta\<lparr>gName := ''managedmcg'', gLabels := Some 0, gFinalizers := Some 1\<rparr>\<rparr>],
     CList (zero_g_list\<lparr>gItems := Some 2\<rparr>)]"

lemma sampleHeap_ok: "ptr_same tList mcgs_same sampleHeap (Some 3) sampleHeap (Some 3)"
  by (simp add: sampleHeap_def ptr_same_def tList_def tItems_def tMap_def tStrings_def mcgs_same_def mcgs_tup_def
      pair_same_def zero_g_list_def list_meta_same_def list_meta_tup_def list_same_def mcg_same_def mcg_tup_def
      zero_g_mcg_def meta_same_def meta_tup_def zero_g_meta_def)


end
