(* ===== verification/Scheme.thy ===== *)
theory Scheme
  imports Kube
begin

text \<open>
  The registration of Go types: \<open>runtime.Scheme\<close> and its builders, the registration functions of
  the vendored API packages, and the \<open>init\<close> functions of the operator (\<open>main.go\<close>,
  \<open>api/v1alpha1\<close>) and of the readiness probe that fill a scheme with them. The client finds the
  resource of an object through the scheme; the other theories use the table \<open>kind_gvk\<close>
  instead, and here it is shown to be what the scheme answers.
\<close>

section \<open>The scheme\<close>

type_synonym gv = "string \<times> string"
type_synonym gvk = "string \<times> string \<times> string"

text \<open>A Go type as \<open>reflect\<close> sees it. Everything that is registered is a pointer to a struct.\<close>

record go_type =
  tyPkgPath :: string
  tyName :: string

record scheme =
  gvkToType :: "gvk \<rightharpoonup> go_type"
  typeToGVK :: "go_type \<rightharpoonup> gvk list"
  unversionedTypes :: "go_type \<rightharpoonup> gvk"
  unversionedKinds :: "string \<rightharpoonup> go_type"
  observedVersions :: "gv list"

type_synonym 'a sact = "(scheme, 'a) act"

definition NewScheme :: scheme where
  "NewScheme = \<lparr>gvkToType = Map.empty, typeToGVK = Map.empty, unversionedTypes = Map.empty,
     unversionedKinds = Map.empty, observedVersions = []\<rparr>"

definition APIVersionInternal :: string where
  "APIVersionInternal = ''__internal''"

definition addObservedVersion :: "gv \<Rightarrow> scheme \<Rightarrow> scheme" where
  "addObservedVersion version s =
     (if snd version = '''' \<or> snd version = APIVersionInternal then s
      else if version \<in> set (observedVersions s) then s
      else s\<lparr>observedVersions := observedVersions s @ [version]\<rparr>)"

definition AddKnownTypeWithName :: "gvk \<Rightarrow> go_type \<Rightarrow> unit sact" where
  "AddKnownTypeWithName gvk t =
     thenA (modA (addObservedVersion (fst gvk, fst (snd gvk))))
     (if fst (snd gvk) = '''' then panicA ''version is required on all types''
      else bindA (readA (\<lambda>s. gvkToType s gvk)) (\<lambda>old.
        if old \<noteq> None \<and> old \<noteq> Some t then panicA ''Double registration of different types''
        else
          thenA (modA (\<lambda>s. s\<lparr>gvkToType := (gvkToType s)(gvk \<mapsto> t)\<rparr>))
         (bindA (readA (\<lambda>s. typeToGVK s t)) (\<lambda>existing.
            let gvks = (case existing of None \<Rightarrow> [] | Some gvks \<Rightarrow> gvks) in
            if gvk \<in> set gvks then retA ()
            else modA (\<lambda>s. s\<lparr>typeToGVK := (typeToGVK s)(t \<mapsto> gvks @ [gvk])\<rparr>)))))"

definition AddKnownTypes :: "gv \<Rightarrow> go_type list \<Rightarrow> unit sact" where
  "AddKnownTypes gv types =
     thenA (modA (addObservedVersion gv))
           (forA (\<lambda>t. AddKnownTypeWithName (fst gv, snd gv, tyName t) t) types)"

text \<open>The body of the loop of \<open>AddUnversionedTypes\<close>.\<close>

definition markUnversioned :: "gv \<Rightarrow> go_type \<Rightarrow> unit sact" where
  "markUnversioned version t =
     (let gvk = (fst version, snd version, tyName t) in
        thenA (modA (\<lambda>s. s\<lparr>unversionedTypes := (unversionedTypes s)(t \<mapsto> gvk)\<rparr>))
       (bindA (readA (\<lambda>s. unversionedKinds s (tyName t))) (\<lambda>old.
          if old \<noteq> None \<and> old \<noteq> Some t then panicA ''has already been registered as unversioned kind''
          else modA (\<lambda>s. s\<lparr>unversionedKinds := (unversionedKinds s)(tyName t \<mapsto> t)\<rparr>))))"

definition AddUnversionedTypes :: "gv \<Rightarrow> go_type list \<Rightarrow> unit sact" where
  "AddUnversionedTypes version types =
     thenA (modA (addObservedVersion version))
    (thenA (AddKnownTypes version types)
           (forA (markUnversioned version) types))"

definition ObjectKinds :: "scheme \<Rightarrow> go_type \<Rightarrow> gerr + gvk list \<times> bool" where
  "ObjectKinds s t =
     (case typeToGVK s t of
        None \<Rightarrow> Inl (PlainErr ''no kind is registered for the type'')
      | Some gvks \<Rightarrow> Inr (gvks, unversionedTypes s t \<noteq> None))"

text \<open>\<open>apiutil.GVKForObject\<close>, for the objects of this program, which are neither partial nor unstructured.\<close>

definition GVKForObject :: "go_type \<Rightarrow> scheme \<Rightarrow> gerr + gvk" where
  "GVKForObject t s =
     (case ObjectKinds s t of
        Inl err \<Rightarrow> Inl err
      | Inr (gvks, isUnversioned) \<Rightarrow>
          if isUnversioned then Inl (PlainErr ''cannot create group-version-kind for unversioned type'')
          else (case gvks of
              [] \<Rightarrow> Inl (PlainErr ''no group-version-kinds associated with type'')
            | [gvk] \<Rightarrow> Inr gvk
            | _ \<Rightarrow> Inl (PlainErr ''multiple group-version-kinds associated with type'')))"

section \<open>Builders and common types\<close>

text \<open>\<open>runtime.SchemeBuilder\<close> is a list of functions; \<open>AddToScheme\<close> runs them in order.\<close>

definition SchemeBuilder_AddToScheme :: "unit sact list \<Rightarrow> unit sact" where
  "SchemeBuilder_AddToScheme sb = forA (\<lambda>f. f) sb"

definition metaPkg :: string where
  "metaPkg = ''k8s.io/apimachinery/pkg/apis/meta/v1''"

abbreviation types_of :: "string \<Rightarrow> string list \<Rightarrow> go_type list" where
  "types_of pkg names \<equiv> map (\<lambda>n. \<lparr>tyPkgPath = pkg, tyName = n\<rparr>) names"

definition optionsTypes :: "go_type list" where
  "optionsTypes = types_of metaPkg [''ListOptions'', ''GetOptions'', ''DeleteOptions'', ''CreateOptions'',
     ''UpdateOptions'', ''PatchOptions'']"

definition WatchEventKind :: string where
  "WatchEventKind = ''WatchEvent''"

definition Unversioned :: gv where
  "Unversioned = ('''', ''v1'')"

definition AddToGroupVersion :: "gv \<Rightarrow> unit sact" where
  "AddToGroupVersion groupVersion =
     thenA (AddKnownTypeWithName (fst groupVersion, snd groupVersion, WatchEventKind)
              \<lparr>tyPkgPath = metaPkg, tyName = ''WatchEvent''\<rparr>)
    (thenA (AddKnownTypeWithName (fst groupVersion, APIVersionInternal, WatchEventKind)
              \<lparr>tyPkgPath = metaPkg, tyName = ''InternalEvent''\<rparr>)
    (thenA (AddKnownTypes groupVersion optionsTypes)
           (AddUnversionedTypes Unversioned
              (types_of metaPkg [''Status'', ''APIVersions'', ''APIGroupList'', ''APIGroup'', ''APIResourceList'']))))"

text \<open>\<open>scheme.Builder\<close> of controller-runtime.\<close>

record builder =
  bldGroupVersion :: gv
  bldFuncs :: "unit sact list"

definition Builder_Register :: "go_type list \<Rightarrow> builder \<Rightarrow> builder" where
  "Builder_Register objects bld =
     bld\<lparr>bldFuncs := bldFuncs bld @
       [thenA (AddKnownTypes (bldGroupVersion bld) objects) (AddToGroupVersion (bldGroupVersion bld))]\<rparr>"

definition Builder_AddToScheme :: "builder \<Rightarrow> unit sact" where
  "Builder_AddToScheme bld = SchemeBuilder_AddToScheme (bldFuncs bld)"

section \<open>The API packages\<close>

text \<open>What one package registers: its group and version, its import path, the names of its types.\<close>

datatype api_group = Api_Group (agGV: gv) (agPkg: string) (agNames: "string list")

text \<open>\<open>addKnownTypes\<close> of a package, in the order that all but three of them have.\<close>

definition addKnownTypes :: "api_group \<Rightarrow> unit sact" where
  "addKnownTypes g = thenA (AddKnownTypes (agGV g) (types_of (agPkg g) (agNames g))) (AddToGroupVersion (agGV g))"

definition appsv1_group :: api_group where
  "appsv1_group = Api_Group (''apps'', ''v1'') ''k8s.io/api/apps/v1''
    [''Deployment'', ''DeploymentList'', ''StatefulSet'', ''StatefulSetList'', ''DaemonSet'',
     ''DaemonSetList'', ''ReplicaSet'', ''ReplicaSetList'', ''ControllerRevision'',
     ''ControllerRevisionList'']"

definition corev1_group :: api_group where
  "corev1_group = Api_Group ('''', ''v1'') ''k8s.io/api/core/v1''
    [''Pod'', ''PodList'', ''PodStatusResult'', ''PodTemplate'', ''PodTemplateList'',
     ''ReplicationController'', ''ReplicationControllerList'', ''Service'',
     ''ServiceProxyOptions'', ''ServiceList'', ''Endpoints'', ''EndpointsList'', ''Node'',
     ''NodeList'', ''NodeProxyOptions'', ''Binding'', ''Event'', ''EventList'', ''List'',
     ''LimitRange'', ''LimitRangeList'', ''ResourceQuota'', ''ResourceQuotaList'', ''Namespace'',
     ''NamespaceList'', ''Secret'', ''SecretList'', ''ServiceAccount'', ''ServiceAccountList'',
     ''PersistentVolume'', ''PersistentVolumeList'', ''PersistentVolumeClaim'',
     ''PersistentVolumeClaimList'', ''PodAttachOptions'', ''PodLogOptions'', ''PodExecOptions'',
     ''PodPortForwardOptions'', ''PodProxyOptions'', ''ComponentStatus'', ''ComponentStatusList'',
     ''SerializedReference'', ''RangeAllocation'', ''ConfigMap'', ''ConfigMapList'']"

definition networkingv1_group :: api_group where
  "networkingv1_group = Api_Group (''networking.k8s.io'', ''v1'') ''k8s.io/api/networking/v1''
    [''Ingress'', ''IngressList'', ''IngressClass'', ''IngressClassList'', ''NetworkPolicy'',
     ''NetworkPolicyList'']"

text \<open>The core group registers \<open>metav1.Status\<close> besides its own types.\<close>

definition corev1_AddToScheme :: "unit sact" where
  "corev1_AddToScheme =
     thenA (AddKnownTypes (agGV corev1_group) (types_of (agPkg corev1_group) (agNames corev1_group)))
    (thenA (AddKnownTypes (agGV corev1_group) (types_of metaPkg [''Status'']))
           (AddToGroupVersion (agGV corev1_group)))"

text \<open>
  The packages of \<open>client-go\<close>, in the order of its builder. Each row that is not named stands for
  \<open>vendor/<package>/register.go\<close>.
\<close>

definition clientgo_groups :: "api_group list" where
  "clientgo_groups =
    [Api_Group (''admissionregistration.k8s.io'', ''v1'') ''k8s.io/api/admissionregistration/v1''
     [''ValidatingWebhookConfiguration'', ''ValidatingWebhookConfigurationList'',
      ''MutatingWebhookConfiguration'', ''MutatingWebhookConfigurationList''],
     Api_Group (''admissionregistration.k8s.io'', ''v1beta1'') ''k8s.io/api/admissionregistration/v1beta1''
     [''ValidatingWebhookConfiguration'', ''ValidatingWebhookConfigurationList'',
      ''MutatingWebhookConfiguration'', ''MutatingWebhookConfigurationList''],
     Api_Group (''internal.apiserver.k8s.io'', ''v1alpha1'') ''k8s.io/api/apiserverinternal/v1alpha1''
     [''StorageVersion'', ''StorageVersionList''],
     appsv1_group,
     Api_Group (''apps'', ''v1beta1'') ''k8s.io/api/apps/v1beta1''
     [''Deployment'', ''DeploymentList'', ''DeploymentRollback'', ''Scale'', ''StatefulSet'',
      ''StatefulSetList'', ''ControllerRevision'', ''ControllerRevisionList''],
     Api_Group (''apps'', ''v1beta2'') ''k8s.io/api/apps/v1beta2''
     [''Deployment'', ''DeploymentList'', ''Scale'', ''StatefulSet'', ''StatefulSetList'',
      ''DaemonSet'', ''DaemonSetList'', ''ReplicaSet'', ''ReplicaSetList'', ''ControllerRevision'',
      ''ControllerRevisionList''],
     Api_Group (''authentication.k8s.io'', ''v1'') ''k8s.io/api/authentication/v1''
     [''TokenReview'', ''TokenRequest''],
     Api_Group (''authentication.k8s.io'', ''v1beta1'') ''k8s.io/api/authentication/v1beta1''
     [''TokenReview''],
     Api_Group (''authorization.k8s.io'', ''v1'') ''k8s.io/api/authorization/v1''
     [''SelfSubjectRulesReview'', ''SelfSubjectAccessReview'', ''SubjectAccessReview'',
      ''LocalSubjectAccessReview''],
     Api_Group (''authorization.k8s.io'', ''v1beta1'') ''k8s.io/api/authorization/v1beta1''
     [''SelfSubjectRulesReview'', ''SelfSubjectAccessReview'', ''SubjectAccessReview'',
      ''LocalSubjectAccessReview''],
     Api_Group (''autoscaling'', ''v1'') ''k8s.io/api/autoscaling/v1''
     [''HorizontalPodAutoscaler'', ''HorizontalPodAutoscalerList'', ''Scale''],
     Api_Group (''autoscaling'', ''v2'') ''k8s.io/api/autoscaling/v2''
     [''HorizontalPodAutoscaler'', ''HorizontalPodAutoscalerList''],
     Api_Group (''autoscaling'', ''v2beta1'') ''k8s.io/api/autoscaling/v2beta1''
     [''HorizontalPodAutoscaler'', ''HorizontalPodAutoscalerList''],
     Api_Group (''autoscaling'', ''v2beta2'') ''k8s.io/api/autoscaling/v2beta2''
     [''HorizontalPodAutoscaler'', ''HorizontalPodAutoscalerList''],
     Api_Group (''batch'', ''v1'') ''k8s.io/api/batch/v1''
     [''Job'', ''JobList'', ''CronJob'', ''CronJobList''],
     Api_Group (''batch'', ''v1beta1'') ''k8s.io/api/batch/v1beta1''
     [''JobTemplate'', ''CronJob'', ''CronJobList''],
     Api_Group (''certificates.k8s.io'', ''v1'') ''k8s.io/api/certificates/v1''
     [''CertificateSigningRequest'', ''CertificateSigningRequestList''],
     Api_Group (''certificates.k8s.io'', ''v1beta1'') ''k8s.io/api/certificates/v1beta1''
     [''CertificateSigningRequest'', ''CertificateSigningRequestList''],
     Api_Group (''coordination.k8s.io'', ''v1beta1'') ''k8s.io/api/coordination/v1beta1''
     [''Lease'', ''LeaseList''],
     Api_Group (''coordination.k8s.io'', ''v1'') ''k8s.io/api/coordination/v1''
     [''Lease'', ''LeaseList''],
     corev1_group,
     Api_Group (''discovery.k8s.io'', ''v1'') ''k8s.io/api/discovery/v1''
     [''EndpointSlice'', ''EndpointSliceList''],
     Api_Group (''discovery.k8s.io'', ''v1beta1'') ''k8s.io/api/discovery/v1beta1''
     [''EndpointSlice'', ''EndpointSliceList''],
     Api_Group (''events.k8s.io'', ''v1'') ''k8s.io/api/events/v1''
     [''Event'', ''EventList''],
     Api_Group (''events.k8s.io'', ''v1beta1'') ''k8s.io/api/events/v1beta1''
     [''Event'', ''EventList''],
     Api_Group (''extensions'', ''v1beta1'') ''k8s.io/api/extensions/v1beta1''
     [''Deployment'', ''DeploymentList'', ''DeploymentRollback'', ''Scale'', ''DaemonSetList'',
      ''DaemonSet'', ''Ingress'', ''IngressList'', ''ReplicaSet'', ''ReplicaSetList'',
      ''PodSecurityPolicy'', ''PodSecurityPolicyList'', ''NetworkPolicy'', ''NetworkPolicyList''],
     Api_Group (''flowcontrol.apiserver.k8s.io'', ''v1alpha1'') ''k8s.io/api/flowcontrol/v1alpha1''
     [''FlowSchema'', ''FlowSchemaList'', ''PriorityLevelConfiguration'',
      ''PriorityLevelConfigurationList''],
     Api_Group (''flowcontrol.apiserver.k8s.io'', ''v1beta1'') ''k8s.io/api/flowcontrol/v1beta1''
     [''FlowSchema'', ''FlowSchemaList'', ''PriorityLevelConfiguration'',
      ''PriorityLevelConfigurationList''],
     Api_Group (''flowcontrol.apiserver.k8s.io'', ''v1beta2'') ''k8s.io/api/flowcontrol/v1beta2''
     [''FlowSchema'', ''FlowSchemaList'', ''PriorityLevelConfiguration'',
      ''PriorityLevelConfigurationList''],
     networkingv1_group,
     Api_Group (''networking.k8s.io'', ''v1beta1'') ''k8s.io/api/networking/v1beta1''
     [''Ingress'', ''IngressList'', ''IngressClass'', ''IngressClassList''],
     Api_Group (''node.k8s.io'', ''v1'') ''k8s.io/api/node/v1''
     [''RuntimeClass'', ''RuntimeClassList''],
     Api_Group (''node.k8s.io'', ''v1alpha1'') ''k8s.io/api/node/v1alpha1''
     [''RuntimeClass'', ''RuntimeClassList''],
     Api_Group (''node.k8s.io'', ''v1beta1'') ''k8s.io/api/node/v1beta1''
     [''RuntimeClass'', ''RuntimeClassList''],
     Api_Group (''policy'', ''v1'') ''k8s.io/api/policy/v1''
     [''PodDisruptionBudget'', ''PodDisruptionBudgetList'', ''Eviction''],
     Api_Group (''policy'', ''v1beta1'') ''k8s.io/api/policy/v1beta1''
     [''PodDisruptionBudget'', ''PodDisruptionBudgetList'', ''PodSecurityPolicy'',
      ''PodSecurityPolicyList'', ''Eviction''],
     Api_Group (''rbac.authorization.k8s.io'', ''v1'') ''k8s.io/api/rbac/v1''
     [''Role'', ''RoleBinding'', ''RoleBindingList'', ''RoleList'', ''ClusterRole'',
      ''ClusterRoleBinding'', ''ClusterRoleBindingList'', ''ClusterRoleList''],
     Api_Group (''rbac.authorization.k8s.io'', ''v1beta1'') ''k8s.io/api/rbac/v1beta1''
     [''Role'', ''RoleBinding'', ''RoleBindingList'', ''RoleList'', ''ClusterRole'',
      ''ClusterRoleBinding'', ''ClusterRoleBindingList'', ''ClusterRoleList''],
     Api_Group (''rbac.authorization.k8s.io'', ''v1alpha1'') ''k8s.io/api/rbac/v1alpha1''
     [''Role'', ''RoleBinding'', ''RoleBindingList'', ''RoleList'', ''ClusterRole'',
      ''ClusterRoleBinding'', ''ClusterRoleBindingList'', ''ClusterRoleList''],
     Api_Group (''scheduling.k8s.io'', ''v1alpha1'') ''k8s.io/api/scheduling/v1alpha1''
     [''PriorityClass'', ''PriorityClassList''],
     Api_Group (''scheduling.k8s.io'', ''v1beta1'') ''k8s.io/api/scheduling/v1beta1''
     [''PriorityClass'', ''PriorityClassList''],
     Api_Group (''scheduling.k8s.io'', ''v1'') ''k8s.io/api/scheduling/v1''
     [''PriorityClass'', ''PriorityClassList''],
     Api_Group (''storage.k8s.io'', ''v1beta1'') ''k8s.io/api/storage/v1beta1''
     [''StorageClass'', ''StorageClassList'', ''VolumeAttachment'', ''VolumeAttachmentList'',
      ''CSIDriver'', ''CSIDriverList'', ''CSINode'', ''CSINodeList'', ''CSIStorageCapacity'',
      ''CSIStorageCapacityList''],
     Api_Group (''storage.k8s.io'', ''v1'') ''k8s.io/api/storage/v1''
     [''StorageClass'', ''StorageClassList'', ''VolumeAttachment'', ''VolumeAttachmentList'',
      ''CSINode'', ''CSINodeList'', ''CSIDriver'', ''CSIDriverList''],
     Api_Group (''storage.k8s.io'', ''v1alpha1'') ''k8s.io/api/storage/v1alpha1''
     [''VolumeAttachment'', ''VolumeAttachmentList'', ''CSIStorageCapacity'',
      ''CSIStorageCapacityList'']]"

definition clientgo_AddToScheme :: "unit sact" where
  "clientgo_AddToScheme =
     SchemeBuilder_AddToScheme (map (\<lambda>g. if g = corev1_group then corev1_AddToScheme else addKnownTypes g) clientgo_groups)"

definition configv1_group :: api_group where
  "configv1_group = Api_Group (''config.openshift.io'', ''v1'') ''github.com/openshift/api/config/v1''
    [''APIServer'', ''APIServerList'', ''Authentication'', ''AuthenticationList'', ''Build'',
     ''BuildList'', ''ClusterOperator'', ''ClusterOperatorList'', ''ClusterVersion'',
     ''ClusterVersionList'', ''Console'', ''ConsoleList'', ''DNS'', ''DNSList'', ''FeatureGate'',
     ''FeatureGateList'', ''Image'', ''ImageList'', ''Infrastructure'', ''InfrastructureList'',
     ''Ingress'', ''IngressList'', ''Node'', ''NodeList'', ''Network'', ''NetworkList'', ''OAuth'',
     ''OAuthList'', ''OperatorHub'', ''OperatorHubList'', ''Project'', ''ProjectList'', ''Proxy'',
     ''ProxyList'', ''Scheduler'', ''SchedulerList'', ''ImageContentPolicy'',
     ''ImageContentPolicyList'', ''ImageDigestMirrorSet'', ''ImageDigestMirrorSetList'',
     ''ImageTagMirrorSet'', ''ImageTagMirrorSetList'']"

definition operatorv1_group :: api_group where
  "operatorv1_group = Api_Group (''operator.openshift.io'', ''v1'') ''github.com/openshift/api/operator/v1''
    [''Authentication'', ''AuthenticationList'', ''DNS'', ''DNSList'', ''CloudCredential'',
     ''CloudCredentialList'', ''ClusterCSIDriver'', ''ClusterCSIDriverList'', ''Console'',
     ''ConsoleList'', ''CSISnapshotController'', ''CSISnapshotControllerList'', ''Etcd'',
     ''EtcdList'', ''KubeAPIServer'', ''KubeAPIServerList'', ''KubeControllerManager'',
     ''KubeControllerManagerList'', ''KubeScheduler'', ''KubeSchedulerList'',
     ''KubeStorageVersionMigrator'', ''KubeStorageVersionMigratorList'', ''Network'',
     ''NetworkList'', ''OpenShiftAPIServer'', ''OpenShiftAPIServerList'',
     ''OpenShiftControllerManager'', ''OpenShiftControllerManagerList'', ''ServiceCA'',
     ''ServiceCAList'', ''ServiceCatalogAPIServer'', ''ServiceCatalogAPIServerList'',
     ''ServiceCatalogControllerManager'', ''ServiceCatalogControllerManagerList'',
     ''IngressController'', ''IngressControllerList'', ''Storage'', ''StorageList'']"

definition consolev1_group :: api_group where
  "consolev1_group = Api_Group (''console.openshift.io'', ''v1'') ''github.com/openshift/api/console/v1''
    [''ConsoleLink'', ''ConsoleLinkList'', ''ConsoleCLIDownload'', ''ConsoleCLIDownloadList'',
     ''ConsoleNotification'', ''ConsoleNotificationList'', ''ConsoleExternalLogLink'',
     ''ConsoleExternalLogLinkList'', ''ConsoleYAMLSample'', ''ConsoleYAMLSampleList'',
     ''ConsoleQuickStart'', ''ConsoleQuickStartList'']"

definition consolev1alpha1_group :: api_group where
  "consolev1alpha1_group = Api_Group (''console.openshift.io'', ''v1alpha1'') ''github.com/openshift/api/console/v1alpha1''
    [''ConsolePlugin'', ''ConsolePluginList'']"

definition networkv1_group :: api_group where
  "networkv1_group = Api_Group (''network.openshift.io'', ''v1'') ''github.com/openshift/api/network/v1''
    [''ClusterNetwork'', ''ClusterNetworkList'', ''HostSubnet'', ''HostSubnetList'',
     ''NetNamespace'', ''NetNamespaceList'', ''EgressNetworkPolicy'', ''EgressNetworkPolicyList'']"

definition operatorsv1alpha1_group :: api_group where
  "operatorsv1alpha1_group = Api_Group (''operators.coreos.com'', ''v1alpha1'') ''github.com/operator-framework/api/pkg/operators/v1alpha1''
    [''CatalogSource'', ''CatalogSourceList'', ''InstallPlan'', ''InstallPlanList'',
     ''Subscription'', ''SubscriptionList'', ''ClusterServiceVersion'',
     ''ClusterServiceVersionList'']"

definition monitoringv1_group :: api_group where
  "monitoringv1_group = Api_Group (''monitoring.coreos.com'', ''v1'') ''github.com/prometheus-operator/prometheus-operator/pkg/apis/monitoring/v1''
    [''Prometheus'', ''PrometheusList'', ''ServiceMonitor'', ''ServiceMonitorList'',
     ''PodMonitor'', ''PodMonitorList'', ''Probe'', ''ProbeList'', ''Alertmanager'',
     ''AlertmanagerList'', ''PrometheusRule'', ''PrometheusRuleList'', ''ThanosRuler'',
     ''ThanosRulerList'']"

definition monitoringv1alpha1_group :: api_group where
  "monitoringv1alpha1_group = Api_Group (''monitoring.coreos.com'', ''v1alpha1'') ''github.com/prometheus-operator/prometheus-operator/pkg/apis/monitoring/v1alpha1''
    [''AlertmanagerConfig'', ''AlertmanagerConfigList'']"

definition objectbucketv1alpha1_group :: api_group where
  "objectbucketv1alpha1_group = Api_Group (''objectbucket.io'', ''v1alpha1'') ''github.com/kube-object-storage/lib-bucket-provisioner/pkg/apis/objectbucket.io/v1alpha1''
    [''ObjectBucketClaim'', ''ObjectBucketClaimList'', ''ObjectBucket'', ''ObjectBucketList'']"

text \<open>The package of the \<open>Console\<close> of the operator installs the configuration group as well.\<close>

definition operatorv1_AddToScheme :: "unit sact" where
  "operatorv1_AddToScheme =
     SchemeBuilder_AddToScheme
       [thenA (AddToGroupVersion (agGV operatorv1_group))
              (AddKnownTypes (agGV operatorv1_group) (types_of (agPkg operatorv1_group) (agNames operatorv1_group))),
        addKnownTypes configv1_group]"

definition consolev1_AddToScheme :: "unit sact" where
  "consolev1_AddToScheme = SchemeBuilder_AddToScheme [addKnownTypes consolev1_group, corev1_AddToScheme]"

definition consolev1alpha1_AddToScheme :: "unit sact" where
  "consolev1alpha1_AddToScheme = SchemeBuilder_AddToScheme [addKnownTypes consolev1alpha1_group, corev1_AddToScheme]"

text \<open>NooBaa: the \<open>init\<close> functions of the package run in the order of their files.\<close>

definition noobaaPkg :: string where
  "noobaaPkg = ''github.com/noobaa/noobaa-operator/v5/pkg/apis/noobaa/v1alpha1''"

definition noobaaSchemeBuilder :: builder where
  "noobaaSchemeBuilder =
     fold (\<lambda>names. Builder_Register (types_of noobaaPkg names))
       [[''BackingStore'', ''BackingStoreList''], [''BucketClass'', ''BucketClassList''],
        [''NamespaceStore'', ''NamespaceStoreList''], [''NooBaa'', ''NooBaaList''],
        [''NooBaaAccount'', ''NooBaaAccountList'']]
       \<lparr>bldGroupVersion = (''noobaa.io'', ''v1alpha1''), bldFuncs = []\<rparr>"

definition noobaa_AddToScheme :: "unit sact" where
  "noobaa_AddToScheme = SchemeBuilder_AddToScheme [Builder_AddToScheme noobaaSchemeBuilder]"

section \<open>The packages of this repository\<close>

definition GroupVersion :: gv where
  "GroupVersion = (''mcg.openshift.io'', ''v1alpha1'')"

definition mcgPkg :: string where
  "mcgPkg = ''github.com/red-hat-storage/mcg-osd-deployer/api/v1alpha1''"

definition mcgSchemeBuilder :: builder where
  "mcgSchemeBuilder =
     Builder_Register (types_of mcgPkg [''ManagedMCG'', ''ManagedMCGList'']) \<lparr>bldGroupVersion = GroupVersion, bldFuncs = []\<rparr>"

definition mcg_AddToScheme :: "unit sact" where
  "mcg_AddToScheme = Builder_AddToScheme mcgSchemeBuilder"

text \<open>\<open>utilruntime.Must\<close>\<close>

definition Must :: "unit sact \<Rightarrow> unit sact" where
  "Must f = bindA (tryA f) (\<lambda>res. case res of Inl _ \<Rightarrow> panicA ''error'' | Inr _ \<Rightarrow> retA ())"

definition main_init :: "unit sact" where
  "main_init =
     forA Must
       [clientgo_AddToScheme,
        mcg_AddToScheme,
        noobaa_AddToScheme,
        addKnownTypes operatorsv1alpha1_group,
        operatorv1_AddToScheme,
        addKnownTypes monitoringv1_group,
        addKnownTypes monitoringv1alpha1_group,
        Builder_AddToScheme noobaaSchemeBuilder,
        addKnownTypes objectbucketv1alpha1_group,
        addKnownTypes networkv1_group,
        consolev1_AddToScheme,
        consolev1alpha1_AddToScheme]"

definition probe_init :: "unit sact" where
  "probe_init = forA Must [clientgo_AddToScheme, mcg_AddToScheme]"

text \<open>The Go types of the objects of the operator, by the imports of \<open>controllers/\<close>; a list has \<open>List\<close> appended.\<close>

fun kindType :: "kind \<Rightarrow> go_type" where
  "kindType KManagedMCG = \<lparr>tyPkgPath = mcgPkg, tyName = ''ManagedMCG''\<rparr>"
| "kindType KNooBaa = \<lparr>tyPkgPath = noobaaPkg, tyName = ''NooBaa''\<rparr>"
| "kindType KStatefulSet = \<lparr>tyPkgPath = ''k8s.io/api/apps/v1'', tyName = ''StatefulSet''\<rparr>"
| "kindType KDeployment = \<lparr>tyPkgPath = ''k8s.io/api/apps/v1'', tyName = ''Deployment''\<rparr>"
| "kindType KConsolePlugin = \<lparr>tyPkgPath = ''github.com/openshift/api/console/v1alpha1'', tyName = ''ConsolePlugin''\<rparr>"
| "kindType KConsole = \<lparr>tyPkgPath = ''github.com/openshift/api/operator/v1'', tyName = ''Console''\<rparr>"
| "kindType KPrometheus =
     \<lparr>tyPkgPath = ''github.com/prometheus-operator/prometheus-operator/pkg/apis/monitoring/v1'',
      tyName = ''Prometheus''\<rparr>"
| "kindType KAlertmanager =
     \<lparr>tyPkgPath = ''github.com/prometheus-operator/prometheus-operator/pkg/apis/monitoring/v1'',
      tyName = ''Alertmanager''\<rparr>"
| "kindType KAlertmanagerConfig =
     \<lparr>tyPkgPath = ''github.com/prometheus-operator/prometheus-operator/pkg/apis/monitoring/v1alpha1'',
      tyName = ''AlertmanagerConfig''\<rparr>"
| "kindType KPrometheusRule =
     \<lparr>tyPkgPath = ''github.com/prometheus-operator/prometheus-operator/pkg/apis/monitoring/v1'',
      tyName = ''PrometheusRule''\<rparr>"
| "kindType KPodMonitor =
     \<lparr>tyPkgPath = ''github.com/prometheus-operator/prometheus-operator/pkg/apis/monitoring/v1'',
      tyName = ''PodMonitor''\<rparr>"
| "kindType KServiceMonitor =
     \<lparr>tyPkgPath = ''github.com/prometheus-operator/prometheus-operator/pkg/apis/monitoring/v1'',
      tyName = ''ServiceMonitor''\<rparr>"
| "kindType KConfigMap = \<lparr>tyPkgPath = ''k8s.io/api/core/v1'', tyName = ''ConfigMap''\<rparr>"
| "kindType KSecret = \<lparr>tyPkgPath = ''k8s.io/api/core/v1'', tyName = ''Secret''\<rparr>"
| "kindType KService = \<lparr>tyPkgPath = ''k8s.io/api/core/v1'', tyName = ''Service''\<rparr>"
| "kindType KNetworkPolicy = \<lparr>tyPkgPath = ''k8s.io/api/networking/v1'', tyName = ''NetworkPolicy''\<rparr>"
| "kindType KCSV =
     \<lparr>tyPkgPath = ''github.com/operator-framework/api/pkg/operators/v1alpha1'',
      tyName = ''ClusterServiceVersion''\<rparr>"
| "kindType KBucketClass = \<lparr>tyPkgPath = noobaaPkg, tyName = ''BucketClass''\<rparr>"
| "kindType KBackingStore = \<lparr>tyPkgPath = noobaaPkg, tyName = ''BackingStore''\<rparr>"
| "kindType KNamespaceStore = \<lparr>tyPkgPath = noobaaPkg, tyName = ''NamespaceStore''\<rparr>"
| "kindType KObjectBucketClaim =
     \<lparr>tyPkgPath = ''github.com/kube-object-storage/lib-bucket-provisioner/pkg/apis/objectbucket.io/v1alpha1'',
      tyName = ''ObjectBucketClaim''\<rparr>"
| "kindType KClusterVersion = \<lparr>tyPkgPath = ''github.com/openshift/api/config/v1'', tyName = ''ClusterVersion''\<rparr>"

definition listType :: "kind \<Rightarrow> go_type" where
  "listType k = (kindType k)\<lparr>tyName := tyName (kindType k) @ ''List''\<rparr>"

section \<open>What a registration does\<close>

text \<open>
  \<open>registered \<tau> s\<close>: every kind in the scheme stands for the type that \<open>\<tau>\<close> gives it, the two maps
  are inverse to each other, and only types of the \<open>meta\<close> package are unversioned.
  \<open>registers \<tau> D m\<close>: \<open>m\<close> neither fails nor panics, keeps this and what was there, and adds \<open>D\<close>.
\<close>

definition gvks_of :: "scheme \<Rightarrow> go_type \<Rightarrow> gvk list" where
  "gvks_of s t = (case typeToGVK s t of None \<Rightarrow> [] | Some gvks \<Rightarrow> gvks)"

definition registered :: "(gvk \<Rightarrow> go_type) \<Rightarrow> scheme \<Rightarrow> bool" where
  "registered \<tau> s \<longleftrightarrow>
     (\<forall>gvk t. gvkToType s gvk = Some t \<longrightarrow> t = \<tau> gvk) \<and>
     (\<forall>t. distinct (gvks_of s t) \<and> set (gvks_of s t) = {gvk. gvkToType s gvk = Some t}) \<and>
     (\<forall>t. unversionedTypes s t \<noteq> None \<longrightarrow> tyPkgPath t = metaPkg) \<and>
     (\<forall>n t. unversionedKinds s n = Some t \<longrightarrow> t = \<lparr>tyPkgPath = metaPkg, tyName = n\<rparr>)"

definition registers :: "(gvk \<Rightarrow> go_type) \<Rightarrow> gvk set \<Rightarrow> unit sact \<Rightarrow> bool" where
  "registers \<tau> D m \<longleftrightarrow>
     (\<forall>s. registered \<tau> s \<longrightarrow>
        (\<exists>s'. m s = (Ok (), s') \<and> registered \<tau> s' \<and> dom (gvkToType s) \<union> D \<subseteq> dom (gvkToType s')))"

lemma registers_retA: "registers \<tau> {} (retA ())"
  by (simp add: registers_def retA_def)

lemma registers_thenA:
  assumes "registers \<tau> D m" and "registers \<tau> D' n"
  shows "registers \<tau> (D \<union> D') (thenA m n)"
  unfolding registers_def
proof (intro allI impI)
  fix s assume "registered \<tau> s"
  then obtain s' where m: "m s = (Ok (), s')" "registered \<tau> s'" "dom (gvkToType s) \<union> D \<subseteq> dom (gvkToType s')"
    using assms(1) unfolding registers_def by blast
  then obtain s'' where "n s' = (Ok (), s'')" "registered \<tau> s''" "dom (gvkToType s') \<union> D' \<subseteq> dom (gvkToType s'')"
    using assms(2) unfolding registers_def by blast
  with m show "\<exists>s'. thenA m n s = (Ok (), s') \<and> registered \<tau> s' \<and>
      dom (gvkToType s) \<union> (D \<union> D') \<subseteq> dom (gvkToType s')"
    by (intro exI [of _ s'']) (simp add: thenA_def bindA_def, blast)
qed

lemma registers_mono: "registers \<tau> D m \<Longrightarrow> D' \<subseteq> D \<Longrightarrow> registers \<tau> D' m"
  unfolding registers_def by (meson order_trans Un_mono order_refl)

lemma registers_forA: "list_all (\<lambda>x. registers \<tau> (D x) (f x)) xs \<Longrightarrow> registers \<tau> (\<Union>x\<in>set xs. D x) (forA f xs)"
  by (induction xs) (simp_all add: registers_retA registers_thenA)

lemma registers_Must:
  assumes "registers \<tau> D m"
  shows "registers \<tau> D (Must m)"
proof -
  have "m s = (Ok (), s') \<Longrightarrow> Must m s = (Ok (), s')" for s s'
    by (simp add: Must_def bindA_def tryA_def retA_def)
  then show ?thesis using assms unfolding registers_def by meson
qed

lemma registers_modA:
  "(\<And>s. registered \<tau> s \<Longrightarrow> registered \<tau> (f s)) \<Longrightarrow> (\<And>s. gvkToType (f s) = gvkToType s) \<Longrightarrow> registers \<tau> {} (modA f)"
  by (simp add: registers_def modA_def)

lemma registers_observed: "registers \<tau> {} (modA (addObservedVersion gv))"
  by (rule registers_modA) (simp_all add: addObservedVersion_def registered_def gvks_of_def)

lemma registeredD:
  assumes "registered \<tau> s"
  shows "gvkToType s gvk = Some t \<Longrightarrow> t = \<tau> gvk" "distinct (gvks_of s t')"
    "set (gvks_of s t') = {gvk'. gvkToType s gvk' = Some t'}" "unversionedTypes s t' \<noteq> None \<Longrightarrow> tyPkgPath t' = metaPkg"
    "unversionedKinds s n = Some t' \<Longrightarrow> t' = \<lparr>tyPkgPath = metaPkg, tyName = n\<rparr>"
  using assms unfolding registered_def by blast+

text \<open>The two maps after a type has been added under its kind.\<close>

definition addType :: "gvk \<Rightarrow> go_type \<Rightarrow> scheme \<Rightarrow> scheme" where
  "addType gvk t s =
     (let s' = s\<lparr>gvkToType := (gvkToType s)(gvk \<mapsto> t)\<rparr> in
      if gvk \<in> set (gvks_of s t) then s' else s'\<lparr>typeToGVK := (typeToGVK s)(t \<mapsto> gvks_of s t @ [gvk])\<rparr>)"

lemma addType_maps:
  "gvkToType (addType gvk t s) = (gvkToType s)(gvk \<mapsto> t)"
  "gvks_of (addType gvk t s) t' =
     (if t' = t \<and> gvk \<notin> set (gvks_of s t) then gvks_of s t @ [gvk] else gvks_of s t')"
  "unversionedTypes (addType gvk t s) = unversionedTypes s" "unversionedKinds (addType gvk t s) = unversionedKinds s"
  by (simp_all add: addType_def Let_def gvks_of_def)

lemma registered_addType:
  assumes s: "registered \<tau> s" and t: "\<tau> gvk = t"
  shows "registered \<tau> (addType gvk t s)"
proof -
  note typed = registeredD(1) [OF s] and inverse = registeredD(2,3) [OF s]
  have old: "gvkToType s gvk = Some t' \<Longrightarrow> t' = t" for t' using typed t by blast
  have "set (gvks_of (addType gvk t s) t') = {gvk'. gvkToType (addType gvk t s) gvk' = Some t'}" for t'
    using inverse(2) [of t'] old [of t'] by (auto simp: addType_maps)
  moreover have "distinct (gvks_of (addType gvk t s) t')" for t'
    using inverse(1) by (simp add: addType_maps)
  moreover have "gvkToType (addType gvk t s) gvk' = Some t' \<Longrightarrow> t' = \<tau> gvk'" for gvk' t'
    using typed t by (auto simp: addType_maps split: if_splits)
  ultimately show ?thesis using s by (simp add: registered_def addType_maps)
qed

lemma registers_AddKnownTypeWithName:
  assumes "fst (snd gvk) \<noteq> ''''" and "\<tau> gvk = t"
  shows "registers \<tau> {gvk} (AddKnownTypeWithName gvk t)"
  unfolding registers_def
proof (intro allI impI)
  fix s assume s: "registered \<tau> s"
  let ?s = "addObservedVersion (fst gvk, fst (snd gvk)) s"
  have s': "registered \<tau> ?s" "gvkToType ?s = gvkToType s"
    using s by (simp_all add: addObservedVersion_def registered_def gvks_of_def)
  then have "gvkToType ?s gvk = None \<or> gvkToType ?s gvk = Some t"
    using assms(2) registeredD(1) [OF s'(1), of gvk] by (cases "gvkToType ?s gvk") simp_all
  then have "AddKnownTypeWithName gvk t s = (Ok (), addType gvk t ?s)"
    using assms(1)
    by (auto simp: AddKnownTypeWithName_def addType_def gvks_of_def act_unfold Let_def split: option.splits)
  then show "\<exists>s'. AddKnownTypeWithName gvk t s = (Ok (), s') \<and> registered \<tau> s' \<and>
      dom (gvkToType s) \<union> {gvk} \<subseteq> dom (gvkToType s')"
    using registered_addType [OF s'(1) assms(2)] s'(2) by (auto simp: addType_maps)
qed

definition known :: "gv \<Rightarrow> go_type list \<Rightarrow> gvk set" where
  "known gv types = (\<Union>t\<in>set types. {(fst gv, snd gv, tyName t)})"

lemma registers_AddKnownTypes:
  assumes "snd gv \<noteq> ''''" and "list_all (\<lambda>t. \<tau> (fst gv, snd gv, tyName t) = t) types"
  shows "registers \<tau> (known gv types) (AddKnownTypes gv types)"
proof -
  have "list_all (\<lambda>t. registers \<tau> {(fst gv, snd gv, tyName t)}
      (AddKnownTypeWithName (fst gv, snd gv, tyName t) t)) types"
    using assms by (simp add: list_all_iff registers_AddKnownTypeWithName)
  from registers_thenA [OF registers_observed registers_forA [OF this]] show ?thesis
    by (simp only: AddKnownTypes_def known_def Un_empty_left)
qed

lemma registers_markUnversioned:
  assumes "tyPkgPath t = metaPkg"
  shows "registers \<tau> {} (markUnversioned gv t)"
  unfolding registers_def
proof (intro allI impI)
  fix s assume s: "registered \<tau> s"
  let ?gvk = "(fst gv, snd gv, tyName t)"
  let ?s = "s\<lparr>unversionedTypes := (unversionedTypes s)(t \<mapsto> ?gvk), unversionedKinds := (unversionedKinds s)(tyName t \<mapsto> t)\<rparr>"
  have t: "t = \<lparr>tyPkgPath = metaPkg, tyName = tyName t\<rparr>" using assms by simp
  then have "unversionedKinds s (tyName t) = None \<or> unversionedKinds s (tyName t) = Some t"
    using registeredD(5) [OF s, of "tyName t"] by (cases "unversionedKinds s (tyName t)") auto
  then have "markUnversioned gv t s = (Ok (), ?s)"
    by (auto simp: markUnversioned_def act_unfold Let_def)
  moreover have "registered \<tau> ?s"
    using s assms by (auto simp: registered_def gvks_of_def simp del: split_paired_All split_paired_Ex)
  ultimately show "\<exists>s'. markUnversioned gv t s = (Ok (), s') \<and> registered \<tau> s' \<and>
      dom (gvkToType s) \<union> {} \<subseteq> dom (gvkToType s')" by simp
qed

lemma registers_AddUnversionedTypes:
  assumes "snd gv \<noteq> ''''" and "list_all (\<lambda>t. \<tau> (fst gv, snd gv, tyName t) = t) types"
    and "list_all (\<lambda>t. tyPkgPath t = metaPkg) types"
  shows "registers \<tau> (known gv types) (AddUnversionedTypes gv types)"
proof -
  have "list_all (\<lambda>t. registers \<tau> {} (markUnversioned gv t)) types"
    using assms(3) by (simp add: list_all_iff registers_markUnversioned)
  from registers_thenA [OF registers_observed
      registers_thenA [OF registers_AddKnownTypes [OF assms(1,2)] registers_forA [OF this]]]
  show ?thesis by (simp add: AddUnversionedTypes_def)
qed

section \<open>Packages whose kinds do not clash\<close>

text \<open>
  A registry of packages: which type a group, version and kind stand for, so that the common types
  of the \<open>meta\<close> package have their own names in every group.
\<close>

definition metaNames :: "string list" where
  "metaNames = WatchEventKind # map tyName optionsTypes @ [''Status'', ''APIVersions'', ''APIGroupList'', ''APIGroup'', ''APIResourceList'']"

definition fits :: "(gvk \<Rightarrow> go_type) \<Rightarrow> api_group \<Rightarrow> bool" where
  "fits \<tau> g \<longleftrightarrow> snd (agGV g) \<noteq> '''' \<and> snd (agGV g) \<noteq> APIVersionInternal \<and>
     list_all (\<lambda>n. \<tau> (fst (agGV g), snd (agGV g), n) = \<lparr>tyPkgPath = agPkg g, tyName = n\<rparr>) (agNames g)"

locale type_registry =
  fixes \<tau> :: "gvk \<Rightarrow> go_type"
  assumes meta_types: "v \<noteq> APIVersionInternal \<Longrightarrow> n \<in> set metaNames \<Longrightarrow> \<tau> (g, v, n) = \<lparr>tyPkgPath = metaPkg, tyName = n\<rparr>"
    and internal_events: "\<tau> (g, APIVersionInternal, WatchEventKind) = \<lparr>tyPkgPath = metaPkg, tyName = ''InternalEvent''\<rparr>"
begin

lemma AddToGroupVersion_registers:
  assumes "snd gv \<noteq> ''''" "snd gv \<noteq> APIVersionInternal"
  shows "registers \<tau> {} (AddToGroupVersion gv)"
proof -
  have "registers \<tau> {(fst gv, snd gv, WatchEventKind)}
      (AddKnownTypeWithName (fst gv, snd gv, WatchEventKind) \<lparr>tyPkgPath = metaPkg, tyName = ''WatchEvent''\<rparr>)"
    using assms by (intro registers_AddKnownTypeWithName) (simp_all add: meta_types metaNames_def WatchEventKind_def)
  moreover have "registers \<tau> {(fst gv, APIVersionInternal, WatchEventKind)}
      (AddKnownTypeWithName (fst gv, APIVersionInternal, WatchEventKind) \<lparr>tyPkgPath = metaPkg, tyName = ''InternalEvent''\<rparr>)"
    by (intro registers_AddKnownTypeWithName) (simp_all add: internal_events, simp add: APIVersionInternal_def)
  moreover have "registers \<tau> {} (AddKnownTypes gv optionsTypes)"
    by (rule registers_mono [OF registers_AddKnownTypes])
      (use assms in \<open>simp_all add: meta_types metaNames_def optionsTypes_def\<close>)
  moreover have "registers \<tau> {} (AddUnversionedTypes Unversioned
      (types_of metaPkg [''Status'', ''APIVersions'', ''APIGroupList'', ''APIGroup'', ''APIResourceList'']))"
    by (rule registers_mono [OF registers_AddUnversionedTypes])
      (simp_all add: meta_types metaNames_def Unversioned_def APIVersionInternal_def)
  ultimately show ?thesis
    unfolding AddToGroupVersion_def
    by (blast intro: registers_mono registers_thenA)
qed

lemma addKnownTypes_registers:
  assumes "fits \<tau> g"
  shows "registers \<tau> (known (agGV g) (types_of (agPkg g) (agNames g))) (addKnownTypes g)"
proof -
  have "registers \<tau> (known (agGV g) (types_of (agPkg g) (agNames g)))
      (AddKnownTypes (agGV g) (types_of (agPkg g) (agNames g)))"
    using assms by (intro registers_AddKnownTypes) (simp_all add: fits_def list_all_iff)
  moreover have "registers \<tau> {} (AddToGroupVersion (agGV g))"
    using assms by (intro AddToGroupVersion_registers) (simp_all add: fits_def)
  ultimately show ?thesis
    unfolding addKnownTypes_def by (metis registers_thenA Un_empty_right)
qed

text \<open>The packages that register in another order, or more than their own types.\<close>

lemma meta_first_registers:
  assumes "fits \<tau> g"
  shows "registers \<tau> (known (agGV g) (types_of (agPkg g) (agNames g)))
    (thenA (AddToGroupVersion (agGV g)) (AddKnownTypes (agGV g) (types_of (agPkg g) (agNames g))))"
proof -
  have "registers \<tau> (known (agGV g) (types_of (agPkg g) (agNames g)))
      (AddKnownTypes (agGV g) (types_of (agPkg g) (agNames g)))"
    using assms by (intro registers_AddKnownTypes) (simp_all add: fits_def list_all_iff)
  moreover have "registers \<tau> {} (AddToGroupVersion (agGV g))"
    using assms by (intro AddToGroupVersion_registers) (simp_all add: fits_def)
  ultimately show ?thesis
    by (metis registers_thenA Un_empty_left)
qed

lemma corev1_registers:
  assumes "fits \<tau> corev1_group"
  shows "registers \<tau> (known (agGV corev1_group) (types_of (agPkg corev1_group) (agNames corev1_group))) corev1_AddToScheme"
proof -
  have "registers \<tau> {} (AddKnownTypes (agGV corev1_group) (types_of metaPkg [''Status'']))"
    by (rule registers_mono [OF registers_AddKnownTypes])
      (simp_all add: corev1_group_def meta_types metaNames_def APIVersionInternal_def)
  from registers_thenA [OF registers_AddKnownTypes registers_thenA [OF this AddToGroupVersion_registers]] assms
  show ?thesis by (simp add: corev1_AddToScheme_def fits_def list_all_iff)
qed

end

text \<open>The packages of the two programs: no group and version has two of them.\<close>

definition noobaa_group :: api_group where
  "noobaa_group = Api_Group (''noobaa.io'', ''v1alpha1'') noobaaPkg
     [''BackingStore'', ''BackingStoreList'', ''BucketClass'', ''BucketClassList'', ''NamespaceStore'',
      ''NamespaceStoreList'', ''NooBaa'', ''NooBaaList'', ''NooBaaAccount'', ''NooBaaAccountList'']"

definition mcg_group :: api_group where
  "mcg_group = Api_Group GroupVersion mcgPkg [''ManagedMCG'', ''ManagedMCGList'']"

definition all_groups :: "api_group list" where
  "all_groups = clientgo_groups @
     [configv1_group, operatorv1_group, consolev1_group, consolev1alpha1_group, networkv1_group,
      operatorsv1alpha1_group, monitoringv1_group, monitoringv1alpha1_group, objectbucketv1alpha1_group,
      noobaa_group, mcg_group]"

lemmas group_defs = appsv1_group_def corev1_group_def networkingv1_group_def configv1_group_def operatorv1_group_def
  consolev1_group_def consolev1alpha1_group_def networkv1_group_def operatorsv1alpha1_group_def monitoringv1_group_def
  monitoringv1alpha1_group_def objectbucketv1alpha1_group_def noobaa_group_def mcg_group_def mcgPkg_def noobaaPkg_def
  GroupVersion_def

definition goTypeOf :: "gvk \<Rightarrow> go_type" where
  "goTypeOf gvk =
     (case gvk of (g, v, n) \<Rightarrow>
        if v = APIVersionInternal \<and> n = WatchEventKind then \<lparr>tyPkgPath = metaPkg, tyName = ''InternalEvent''\<rparr>
        else if n \<in> set metaNames then \<lparr>tyPkgPath = metaPkg, tyName = n\<rparr>
        else (case map_of (map (\<lambda>p. (agGV p, agPkg p)) all_groups) (g, v) of
            None \<Rightarrow> \<lparr>tyPkgPath = '''', tyName = n\<rparr>
          | Some pkg \<Rightarrow> \<lparr>tyPkgPath = pkg, tyName = n\<rparr>))"

interpretation go: type_registry goTypeOf
  by unfold_locales (simp_all add: goTypeOf_def)

lemma groups_distinct: "distinct (map agGV all_groups)" 
  by code_simp

lemma groups_named:
  "list_all (\<lambda>g. snd (agGV g) \<noteq> '''' \<and> snd (agGV g) \<noteq> APIVersionInternal \<and>
     list_all (\<lambda>n. n \<notin> set metaNames) (agNames g)) all_groups"
  by code_simp

lemma groups_packages: "distinct (map agPkg all_groups)"
  by code_simp

lemma groups_fit:
  assumes "g \<in> set all_groups"
  shows "fits goTypeOf g"
proof -
  have "map_of (map (\<lambda>p. (agGV p, agPkg p)) all_groups) (agGV g) = Some (agPkg g)"
    using groups_distinct assms by (intro map_of_is_SomeI) (simp_all add: comp_def image_iff, blast)
  then show ?thesis
    using assms groups_named by (auto simp: fits_def list_all_iff goTypeOf_def)
qed

lemma groups_set: "set clientgo_groups \<subseteq> set all_groups" "corev1_group \<in> set all_groups"
  "configv1_group \<in> set all_groups" "operatorv1_group \<in> set all_groups" "consolev1_group \<in> set all_groups"
  "consolev1alpha1_group \<in> set all_groups" "networkv1_group \<in> set all_groups" "operatorsv1alpha1_group \<in> set all_groups"
  "monitoringv1_group \<in> set all_groups" "monitoringv1alpha1_group \<in> set all_groups"
  "objectbucketv1alpha1_group \<in> set all_groups" "noobaa_group \<in> set all_groups" "mcg_group \<in> set all_groups"
proof -
  show "corev1_group \<in> set all_groups" unfolding all_groups_def clientgo_groups_def by simp
qed (auto simp: all_groups_def)

text \<open>The kinds of a package, and what the registrations of the two programs add.\<close>

abbreviation kinds_in :: "api_group \<Rightarrow> gvk set" where
  "kinds_in g \<equiv> known (agGV g) (types_of (agPkg g) (agNames g))"

lemmas group_registers = go.addKnownTypes_registers [OF groups_fit] go.meta_first_registers [OF groups_fit]
  go.corev1_registers [OF groups_fit]

lemma clientgo_registers: "registers goTypeOf (\<Union>g\<in>set clientgo_groups. kinds_in g) clientgo_AddToScheme"
proof -
  have "registers goTypeOf (kinds_in g) (if g = corev1_group then corev1_AddToScheme else addKnownTypes g)"
    if "g \<in> set clientgo_groups" for g
    using group_registers(1,3) groups_set(1,2) that by auto
  then have "list_all (\<lambda>g. registers goTypeOf (kinds_in g)
      (if g = corev1_group then corev1_AddToScheme else addKnownTypes g)) clientgo_groups"
    by (simp add: list_all_iff)
  then have "registers goTypeOf (\<Union>g\<in>set clientgo_groups. kinds_in g)
      (forA (\<lambda>g. if g = corev1_group then corev1_AddToScheme else addKnownTypes g) clientgo_groups)"
    by (rule registers_forA)
  moreover have "forA (\<lambda>f. f) (map h gs) = forA h gs" for h :: "api_group \<Rightarrow> unit sact" and gs
    by (induction gs) simp_all
  ultimately show ?thesis by (simp only: clientgo_AddToScheme_def SchemeBuilder_AddToScheme_def)
qed

text \<open>A builder of controller-runtime registers its types under one group and version.\<close>

lemma Builder_Register_registers:
  assumes "registers goTypeOf D (Builder_AddToScheme bld)" and "bldGroupVersion bld = agGV g" and "fits goTypeOf g"
    and "set names \<subseteq> set (agNames g)"
  shows "registers goTypeOf (D \<union> known (agGV g) (types_of (agPkg g) names))
    (Builder_AddToScheme (Builder_Register (types_of (agPkg g) names) bld))"
proof -
  have "registers goTypeOf (known (agGV g) (types_of (agPkg g) names)) (AddKnownTypes (agGV g) (types_of (agPkg g) names))"
    using assms(3,4) by (intro registers_AddKnownTypes) (auto simp: fits_def list_all_iff)
  moreover have "registers goTypeOf {} (AddToGroupVersion (agGV g))"
    using assms(3) by (intro go.AddToGroupVersion_registers) (simp_all add: fits_def)
  ultimately have "registers goTypeOf (known (agGV g) (types_of (agPkg g) names))
      (thenA (AddKnownTypes (agGV g) (types_of (agPkg g) names)) (AddToGroupVersion (agGV g)))"
    by (metis registers_thenA Un_empty_right)
  with assms(1) have "registers goTypeOf (D \<union> known (agGV g) (types_of (agPkg g) names))
      (thenA (Builder_AddToScheme bld) (thenA (thenA (AddKnownTypes (agGV g) (types_of (agPkg g) names))
        (AddToGroupVersion (agGV g))) (retA ())))"
    by (metis registers_thenA registers_retA Un_empty_right)
  then show ?thesis
    by (simp add: Builder_AddToScheme_def Builder_Register_def SchemeBuilder_AddToScheme_def forA_append assms(2))
qed

lemma empty_builder_registers: "registers goTypeOf {} (Builder_AddToScheme \<lparr>bldGroupVersion = gv, bldFuncs = []\<rparr>)"
  by (simp add: Builder_AddToScheme_def SchemeBuilder_AddToScheme_def registers_retA)

lemma mcg_registers: "registers goTypeOf (kinds_in mcg_group) mcg_AddToScheme"
  using Builder_Register_registers [OF empty_builder_registers _ groups_fit [OF groups_set(13)],
      of GroupVersion "agNames mcg_group"]
  by (simp add: mcg_AddToScheme_def mcgSchemeBuilder_def mcg_group_def)

lemma noobaa_registers: "registers goTypeOf (kinds_in noobaa_group) (Builder_AddToScheme noobaaSchemeBuilder)"
proof -
  note step = Builder_Register_registers [where g = noobaa_group, OF _ _ groups_fit [OF groups_set(12)]]
  have "registers goTypeOf (kinds_in noobaa_group)
      (Builder_AddToScheme (fold (\<lambda>names. Builder_Register (types_of (agPkg noobaa_group) names))
       [[''BackingStore'', ''BackingStoreList''], [''BucketClass'', ''BucketClassList''],
        [''NamespaceStore'', ''NamespaceStoreList''], [''NooBaa'', ''NooBaaList''],
        [''NooBaaAccount'', ''NooBaaAccountList'']]
       \<lparr>bldGroupVersion = (''noobaa.io'', ''v1alpha1''), bldFuncs = []\<rparr>))"
    unfolding fold.simps comp_def id_def
    by (rule registers_mono, (rule step)+, rule empty_builder_registers)
      (simp_all add: Builder_Register_def noobaa_group_def known_def)
  then show ?thesis by (simp add: noobaaSchemeBuilder_def noobaa_group_def)
qed

lemma Builder_registers_list: "registers \<tau> D m \<Longrightarrow> registers \<tau> D (SchemeBuilder_AddToScheme [m])"
  using registers_thenA [OF _ registers_retA] by (fastforce simp: SchemeBuilder_AddToScheme_def)

lemma Builder_registers_list2:
  "registers \<tau> D m \<Longrightarrow> registers \<tau> D' m' \<Longrightarrow> registers \<tau> (D \<union> D') (SchemeBuilder_AddToScheme [m, m'])"
  using registers_thenA [OF _ registers_thenA [OF _ registers_retA]] by (fastforce simp: SchemeBuilder_AddToScheme_def)

lemma openshift_registers:
  "registers goTypeOf (kinds_in operatorv1_group \<union> kinds_in configv1_group) operatorv1_AddToScheme"
  "registers goTypeOf (kinds_in consolev1_group \<union> kinds_in corev1_group) consolev1_AddToScheme"
  "registers goTypeOf (kinds_in consolev1alpha1_group \<union> kinds_in corev1_group) consolev1alpha1_AddToScheme"
  unfolding operatorv1_AddToScheme_def consolev1_AddToScheme_def consolev1alpha1_AddToScheme_def
  by (intro Builder_registers_list2 group_registers groups_set)+

lemma probe_init_registers:
  "registers goTypeOf ((\<Union>g\<in>set clientgo_groups. kinds_in g) \<union> kinds_in mcg_group) probe_init"
  unfolding probe_init_def forA.simps
  by (rule registers_mono, (rule registers_thenA registers_Must registers_retA clientgo_registers mcg_registers)+) simp

lemma main_init_registers: "registers goTypeOf (\<Union>g\<in>set all_groups. kinds_in g) main_init"
proof -
  have "registers goTypeOf (kinds_in noobaa_group) noobaa_AddToScheme"
    unfolding noobaa_AddToScheme_def by (intro Builder_registers_list noobaa_registers)
  then show ?thesis
    unfolding main_init_def forA.simps
    by - (rule registers_mono, (rule registers_thenA registers_Must registers_retA clientgo_registers mcg_registers
        noobaa_registers openshift_registers group_registers(1) groups_set | assumption)+, auto simp: all_groups_def)
qed

section \<open>The kinds of the operator\<close>

fun kind_group :: "kind \<Rightarrow> api_group" where
  "kind_group KManagedMCG = mcg_group"
| "kind_group KNooBaa = noobaa_group"
| "kind_group KStatefulSet = appsv1_group"
| "kind_group KDeployment = appsv1_group"
| "kind_group KConsolePlugin = consolev1alpha1_group"
| "kind_group KConsole = operatorv1_group"
| "kind_group KPrometheus = monitoringv1_group"
| "kind_group KAlertmanager = monitoringv1_group"
| "kind_group KAlertmanagerConfig = monitoringv1alpha1_group"
| "kind_group KPrometheusRule = monitoringv1_group"
| "kind_group KPodMonitor = monitoringv1_group"
| "kind_group KServiceMonitor = monitoringv1_group"
| "kind_group KConfigMap = corev1_group"
| "kind_group KSecret = corev1_group"
| "kind_group KService = corev1_group"
| "kind_group KNetworkPolicy = networkingv1_group"
| "kind_group KCSV = operatorsv1alpha1_group"
| "kind_group KBucketClass = noobaa_group"
| "kind_group KBackingStore = noobaa_group"
| "kind_group KNamespaceStore = noobaa_group"
| "kind_group KObjectBucketClaim = objectbucketv1alpha1_group"
| "kind_group KClusterVersion = configv1_group"

lemma kind_group_in: "kind_group k \<in> set all_groups"
proof -
  have "appsv1_group \<in> set all_groups" "networkingv1_group \<in> set all_groups"
    unfolding all_groups_def clientgo_groups_def by simp_all
  with groups_set show ?thesis by (cases k) simp_all
qed

lemma kind_group_row:
  "agPkg (kind_group k) = tyPkgPath (kindType k)" "kind_gvk k = (fst (agGV (kind_group k)), snd (agGV (kind_group k)), tyName (kindType k))"
  "tyName (kindType k) \<in> set (agNames (kind_group k))" "tyName (listType k) \<in> set (agNames (kind_group k))"
  "tyPkgPath (kindType k) \<noteq> metaPkg" "tyPkgPath (kindType k) \<noteq> ''''"
  by (cases k; simp add: group_defs listType_def metaPkg_def)+

text \<open>A type of the packages of the operator stands for one kind only.\<close>

lemma goTypeOf_unique:
  assumes "g \<in> set all_groups" and "goTypeOf gvk = \<lparr>tyPkgPath = agPkg g, tyName = n\<rparr>"
    and "agPkg g \<noteq> metaPkg" and "agPkg g \<noteq> ''''"
  shows "gvk = (fst (agGV g), snd (agGV g), n)"
proof -
  obtain a v n' where gvk: "gvk = (a, v, n')" by (cases gvk)
  with assms(2-4) have n: "n' = n" and "map_of (map (\<lambda>p. (agGV p, agPkg p)) all_groups) (a, v) = Some (agPkg g)"
    by (auto simp: goTypeOf_def split: if_splits option.splits)
  then obtain p where "p \<in> set all_groups" "agGV p = (a, v)" "agPkg p = agPkg g"
    by (auto dest!: map_of_SomeD)
  moreover from this have "p = g" using groups_packages assms(1) by (auto simp: distinct_map dest: inj_onD)
  ultimately show ?thesis using gvk n by simp
qed

lemma singleton_list: "set xs = {x} \<Longrightarrow> distinct xs \<Longrightarrow> xs = [x]"
  by (cases xs; cases "tl xs") auto

lemma scheme_answers:
  assumes s: "registered goTypeOf s" and "(fst (agGV g), snd (agGV g), n) \<in> dom (gvkToType s)"
    and g: "g \<in> set all_groups" "n \<in> set (agNames g)" "agPkg g \<noteq> metaPkg" "agPkg g \<noteq> ''''"
  shows "gvkToType s (fst (agGV g), snd (agGV g), n) = Some \<lparr>tyPkgPath = agPkg g, tyName = n\<rparr> \<and>
    GVKForObject \<lparr>tyPkgPath = agPkg g, tyName = n\<rparr> s = Inr (fst (agGV g), snd (agGV g), n)"
proof -
  let ?gvk = "(fst (agGV g), snd (agGV g), n)" and ?t = "\<lparr>tyPkgPath = agPkg g, tyName = n\<rparr>"
  have t: "goTypeOf ?gvk = ?t" using groups_fit [OF g(1)] g(2) by (simp add: fits_def list_all_iff)
  obtain t where "gvkToType s ?gvk = Some t" using assms(2) by (rule domD [THEN exE])
  with registeredD(1) [OF s this] t have here: "gvkToType s ?gvk = Some ?t" by simp
  have "{gvk. gvkToType s gvk = Some ?t} = {?gvk}"
  proof (intro equalityI subsetI)
    fix gvk assume "gvk \<in> {gvk. gvkToType s gvk = Some ?t}"
    then have "goTypeOf gvk = ?t" using registeredD(1) [OF s, of gvk ?t] by simp
    then show "gvk \<in> {?gvk}" using goTypeOf_unique [OF g(1) _ g(3,4), of gvk n] by simp
  qed (use here in simp)
  then have "set (gvks_of s ?t) = {?gvk}" and "distinct (gvks_of s ?t)"
    using registeredD(2,3) [OF s, of ?t] by simp_all
  then have "gvks_of s ?t = [?gvk]" by (rule singleton_list)
  then have "typeToGVK s ?t = Some [?gvk]" by (simp add: gvks_of_def split: option.splits)
  moreover have "unversionedTypes s ?t = None"
    using registeredD(4) [OF s, of ?t] g(3) by (cases "unversionedTypes s ?t = None") simp_all
  ultimately show ?thesis using here by (simp add: GVKForObject_def ObjectKinds_def)
qed

lemma registered_NewScheme: "registered \<tau> NewScheme"
  by (simp add: registered_def NewScheme_def gvks_of_def)

definition listKind :: "kind \<Rightarrow> gvk" where
  "listKind k = (case kind_gvk k of (g, v, n) \<Rightarrow> (g, v, n @ ''List''))"

lemma kind_answers:
  assumes "registered goTypeOf s" and "kinds_in (kind_group k) \<subseteq> dom (gvkToType s)"
  shows "GVKForObject (kindType k) s = Inr (kind_gvk k)" "GVKForObject (listType k) s = Inr (listKind k)"
    "gvkToType s (kind_gvk k) = Some (kindType k)" "gvkToType s (listKind k) = Some (listType k)"
proof -
  note row = kind_group_row [of k]
  have "GVKForObject \<lparr>tyPkgPath = agPkg (kind_group k), tyName = n\<rparr> s =
      Inr (fst (agGV (kind_group k)), snd (agGV (kind_group k)), n) \<and>
    gvkToType s (fst (agGV (kind_group k)), snd (agGV (kind_group k)), n) =
      Some \<lparr>tyPkgPath = agPkg (kind_group k), tyName = n\<rparr>"
    if "n \<in> set (agNames (kind_group k))" for n
    using scheme_answers [OF assms(1) _ kind_group_in that] row(1,5,6) assms(2) that by (fastforce simp: known_def)
  note at = this [OF row(3)] this [OF row(4)]
  have kind: "kindType k = \<lparr>tyPkgPath = agPkg (kind_group k), tyName = tyName (kindType k)\<rparr>"
    and list: "listType k = \<lparr>tyPkgPath = agPkg (kind_group k), tyName = tyName (listType k)\<rparr>"
    using row(1) by (simp_all add: listType_def)
  have listKind: "listKind k = (fst (agGV (kind_group k)), snd (agGV (kind_group k)), tyName (listType k))"
    using row(2) by (simp add: listType_def listKind_def)
  show "GVKForObject (kindType k) s = Inr (kind_gvk k)" "gvkToType s (kind_gvk k) = Some (kindType k)"
    using at(1) unfolding row(2) kind [symmetric] by blast+
  show "GVKForObject (listType k) s = Inr (listKind k)" "gvkToType s (listKind k) = Some (listType k)"
    using at(2) unfolding listKind list [symmetric] by blast+
qed

text \<open>
  C8. Typing of the client. The \<open>init\<close> function of the operator fills the empty scheme without an
  error or a double registration, and with the result the client finds for the Go type of every
  object and every list the one group, version and kind that the model uses for it, and back. The
  scheme of the readiness probe does so for the only kind it reads.
\<close>

theorem scheme_typed:
  "(\<exists>s. main_init NewScheme = (Ok (), s) \<and>
     (\<forall>k. GVKForObject (kindType k) s = Inr (kind_gvk k) \<and> GVKForObject (listType k) s = Inr (listKind k) \<and>
          gvkToType s (kind_gvk k) = Some (kindType k) \<and> gvkToType s (listKind k) = Some (listType k))) \<and>
   (\<exists>s. probe_init NewScheme = (Ok (), s) \<and> GVKForObject (kindType KManagedMCG) s = Inr (kind_gvk KManagedMCG))"
proof -
  have run: "registers goTypeOf D m \<Longrightarrow>
      \<exists>s. m NewScheme = (Ok (), s) \<and> registered goTypeOf s \<and> D \<subseteq> dom (gvkToType s)" for D m
    unfolding registers_def using registered_NewScheme le_sup_iff by meson
  obtain s where s: "main_init NewScheme = (Ok (), s)" "registered goTypeOf s"
    "(\<Union>g\<in>set all_groups. kinds_in g) \<subseteq> dom (gvkToType s)"
    using run [OF main_init_registers] by blast
  have "kinds_in (kind_group k) \<subseteq> dom (gvkToType s)" for k
    by (rule order_trans [OF UN_upper [OF kind_group_in] s(3)])
  note answers = kind_answers [OF s(2) this]
  obtain s' where s': "probe_init NewScheme = (Ok (), s')" "registered goTypeOf s'"
    "(\<Union>g\<in>set clientgo_groups. kinds_in g) \<union> kinds_in mcg_group \<subseteq> dom (gvkToType s')"
    using run [OF probe_init_registers] by blast
  then have "kinds_in (kind_group KManagedMCG) \<subseteq> dom (gvkToType s')" by (simp only: kind_group.simps le_sup_iff)
  note probe = kind_answers(1) [OF s'(2) this]
  show ?thesis
    by (intro conjI exI [of _ s] exI [of _ s'] allI s(1) s'(1) answers probe)
qed

end
