(* ===== verification/Rbac.thy ===== *)
theory Rbac
  imports Scheme Frame
begin

text \<open>
  What the operator may do. The markers above \<open>Reconcile\<close> (\<open>controllers/managedmcg_controller.go\<close>,
  \<open>+kubebuilder:rbac\<close>) are the source of the roles the operator is deployed with; here they are a
  table, with the decision of the API server on a request, so that the requests of the operator
  can be checked against it.
\<close>

section \<open>The rules\<close>

text \<open>A marker with \<open>namespace=system\<close> is a rule of the role in the operator's own namespace, the others hold in all.\<close>

record rbac_rule =
  rbGroup :: string
  rbSystem :: bool
  rbResources :: "string list"
  rbVerbs :: "string list"

definition rbac_rules :: "rbac_rule list" where
  "rbac_rules =
    [\<lparr>rbGroup = '''', rbSystem = True, rbResources = [''configmaps''],
      rbVerbs = [''create'', ''get'', ''list'', ''watch'', ''update'']\<rparr>,
     \<lparr>rbGroup = '''', rbSystem = True, rbResources = [''secrets''],
      rbVerbs = [''get'', ''list'', ''watch'', ''create'', ''update'']\<rparr>,
     \<lparr>rbGroup = '''', rbSystem = True, rbResources = [''services'', ''endpoints''],
      rbVerbs = [''get'', ''list'', ''watch'', ''create'', ''update'', ''patch'', ''delete'']\<rparr>,
     \<lparr>rbGroup = ''apps'', rbSystem = True, rbResources = [''deployments''],
      rbVerbs = [''get'', ''list'', ''watch'', ''create'', ''update'', ''patch'', ''delete'']\<rparr>,
     \<lparr>rbGroup = ''apps'', rbSystem = True, rbResources = [''deployments/finalizers''],
      rbVerbs = [''update'']\<rparr>,
     \<lparr>rbGroup = ''apps'', rbSystem = True, rbResources = [''statefulsets''],
      rbVerbs = [''get'', ''list'', ''watch'']\<rparr>,
     \<lparr>rbGroup = ''coordination.k8s.io'', rbSystem = True, rbResources = [''leases''],
      rbVerbs = [''create'', ''get'', ''list'', ''watch'', ''update'']\<rparr>,
     \<lparr>rbGroup = ''monitoring.coreos.com'', rbSystem = True, rbResources = [''podmonitors''],
      rbVerbs = [''get'', ''list'', ''watch'', ''update'', ''patch'']\<rparr>,
     \<lparr>rbGroup = ''monitoring.coreos.com'', rbSystem = True, rbResources = [''prometheusrules''],
      rbVerbs = [''get'', ''list'', ''watch'', ''create'', ''update'']\<rparr>,
     \<lparr>rbGroup = ''monitoring.coreos.com'', rbSystem = True, rbResources = [''servicemonitors''],
      rbVerbs = [''get'', ''list'', ''watch'', ''update'', ''patch'', ''create'']\<rparr>,
     \<lparr>rbGroup = ''monitoring.coreos.com'', rbSystem = True, rbResources = [''alertmanagers'', ''prometheuses'', ''alertmanagerconfigs''],
      rbVerbs = [''get'', ''list'', ''watch'', ''create'', ''update'']\<rparr>,
     \<lparr>rbGroup = ''networking.k8s.io'', rbSystem = True, rbResources = [''networkpolicies''],
      rbVerbs = [''create'', ''get'', ''list'', ''watch'', ''update'']\<rparr>,
     \<lparr>rbGroup = ''config.openshift.io'', rbSystem = False, rbResources = [''clusterversions''],
      rbVerbs = [''get'', ''list'', ''watch'']\<rparr>,
     \<lparr>rbGroup = ''console.openshift.io'', rbSystem = False, rbResources = [''consoleplugins''],
      rbVerbs = [''*'']\<rparr>,
     \<lparr>rbGroup = ''mcg.openshift.io'', rbSystem = False, rbResources = [''managedmcgs/status''],
      rbVerbs = [''get'', ''update'', ''patch'']\<rparr>,
     \<lparr>rbGroup = ''mcg.openshift.io'', rbSystem = False, rbResources = [''managedmcgs'', ''managedmcgs/finalizers''],
      rbVerbs = [''get'', ''list'', ''watch'', ''create'', ''update'', ''patch'', ''delete'']\<rparr>,
     \<lparr>rbGroup = ''noobaa.io'', rbSystem = True, rbResources = [''backingstores''],
      rbVerbs = [''get'', ''list'', ''watch'']\<rparr>,
     \<lparr>rbGroup = ''noobaa.io'', rbSystem = True, rbResources = [''backingstores''],
      rbVerbs = [''delete'']\<rparr>,
     \<lparr>rbGroup = ''noobaa.io'', rbSystem = True, rbResources = [''namespacestores''],
      rbVerbs = [''get'', ''list'', ''watch'', ''delete'']\<rparr>,
     \<lparr>rbGroup = ''noobaa.io'', rbSystem = True, rbResources = [''bucketclasses''],
      rbVerbs = [''get'', ''list'', ''watch'', ''create'', ''delete'']\<rparr>,
     \<lparr>rbGroup = ''noobaa.io'', rbSystem = True, rbResources = [''noobaas''],
      rbVerbs = [''get'', ''list'', ''watch'', ''create'', ''update'', ''delete'']\<rparr>,
     \<lparr>rbGroup = ''objectbucket.io'', rbSystem = True, rbResources = [''objectbucketclaims''],
      rbVerbs = [''get'', ''list'', ''watch'', ''delete'', ''update'']\<rparr>,
     \<lparr>rbGroup = ''objectbucket.io'', rbSystem = False, rbResources = [''objectbucketclaims''],
      rbVerbs = [''get'', ''list'', ''watch'', ''create'', ''delete'']\<rparr>,
     \<lparr>rbGroup = ''objectbucket.io'', rbSystem = True, rbResources = [''objectbucketclaims/finalizers''],
      rbVerbs = [''update'']\<rparr>,
     \<lparr>rbGroup = ''operators.coreos.com'', rbSystem = True, rbResources = [''clusterserviceversions''],
      rbVerbs = [''get'', ''list'', ''watch'', ''update'', ''delete'']\<rparr>,
     \<lparr>rbGroup = ''operator.openshift.io'', rbSystem = False, rbResources = [''consoles''],
      rbVerbs = [''get'', ''list'', ''watch'', ''create'', ''delete'', ''update'']\<rparr>]"

section \<open>Resources\<close>

text \<open>\<open>strings.ToLower\<close> on ASCII, and \<open>meta.UnsafeGuessKindToResource\<close>, by whose rules the plurals of all kinds are formed.\<close>

definition ToLower :: "string \<Rightarrow> string" where
  "ToLower s = map (\<lambda>c. if 65 \<le> (of_char c :: nat) \<and> (of_char c :: nat) \<le> 90 then char_of ((of_char c :: nat) + 32) else c) s"

definition HasSuffix :: "string \<Rightarrow> string \<Rightarrow> bool" where
  "HasSuffix s suf = (length suf \<le> length s \<and> drop (length s - length suf) s = suf)"

definition UnsafeGuessKindToResource :: "string \<Rightarrow> string" where
  "UnsafeGuessKindToResource kindName =
     (if kindName = '''' then ''''
      else
        (let singularName = ToLower kindName in
         if HasSuffix singularName ''endpoints'' then singularName
         else if last singularName = CHR ''s'' then singularName @ ''es''
         else if last singularName = CHR ''y'' then butlast singularName @ ''ies''
         else singularName @ ''s''))"

definition resource_of :: "kind \<Rightarrow> string" where
  "resource_of k = UnsafeGuessKindToResource (snd (snd (kind_gvk k)))"

text \<open>Cluster-scoped kinds (\<open>scope=Cluster\<close>, \<open>genclient:nonNamespaced\<close> of their packages); in a request for one the namespace is dropped.\<close>

definition cluster_scoped :: "kind \<Rightarrow> bool" where
  "cluster_scoped k \<longleftrightarrow> k = KConsolePlugin \<or> k = KConsole \<or> k = KClusterVersion"

definition scope_of :: "kind \<Rightarrow> string \<Rightarrow> string" where
  "scope_of k ns = (if cluster_scoped k then '''' else ns)"

section \<open>Decisions\<close>

text \<open>What a request asks for: verb, group, resource and namespace. A read goes through the cache, which lists and watches.\<close>

type_synonym demand = "string \<times> string \<times> string \<times> string"

definition demand :: "kind \<Rightarrow> string \<Rightarrow> string \<Rightarrow> string \<Rightarrow> demand" where
  "demand k sub ns verb = (verb, fst (kind_gvk k), resource_of k @ sub, scope_of k ns)"

abbreviation read_verbs :: "string list" where
  "read_verbs \<equiv> [''get'', ''list'', ''watch'']"

fun demands :: "request \<Rightarrow> demand list" where
  "demands (ReqGet k n) = map (demand k '''' (nnNamespace n)) read_verbs"
| "demands (ReqList k ns) = map (demand k '''' ns) read_verbs"
| "demands (ReqCreate ob) = [demand (obj_kind ob) '''' (mNamespace (ObjectMeta ob)) ''create'']"
| "demands (ReqUpdate ob) = [demand (obj_kind ob) '''' (mNamespace (ObjectMeta ob)) ''update'']"
| "demands (ReqStatusUpdate ob) = [demand (obj_kind ob) ''/status'' (mNamespace (ObjectMeta ob)) ''update'']"
| "demands (ReqDelete k n) = [demand k '''' (nnNamespace n) ''delete'']"
| "demands ReqWait = []"
| "demands (ReqReadFile p) = []"

text \<open>The decision of the RBAC authorizer for an operator that runs in the namespace \<open>own\<close>.\<close>

fun allows :: "string \<Rightarrow> demand \<Rightarrow> rbac_rule \<Rightarrow> bool" where
  "allows own_ns (verb, group', resource, ns) u \<longleftrightarrow>
     (rbSystem u \<longrightarrow> ns = own_ns \<and> ns \<noteq> '''') \<and> rbGroup u = group' \<and> resource \<in> set (rbResources u) \<and>
     (verb \<in> set (rbVerbs u) \<or> ''*'' \<in> set (rbVerbs u))"

definition permitted :: "string \<Rightarrow> request \<Rightarrow> bool" where
  "permitted own_ns q \<longleftrightarrow> list_all (\<lambda>d. list_ex (allows own_ns d) rbac_rules) (demands q)"

section \<open>Permissions by kind\<close>

definition creatable :: "kind set" where
  "creatable = {KConfigMap, KSecret, KService, KDeployment, KPrometheusRule, KServiceMonitor, KPrometheus,
     KAlertmanager, KAlertmanagerConfig, KNetworkPolicy, KConsolePlugin, KManagedMCG, KBucketClass, KNooBaa, KConsole,
     KObjectBucketClaim}"

definition updatable :: "kind set" where
  "updatable = {KConfigMap, KSecret, KService, KDeployment, KPrometheusRule, KServiceMonitor, KPodMonitor, KPrometheus,
     KAlertmanager, KAlertmanagerConfig, KNetworkPolicy, KConsolePlugin, KManagedMCG, KNooBaa, KConsole, KCSV,
     KObjectBucketClaim}"

definition deletable :: "kind set" where
  "deletable = {KService, KDeployment, KConsolePlugin, KManagedMCG, KBackingStore, KNamespaceStore, KBucketClass,
     KNooBaa, KConsole, KCSV, KObjectBucketClaim}"

lemma resource_of_simps:
  "resource_of KManagedMCG = ''managedmcgs''" "resource_of KNooBaa = ''noobaas''"
  "resource_of KStatefulSet = ''statefulsets''" "resource_of KDeployment = ''deployments''"
  "resource_of KConsolePlugin = ''consoleplugins''" "resource_of KConsole = ''consoles''"
  "resource_of KPrometheus = ''prometheuses''" "resource_of KAlertmanager = ''alertmanagers''"
  "resource_of KAlertmanagerConfig = ''alertmanagerconfigs''" "resource_of KPrometheusRule = ''prometheusrules''"
  "resource_of KPodMonitor = ''podmonitors''" "resource_of KServiceMonitor = ''servicemonitors''"
  "resource_of KConfigMap = ''configmaps''" "resource_of KSecret = ''secrets''" "resource_of KService = ''services''"
  "resource_of KNetworkPolicy = ''networkpolicies''" "resource_of KCSV = ''clusterserviceversions''"
  "resource_of KBucketClass = ''bucketclasses''" "resource_of KBackingStore = ''backingstores''"
  "resource_of KNamespaceStore = ''namespacestores''" "resource_of KObjectBucketClaim = ''objectbucketclaims''"
  "resource_of KClusterVersion = ''clusterversions''"
  by code_simp+

text \<open>Which verbs a kind has, given that the request stays in the operator's namespace.\<close>

definition verbs_of :: "kind \<Rightarrow> string \<Rightarrow> string list" where
  "verbs_of k sub = concat (map rbVerbs (filter (\<lambda>u. rbGroup u = fst (kind_gvk k) \<and>
     resource_of k @ sub \<in> set (rbResources u) \<and> (cluster_scoped k \<longrightarrow> \<not> rbSystem u)) rbac_rules))"

definition granted :: "kind \<Rightarrow> string \<Rightarrow> string \<Rightarrow> bool" where
  "granted k sub verb \<longleftrightarrow> verb \<in> set (verbs_of k sub) \<or> ''*'' \<in> set (verbs_of k sub)"

lemma granted_allows:
  assumes "granted k sub verb" and "cluster_scoped k \<or> ns = own_ns \<and> own_ns \<noteq> ''''"
  shows "list_ex (allows own_ns (demand k sub ns verb)) rbac_rules"
  using assms by (auto simp: granted_def verbs_of_def demand_def scope_of_def list_ex_iff)

lemma verbs_of_simps:
  "verbs_of KManagedMCG '''' = [''get'', ''list'', ''watch'', ''create'', ''update'', ''patch'', ''delete'']"
  "verbs_of KNooBaa '''' = [''get'', ''list'', ''watch'', ''create'', ''update'', ''delete'']"
  "verbs_of KStatefulSet '''' = [''get'', ''list'', ''watch'']"
  "verbs_of KDeployment '''' = [''get'', ''list'', ''watch'', ''create'', ''update'', ''patch'', ''delete'']"
  "verbs_of KConsolePlugin '''' = [''*'']"
  "verbs_of KConsole '''' = [''get'', ''list'', ''watch'', ''create'', ''delete'', ''update'']"
  "verbs_of KPrometheus '''' = [''get'', ''list'', ''watch'', ''create'', ''update'']"
  "verbs_of KAlertmanager '''' = [''get'', ''list'', ''watch'', ''create'', ''update'']"
  "verbs_of KAlertmanagerConfig '''' = [''get'', ''list'', ''watch'', ''create'', ''update'']"
  "verbs_of KPrometheusRule '''' = [''get'', ''list'', ''watch'', ''create'', ''update'']"
  "verbs_of KPodMonitor '''' = [''get'', ''list'', ''watch'', ''update'', ''patch'']"
  "verbs_of KServiceMonitor '''' = [''get'', ''list'', ''watch'', ''update'', ''patch'', ''create'']"
  "verbs_of KConfigMap '''' = [''create'', ''get'', ''list'', ''watch'', ''update'']"
  "verbs_of KSecret '''' = [''get'', ''list'', ''watch'', ''create'', ''update'']"
  "verbs_of KService '''' = [''get'', ''list'', ''watch'', ''create'', ''update'', ''patch'', ''delete'']"
  "verbs_of KNetworkPolicy '''' = [''create'', ''get'', ''list'', ''watch'', ''update'']"
  "verbs_of KCSV '''' = [''get'', ''list'', ''watch'', ''update'', ''delete'']"
  "verbs_of KBucketClass '''' = [''get'', ''list'', ''watch'', ''create'', ''delete'']"
  "verbs_of KBackingStore '''' = [''get'', ''list'', ''watch'', ''delete'']"
  "verbs_of KNamespaceStore '''' = [''get'', ''list'', ''watch'', ''delete'']"
  "verbs_of KObjectBucketClaim '''' = [''get'', ''list'', ''watch'', ''delete'', ''update'', ''get'', ''list'', ''watch'', ''create'', ''delete'']"
  "verbs_of KClusterVersion '''' = [''get'', ''list'', ''watch'']"
  by (simp_all add: verbs_of_def rbac_rules_def resource_of_simps cluster_scoped_def)

lemma verbs_of_status: "verbs_of k ''/status'' = (if k = KManagedMCG then [''get'', ''update'', ''patch''] else [])"
  by (cases k) (simp_all add: verbs_of_def rbac_rules_def resource_of_simps cluster_scoped_def)

lemma granted_reads: "granted k '''' ''get''" "granted k '''' ''list''" "granted k '''' ''watch''"
  by (cases k; simp add: granted_def verbs_of_simps)+

lemma granted_iff:
  "granted k '''' ''create'' \<longleftrightarrow> k \<in> creatable" "granted k '''' ''update'' \<longleftrightarrow> k \<in> updatable"
  "granted k '''' ''delete'' \<longleftrightarrow> k \<in> deletable"
  by (cases k; simp add: granted_def verbs_of_simps creatable_def updatable_def deletable_def)+

lemma granted_status: "granted k ''/status'' ''update'' \<longleftrightarrow> k = KManagedMCG"
  by (simp add: granted_def verbs_of_status)

text \<open>A request is local when it is for the cluster's own kinds or for one namespace.\<close>

definition at_home :: "string \<Rightarrow> kind \<Rightarrow> string \<Rightarrow> bool" where
  "at_home ns k ns' \<longleftrightarrow> cluster_scoped k \<or> ns' = ns"

fun local_request :: "string \<Rightarrow> request \<Rightarrow> bool" where
  "local_request ns (ReqGet k n) = at_home ns k (nnNamespace n)"
| "local_request ns (ReqList k ns') = at_home ns k ns'"
| "local_request ns (ReqCreate ob) = at_home ns (obj_kind ob) (mNamespace (ObjectMeta ob))"
| "local_request ns (ReqUpdate ob) = at_home ns (obj_kind ob) (mNamespace (ObjectMeta ob))"
| "local_request ns (ReqStatusUpdate ob) = at_home ns (obj_kind ob) (mNamespace (ObjectMeta ob))"
| "local_request ns (ReqDelete k n) = at_home ns k (nnNamespace n)"
| "local_request ns q = True"

fun writable :: "request \<Rightarrow> bool" where
  "writable (ReqCreate ob) = (obj_kind ob \<in> creatable)"
| "writable (ReqUpdate ob) = (obj_kind ob \<in> updatable)"
| "writable (ReqStatusUpdate ob) = (obj_kind ob = KManagedMCG)"
| "writable (ReqDelete k n) = (k \<in> deletable)"
| "writable q = True"

lemma local_permitted:
  assumes "local_request ns q" and "writable q" and "ns \<noteq> ''''"
  shows "permitted ns q"
  using assms granted_reads
  by (cases q) (auto simp: permitted_def at_home_def granted_iff granted_status intro!: granted_allows)

end
