(* ===== verification/Confinement.thy ===== *)
theory Confinement
  imports Rbac Interleaving
begin

text \<open>
  Rules for following the namespace of objects through actions. Under a server whose answers are
  about what was asked (\<open>honest_server\<close>), an action is confined when it sends only requests for one
  namespace or for the cluster's own kinds, with verbs that the markers grant, and keeps the objects
  of the receiver at home; what it returns may be known to be at home, too (\<open>yieldsA\<close>).
\<close>

section \<open>Honest servers\<close>

text \<open>A server that answers with the object that was asked for, and lists what is in the namespace.\<close>

locale honest_server = request_frame E I "\<lambda>_. True" for E :: "'w env" and I :: "'w \<Rightarrow> bool" +
  fixes ns :: string
  assumes named: "ns \<noteq> ''''"
    and get_key: "I w \<Longrightarrow> eGet E k n w = (Inr ob, w') \<Longrightarrow> object_key ob = n"
    and list_home: "I w \<Longrightarrow> eList E k ns w = (Inr obs, w') \<Longrightarrow> ob \<in> set obs \<Longrightarrow> mNamespace (ObjectMeta ob) = ns"
    and create_key: "I w \<Longrightarrow> eCreate E ob w = (Inr ob', w') \<Longrightarrow> object_key ob' = object_key ob"
    and update_key: "I w \<Longrightarrow> eUpdate E ob w = (Inr ob', w') \<Longrightarrow> object_key ob' = object_key ob"
    and status_key: "I w \<Longrightarrow> eStatusUpdate E ob w = (Inr ob', w') \<Longrightarrow> object_key ob' = object_key ob"

definition proper :: "string \<Rightarrow> request \<Rightarrow> bool" where
  "proper ns q \<longleftrightarrow> local_request ns q \<and> writable q"

text \<open>
  \<open>confined h ns I\<close>: what was sent is proper, \<open>h\<close> holds of the receiver and \<open>I\<close> of the server. A value
  that an action returns then tells something, too.
\<close>

definition confined :: "('r \<Rightarrow> bool) \<Rightarrow> string \<Rightarrow> ('w \<Rightarrow> bool) \<Rightarrow> ('r, event list \<times> 'w) sys \<Rightarrow> bool" where
  "confined h ns I s \<longleftrightarrow> h (rc s) \<and> I (snd (wd s)) \<and> log_within (proper ns) (wd s)"

definition yieldsA :: "('s \<Rightarrow> bool) \<Rightarrow> ('a \<Rightarrow> bool) \<Rightarrow> ('s, 'a) act \<Rightarrow> bool" where
  "yieldsA J P m \<longleftrightarrow> okA J m (\<lambda>a _. P a)"

named_theorems confined_intros "actions that stay confined"
named_theorems yields_intros "what confined actions return"

lemma yields_True: "yieldsA J (\<lambda>_. True) m"
  by (simp add: yieldsA_def okA_def)

lemma keepsA_bind_yields:
  "keepsA J m \<Longrightarrow> yieldsA J P m \<Longrightarrow> (\<And>a. P a \<Longrightarrow> keepsA J (f a)) \<Longrightarrow> keepsA J (bindA m f)"
  unfolding keepsA_def yieldsA_def okA_def bindA_def
  by (auto split: prod.split outcome.split)

lemma yieldsA_bind:
  "keepsA J m \<Longrightarrow> yieldsA J P m \<Longrightarrow> (\<And>a. P a \<Longrightarrow> yieldsA J Q (f a)) \<Longrightarrow> yieldsA J Q (bindA m f)"
  unfolding keepsA_def yieldsA_def okA_def bindA_def
  by (auto split: prod.splits outcome.splits) (metis snd_conv)

lemmas confined_generic = keepsA_retA keepsA_failA keepsA_panicA keepsA_liftA keepsA_readA keepsA_bind_yields
  keepsA_thenA keepsA_wrapA keepsA_tryA keepsA_whenA keepsA_if keepsA_case_sum keepsA_case_option keepsA_case_list
  keepsA_case_prod keepsA_Let keepsA_forA

declare confined_generic [confined_intros]

lemma yields_wrapA [yields_intros]: "yieldsA J P m \<Longrightarrow> yieldsA J P (wrapA msg m)"
  by (auto simp: yieldsA_def okA_def wrapA_def split: prod.splits outcome.splits)

lemma yields_tryA [yields_intros]:
  "yieldsA J P m \<Longrightarrow> yieldsA J (\<lambda>res. case res of Inl _ \<Rightarrow> True | Inr a \<Rightarrow> P a) (tryA m)"
  by (auto simp: yieldsA_def okA_def tryA_def split: prod.splits outcome.splits)

lemma yields_liftA [yields_intros]: "yieldsA J (\<lambda>a. r = Ok a) (liftA r)"
  by (simp add: yieldsA_def okA_def liftA_def)

lemma yields_getR [yields_intros]: "yieldsA (confined h ns I) (\<lambda>a. \<exists>r. h r \<and> a = f r) (getR f)"
  by (auto simp: yieldsA_def okA_def confined_def getR_def readA_def)

section \<open>Fields at home\<close>

text \<open>
  The object of a field is in the namespace, unless its kind is the cluster's own, and an object
  that is may be assigned to it.
\<close>

definition homely :: "('r \<Rightarrow> bool) \<Rightarrow> string \<Rightarrow> kind \<Rightarrow> ('r, 'b) field \<Rightarrow> bool" where
  "homely h ns k F \<longleftrightarrow>
     (\<forall>r. h r \<longrightarrow> at_home ns k (mNamespace (ObjectMeta (fst F r)))) \<and>
     (\<forall>r u. h r \<longrightarrow> at_home ns k (mNamespace (ObjectMeta (u (fst F r)))) \<longrightarrow> h (snd F u r))"

lemma confined_getR [confined_intros]: "keepsA (confined h ns I) (getR f)"
  by (simp add: getR_def keepsA_readA)

lemma confined_keyF [confined_intros]: "keepsA (confined h ns I) (keyF F)"
  by (simp add: keyF_def confined_getR)

lemma yields_keyF [yields_intros]:
  "homely h ns k F \<Longrightarrow> yieldsA (confined h ns I) (\<lambda>n. at_home ns k (nnNamespace n)) (keyF F)"
  by (auto simp: yieldsA_def okA_def confined_def keyF_def getR_def readA_def homely_def object_key_def)

lemma confined_setR [confined_intros]: "(\<And>r. h r \<Longrightarrow> h (f r)) \<Longrightarrow> keepsA (confined h ns I) (setR f)"
  by (simp add: setR_def keepsA_def modA_def confined_def)

lemma confined_setF [confined_intros]:
  "homely h ns k F \<Longrightarrow> at_home ns k (mNamespace (ObjectMeta ob)) \<Longrightarrow> keepsA (confined h ns I) (setF F ob)"
  unfolding setF_def by (rule confined_setR) (simp add: homely_def)

lemma homely_update:
  assumes "homely h ns k F" and "\<And>ob. mNamespace (ObjectMeta (u ob)) = mNamespace (ObjectMeta ob)" and "h r"
  shows "h (snd F u r)"
  using assms by (simp add: homely_def)

lemma confined_body [confined_intros]: "homely h ns k F \<Longrightarrow> keepsA (confined h ns I) (setBody F f)"
  unfolding setBody_def by (rule confined_setR) (rule homely_update; simp)

lemma confined_finalizers [confined_intros]: "homely h ns k F \<Longrightarrow> keepsA (confined h ns I) (setFinalizers F f)"
  unfolding setFinalizers_def by (rule confined_setR) (rule homely_update; simp)

lemma homely_at: "homely h ns k F \<Longrightarrow> h r \<Longrightarrow> at_home ns k (mNamespace (ObjectMeta (fst F r)))"
  by (simp add: homely_def)

lemma confined_setMetaA [confined_intros]:
  assumes "homely h ns k F" and "\<And>m m'. f m = Ok m' \<Longrightarrow> mNamespace m' = mNamespace m"
  shows "keepsA (confined h ns I) (setMetaA F f)"
  unfolding setMetaA_def
  by (rule confined_intros yields_intros assms(1)
      | (use homely_at [OF assms(1)] assms(2) in \<open>auto; fail\<close>)[1])+

lemma SetControllerReference_namespace:
  "SetControllerReference k owner m = Inr m' \<Longrightarrow> mNamespace m' = mNamespace m"
  by (auto simp: SetControllerReference_Inr_iff)

lemma confined_own [confined_intros]: "homely h ns k F \<Longrightarrow> keepsA (confined h ns I) (own F)"
  for h :: "reconciler \<Rightarrow> bool"
  unfolding own_def
  by (assumption | rule confined_intros yields_intros
      | (auto simp: homely_at dest!: SetControllerReference_namespace; fail)[1])+

lemma confined_waitA [confined_intros]: "(\<And>w. I w \<Longrightarrow> I (snd (eWait E w))) \<Longrightarrow> keepsA (confined h ns I) (waitA (recording E))"
  by (auto simp: keepsA_def confined_def waitA_def recording_def record_op_def log_within_def requests_def proper_def
      split: prod.splits) (metis snd_conv)

section \<open>Requests\<close>

lemma confined_request:
  assumes "proper ns q" and "\<And>a. ev_request (ev a) = q" and "\<And>w. I w \<Longrightarrow> I (snd (f w))"
  shows "keepsA (confined h ns I) (reqA (record_op ev f))"
  using assms(1,2) assms(3)
  by (auto simp: keepsA_def confined_def reqA_def record_op_def log_within_def requests_def
      split: prod.splits sum.splits) (metis snd_conv)+

lemma yields_request:
  assumes "\<And>w a w'. I w \<Longrightarrow> f w = (Inr a, w') \<Longrightarrow> P a"
  shows "yieldsA (confined h ns I) P (reqA (record_op ev f))"
  using assms by (auto simp: yieldsA_def okA_def confined_def reqA_def record_op_def split: prod.splits sum.splits)

lemma confined_decodeA [confined_intros]: "keepsA J (decodeA K ko)"
  by (auto simp: decodeA_def keepsA_failA keepsA_retA split: option.split)

lemma yields_decodeA [yields_intros]: "yieldsA J (\<lambda>ob. object_key ob = object_key ko) (decodeA K ko)"
  by (auto simp: yieldsA_def okA_def decodeA_def retype_def failA_def retA_def object_key_def split: option.splits)

lemma yields_typed:
  assumes "\<And>w a w'. I w \<Longrightarrow> f w = (Inr a, w') \<Longrightarrow> object_key a = n"
  shows "yieldsA (confined h ns I) (\<lambda>ob. object_key ob = n) (bindA (reqA (record_op ev f)) (decodeA K))"
proof -
  have "object_key a = n" if "I w" "f w = (x, w')" "x = Inr a" for w a w' x using assms that by simp
  then show ?thesis
    by (auto simp: yieldsA_def okA_def confined_def record_op_def reqA_def decodeA_def bindA_def failA_def retA_def
        retype_def object_key_def split: prod.splits sum.splits option.splits)
qed

lemma recording_simps:
  "eGet (recording E) k n = record_op (EvGet k n) (eGet E k n)" "eList (recording E) k l = record_op (EvList k l) (eList E k l)"
  "eCreate (recording E) ob = record_op (EvCreate ob) (eCreate E ob)" "eUpdate (recording E) ob = record_op (EvUpdate ob) (eUpdate E ob)"
  "eStatusUpdate (recording E) ob = record_op (EvStatusUpdate ob) (eStatusUpdate E ob)"
  "eDelete (recording E) k n = record_op (EvDelete k n) (eDelete E k n)"
  "eReadFile (recording E) p = record_op (EvReadFile p) (eReadFile E p)"
  by (simp_all add: recording_def)

lemma object_key_namespace: "object_key a = object_key b \<Longrightarrow> mNamespace (ObjectMeta a) = mNamespace (ObjectMeta b)"
  by (simp add: object_key_def)

context honest_server
begin

abbreviation within :: "('r \<Rightarrow> bool) \<Rightarrow> ('r, event list \<times> 'w) sys \<Rightarrow> bool" where
  "within h \<equiv> confined h ns I"

lemmas client_method_defs = clientGet_def clientList_def clientCreate_def clientUpdate_def clientStatusUpdate_def clientDelete_def

lemmas client_intros = keepsA_bindA confined_request confined_decodeA keepsA_case_option keepsA_failA keepsA_retA

lemma confined_readFile [confined_intros]: "keepsA (within h) (reqA (eReadFile (recording E) p))"
  unfolding recording_simps by (rule confined_request) (simp_all add: proper_def frame_read)

lemma confined_reads [confined_intros]:
  "at_home ns (kdKind K) (nnNamespace n) \<Longrightarrow> keepsA (within h) (clientGet (recording E) K n)"
  "at_home ns (kdKind K) l \<Longrightarrow> keepsA (within h) (clientList (recording E) K l)"
  unfolding client_method_defs recording_simps
  by (intro client_intros; simp add: proper_def frame_get frame_list)+

lemma confined_writes [confined_intros]:
  "typed_kind K \<Longrightarrow> kdKind K \<in> creatable \<Longrightarrow> at_home ns (kdKind K) (mNamespace (ObjectMeta ob)) \<Longrightarrow>
   keepsA (within h) (clientCreate (recording E) K ob)"
  "typed_kind K \<Longrightarrow> kdKind K \<in> updatable \<Longrightarrow> at_home ns (kdKind K) (mNamespace (ObjectMeta ob)) \<Longrightarrow>
   keepsA (within h) (clientUpdate (recording E) K ob)"
  "typed_kind K \<Longrightarrow> kdKind K = KManagedMCG \<Longrightarrow> at_home ns (kdKind K) (mNamespace (ObjectMeta ob)) \<Longrightarrow>
   keepsA (within h) (clientStatusUpdate (recording E) K ob)"
  "kdKind K \<in> deletable \<Longrightarrow> at_home ns (kdKind K) (nnNamespace n) \<Longrightarrow>
   keepsA (within h) (clientDelete (recording E) K n)"
  unfolding client_method_defs recording_simps
  by (intro client_intros; simp add: proper_def frame_create frame_update frame_status frame_delete
      typed_kind.kind_inj untype_def)+

text \<open>Answers are about what was asked.\<close>

lemma yields_clients [yields_intros]:
  "yieldsA (within h) (\<lambda>ob. object_key ob = n) (clientGet (recording E) K n)"
  "yieldsA (within h) (\<lambda>ob'. object_key ob' = object_key ob) (clientCreate (recording E) K ob)"
  "yieldsA (within h) (\<lambda>ob'. object_key ob' = object_key ob) (clientUpdate (recording E) K ob)"
  "yieldsA (within h) (\<lambda>ob'. object_key ob' = object_key ob) (clientStatusUpdate (recording E) K ob)"
  unfolding client_method_defs recording_simps
  by (rule yields_typed, use get_key create_key [of _ "untype K ob"] update_key [of _ "untype K ob"]
      status_key [of _ "untype K ob"] in force)+

lemma those_retype: "those (map (retype K) kos) = Some obs \<Longrightarrow> ob \<in> set obs \<Longrightarrow> \<exists>ko\<in>set kos. ObjectMeta ob = ObjectMeta ko"
  by (induction kos arbitrary: obs) (fastforce simp: retype_def split: option.splits)+

lemma yields_clientList [yields_intros]:
  "yieldsA (within h) (\<lambda>obs. l = ns \<longrightarrow> (\<forall>ob\<in>set obs. mNamespace (ObjectMeta ob) = ns)) (clientList (recording E) K l)"
  using list_home those_retype [of K]
  by (fastforce simp: yieldsA_def okA_def confined_def client_method_defs recording_def record_op_def reqA_def
      bindA_def failA_def retA_def split: prod.splits sum.splits option.splits)

lemma yields_list_home: "yieldsA (within h) (\<lambda>obs. \<forall>ob\<in>set obs. mNamespace (ObjectMeta ob) = ns) (clientList (recording E) K ns)"
  using yields_clientList [of h ns K] by simp

section \<open>The methods of the client\<close>

lemma confined_getF [confined_intros]:
  "homely h ns (kdKind K) F \<Longrightarrow> keepsA (within h) (getF (recording E) K F)"
  unfolding getF_def
  by (assumption | rule confined_intros yields_intros | (auto simp: homely_at object_key_def; fail)[1])+

lemma confined_createF [confined_intros]:
  "homely h ns (kdKind K) F \<Longrightarrow> typed_kind K \<Longrightarrow> kdKind K \<in> creatable \<Longrightarrow> keepsA (within h) (createF (recording E) K F)"
  unfolding createF_def
  by (assumption | rule confined_intros yields_intros | (auto simp: homely_at object_key_def; fail)[1])+

lemma confined_updateF [confined_intros]:
  "homely h ns (kdKind K) F \<Longrightarrow> typed_kind K \<Longrightarrow> kdKind K \<in> updatable \<Longrightarrow> keepsA (within h) (updateF (recording E) K F)"
  unfolding updateF_def
  by (assumption | rule confined_intros yields_intros | (auto simp: homely_at object_key_def; fail)[1])+

lemma confined_CreateOrUpdate [confined_intros]:
  assumes "homely h ns (kdKind K) F" and "typed_kind K" and "kdKind K \<in> creatable" and "kdKind K \<in> updatable"
    and "keepsA (within h) f"
  shows "keepsA (within h) (CreateOrUpdate (recording E) K F f)"
  unfolding CreateOrUpdate_def mutateF_def
  by (intro keepsA_bindA confined_intros assms)

lemma confined_WaitFor: "keepsA (within h) c \<Longrightarrow> keepsA (within h) (WaitFor (recording E) n c)"
  by (induction n) (auto intro!: keepsA_bindA keepsA_thenA keepsA_failA keepsA_if keepsA_retA confined_waitA frame_wait)

lemma confined_PollImmediate [confined_intros]:
  "keepsA (within h) c \<Longrightarrow> keepsA (within h) (PollImmediate (recording E) i t c)"
  by (auto simp: PollImmediate_def intro!: keepsA_bindA keepsA_if keepsA_retA confined_WaitFor)

end

end
