(* ===== verification/Access.thy ===== *)
theory Access
  imports Confinement
begin

text \<open>
  What a reconciliation touches: its requests are for objects of the namespace of the ManagedMCG
  resource or for the cluster's own kinds, and the rules of \<open>Rbac\<close> permit every one of them. The
  objects of the receiver carry the namespace of the request, the objects that an honest server
  lists are in the namespace that was asked for, and no operation moves an object.
\<close>

section \<open>The receiver\<close>

text \<open>The objects that a reconciliation works with, apart from those of the cluster's own kinds.\<close>

definition homes :: "reconciler \<Rightarrow> object_meta list" where
  "homes r = [ObjectMeta (rManagedMCG r), ObjectMeta (rNoobaa r), ObjectMeta (rNamespaceStore r),
     ObjectMeta (rBackingStore r), ObjectMeta (rNoobaaBucketClass r), ObjectMeta (rIngressNetworkPolicy r),
     ObjectMeta (rPrometheus r), ObjectMeta (rAlertmanager r), ObjectMeta (rPagerdutySecret r), ObjectMeta (rDmsRule r),
     ObjectMeta (rNoobaaRules r), ObjectMeta (rDeadMansSnitchSecret r), ObjectMeta (rAlertmanagerConfig r),
     ObjectMeta (rAlertRelabelConfigSecret r), ObjectMeta (rSmtpSecret r), ObjectMeta (rPrometheusProxyNetworkPolicy r),
     ObjectMeta (rPrometheusService r), ObjectMeta (rKubeRBACConfigMap r), ObjectMeta (rRhobsRemoteWriteConfigSecret r)]"

definition homed :: "string \<Rightarrow> reconciler \<Rightarrow> bool" where
  "homed ns r \<longleftrightarrow> rNamespace r = ns \<and> list_all (\<lambda>m. mNamespace m = ns) (homes r)"

lemma homed_initialize: "homed (nnNamespace req) (initializeReconciler req r)"
  by (simp add: homed_def homes_def initializeReconciler_def initializePrometheusReconciler_def newObj_def Let_def)

lemma homed_namespace: "homed ns r \<Longrightarrow> rNamespace r = ns"
  by (simp add: homed_def)

lemmas homely_defs = homely_def homed_def homes_def at_home_def cluster_scoped_def

lemma homely_fields [confined_intros]:
  "homely (homed ns) ns KManagedMCG fManagedMCG" "homely (homed ns) ns KNooBaa fNoobaa"
  "homely (homed ns) ns KNamespaceStore (rNamespaceStore, rNamespaceStore_update)"
  "homely (homed ns) ns KBackingStore (rBackingStore, rBackingStore_update)"
  "homely (homed ns) ns KBucketClass (rNoobaaBucketClass, rNoobaaBucketClass_update)"
  "homely (homed ns) ns KConsolePlugin fConsole" "homely (homed ns) ns KConsole fOperatorConsole"
  "homely (homed ns) ns KNetworkPolicy fIngressNetworkPolicy" "homely (homed ns) ns KPrometheus fPrometheus"
  "homely (homed ns) ns KAlertmanager fAlertmanager" "homely (homed ns) ns KSecret fPagerdutySecret"
  "homely (homed ns) ns KPrometheusRule fDmsRule" "homely (homed ns) ns KPrometheusRule fNoobaaRules"
  "homely (homed ns) ns KSecret fDeadMansSnitchSecret" "homely (homed ns) ns KAlertmanagerConfig fAlertmanagerConfig"
  "homely (homed ns) ns KSecret fAlertRelabelConfigSecret" "homely (homed ns) ns KSecret fSmtpSecret"
  "homely (homed ns) ns KNetworkPolicy fPrometheusProxyNetworkPolicy" "homely (homed ns) ns KService fPrometheusService"
  "homely (homed ns) ns KConfigMap fKubeRBACConfigMap" "homely (homed ns) ns KSecret fRhobsRemoteWriteConfigSecret"
  by (simp_all add: homely_defs)

lemma homely_local [confined_intros]:
  "homely (\<lambda>(r, x). h r \<and> at_home ns k (mNamespace (ObjectMeta x))) ns k (snd, \<lambda>f (r, x). (r, f x))"
  by (auto simp: homely_def)

lemma confined_withLocal [confined_intros]:
  assumes "keepsA (confined (\<lambda>(r, x). h r \<and> at_home ns k (mNamespace (ObjectMeta x))) ns I) m"
    and "at_home ns k (mNamespace (ObjectMeta x))"
  shows "keepsA (confined h ns I) (withLocal x m)"
  unfolding keepsA_def
proof (intro allI impI)
  fix s assume "confined h ns I s"
  then have "confined (\<lambda>(r, x). h r \<and> at_home ns k (mNamespace (ObjectMeta x))) ns I (snd (m \<lparr>rc = (rc s, x), wd = wd s\<rparr>))"
    using assms by (simp add: keepsA_def confined_def)
  then show "confined h ns I (snd (withLocal x m s))"
    by (auto simp: withLocal_def confined_def split_def)
qed

lemmas [confined_intros] = tk_managedmcg.typed_kind_axioms tk_noobaa.typed_kind_axioms
  tk_consoleplugin.typed_kind_axioms tk_console.typed_kind_axioms tk_prometheus.typed_kind_axioms
  tk_alertmanager.typed_kind_axioms tk_alertmanagerconfig.typed_kind_axioms tk_prometheusrule.typed_kind_axioms
  tk_podmonitor.typed_kind_axioms tk_servicemonitor.typed_kind_axioms tk_configmap.typed_kind_axioms
  tk_secret.typed_kind_axioms tk_service.typed_kind_axioms tk_networkpolicy.typed_kind_axioms tk_csv.typed_kind_axioms

lemma namespaces_kept:
  "AddLabel m k v = Ok m' \<Longrightarrow> mNamespace m' = mNamespace m" "AddAnnotation m k v = Ok m' \<Longrightarrow> mNamespace m' = mNamespace m"
  "mNamespace (RemoveLabel m k) = mNamespace m"
  by (auto simp: AddLabel_Ok AddAnnotation_Ok RemoveLabel_def)

lemmas confined_simps = at_home_def cluster_scoped_def homed_namespace homely_fields creatable_def updatable_def
  deletable_def namespaces_kept object_key_def

lemma homed_kept:
  "homed ns r \<Longrightarrow> homed ns (rAddonParams_update f r)" "homed ns r \<Longrightarrow> homed ns (rReconcileStrategy_update g r)"
  "homed ns r \<Longrightarrow> mNamespace (ObjectMeta (rManagedMCG r)) = ns"
  by (simp_all add: homed_def homes_def)

section \<open>The operations of a reconciliation\<close>

context honest_server
begin

lemma confined_r [confined_intros]:
  "homely (homed ns) ns (kdKind K) F \<Longrightarrow> keepsA (within (homed ns)) (r_get (recording E) K F)"
  "at_home ns (kdKind K) (nnNamespace n) \<Longrightarrow> keepsA (within (homed ns)) (r_getLocal (recording E) K n)"
  "keepsA (within (homed ns)) (r_list (recording E) K)"
  "homely (homed ns) ns (kdKind K) F \<Longrightarrow> typed_kind K \<Longrightarrow> kdKind K \<in> updatable \<Longrightarrow>
   keepsA (within (homed ns)) (r_update (recording E) K F)"
  "typed_kind K \<Longrightarrow> kdKind K \<in> updatable \<Longrightarrow> at_home ns (kdKind K) (mNamespace (ObjectMeta ob)) \<Longrightarrow>
   keepsA (within (homed ns)) (r_updateLocal (recording E) K ob)"
  "kdKind K \<in> deletable \<Longrightarrow> at_home ns (kdKind K) (nnNamespace n) \<Longrightarrow>
   keepsA (within (homed ns)) (r_delete (recording E) K n)"
  unfolding r_get_def r_getLocal_def r_list_def r_update_def r_updateLocal_def r_delete_def
  by (assumption | rule confined_intros yields_intros yields_True | (auto simp: at_home_def homed_namespace; fail)[1])+

lemma yields_r [yields_intros]:
  "yieldsA (within (homed ns)) (\<lambda>obs. \<forall>ob\<in>set obs. mNamespace (ObjectMeta ob) = ns) (r_list (recording E) K)"
  unfolding r_list_def
  by (rule yieldsA_bind confined_getR yields_intros)+ (auto simp: homed_namespace intro: yields_wrapA yields_list_home)

lemma confined_getCSVByPrefix [confined_intros]:
  "keepsA (within (homed ns)) (getCSVByPrefix (recording E) name)"
  unfolding getCSVByPrefix_def
  by (assumption | rule confined_intros yields_intros yields_True | (auto simp: confined_simps; fail)[1])+

lemma yields_getCSVByPrefix [yields_intros]:
  "yieldsA (within (homed ns)) (\<lambda>ob. mNamespace (ObjectMeta ob) = ns) (getCSVByPrefix (recording E) name)"
  unfolding getCSVByPrefix_def
  by (rule yieldsA_bind confined_intros yields_intros)+
    (auto simp: yieldsA_def okA_def failA_def retA_def find_Some_iff split: option.splits)

text \<open>The status of the components.\<close>

lemma confined_status_parts [confined_intros]:
  "keepsA (within (homed ns)) (setComponents f)"
  "nnNamespace n = ns \<Longrightarrow> keepsA (within (homed ns)) (workloadState (recording E) K n replicas)"
  unfolding setComponents_def workloadState_def
  by (assumption | rule confined_intros yields_intros yields_True | (auto simp: confined_simps; fail)[1])+

lemma confined_updateComponentStatus [confined_intros]:
  "keepsA (within (homed ns)) (updateComponentStatus (recording E))"
  unfolding updateComponentStatus_def UpdateNoobaaComponentStatus_def UpdatePrometheusComponentStatus_def
    UpdateAlertmanagerComponentStatus_def UpdateConsoleComponentStatus_def stateOfFetch_def
  by (assumption | rule confined_intros yields_intros yields_True | (auto simp: confined_simps; fail)[1])+

text \<open>The resources.\<close>

lemma confined_single_resources [confined_intros]:
  "keepsA (within (homed ns)) (reconcileNoobaaComponent (recording E))"
  "keepsA (within (homed ns)) (reconcileOCSCSV (recording E))"
  "keepsA (within (homed ns)) (reconcileConsoleCluster (recording E))"
  "keepsA (within (homed ns)) (reconcileAlertRelabelConfigSecret (recording E))"
  "keepsA (within (homed ns)) (reconcileKubeRBACConfigMap (recording E))"
  "keepsA (within (homed ns)) (reconcilePrometheusService (recording E))"
  "keepsA (within (homed ns)) (reconcilePrometheusProxyNetworkPolicy (recording E))"
  "keepsA (within (homed ns)) (reconcileIngressNetworkPolicy (recording E))"
  "keepsA (within (homed ns)) (reconcileAlertmanager (recording E))"
  "keepsA (within (homed ns)) (reconcileDMSPrometheusRule (recording E))"
  unfolding reconcileNoobaaComponent_def getDefaultBackingStore_def mutateNoobaa_def reconcileOCSCSV_def
    reconcileConsoleCluster_def reconcileAlertRelabelConfigSecret_def reconcileKubeRBACConfigMap_def
    reconcilePrometheusService_def reconcilePrometheusProxyNetworkPolicy_def reconcileIngressNetworkPolicy_def
    reconcileAlertmanager_def reconcileDMSPrometheusRule_def
  by (assumption | rule confined_intros yields_intros yields_True | (auto simp: confined_simps; fail)[1])+

lemma confined_mutateConsoleService [confined_intros]:
  "keepsA (within (\<lambda>(r, x). h r \<and> at_home ns k (mNamespace (ObjectMeta x)))) (mutateConsoleService m)"
  unfolding mutateConsoleService_def
  by (assumption | rule confined_intros yields_intros yields_True | (auto simp: confined_simps dest!: SetControllerReference_namespace; fail)[1])+

lemma confined_ensureConsolePlugin [confined_intros]:
  "keepsA (within (homed ns)) (ensureConsolePlugin (recording E))"
  unfolding ensureConsolePlugin_def ignoreAlreadyExists_def
  by (assumption | rule confined_intros yields_intros yields_True | (auto simp: confined_simps GetDeployment_def GetService_def GetConsolePluginCR_def; fail)[1])+

lemma confined_reconcilePrometheus [confined_intros]:
  "keepsA (within (homed ns)) (reconcilePrometheus (recording E))"
  unfolding reconcilePrometheus_def mutatePrometheus_def setAlertmanagerNamespace_def
    configureRHOBSRemoteWrite_def configureRHOBS_fetched_def setRemoteWrite0_def
  by (assumption | rule confined_intros yields_intros yields_True | (auto simp: confined_simps; fail)[1])+

lemma confined_reconcileAlertmanagerConfig [confined_intros]:
  "keepsA (within (homed ns)) (reconcileAlertmanagerConfig (recording E))"
  unfolding reconcileAlertmanagerConfig_def mutateAlertmanagerConfig_def checkPrerequisites_def
    configureNotifications_def checkSmtpParams_def configReceiver_def
  by (assumption | rule confined_intros yields_intros yields_True | (auto simp: confined_simps; fail)[1])+

lemma confined_labelAndUpdate [confined_intros]:
  "typed_kind K \<Longrightarrow> kdKind K \<in> updatable \<Longrightarrow> mNamespace (ObjectMeta ob) = ns \<Longrightarrow>
   keepsA (within (homed ns)) (labelAndUpdate (recording E) K ob)"
  unfolding labelAndUpdate_def
  by (assumption | rule confined_intros yields_intros yields_True | (auto simp: confined_simps; fail)[1])+

lemma confined_reconcileMonitoringResources [confined_intros]:
  "keepsA (within (homed ns)) (reconcileMonitoringResources (recording E))"
  unfolding reconcileMonitoringResources_def labelPrometheusRule_def
  by (assumption | rule confined_intros yields_intros yields_True | (auto simp: confined_simps; fail)[1])+

lemma confined_reconcileNoobaaRules [confined_intros]:
  "keepsA (within (homed ns)) (reconcileNoobaaRules (recording E))"
  unfolding reconcileNoobaaRules_def mutateNoobaaRules_def labelNoobaaRules_def addLabelA_def
  by (assumption | rule confined_intros yields_intros yields_True | (auto simp: confined_simps; fail)[1])+

lemma confined_reconcileResources [confined_intros]:
  "keepsA (within (homed ns)) (reconcileResources (recording E))"
  unfolding reconcileResources_def reconcileAlertMonitoring_def
  by (assumption | rule confined_intros yields_intros yields_True | (auto simp: confined_simps; fail)[1])+

text \<open>Finalizers and removal.\<close>

lemma confined_deleteNamed [confined_intros]:
  "homely (homed ns) ns (kdKind K) F \<Longrightarrow> kdKind K \<in> deletable \<Longrightarrow>
   keepsA (within (homed ns)) (deleteNamed (recording E) K F msg items)"
  unfolding deleteNamed_def
  by (assumption | rule confined_intros yields_intros yields_True | (auto simp: confined_simps homely_update; fail)[1])+

lemma confined_removal [confined_intros]:
  "keepsA (within (homed ns)) (removeManagedMCG (recording E))"
  "keepsA (within (homed ns)) (addManagedMCG (recording E))"
  "keepsA (within (homed ns)) (removeNoobaa (recording E))"
  "keepsA (within (homed ns)) (removeOLMComponents (recording E))"
  unfolding removeManagedMCG_def addManagedMCG_def removeNoobaa_def drainBucketClasses_def bucketClassesGone_def
    deleteNoobaaCR_def deleteStores_def removeOLMComponents_def
  by (assumption | rule confined_intros yields_intros yields_True | (auto simp: confined_simps; fail)[1])+

text \<open>The phases.\<close>

lemma confined_phase_parts [confined_intros]:
  "keepsA (within (homed ns)) (verifyAddonDeletionKey (recording E))"
  "keepsA (within (homed ns)) (updateAddonParams (recording E))"
  "keepsA (within (homed ns)) (uninstallWhenReady (recording E) b)"
  "keepsA (within (homed ns)) (updateStatus (recording E))"
  unfolding verifyAddonDeletionKey_def updateAddonParams_def uninstallWhenReady_def updateStatus_def
  by (assumption | rule confined_intros yields_intros yields_True | (auto simp: confined_simps homed_kept; fail)[1])+

lemma confined_phases [confined_intros]:
  "keepsA (within (homed ns)) (deletionPhase (recording E))"
  "keepsA (within (homed ns)) (maintenancePhase (recording E) b)"
  unfolding deletionPhase_def maintenancePhase_def maintainManagedMCG_def
  by (assumption | rule confined_intros yields_intros yields_True | (auto simp: confined_simps homed_kept; fail)[1])+

lemma confined_reconcileFetched [confined_intros]:
  "keepsA (within (homed ns)) (reconcileFetched (recording E))"
  unfolding reconcileFetched_def reconcilePhases_def dispatchPhases_def
  by (assumption | rule confined_intros yields_intros yields_True | (auto simp: confined_simps; fail)[1])+

lemma Reconcile_confined:
  assumes "I w" and "nnNamespace req = ns"
  shows "within (homed ns) (snd (Reconcile (recording E) req (start r w)))"
proof -
  have "within (homed ns) (start (initializeReconciler req r) w)"
    using assms homed_initialize [of req r] by (simp add: confined_def start_def log_within_def requests_def)
  moreover have "keepsA (within (homed ns)) (bindA (tryA (r_get (recording E) kManagedMCG fManagedMCG)) (\<lambda>res.
      case res of
        Inl err \<Rightarrow> if IsNotFound err then reconcileFetched (recording E) else failA err
      | Inr _ \<Rightarrow> reconcileFetched (recording E)))"
    by (assumption | rule confined_intros yields_intros yields_True | (auto simp: confined_simps; fail)[1])+
  ultimately show ?thesis
    by (simp add: keepsA_def Reconcile_def thenA_run setR_def modA_def start_def)
qed

end

section \<open>The shared server is honest\<close>

definition intact :: "turn list \<times> cluster \<Rightarrow> bool" where
  "intact w \<longleftrightarrow> cluster_wf (snd w)"

lemma others_wf: "cluster_wf c \<Longrightarrow> cluster_wf (others ops c)"
proof (induction ops arbitrary: c)
  case (Cons op ops)
  have "cluster_wf (client_run op c)"
    using Cons.prems by (cases op) (simp_all add: wf_vt_Create wf_vt_Update wf_deleteObject, simp add: cluster_wf_def)
  with Cons.IH show ?case by (simp add: others_def)
qed (simp add: others_def)

lemma served_intact:
  assumes "\<And>c. cluster_wf c \<Longrightarrow> cluster_wf (snd (f c))" and "intact w"
  shows "intact (snd (served f w))"
  using assms others_wf
  by (induction f w rule: served.induct) (simp_all add: intact_def served_snd del: served.simps(2))

lemma waited_intact: "intact w \<Longrightarrow> intact (snd (waited w))"
  using others_wf
  by (induction w rule: waited.induct)
    (auto simp: intact_def fake_wait_def cluster_wf_def split: nat.split prod.split)

text \<open>A positive answer is the one of the server in a well formed state.\<close>

lemma served_answer:
  assumes "served f w = (Inr a, w')" and "intact w"
  shows "\<exists>c c'. cluster_wf c \<and> f c = (Inr a, c')"
  using served_Inr [OF assms(1)] others_wf assms(2) unfolding intact_def by blast

lemma write_keys:
  "vt_Create ob c = (Inr ob', c') \<Longrightarrow> object_key ob' = object_key ob"
  "vt_Update ob c = (Inr ob', c') \<Longrightarrow> object_key ob' = object_key ob"
  by (auto simp: vt_Update_def dest!: vt_Create_Inr vt_replace_Inr split: if_splits sum.splits)

lemma shared_frame: "request_frame (sharedEnv ma un) intact (\<lambda>_. True)"
  by unfold_locales
    (simp_all only: sharedEnv_simps served_intact waited_intact fake_reads wf_vt_Create wf_vt_Update wf_deleteObject snd_conv)

lemma shared_reads:
  "cluster_wf c \<Longrightarrow> fake_Get k m c = (Inr ob, c') \<Longrightarrow> object_key ob = m"
  "cluster_wf c \<Longrightarrow> fake_List k (x # n) c = (Inr obs, c') \<Longrightarrow> ob \<in> set obs \<Longrightarrow> mNamespace (ObjectMeta ob) = x # n"
  using cluster_wf_tracked [of c k m]
  by (auto simp: fake_Get_def tracker_Get_def obj_id_def split: option.splits)
    (auto simp: fake_List_def set_tracker_List json_roundtrip_def)

interpretation honest: honest_server "sharedEnv ma un" intact "x # n" for ma un x n
proof (intro honest_server.intro honest_server_axioms.intro shared_frame)
  fix w k m ob w'
  assume "intact w" and "eGet (sharedEnv ma un) k m w = (Inr ob, w')"
  then show "object_key ob = m" unfolding sharedEnv_simps using served_answer [of "fake_Get k m" w ob w'] shared_reads(1) by blast
next
  fix w k obs w' ob
  assume "intact w" and "eList (sharedEnv ma un) k (x # n) w = (Inr obs, w')" and "ob \<in> set obs"
  then show "mNamespace (ObjectMeta ob) = x # n"
    unfolding sharedEnv_simps using served_answer [of "fake_List k (x # n)" w obs w'] shared_reads(2) by blast
next
  fix w ob ob' w'
  assume "intact w" and "eCreate (sharedEnv ma un) ob w = (Inr ob', w')"
  then show "object_key ob' = object_key ob" unfolding sharedEnv_simps using served_answer [of "vt_Create ob" w ob' w'] write_keys(1) by blast
next
  fix w ob ob' w'
  assume "intact w" and "eUpdate (sharedEnv ma un) ob w = (Inr ob', w')"
  then show "object_key ob' = object_key ob" unfolding sharedEnv_simps using served_answer [of "vt_Update ob" w ob' w'] write_keys(2) by blast
next
  fix w ob ob' w'
  assume "intact w" and "eStatusUpdate (sharedEnv ma un) ob w = (Inr ob', w')"
  then show "object_key ob' = object_key ob" unfolding sharedEnv_simps using served_answer [of "vt_Update ob" w ob' w'] write_keys(2) by blast
qed simp

text \<open>
  C9. A reconciliation in the namespace \<open>ns\<close> sends only requests for objects of \<open>ns\<close> and of the cluster's
  own kinds, and only requests that the RBAC markers of the operator permit: whatever is stored
  there, whatever the receiver held before, whatever other clients do before each of its requests,
  and whatever requests and answers are lost.
\<close>

theorem Reconcile_permitted:
  assumes "cluster_wf c" and "nnNamespace req = ns" and "ns \<noteq> ''''"
  shows "\<forall>q \<in> set (requests (log_of (Reconcile (recording (sharedEnv ma un)) req (start r (ts, c))))).
    local_request ns q \<and> permitted ns q"
proof -
  obtain x n where ns: "ns = x # n" using assms(3) by (cases ns) auto
  have "log_within (proper ns) (wd (snd (Reconcile (recording (sharedEnv ma un)) req (start r (ts, c)))))"
    using honest.Reconcile_confined [of "(ts, c)" req x n] assms(1,2) by (simp add: ns intact_def confined_def)
  then show ?thesis
    using assms(3) local_permitted by (auto simp: log_within_def proper_def)
qed

text \<open>
  The resource is terminating and NooBaa is gone: six reads are served, and the update that takes
  the finalizer away is lost, as is the update of the status.
\<close>

definition endingMCG :: kobject where
  "endingMCG = untype kManagedMCG (sampleMCG\<lparr>ObjectMeta := (ObjectMeta sampleMCG)\<lparr>mDeletionTimestamp := Some 1\<rparr>\<rparr>)"

definition endingRequests :: "request list" where
  "endingRequests = requests (log_of (Reconcile (recording (sharedEnv (\<lambda>_. Inr ''yaml'') (\<lambda>_ gs. Inr gs))) sampleKey
     (start (newReconciler sampleConfig) (replicate 6 ([], Served), clusterOf [endingMCG]))))"

lemmas ending_defs = Reconcile_def reconcileFetched_def reconcilePhases_def verifyAddonDeletionKey_def
  dispatchPhases_def updateComponentStatus_def UpdateNoobaaComponentStatus_def UpdatePrometheusComponentStatus_def
  UpdateAlertmanagerComponentStatus_def UpdateConsoleComponentStatus_def stateOfFetch_def setComponents_def
  deletionPhase_def components_def removeManagedMCG_def setFinalizers_def updateStatus_def

lemma endingRequests_eq:
  "\<exists>ob ob'. endingRequests = map (\<lambda>(k, n). ReqGet k \<lparr>nnNamespace = ''ns'', nnName = n\<rparr>)
     [(KManagedMCG, ManagedMCGName), (KConfigMap, ''mcg''), (KNooBaa, noobaaName), (KPrometheus, prometheusName),
      (KAlertmanager, alertmanagerName), (KConsolePlugin, mcgmsConsoleName)] @ [ReqUpdate ob, ReqStatusUpdate ob']"
  by (simp add: endingRequests_def endingMCG_def numeral_eq_Suc ending_defs sample_defs fake_defs init_defs
      name_defs client_defs sharedEnv_def recording_def record_op_def requests_def start_def others_def kdesc_defs
      time_IsZero_def)

theorem Reconcile_permitted_witness:
  "(\<exists>ob. ReqUpdate ob \<in> set endingRequests) \<and>
   list_all (\<lambda>q. local_request ''ns'' q \<and> permitted ''ns'' q) endingRequests"
proof
  obtain xs ob ob' where eq: "endingRequests = xs @ [ReqUpdate ob, ReqStatusUpdate ob']"
    using endingRequests_eq by blast
  have "ReqUpdate ob \<in> set (xs @ [ReqUpdate ob, ReqStatusUpdate ob'])" by simp
  then show "\<exists>ob. ReqUpdate ob \<in> set endingRequests" unfolding eq by (rule exI)
next
  have "obj_id endingMCG = (KManagedMCG, sampleKey)"
    by (simp add: endingMCG_def untype_def kManagedMCG_def obj_id_def sampleMCG_def object_key_def sampleKey_def)
  then have "cluster_wf (clusterOf [endingMCG])" by (simp add: cluster_wf_def clusterOf_def)
  then show "list_all (\<lambda>q. local_request ''ns'' q \<and> permitted ''ns'' q) endingRequests"
    unfolding endingRequests_def list_all_iff by (rule Reconcile_permitted) (simp_all add: sampleKey_def)
qed

end
