(* ===== verification/Binary_Heap.thy ===== *)
theory Binary_Heap
  imports Prelude "HOL-Library.Multiset"
begin

text \<open>
  Heaps in arrays, as the package \<open>container/heap\<close> of the Go library keeps them for the delayed
  requests of a work queue: the operations move elements along the path to the root, and the
  element with the smallest key stays at index 0.
\<close>

section \<open>Operations\<close>

definition heap_swap :: "nat \<Rightarrow> nat \<Rightarrow> 'a list \<Rightarrow> 'a list" where
  "heap_swap i j xs = xs[i := xs ! j, j := xs ! i]"

function heap_up :: "('a \<Rightarrow> 'k :: linorder) \<Rightarrow> nat \<Rightarrow> 'a list \<Rightarrow> 'a list" where
  "heap_up key j xs =
     (let i = (j - 1) div 2 in
      if i = j \<or> \<not> key (xs ! j) < key (xs ! i) then xs else heap_up key i (heap_swap i j xs))"
  by pat_completeness auto
termination by (relation "measure (\<lambda>(_, j, _). j)") auto

declare heap_up.simps [simp del]

text \<open>\<open>down\<close> works on the first \<open>n\<close> elements and tells where it has stopped.\<close>

function heap_down :: "('a \<Rightarrow> 'k :: linorder) \<Rightarrow> nat \<Rightarrow> nat \<Rightarrow> 'a list \<Rightarrow> nat \<times> 'a list" where
  "heap_down key i n xs =
     (let j1 = 2 * i + 1 in
      if n \<le> j1 then (i, xs)
      else
        (let j = (if j1 + 1 < n \<and> key (xs ! (j1 + 1)) < key (xs ! j1) then j1 + 1 else j1) in
         if \<not> key (xs ! j) < key (xs ! i) then (i, xs) else heap_down key j n (heap_swap i j xs)))"
  by pat_completeness auto
termination by (relation "measure (\<lambda>(_, i, n, _). n - i)") (auto simp: Let_def split: if_splits)

declare heap_down.simps [simp del]

definition heap_Push :: "('a \<Rightarrow> 'k :: linorder) \<Rightarrow> 'a \<Rightarrow> 'a list \<Rightarrow> 'a list" where
  "heap_Push key x xs = heap_up key (length xs) (xs @ [x])"

definition heap_Pop :: "('a \<Rightarrow> 'k :: linorder) \<Rightarrow> 'a list \<Rightarrow> 'a \<times> 'a list" where
  "heap_Pop key xs =
     (let n = length xs - 1; ys = snd (heap_down key 0 n (heap_swap 0 n xs)) in (ys ! n, take n ys))"

definition heap_Fix :: "('a \<Rightarrow> 'k :: linorder) \<Rightarrow> nat \<Rightarrow> 'a list \<Rightarrow> 'a list" where
  "heap_Fix key i xs =
     (case heap_down key i (length xs) xs of (i', ys) \<Rightarrow> if i < i' then ys else heap_up key i ys)"

section \<open>Elements\<close>

lemma heap_swap_simps [simp]:
  "length (heap_swap i j xs) = length xs"
  "i < length xs \<Longrightarrow> j < length xs \<Longrightarrow> mset (heap_swap i j xs) = mset xs"
  by (simp_all add: heap_swap_def mset_swap)

lemma nth_heap_swap:
  "i < length xs \<Longrightarrow> j < length xs \<Longrightarrow>
   heap_swap i j xs ! m = (if m = j then xs ! i else if m = i then xs ! j else xs ! m)"
  by (simp add: heap_swap_def nth_list_update)

lemma mset_heap_up: "j < length xs \<Longrightarrow> mset (heap_up key j xs) = mset xs"
proof (induction key j xs rule: heap_up.induct)
  case (1 key j xs)
  then show ?case by (subst heap_up.simps) (auto simp: Let_def)
qed

lemma heap_down_elements:
  "i < n \<Longrightarrow> n \<le> length xs \<Longrightarrow>
   length (snd (heap_down key i n xs)) = length xs \<and> mset (snd (heap_down key i n xs)) = mset xs \<and>
   (\<forall>m \<ge> n. snd (heap_down key i n xs) ! m = xs ! m) \<and> i \<le> fst (heap_down key i n xs)"
proof (induction key i n xs rule: heap_down.induct)
  case (1 key i n xs)
  show ?case
  proof (cases "n \<le> 2 * i + 1")
    case True
    then show ?thesis by (simp add: heap_down.simps [of key i n xs])
  next
    case False
    define j where "j = (if 2 * i + 1 + 1 < n \<and> key (xs ! (2 * i + 1 + 1)) < key (xs ! (2 * i + 1))
      then 2 * i + 1 + 1 else 2 * i + 1)"
    have j: "i < j" "j < n" using False by (auto simp: j_def)
    have eq: "heap_down key i n xs =
        (if \<not> key (xs ! j) < key (xs ! i) then (i, xs) else heap_down key j n (heap_swap i j xs))"
      using False by (subst heap_down.simps) (simp add: Let_def j_def)
    show ?thesis
    proof (cases "key (xs ! j) < key (xs ! i)")
      case True
      have "length (snd (heap_down key j n (heap_swap i j xs))) = length xs \<and>
          mset (snd (heap_down key j n (heap_swap i j xs))) = mset (heap_swap i j xs) \<and>
          (\<forall>m \<ge> n. snd (heap_down key j n (heap_swap i j xs)) ! m = heap_swap i j xs ! m) \<and>
          j \<le> fst (heap_down key j n (heap_swap i j xs))"
        using 1(1) [OF refl False] True j 1(3) by (simp add: j_def)
      with True j 1(3) eq show ?thesis by (auto simp: nth_heap_swap)
    qed (simp add: eq)
  qed
qed

section \<open>Order\<close>

definition parent :: "nat \<Rightarrow> nat" where
  "parent m = (m - 1) div 2"

text \<open>No element among the first \<open>n\<close> is before its parent.\<close>

definition heap_ordered :: "('a \<Rightarrow> 'k :: linorder) \<Rightarrow> nat \<Rightarrow> 'a list \<Rightarrow> bool" where
  "heap_ordered key n xs \<longleftrightarrow> (\<forall>m. 0 < m \<and> m < n \<longrightarrow> key (xs ! parent m) \<le> key (xs ! m))"

text \<open>What holds while an element moves: all is in order above, below and beside the place \<open>j\<close>.\<close>

definition ordered_but_up :: "('a \<Rightarrow> 'k :: linorder) \<Rightarrow> nat \<Rightarrow> nat \<Rightarrow> 'a list \<Rightarrow> bool" where
  "ordered_but_up key n j xs \<longleftrightarrow>
     (\<forall>m. 0 < m \<and> m < n \<and> m \<noteq> j \<longrightarrow> key (xs ! parent m) \<le> key (xs ! m)) \<and>
     (\<forall>m. 0 < m \<and> m < n \<and> parent m = j \<and> 0 < j \<longrightarrow> key (xs ! parent j) \<le> key (xs ! m))"

definition ordered_but_down :: "('a \<Rightarrow> 'k :: linorder) \<Rightarrow> nat \<Rightarrow> nat \<Rightarrow> 'a list \<Rightarrow> bool" where
  "ordered_but_down key n i xs \<longleftrightarrow>
     (\<forall>m. 0 < m \<and> m < n \<and> parent m \<noteq> i \<longrightarrow> key (xs ! parent m) \<le> key (xs ! m)) \<and>
     (\<forall>m. 0 < m \<and> m < n \<and> parent m = i \<and> 0 < i \<longrightarrow> key (xs ! parent i) \<le> key (xs ! m))"

lemma parent_less: "0 < m \<Longrightarrow> parent m < m"
  by (simp add: parent_def)

lemma parent_cases: "0 < m \<Longrightarrow> parent m = i \<longleftrightarrow> m = 2 * i + 1 \<or> m = 2 * i + 2"
  unfolding parent_def by presburger

lemma heap_ordered_root:
  assumes "heap_ordered key n xs" and "m < n"
  shows "key (xs ! 0) \<le> key (xs ! m)"
  using assms(2)
proof (induction m rule: less_induct)
  case (less m)
  show ?case
  proof (cases "m = 0")
    case False
    with less parent_less [of m] have "key (xs ! 0) \<le> key (xs ! parent m)" by simp
    also have "\<dots> \<le> key (xs ! m)" using assms(1) less.prems False by (simp add: heap_ordered_def)
    finally show ?thesis .
  qed simp
qed

lemma ordered_up_done:
  "ordered_but_up key n j xs \<Longrightarrow> j = 0 \<or> key (xs ! parent j) \<le> key (xs ! j) \<Longrightarrow> heap_ordered key n xs"
  unfolding heap_ordered_def ordered_but_up_def by blast

lemma ordered_up_step:
  assumes "ordered_but_up key n j xs" and "0 < j" "j < n" "n \<le> length xs" and less: "key (xs ! j) < key (xs ! parent j)"
  shows "ordered_but_up key n (parent j) (heap_swap (parent j) j xs)"
proof -
  have len: "parent j < length xs" "j < length xs" using assms parent_less [of j] by auto
  have edge: "key (xs ! parent m) \<le> key (xs ! m)" if "0 < m" "m < n" "m \<noteq> j" for m
    using assms(1) that by (simp add: ordered_but_up_def)
  have below: "key (xs ! parent j) \<le> key (xs ! m)" if "0 < m" "m < n" "parent m = j" for m
    using assms(1,2) that by (simp add: ordered_but_up_def)
  have pj: "parent j \<noteq> j" using parent_less [OF assms(2)] by simp
  show ?thesis
    unfolding ordered_but_up_def nth_heap_swap [OF len]
  proof (intro conjI allI impI; elim conjE)
    fix m assume m: "0 < m" "m < n" "m \<noteq> parent j"
    show "key (if parent m = j then xs ! parent j else if parent m = parent j then xs ! j else xs ! parent m)
        \<le> key (if m = j then xs ! parent j else if m = parent j then xs ! j else xs ! m)"
      using m edge [of m] below [of m] less pj parent_less [of m]
      by (auto intro: order.trans less_imp_le dest: less_imp_le)
  next
    fix m assume m: "0 < m" "m < n" "parent m = parent j" "0 < parent j"
    have "key (xs ! parent (parent j)) \<le> key (xs ! parent j)"
      using edge [of "parent j"] m pj parent_less [OF assms(2)] assms(3) by simp
    then show "key (if parent (parent j) = j then xs ! parent j
          else if parent (parent j) = parent j then xs ! j else xs ! parent (parent j))
        \<le> key (if m = j then xs ! parent j else if m = parent j then xs ! j else xs ! m)"
      using m edge [of m] parent_less [of m] parent_less [of "parent j"] parent_less [OF assms(2)]
      by (auto intro: order.trans)
  qed
qed

lemma heap_up_ordered:
  "ordered_but_up key (length xs) j xs \<Longrightarrow> j < length xs \<Longrightarrow> heap_ordered key (length xs) (heap_up key j xs)"
proof (induction key j xs rule: heap_up.induct)
  case (1 key j xs)
  have eq: "heap_up key j xs = (if j = 0 \<or> \<not> key (xs ! j) < key (xs ! parent j) then xs
      else heap_up key (parent j) (heap_swap (parent j) j xs))"
    using parent_less [of j] by (subst heap_up.simps) (auto simp: Let_def parent_def)
  show ?case
  proof (cases "j = 0 \<or> \<not> key (xs ! j) < key (xs ! parent j)")
    case True
    then show ?thesis using ordered_up_done [OF 1(2)] eq by (auto simp: not_less)
  next
    case False
    then have "parent j \<noteq> j" using parent_less [of j] by simp
    moreover have "ordered_but_up key (length xs) (parent j) (heap_swap (parent j) j xs)"
      using ordered_up_step [OF 1(2)] False 1(3) by simp
    ultimately show ?thesis
      using 1(1) [OF refl] False 1(3) parent_less [of j] by (simp add: eq parent_def)
  qed
qed

lemma heap_Push_ordered:
  assumes "heap_ordered key (length xs) xs"
  shows "heap_ordered key (Suc (length xs)) (heap_Push key x xs)"
proof -
  have "parent m \<noteq> length xs" "parent m < length xs" if "0 < m" "m < Suc (length xs)" for m
    using that parent_less [of m] by auto
  then have "ordered_but_up key (length (xs @ [x])) (length xs) (xs @ [x])"
    using assms by (auto simp: ordered_but_up_def heap_ordered_def nth_append)
  from heap_up_ordered [OF this] show ?thesis by (simp add: heap_Push_def)
qed

lemma mset_heap_Push [simp]: "mset (heap_Push key x xs) = add_mset x (mset xs)"
  by (simp add: heap_Push_def mset_heap_up)

lemma length_heap_Push [simp]: "length (heap_Push key x xs) = Suc (length xs)"
  using mset_heap_Push [of key x xs] by (metis size_add_mset size_mset)

text \<open>The child that an element changes places with is the one with the smaller key.\<close>

definition least_child :: "('a \<Rightarrow> 'k :: linorder) \<Rightarrow> nat \<Rightarrow> nat \<Rightarrow> 'a list \<Rightarrow> nat" where
  "least_child key n i xs =
     (if 2 * i + 2 < n \<and> key (xs ! (2 * i + 2)) < key (xs ! (2 * i + 1)) then 2 * i + 2 else 2 * i + 1)"

lemma heap_down_eq:
  "heap_down key i n xs =
     (if n \<le> 2 * i + 1 \<or> \<not> key (xs ! least_child key n i xs) < key (xs ! i) then (i, xs)
      else heap_down key (least_child key n i xs) n (heap_swap i (least_child key n i xs) xs))"
  by (subst heap_down.simps) (simp add: Let_def least_child_def)

lemma least_child:
  assumes "\<not> n \<le> 2 * i + 1"
  shows "parent (least_child key n i xs) = i" "i < least_child key n i xs" "least_child key n i xs < n"
    and "0 < m \<Longrightarrow> m < n \<Longrightarrow> parent m = i \<Longrightarrow> key (xs ! least_child key n i xs) \<le> key (xs ! m)"
  using assms parent_cases [of m i] parent_cases [of "least_child key n i xs" i] by (auto simp: least_child_def)

lemma ordered_down_done:
  assumes "ordered_but_down key n i xs"
    and "\<And>m. 0 < m \<Longrightarrow> m < n \<Longrightarrow> parent m = i \<Longrightarrow> key (xs ! i) \<le> key (xs ! m)"
  shows "heap_ordered key n xs"
  using assms unfolding heap_ordered_def ordered_but_down_def by metis

lemma ordered_down_step:
  assumes "ordered_but_down key n i xs" and "\<not> n \<le> 2 * i + 1" "n \<le> length xs"
    and less: "key (xs ! least_child key n i xs) < key (xs ! i)"
  shows "ordered_but_down key n (least_child key n i xs) (heap_swap i (least_child key n i xs) xs)"
proof -
  let ?j = "least_child key n i xs"
  note j = least_child [OF assms(2), where key = key and xs = xs]
  have len: "i < length xs" "?j < length xs" using j assms(3) by auto
  have edge: "key (xs ! parent m) \<le> key (xs ! m)" if "0 < m" "m < n" "parent m \<noteq> i" for m
    using assms(1) that by (simp add: ordered_but_down_def)
  have above: "key (xs ! parent i) \<le> key (xs ! m)" if "0 < m" "m < n" "parent m = i" "0 < i" for m
    using assms(1) that by (simp add: ordered_but_down_def)
  show ?thesis
    unfolding ordered_but_down_def nth_heap_swap [OF len]
  proof (intro conjI allI impI; elim conjE)
    fix m assume m: "0 < m" "m < n" "parent m \<noteq> ?j"
    show "key (if parent m = ?j then xs ! i else if parent m = i then xs ! ?j else xs ! parent m)
        \<le> key (if m = ?j then xs ! i else if m = i then xs ! ?j else xs ! m)"
      using m j(1,2,3) j(4) [of m] less edge [of m] above [of ?j] parent_less [of m]
      by (auto intro: less_imp_le)
  next
    fix m assume m: "0 < m" "m < n" "parent m = ?j" "0 < ?j"
    have "key (xs ! ?j) \<le> key (xs ! m)" using edge [of m] m j(2) by auto
    then show "key (if parent ?j = ?j then xs ! i else if parent ?j = i then xs ! ?j else xs ! parent ?j)
        \<le> key (if m = ?j then xs ! i else if m = i then xs ! ?j else xs ! m)"
      using m j(1,2) parent_less [of m] by auto
  qed
qed

lemma heap_down_ordered:
  "ordered_but_down key n i xs \<Longrightarrow> i < n \<Longrightarrow> n \<le> length xs \<Longrightarrow> heap_ordered key n (snd (heap_down key i n xs))"
proof (induction "n - i" arbitrary: i xs rule: less_induct)
  case less
  show ?case
  proof (cases "n \<le> 2 * i + 1 \<or> \<not> key (xs ! least_child key n i xs) < key (xs ! i)")
    case True
    have "key (xs ! i) \<le> key (xs ! m)" if m: "0 < m" "m < n" "parent m = i" for m
    proof -
      have "\<not> n \<le> 2 * i + 1" using m parent_cases [of m i] by auto
      with True least_child(4) [OF this m, where key = key and xs = xs] show ?thesis by auto
    qed
    then have "heap_ordered key n xs" by (rule ordered_down_done [OF less.prems(1)])
    moreover have "heap_down key i n xs = (i, xs)" using True by (rule heap_down_eq [THEN trans, OF if_P])
    ultimately show ?thesis by simp
  next
    case False
    let ?j = "least_child key n i xs"
    have more: "\<not> n \<le> 2 * i + 1" and before: "key (xs ! ?j) < key (xs ! i)" using False by auto
    note j = least_child(2,3) [OF more, where key = key and xs = xs]
    have "ordered_but_down key n ?j (heap_swap i ?j xs)"
      by (rule ordered_down_step [OF less.prems(1) more less.prems(3) before])
    then have "heap_ordered key n (snd (heap_down key ?j n (heap_swap i ?j xs)))"
      using less.hyps [of ?j "heap_swap i ?j xs"] less.prems(2,3) j by (simp add: diff_less_mono2)
    moreover have "heap_down key i n xs = heap_down key ?j n (heap_swap i ?j xs)"
      using False by (rule heap_down_eq [THEN trans, OF if_not_P])
    ultimately show ?thesis by simp
  qed
qed

section \<open>The operations keep the order\<close>

lemma split_last: "xs \<noteq> [] \<Longrightarrow> xs = take (length xs - 1) xs @ [xs ! (length xs - 1)]"
  by (cases xs rule: rev_cases) simp_all

lemma heap_Pop:
  assumes "heap_ordered key (length xs) xs" and "xs \<noteq> []" and "heap_Pop key xs = (x, ys)"
  shows "mset xs = add_mset x (mset ys) \<and> x = xs ! 0 \<and> heap_ordered key (length ys) ys"
proof -
  let ?n = "length xs - 1"
  let ?zs = "heap_swap 0 ?n xs"
  let ?ds = "snd (heap_down key 0 ?n ?zs)"
  have len: "0 < length xs" "?n < length xs" using assms(2) by auto
  have els: "length ?ds = length xs \<and> mset ?ds = mset ?zs \<and> (\<forall>m \<ge> ?n. ?ds ! m = ?zs ! m)"
  proof (cases "?n = 0")
    case True
    then show ?thesis by (simp add: heap_down_eq [of key 0 0])
  next
    case False
    then show ?thesis using heap_down_elements [of 0 ?n ?zs key] by simp
  qed
  have x: "x = xs ! 0" and ys: "ys = take ?n ?ds"
    using assms(3) els len by (auto simp: heap_Pop_def Let_def nth_heap_swap)
  have "?ds = ys @ [x]"
  proof -
    have ds: "?ds \<noteq> []" using els len by auto
    have "length ?ds = length xs" using els by simp
    with split_last [OF ds] have "?ds = take ?n ?ds @ [?ds ! ?n]" by (simp only:)
    moreover have "?ds ! ?n = x" using els len x by (simp add: nth_heap_swap)
    ultimately show ?thesis using ys by (simp only:)
  qed
  then have "mset xs = add_mset x (mset ys)" using els len by (simp add: union_commute)
  moreover have "heap_ordered key (length ys) ys"
  proof (cases "?n = 0")
    case True
    then show ?thesis using ys by (simp add: heap_ordered_def)
  next
    case False
    have "key (?zs ! parent m) \<le> key (?zs ! m)" if m: "0 < m" "m < ?n" "parent m \<noteq> 0" for m
      unfolding nth_heap_swap [OF len] using assms(1) m parent_less [OF m(1)] by (auto simp: heap_ordered_def)
    then have "ordered_but_down key ?n 0 ?zs" by (simp add: ordered_but_down_def)
    then have "heap_ordered key ?n ?ds" using heap_down_ordered [of key ?n 0 ?zs] False by simp
    moreover have "length ys = ?n" and nth: "\<And>m. m < ?n \<Longrightarrow> ys ! m = ?ds ! m" using els by (simp_all add: ys)
    moreover have "parent m < ?n" if "0 < m" "m < ?n" for m using that parent_less [of m] by simp
    ultimately show ?thesis by (simp only: heap_ordered_def) (simp add: nth)
  qed
  ultimately show ?thesis using x by simp
qed

text \<open>An element whose key has become smaller moves up only.\<close>

lemma heap_Fix_earlier:
  assumes "heap_ordered key (length xs) xs" and "i < length xs" and "key x \<le> key (xs ! i)"
  shows "mset (heap_Fix key i (xs[i := x])) = add_mset x (mset xs - {#xs ! i#})"
    and "heap_ordered key (length xs) (heap_Fix key i (xs[i := x]))"
proof -
  let ?ys = "xs[i := x]"
  have below: "key x \<le> key (xs ! m)" if "0 < m" "m < length xs" "parent m = i" for m
    using assms that unfolding heap_ordered_def by (metis order.trans)
  have stays: "heap_down key i (length ?ys) ?ys = (i, ?ys)"
  proof (cases "length xs \<le> 2 * i + 1")
    case True
    then show ?thesis by (subst heap_down_eq) simp
  next
    case False
    then show ?thesis
      using least_child(1-3) [of "length xs" i, where key = key and xs = ?ys] below [of "least_child key (length xs) i ?ys"] assms(2)
      by (subst heap_down_eq) (simp add: not_less)
  qed
  then have eq: "heap_Fix key i ?ys = heap_up key i ?ys" by (simp add: heap_Fix_def)
  show "mset (heap_Fix key i ?ys) = add_mset x (mset xs - {#xs ! i#})"
    using assms(2) by (simp add: eq mset_heap_up mset_update)
  have "ordered_but_up key (length ?ys) i ?ys"
    unfolding ordered_but_up_def
  proof (intro conjI allI impI; elim conjE)
    fix m assume m: "0 < m" "m < length ?ys" "m \<noteq> i"
    then show "key (?ys ! parent m) \<le> key (?ys ! m)"
      using assms(1,2) below [of m] by (cases "parent m = i") (auto simp: heap_ordered_def)
  next
    fix m assume m: "0 < m" "m < length ?ys" "parent m = i" "0 < i"
    have "key (xs ! parent i) \<le> key (xs ! i)" "key (xs ! i) \<le> key (xs ! m)"
      using assms(1,2) m by (auto simp: heap_ordered_def)
    then show "key (?ys ! parent i) \<le> key (?ys ! m)"
      using m parent_less [of i] parent_less [of m] by (auto intro: order.trans)
  qed
  from heap_up_ordered [OF this] assms(2) show "heap_ordered key (length xs) (heap_Fix key i ?ys)"
    by (simp add: eq)
qed

end
