(* ===== verification/Workqueue.thy ===== *)
theory Workqueue
  imports Binary_Heap "HOL-Library.Word"
begin

text \<open>
  The work queue between the watches and the workers (vendored \<open>client-go/util/workqueue\<close>): the queue
  that hands a request to one worker at a time (\<open>queue.go\<close>), requests that are added after a delay
  (\<open>delaying_queue.go\<close>), and the delays of requests whose reconciliation failed
  (\<open>default_rate_limiters.go\<close>, \<open>rate_limiting_queue.go\<close>). Times and durations are nanoseconds; the
  clock is an argument. Every operation runs under the lock of the queue, so it is one step. An
  interface that is embedded in a struct is a record that is extended.
\<close>

section \<open>The queue\<close>

record 'a work_queue =
  wqQueue :: "'a list"
  wqDirty :: "'a set"
  wqProcessing :: "'a set"
  wqShuttingDown :: bool
  wqDrain :: bool

definition wq_Add :: "'a \<Rightarrow> ('a, 'z) work_queue_scheme \<Rightarrow> ('a, 'z) work_queue_scheme" where
  "wq_Add item q =
     (if wqShuttingDown q then q
      else if item \<in> wqDirty q then q
      else
        (let q = q\<lparr>wqDirty := insert item (wqDirty q)\<rparr> in
         if item \<in> wqProcessing q then q else q\<lparr>wqQueue := wqQueue q @ [item]\<rparr>))"

definition wq_Len :: "('a, 'z) work_queue_scheme \<Rightarrow> nat" where
  "wq_Len q = length (wqQueue q)"

text \<open>\<open>Get\<close> waits while there is nothing to do; \<open>Blocked\<close> is the answer of a call that waits.\<close>

datatype 'a got = Blocked | Shutdown | Got 'a

definition wq_Get :: "('a, 'z) work_queue_scheme \<Rightarrow> 'a got \<times> ('a, 'z) work_queue_scheme" where
  "wq_Get q =
     (case wqQueue q of
        [] \<Rightarrow> (if wqShuttingDown q then Shutdown else Blocked, q)
      | item # rest \<Rightarrow>
          (Got item, q\<lparr>wqQueue := rest, wqProcessing := insert item (wqProcessing q), wqDirty := wqDirty q - {item}\<rparr>))"

definition wq_Done :: "'a \<Rightarrow> ('a, 'z) work_queue_scheme \<Rightarrow> ('a, 'z) work_queue_scheme" where
  "wq_Done item q =
     (let q = q\<lparr>wqProcessing := wqProcessing q - {item}\<rparr> in
      if item \<in> wqDirty q then q\<lparr>wqQueue := wqQueue q @ [item]\<rparr> else q)"

definition wq_setDrain :: "bool \<Rightarrow> ('a, 'z) work_queue_scheme \<Rightarrow> ('a, 'z) work_queue_scheme" where
  "wq_setDrain shouldDrain q = q\<lparr>wqDrain := shouldDrain\<rparr>"

definition wq_shutdown :: "('a, 'z) work_queue_scheme \<Rightarrow> ('a, 'z) work_queue_scheme" where
  "wq_shutdown q = q\<lparr>wqShuttingDown := True\<rparr>"

definition wq_ShutDown :: "('a, 'z) work_queue_scheme \<Rightarrow> ('a, 'z) work_queue_scheme" where
  "wq_ShutDown q = wq_shutdown (wq_setDrain False q)"

section \<open>Delays\<close>

record 'a wait_for =
  wfData :: 'a
  wfReadyAt :: int

text \<open>
  The channel into the waiting loop, its priority queue, and the data of the entries in it. An entry
  is found in the array by its data instead of by an index that the swaps keep up to date.
\<close>

record 'a delaying_queue = "'a work_queue" +
  dqChan :: "'a wait_for list"
  dqHeap :: "'a wait_for list"
  dqKnown :: "'a set"

definition dq_AddAfter :: "int \<Rightarrow> 'a \<Rightarrow> int \<Rightarrow> ('a, 'z) delaying_queue_scheme \<Rightarrow> ('a, 'z) delaying_queue_scheme" where
  "dq_AddAfter now item duration q =
     (if wqShuttingDown q then q
      else if duration \<le> 0 then wq_Add item q
      else q\<lparr>dqChan := dqChan q @ [\<lparr>wfData = item, wfReadyAt = now + duration\<rparr>]\<rparr>)"

definition entry_index :: "'a \<Rightarrow> 'a wait_for list \<Rightarrow> nat" where
  "entry_index item heap = length (takeWhile (\<lambda>e. wfData e \<noteq> item) heap)"

definition dq_insert :: "'a wait_for \<Rightarrow> ('a, 'z) delaying_queue_scheme \<Rightarrow> ('a, 'z) delaying_queue_scheme" where
  "dq_insert entry q =
     (if wfData entry \<in> dqKnown q then
        (let i = entry_index (wfData entry) (dqHeap q); existing = dqHeap q ! i in
         if wfReadyAt entry < wfReadyAt existing
         then q\<lparr>dqHeap := heap_Fix wfReadyAt i ((dqHeap q)[i := existing\<lparr>wfReadyAt := wfReadyAt entry\<rparr>])\<rparr>
         else q)
      else q\<lparr>dqHeap := heap_Push wfReadyAt entry (dqHeap q), dqKnown := insert (wfData entry) (dqKnown q)\<rparr>)"

text \<open>The waiting loop: the entries whose time has come are added, and what comes from the channel is kept or added.\<close>

definition dq_pop :: "('a, 'z) delaying_queue_scheme \<Rightarrow> ('a, 'z) delaying_queue_scheme" where
  "dq_pop q =
     (case heap_Pop wfReadyAt (dqHeap q) of (entry, heap) \<Rightarrow>
        (let q = wq_Add (wfData entry) (q\<lparr>dqHeap := heap\<rparr>) in q\<lparr>dqKnown := dqKnown q - {wfData entry}\<rparr>))"

lemma wq_Add_more [simp]:
  "dqHeap (wq_Add item q) = dqHeap q" "dqChan (wq_Add item q) = dqChan q" "dqKnown (wq_Add item q) = dqKnown q"
  "wqShuttingDown (wq_Add item q) = wqShuttingDown q" "wqProcessing (wq_Add item q) = wqProcessing q"
  by (simp_all add: wq_Add_def Let_def)

lemma heap_Pop_shorter: "xs \<noteq> [] \<Longrightarrow> length (snd (heap_Pop key xs)) < length xs"
  by (cases xs) (simp_all add: heap_Pop_def Let_def)

lemma dq_pop_shorter: "dqHeap q \<noteq> [] \<Longrightarrow> length (dqHeap (dq_pop q)) < length (dqHeap q)"
  using heap_Pop_shorter [of "dqHeap q" wfReadyAt]
  by (cases "heap_Pop wfReadyAt (dqHeap q)") (simp add: dq_pop_def Let_def)

function dq_addReady :: "int \<Rightarrow> ('a, 'z) delaying_queue_scheme \<Rightarrow> ('a, 'z) delaying_queue_scheme" where
  "dq_addReady now q =
     (if dqHeap q = [] then q
      else if now < wfReadyAt (dqHeap q ! 0) then q
      else dq_addReady now (dq_pop q))"
  by pat_completeness auto
termination
  by (relation "measure (\<lambda>(_, q). length (dqHeap q))") (simp_all add: dq_pop_shorter)

declare dq_addReady.simps [simp del]

definition dq_receive :: "int \<Rightarrow> ('a, 'z) delaying_queue_scheme \<Rightarrow> ('a, 'z) delaying_queue_scheme" where
  "dq_receive now q =
     (case dqChan q of
        [] \<Rightarrow> q
      | waitEntry # rest \<Rightarrow>
          (let q = q\<lparr>dqChan := rest\<rparr> in
           if now < wfReadyAt waitEntry then dq_insert waitEntry q else wq_Add (wfData waitEntry) q))"

section \<open>Rate limits\<close>

text \<open>
  The exponential limiter. The product of the base delay and the power of two is a floating-point
  number, which is exact for the base delay of the controllers, 5 milliseconds; the conversion to a
  duration is one to 64 bits.
\<close>

record 'a exponential_limiter =
  elFailures :: "'a \<Rightarrow> nat option"
  elBaseDelay :: int
  elMaxDelay :: int

definition el_NumRequeues :: "'a \<Rightarrow> 'a exponential_limiter \<Rightarrow> nat" where
  "el_NumRequeues item l = (case elFailures l item of None \<Rightarrow> 0 | Some n \<Rightarrow> n)"

definition el_When :: "'a \<Rightarrow> 'a exponential_limiter \<Rightarrow> int \<times> 'a exponential_limiter" where
  "el_When item l =
     (let exp = el_NumRequeues item l;
          l = l\<lparr>elFailures := (elFailures l)(item \<mapsto> exp + 1)\<rparr>;
          backoff = elBaseDelay l * 2 ^ exp in
      if 2 ^ 63 < backoff then (elMaxDelay l, l)
      else
        (let calculated = sint (word_of_int backoff :: 64 word) in
         if elMaxDelay l < calculated then (elMaxDelay l, l) else (calculated, l)))"

definition el_Forget :: "'a \<Rightarrow> 'a exponential_limiter \<Rightarrow> 'a exponential_limiter" where
  "el_Forget item l = l\<lparr>elFailures := (elFailures l)(item := None)\<rparr>"

text \<open>\<open>MaxOfRateLimiter\<close>: the worst of the answers, at least 0.\<close>

definition max_of :: "int list \<Rightarrow> int" where
  "max_of currs = fold (\<lambda>curr ret. if ret < curr then curr else ret) currs 0"

definition controllerExponential :: "'a exponential_limiter" where
  "controllerExponential = \<lparr>elFailures = (\<lambda>_. None), elBaseDelay = 5 * 10 ^ 6, elMaxDelay = 1000 * 10 ^ 9\<rparr>"

text \<open>
  \<open>DefaultControllerRateLimiter\<close>: the exponential limiter and a token bucket for all requests. The
  answer of the bucket depends on the time and on all requests before; it is an argument here.
\<close>

definition limiter_When :: "'a \<Rightarrow> int \<Rightarrow> 'a exponential_limiter \<Rightarrow> int \<times> 'a exponential_limiter" where
  "limiter_When item bucket l = (case el_When item l of (delay, l') \<Rightarrow> (max_of [delay, bucket], l'))"

record 'a rate_queue = "'a delaying_queue" +
  rqLimiter :: "'a exponential_limiter"

definition rq_AddRateLimited :: "int \<Rightarrow> int \<Rightarrow> 'a \<Rightarrow> ('a, 'z) rate_queue_scheme \<Rightarrow> ('a, 'z) rate_queue_scheme" where
  "rq_AddRateLimited now bucket item q =
     (case limiter_When item bucket (rqLimiter q) of (delay, l) \<Rightarrow> dq_AddAfter now item delay (q\<lparr>rqLimiter := l\<rparr>))"

definition rq_Forget :: "'a \<Rightarrow> ('a, 'z) rate_queue_scheme \<Rightarrow> ('a, 'z) rate_queue_scheme" where
  "rq_Forget item q = q\<lparr>rqLimiter := el_Forget item (rqLimiter q)\<rparr>"

definition newRateLimitingQueue :: "'a rate_queue" where
  "newRateLimitingQueue = \<lparr>wqQueue = [], wqDirty = {}, wqProcessing = {}, wqShuttingDown = False, wqDrain = False,
     dqChan = [], dqHeap = [], dqKnown = {}, rqLimiter = controllerExponential\<rparr>"

section \<open>Invariants\<close>

named_theorems queue_simps "what the operations of the queue do to its parts"

text \<open>
  Every request that is to be done and is not being done is in the queue, once. The entries of the
  waiting loop are one per request, in heap order, and known.
\<close>

definition queue_ok :: "('a, 'z) work_queue_scheme \<Rightarrow> bool" where
  "queue_ok q \<longleftrightarrow> distinct (wqQueue q) \<and> set (wqQueue q) = wqDirty q - wqProcessing q"

definition delays_ok :: "('a, 'z) delaying_queue_scheme \<Rightarrow> bool" where
  "delays_ok q \<longleftrightarrow> heap_ordered wfReadyAt (length (dqHeap q)) (dqHeap q) \<and> distinct (map wfData (dqHeap q)) \<and>
     dqKnown q = wfData ` set (dqHeap q)"

text \<open>The requests that wait somewhere to be handed out.\<close>

definition pending :: "('a, 'z) delaying_queue_scheme \<Rightarrow> 'a set" where
  "pending q = wqDirty q \<union> wfData ` set (dqChan q) \<union> wfData ` set (dqHeap q)"

lemma wq_Add_ok: "queue_ok q \<Longrightarrow> queue_ok (wq_Add item q)"
  by (simp add: queue_ok_def wq_Add_def Let_def insert_Diff_if)

lemma wq_Add_dirty [queue_simps]: "\<not> wqShuttingDown q \<Longrightarrow> wqDirty (wq_Add item q) = insert item (wqDirty q)"
  by (auto simp: wq_Add_def Let_def)

lemma wq_Get_Got:
  assumes "queue_ok q" and "wq_Get q = (Got item, q')"
  shows "queue_ok q' \<and> item \<in> wqDirty q \<and> item \<notin> wqProcessing q \<and> wqDirty q' = wqDirty q - {item} \<and>
    wqProcessing q' = insert item (wqProcessing q) \<and> wqShuttingDown q' = wqShuttingDown q"
proof -
  obtain rest where rest: "wqQueue q = item # rest"
    and q': "q' = q\<lparr>wqQueue := rest, wqProcessing := insert item (wqProcessing q), wqDirty := wqDirty q - {item}\<rparr>"
    using assms(2) by (auto simp: wq_Get_def split: list.splits if_splits)
  have once: "item \<notin> set rest" "distinct rest" and todo: "insert item (set rest) = wqDirty q - wqProcessing q"
    using assms(1) by (simp_all add: queue_ok_def rest)
  then have "set rest = wqDirty q - {item} - insert item (wqProcessing q)" by blast
  with once have "queue_ok q'" by (simp add: queue_ok_def q')
  moreover have "item \<in> wqDirty q" "item \<notin> wqProcessing q" using todo by blast+
  ultimately show ?thesis by (simp add: q')
qed

lemma wq_Get_delays:
  "wq_Get q = (a, q') \<Longrightarrow> dqChan q' = dqChan q \<and> dqHeap q' = dqHeap q \<and> dqKnown q' = dqKnown q"
  by (auto simp: wq_Get_def split: list.splits)

text \<open>A call of \<open>Get\<close> waits only when all that is to be done is being done, and ends when the queue is shut down and empty.\<close>

lemma wq_Get_waits: "queue_ok q \<Longrightarrow> fst (wq_Get q) = Blocked \<longleftrightarrow> wqDirty q \<subseteq> wqProcessing q \<and> \<not> wqShuttingDown q"
  by (auto simp: wq_Get_def queue_ok_def split: list.splits)

lemma wq_Done_ok: "queue_ok q \<Longrightarrow> item \<in> wqProcessing q \<Longrightarrow> queue_ok (wq_Done item q)"
  by (auto simp: queue_ok_def wq_Done_def Let_def)

lemma wq_Done_simps [queue_simps]:
  "wqDirty (wq_Done item q) = wqDirty q" "wqProcessing (wq_Done item q) = wqProcessing q - {item}"
  "wqShuttingDown (wq_Done item q) = wqShuttingDown q"
  by (simp_all add: wq_Done_def Let_def)

lemma wq_Done_delays [queue_simps]:
  "dqChan (wq_Done item q) = dqChan q" "dqHeap (wq_Done item q) = dqHeap q" "dqKnown (wq_Done item q) = dqKnown q"
  by (simp_all add: wq_Done_def Let_def)

lemma delays_ok_cong:
  "dqHeap q' = dqHeap q \<Longrightarrow> dqKnown q' = dqKnown q \<Longrightarrow> delays_ok q' = delays_ok q"
  by (simp add: delays_ok_def)

section \<open>The waiting loop\<close>

text \<open>An operation that moves requests along and loses none.\<close>

definition moves_on :: "('a, 'z) delaying_queue_scheme \<Rightarrow> ('a, 'z) delaying_queue_scheme \<Rightarrow> 'a set \<Rightarrow> bool" where
  "moves_on q q' new \<longleftrightarrow> pending q' = pending q \<union> new \<and> wqDirty q \<subseteq> wqDirty q' \<and> wqProcessing q' = wqProcessing q \<and>
     \<not> wqShuttingDown q' \<and> (queue_ok q \<longrightarrow> queue_ok q') \<and> delays_ok q'"

lemma moves_on_trans: "moves_on q q' A \<Longrightarrow> moves_on q' q'' B \<Longrightarrow> moves_on q q'' (A \<union> B)"
  by (auto simp: moves_on_def)

lemma wq_Add_moves:
  assumes "\<not> wqShuttingDown q" and "delays_ok q"
  shows "moves_on q (wq_Add item q) {item}"
  using assms delays_ok_cong [of "wq_Add item q" q] by (auto simp: moves_on_def pending_def queue_simps wq_Add_ok)

lemma dq_AddAfter_moves:
  assumes "\<not> wqShuttingDown q" and "delays_ok q"
  shows "moves_on q (dq_AddAfter now item duration q) {item}"
proof (cases "duration \<le> 0")
  case True
  then show ?thesis using wq_Add_moves [OF assms] assms(1) by (simp add: dq_AddAfter_def)
next
  case False
  then show ?thesis using assms by (auto simp: moves_on_def dq_AddAfter_def pending_def queue_ok_def delays_ok_def)
qed

lemma entry_index:
  assumes "item \<in> wfData ` set heap"
  shows "entry_index item heap < length heap \<and> wfData (heap ! entry_index item heap) = item"
  using assms unfolding entry_index_def by (induction heap) auto

lemma heap_entries:
  assumes "mset (map wfData heap') = add_mset item (mset (map wfData heap) - {#item#})" and "item \<in> wfData ` set heap"
    and "distinct (map wfData heap)"
  shows "distinct (map wfData heap') \<and> wfData ` set heap' = wfData ` set heap"
proof -
  have "item \<in># mset (map wfData heap)" using assms(2) by auto
  then have "mset (map wfData heap') = mset (map wfData heap)" using assms(1) by simp
  from mset_eq_setD [OF this] mset_eq_imp_distinct_iff [OF this] assms(3) show ?thesis by simp
qed

lemma heap_moves:
  assumes "\<not> wqShuttingDown q" and "heap_ordered wfReadyAt (length h) h" and "distinct (map wfData h)"
    and "wfData ` set h = insert item (wfData ` set (dqHeap q))"
  shows "moves_on q (q\<lparr>dqHeap := h, dqKnown := wfData ` set h\<rparr>) {item}"
  using assms by (simp add: moves_on_def pending_def queue_ok_def delays_ok_def)

lemma dq_insert_moves:
  assumes "\<not> wqShuttingDown q" and "delays_ok q"
  shows "moves_on q (dq_insert entry q) {wfData entry}"
proof (cases "wfData entry \<in> dqKnown q")
  case True
  let ?i = "entry_index (wfData entry) (dqHeap q)"
  let ?e = "(dqHeap q ! ?i)\<lparr>wfReadyAt := wfReadyAt entry\<rparr>"
  let ?h = "heap_Fix wfReadyAt ?i ((dqHeap q)[?i := ?e])"
  have known: "wfData entry \<in> wfData ` set (dqHeap q)" using True assms(2) by (simp add: delays_ok_def)
  note i = entry_index [OF known]
  show ?thesis
  proof (cases "wfReadyAt entry < wfReadyAt (dqHeap q ! ?i)")
    case earlier: True
    have "wfReadyAt ?e \<le> wfReadyAt (dqHeap q ! ?i)" using earlier by simp
    moreover have "heap_ordered wfReadyAt (length (dqHeap q)) (dqHeap q)" using assms(2) by (simp add: delays_ok_def)
    ultimately have els: "mset ?h = add_mset ?e (mset (dqHeap q) - {#dqHeap q ! ?i#})"
      and ordered: "heap_ordered wfReadyAt (length (dqHeap q)) ?h"
      using heap_Fix_earlier [of wfReadyAt "dqHeap q" ?i ?e] i by blast+
    have "mset (map wfData ?h) = add_mset (wfData entry) (mset (map wfData (dqHeap q)) - {#wfData entry#})"
      using i by (simp add: els image_mset_Diff)
    then have data: "distinct (map wfData ?h) \<and> wfData ` set ?h = wfData ` set (dqHeap q)"
      by (rule heap_entries [OF _ known]) (use assms(2) in \<open>simp add: delays_ok_def\<close>)
    have "0 < length (dqHeap q)" using i by (cases "dqHeap q") simp_all
    then have "length ?h = length (dqHeap q)"
      using arg_cong [OF els, of size] i by (simp add: size_Diff_singleton)
    then have "moves_on q (q\<lparr>dqHeap := ?h, dqKnown := wfData ` set ?h\<rparr>) {wfData entry}"
      using ordered data known assms(1) by (intro heap_moves) (simp_all add: insert_absorb)
    moreover have "wfData ` set ?h = dqKnown q" using data assms(2) by (simp add: delays_ok_def)
    ultimately show ?thesis using True earlier by (simp add: dq_insert_def Let_def)
  next
    case False
    with True have "dq_insert entry q = q" by (simp add: dq_insert_def Let_def)
    with assms known show ?thesis by (auto simp: moves_on_def pending_def)
  qed
next
  case False
  let ?h = "heap_Push wfReadyAt entry (dqHeap q)"
  have new: "wfData entry \<notin> wfData ` set (dqHeap q)" using False assms(2) by (simp add: delays_ok_def)
  have "mset (map wfData ?h) = mset (wfData entry # map wfData (dqHeap q))" by simp
  note els = mset_eq_imp_distinct_iff [OF this] mset_eq_setD [OF this]
  have "heap_ordered wfReadyAt (length ?h) ?h"
    using heap_Push_ordered assms(2) by (auto simp: delays_ok_def)
  then have "moves_on q (q\<lparr>dqHeap := ?h, dqKnown := wfData ` set ?h\<rparr>) {wfData entry}"
    using els new assms by (intro heap_moves) (simp_all add: delays_ok_def)
  moreover have "wfData ` set ?h = insert (wfData entry) (dqKnown q)" using els(2) assms(2) by (simp add: delays_ok_def)
  ultimately show ?thesis using False by (simp add: dq_insert_def)
qed

text \<open>There is one entry per known request.\<close>

lemma heap_size: "delays_ok q \<Longrightarrow> length (dqHeap q) = card (dqKnown q) \<and> finite (dqKnown q)"
  using distinct_card [of "map wfData (dqHeap q)"] by (simp add: delays_ok_def)

lemma dq_insert_size:
  assumes "\<not> wqShuttingDown q" and "delays_ok q"
  shows "length (dqHeap (dq_insert entry q)) \<le> Suc (length (dqHeap q)) \<and> wqDirty (dq_insert entry q) = wqDirty q \<and>
    dqChan (dq_insert entry q) = dqChan q"
proof -
  have "dqKnown (dq_insert entry q) = insert (wfData entry) (dqKnown q)"
    by (auto simp: dq_insert_def Let_def)
  moreover have "delays_ok (dq_insert entry q)" using dq_insert_moves [OF assms, of entry] by (simp add: moves_on_def)
  ultimately have "length (dqHeap (dq_insert entry q)) \<le> Suc (length (dqHeap q))"
    using heap_size [OF assms(2)] heap_size [of "dq_insert entry q"] by (simp add: card_insert_if)
  then show ?thesis by (simp add: dq_insert_def Let_def)
qed

lemma moves_on_rest:
  "moves_on (q\<lparr>dqChan := rest\<rparr>) q' {wfData e} \<Longrightarrow> dqChan q = e # rest \<Longrightarrow> moves_on q q' {}"
  by (auto simp: moves_on_def pending_def queue_ok_def)

lemma dq_receive_moves:
  assumes "\<not> wqShuttingDown q" and "delays_ok q"
  shows "moves_on q (dq_receive now q) {}"
proof (cases "dqChan q")
  case Nil
  then show ?thesis using assms by (simp add: dq_receive_def moves_on_def)
next
  case (Cons e rest)
  have "delays_ok (q\<lparr>dqChan := rest\<rparr>)" using assms(2) by (simp add: delays_ok_def)
  then have "moves_on (q\<lparr>dqChan := rest\<rparr>) (dq_receive now q) {wfData e}"
    using Cons assms(1) by (simp add: dq_receive_def Let_def dq_insert_moves wq_Add_moves)
  then show ?thesis using Cons by (rule moves_on_rest)
qed

lemma dq_pop_moves:
  assumes "\<not> wqShuttingDown q" and "delays_ok q" and "dqHeap q \<noteq> []"
  shows "moves_on q (dq_pop q) {}" and "wqDirty (dq_pop q) = insert (wfData (dqHeap q ! 0)) (wqDirty q)"
    and "mset (dqHeap q) = add_mset (dqHeap q ! 0) (mset (dqHeap (dq_pop q)))"
proof -
  obtain e h where pop: "heap_Pop wfReadyAt (dqHeap q) = (e, h)" by fastforce
  have els: "mset (dqHeap q) = add_mset e (mset h)" "e = dqHeap q ! 0" "heap_ordered wfReadyAt (length h) h"
    using heap_Pop [OF _ assms(3) pop] assms(2) by (auto simp: delays_ok_def)
  have "mset (map wfData (dqHeap q)) = mset (wfData e # map wfData h)" using els(1) by simp
  note data = mset_eq_imp_distinct_iff [OF this] mset_eq_setD [OF this]
  have eq: "dq_pop q = (wq_Add (wfData e) (q\<lparr>dqHeap := h\<rparr>))\<lparr>dqKnown := dqKnown q - {wfData e}\<rparr>"
    using pop by (simp add: dq_pop_def Let_def)
  have dirty: "wqDirty (dq_pop q) = insert (wfData e) (wqDirty q)" using assms(1) by (simp add: eq queue_simps)
  have "queue_ok (wq_Add (wfData e) (q\<lparr>dqHeap := h\<rparr>))" if "queue_ok q"
    using that by (intro wq_Add_ok) (simp add: queue_ok_def)
  then have "queue_ok q \<longrightarrow> queue_ok (dq_pop q)" by (simp add: eq queue_ok_def)
  moreover have "delays_ok (dq_pop q)"
    using assms(2) data els(3) by (simp add: delays_ok_def eq)
  moreover have "pending (dq_pop q) = pending q"
    using data(2) dirty by (simp add: pending_def) (simp add: eq)
  ultimately show "moves_on q (dq_pop q) {}"
    using assms(1) dirty by (simp add: moves_on_def) (auto simp: eq)
  show "wqDirty (dq_pop q) = insert (wfData (dqHeap q ! 0)) (wqDirty q)" using dirty els(2) by simp
  show "mset (dqHeap q) = add_mset (dqHeap q ! 0) (mset (dqHeap (dq_pop q)))" using els by (simp add: eq)
qed

lemma dq_addReady_moves:
  "\<not> wqShuttingDown q \<Longrightarrow> delays_ok q \<Longrightarrow> moves_on q (dq_addReady now q) {}"
proof (induction now q rule: dq_addReady.induct)
  case (1 now q)
  show ?case
  proof (cases "dqHeap q = [] \<or> now < wfReadyAt (dqHeap q ! 0)")
    case True
    then show ?thesis using 1(2,3) by (auto simp: dq_addReady.simps [of now q] moves_on_def)
  next
    case False
    note pop = dq_pop_moves(1) [OF 1(2,3)]
    with False have "moves_on (dq_pop q) (dq_addReady now (dq_pop q)) {}"
      using 1(1) False by (simp add: moves_on_def)
    with pop False have "moves_on q (dq_addReady now (dq_pop q)) ({} \<union> {})"
      by (intro moves_on_trans) simp_all
    with False show ?thesis by (simp add: dq_addReady.simps [of now q])
  qed
qed

lemma dq_addReady_chan [queue_simps]: "dqChan (dq_addReady now q) = dqChan q"
proof (induction now q rule: dq_addReady.induct)
  case (1 now q)
  have "dqChan (dq_pop q) = dqChan q" by (cases "heap_Pop wfReadyAt (dqHeap q)") (simp add: dq_pop_def Let_def)
  then show ?case using 1 by (simp add: dq_addReady.simps [of now q])
qed

text \<open>
  One round of the waiting loop adds exactly the requests whose time has come and keeps the entries
  whose time has not.
\<close>

lemma dq_addReady_timely:
  assumes "\<not> wqShuttingDown q" and "delays_ok q"
  shows "mset (dqHeap (dq_addReady now q)) = filter_mset (\<lambda>e. now < wfReadyAt e) (mset (dqHeap q)) \<and>
    wqDirty (dq_addReady now q) = wqDirty q \<union> wfData ` {e \<in> set (dqHeap q). wfReadyAt e \<le> now}"
  using assms
proof (induction now q rule: dq_addReady.induct)
  case (1 now q)
  show ?case
  proof (cases "dqHeap q = [] \<or> now < wfReadyAt (dqHeap q ! 0)")
    case True
    then have "now < wfReadyAt e" if "e \<in> set (dqHeap q)" for e
      using that heap_ordered_root [of wfReadyAt "length (dqHeap q)" "dqHeap q"] 1(3)
      by (fastforce simp: delays_ok_def in_set_conv_nth)
    then have "filter_mset (\<lambda>e. now < wfReadyAt e) (mset (dqHeap q)) = mset (dqHeap q)"
      and "{e \<in> set (dqHeap q). wfReadyAt e \<le> now} = {}"
      by (auto simp: filter_mset_eq_conv dest!: leD)
    then show ?thesis using True by (auto simp: dq_addReady.simps [of now q])
  next
    case False
    note pop = dq_pop_moves(1,3) [OF 1(2,3)] and dirty = dq_pop_moves(2) [OF 1(2,3)]
    have ih: "mset (dqHeap (dq_addReady now (dq_pop q))) =
        filter_mset (\<lambda>e. now < wfReadyAt e) (mset (dqHeap (dq_pop q))) \<and>
      wqDirty (dq_addReady now (dq_pop q)) =
        wqDirty (dq_pop q) \<union> wfData ` {e \<in> set (dqHeap (dq_pop q)). wfReadyAt e \<le> now}"
      using 1(1) pop(1) False by (simp add: moves_on_def)
    have "set (dqHeap q) = insert (dqHeap q ! 0) (set (dqHeap (dq_pop q)))"
      using pop(2) False by (metis set_mset_add_mset_insert set_mset_mset)
    then show ?thesis using ih dirty pop(2) False by (auto simp: dq_addReady.simps [of now q])
  qed
qed

section \<open>Retries\<close>

lemma el_When_controller:
  assumes "l = controllerExponential\<lparr>elFailures := f\<rparr>"
  shows "el_When item l =
    (min (5 * 10 ^ 6 * 2 ^ el_NumRequeues item l) (10 ^ 12),
     controllerExponential\<lparr>elFailures := f(item \<mapsto> el_NumRequeues item l + 1)\<rparr>)"
proof -
  define k where "k = el_NumRequeues item l"
  define backoff :: int where "backoff = 5 * 10 ^ 6 * 2 ^ k"
  have rest: "el_When item l =
     (if 2 ^ 63 < backoff then 10 ^ 12
      else (let c = sint (word_of_int backoff :: 64 word) in if 10 ^ 12 < c then 10 ^ 12 else c),
      controllerExponential\<lparr>elFailures := f(item \<mapsto> k + 1)\<rparr>)"
    by (simp add: assms el_When_def Let_def controllerExponential_def k_def backoff_def)
  have "backoff \<noteq> 2 ^ 63"
  proof
    assume "backoff = 2 ^ 63"
    moreover have "5 dvd backoff" by (simp add: backoff_def)
    ultimately have "(5 :: int) dvd 2 ^ 63" by metis
    then show False by simp
  qed
  moreover have "0 \<le> backoff" by (simp add: backoff_def)
  ultimately have "sint (word_of_int backoff :: 64 word) = backoff" if "\<not> 2 ^ 63 < backoff"
    using that by (simp add: sint_sbintrunc' signed_take_bit_int_eq_self)
  moreover have "fst (el_When item l) = min backoff (10 ^ 12)" if "\<not> 2 ^ 63 < backoff \<Longrightarrow>
      sint (word_of_int backoff :: 64 word) = backoff"
    using that by (cases "2 ^ 63 < backoff") (simp_all add: rest min_def Let_def)
  ultimately have "fst (el_When item l) = min backoff (10 ^ 12)" by blast
  then show ?thesis by (simp add: prod_eq_iff backoff_def k_def [symmetric]) (simp add: rest)
qed

lemma limiter_When_controller:
  assumes "l = controllerExponential\<lparr>elFailures := f\<rparr>"
  shows "limiter_When item bucket l =
    (max (min (5 * 10 ^ 6 * 2 ^ el_NumRequeues item l) (10 ^ 12)) bucket,
     controllerExponential\<lparr>elFailures := f(item \<mapsto> el_NumRequeues item l + 1)\<rparr>)"
  unfolding limiter_When_def el_When_controller [OF assms] by (simp add: max_of_def) linarith

text \<open>The operations that hand out, finish and delay requests leave the counts of the failures alone.\<close>

lemma queue_limiter [queue_simps]:
  "rqLimiter (wq_Add item q) = rqLimiter q" "wq_Get q = (a, q') \<Longrightarrow> rqLimiter q' = rqLimiter q"
  "rqLimiter (wq_Done item q) = rqLimiter q" "rqLimiter (wq_ShutDown q) = rqLimiter q"
  "rqLimiter (dq_AddAfter now item duration q) = rqLimiter q" "rqLimiter (dq_insert entry q) = rqLimiter q"
  by (auto simp: wq_Add_def wq_Get_def wq_Done_def wq_ShutDown_def wq_shutdown_def wq_setDrain_def dq_AddAfter_def
      dq_insert_def Let_def split: list.splits)

lemma dq_receive_limiter [queue_simps]: "rqLimiter (dq_receive now q) = rqLimiter q"
  by (simp add: dq_receive_def Let_def queue_simps split: list.split)

lemma dq_addReady_limiter [queue_simps]: "rqLimiter (dq_addReady now q) = rqLimiter q"
proof (induction now q rule: dq_addReady.induct)
  case (1 now q)
  have "rqLimiter (dq_pop q) = rqLimiter q"
    by (cases "heap_Pop wfReadyAt (dqHeap q)") (simp add: dq_pop_def Let_def queue_simps)
  then show ?case using 1 by (simp add: dq_addReady.simps [of now q])
qed

lemma rq_Forget_moves:
  assumes "\<not> wqShuttingDown q" and "delays_ok q"
  shows "moves_on q (rq_Forget item q) {}"
  using assms by (simp add: moves_on_def rq_Forget_def pending_def queue_ok_def delays_ok_def)

lemma rq_AddRateLimited_moves:
  assumes "\<not> wqShuttingDown q" and "delays_ok q"
  shows "moves_on q (rq_AddRateLimited now bucket item q) {item}"
proof -
  obtain delay l where l: "limiter_When item bucket (rqLimiter q) = (delay, l)" by fastforce
  have "delays_ok (q\<lparr>rqLimiter := l\<rparr>)" using assms(2) by (simp add: delays_ok_def)
  then have "moves_on (q\<lparr>rqLimiter := l\<rparr>) (dq_AddAfter now item delay (q\<lparr>rqLimiter := l\<rparr>)) {item}"
    using assms(1) by (intro dq_AddAfter_moves) simp_all
  then show ?thesis using l by (simp add: rq_AddRateLimited_def moves_on_def pending_def queue_ok_def)
qed

end
