(* ===== verification/Worker.thy ===== *)
theory Worker
  imports Workqueue Setup Lifecycle
begin

text \<open>
  The workers of the controller (vendored \<open>controller-runtime/pkg/internal/controller\<close>): events put
  requests into the work queue, each worker takes one, reconciles it, and puts it back when the
  reconciliation failed. The composition of the watches, the queue, \<open>Reconcile\<close> and the cluster is a
  step relation; the clock and the answer of the token bucket are those of the step.
\<close>

section \<open>One request\<close>

record reconcile_result =
  resRequeue :: bool
  resRequeueAfter :: int

text \<open>\<open>New\<close>: the number of workers for the option \<open>MaxConcurrentReconciles\<close>, which the operator leaves at 0.\<close>

definition workerCount :: "int \<Rightarrow> nat" where
  "workerCount maxConcurrentReconciles = (if maxConcurrentReconciles \<le> 0 then 1 else nat maxConcurrentReconciles)"

text \<open>
  \<open>reconcileHandler\<close>, after the run of the reconciler with that outcome. A panic is not recovered
  and ends the process, so that there is no queue any more.
\<close>

definition reconcileHandler ::
  "int \<Rightarrow> int \<Rightarrow> 'a \<Rightarrow> reconcile_result outcome \<Rightarrow> ('a, 'z) rate_queue_scheme \<Rightarrow> ('a, 'z) rate_queue_scheme option" where
  "reconcileHandler now bucket req res q =
     (case res of
        Panic p \<Rightarrow> None
      | Err err \<Rightarrow> Some (rq_AddRateLimited now bucket req q)
      | Ok result \<Rightarrow>
          Some (if 0 < resRequeueAfter result then dq_AddAfter now req (resRequeueAfter result) (rq_Forget req q)
                else if resRequeue result then rq_AddRateLimited now bucket req q
                else rq_Forget req q))"

text \<open>Every return of the operator's \<open>Reconcile\<close> has an empty result.\<close>

definition ctrlResult :: "unit outcome \<Rightarrow> reconcile_result outcome" where
  "ctrlResult = map_outcome (\<lambda>_. \<lparr>resRequeue = False, resRequeueAfter = 0\<rparr>)"

section \<open>The operator\<close>

text \<open>
  What happened, as far as the requests are concerned: an event added one, a worker took one, and a
  run ended, without or with an error.
\<close>

datatype mark = Added nn | Started nn | Finished nn bool

text \<open>
  The receiver and the cluster, the queue, the requests whose run has started and those whose run
  has ended but that are not marked as done yet, and what happened since the start.
\<close>

record 'w operator =
  opSys :: "(reconciler, 'w) sys"
  opQueue :: "nn rate_queue"
  opRunning :: "nn list"
  opFinishing :: "nn list"
  opLog :: "mark list"

definition startOperator :: "(reconciler, 'w) sys \<Rightarrow> 'w operator" where
  "startOperator s = \<lparr>opSys = s, opQueue = newRateLimitingQueue, opRunning = [], opFinishing = [], opLog = []\<rparr>"

text \<open>
  The steps of the workers and of the waiting loop. \<open>processNextWorkItem\<close> is \<open>start\<close>, \<open>handle\<close> and the
  deferred \<open>finish\<close>; the steps of other workers, events and the waiting loop come in between. Rounds of
  the waiting loop in which nothing is ready and nothing comes from the channel do nothing.
\<close>

inductive own_step :: "'w env \<Rightarrow> int \<Rightarrow> 'w operator \<Rightarrow> 'w operator \<Rightarrow> bool" for E m where
  start: "length (opRunning s) + length (opFinishing s) < workerCount m \<Longrightarrow> wq_Get (opQueue s) = (Got req, q) \<Longrightarrow>
    own_step E m s (s\<lparr>opQueue := q, opRunning := opRunning s @ [req], opLog := opLog s @ [Started req]\<rparr>)"
| handle: "req \<in> set (opRunning s) \<Longrightarrow> Reconcile E req (opSys s) = (res, t) \<Longrightarrow>
    reconcileHandler now bucket req (ctrlResult res) (opQueue s) = Some q \<Longrightarrow>
    own_step E m s (s\<lparr>opSys := t, opQueue := q, opRunning := remove1 req (opRunning s),
      opFinishing := opFinishing s @ [req], opLog := opLog s @ [Finished req (res = Ok ())]\<rparr>)"
| finish: "req \<in> set (opFinishing s) \<Longrightarrow>
    own_step E m s (s\<lparr>opQueue := wq_Done req (opQueue s), opFinishing := remove1 req (opFinishing s)\<rparr>)"
| ready: "\<not> wqShuttingDown (opQueue s) \<Longrightarrow> dqHeap (opQueue s) \<noteq> [] \<Longrightarrow> wfReadyAt (dqHeap (opQueue s) ! 0) \<le> now \<Longrightarrow>
    own_step E m s (s\<lparr>opQueue := dq_addReady now (opQueue s)\<rparr>)"
| receive: "\<not> wqShuttingDown (opQueue s) \<Longrightarrow> dqChan (opQueue s) \<noteq> [] \<Longrightarrow>
    own_step E m s (s\<lparr>opQueue := dq_receive now (opQueue s)\<rparr>)"

text \<open>
  All steps: those of the operator; an event of a watch; anything else that happens in the cluster;
  the shutdown of the queue; a run that panics, and a crash at any other moment, after which the
  operator starts again.
\<close>

inductive operator_step :: "'w env \<Rightarrow> int \<Rightarrow> 'w operator \<Rightarrow> 'w operator \<Rightarrow> bool" for E m where
  own: "own_step E m s t \<Longrightarrow> operator_step E m s t"
| event: "deliver (controllerWatches E) k ev (opSys s) = (Ok reqs, t) \<Longrightarrow>
    operator_step E m s (s\<lparr>opSys := t, opQueue := fold wq_Add reqs (opQueue s), opLog := opLog s @ map Added reqs\<rparr>)"
| world: "operator_step E m s (s\<lparr>opSys := (opSys s)\<lparr>wd := w\<rparr>\<rparr>)"
| shutdown: "operator_step E m s (s\<lparr>opQueue := wq_ShutDown (opQueue s)\<rparr>)"
| panic: "req \<in> set (opRunning s) \<Longrightarrow> Reconcile E req (opSys s) = (Panic p, t) \<Longrightarrow>
    operator_step E m s (startOperator (t\<lparr>rc := r\<rparr>))"
| crash: "operator_step E m s (startOperator ((opSys s)\<lparr>rc := r\<rparr>))"

inductive operator_reachable :: "'w env \<Rightarrow> int \<Rightarrow> 'w operator \<Rightarrow> bool" for E m where
  init: "operator_reachable E m (startOperator s)"
| more: "operator_reachable E m s \<Longrightarrow> operator_step E m s t \<Longrightarrow> operator_reachable E m t"

section \<open>What is owed to a request\<close>

text \<open>
  A request is due from an event until a run that starts after the event ends well.
\<close>

datatype debt = Clear | Due | InRun | InRunDue

fun owe :: "nn \<Rightarrow> mark \<Rightarrow> debt \<Rightarrow> debt" where
  "owe req (Added r) d =
     (if r \<noteq> req then d else case d of Clear \<Rightarrow> Due | Due \<Rightarrow> Due | InRun \<Rightarrow> InRunDue | InRunDue \<Rightarrow> InRunDue)"
| "owe req (Started r) d = (if r \<noteq> req then d else InRun)"
| "owe req (Finished r well) d =
     (if r \<noteq> req then d
      else if well then (case d of InRun \<Rightarrow> Clear | InRunDue \<Rightarrow> Due | Due \<Rightarrow> Due | Clear \<Rightarrow> Clear)
      else Due)"

definition owed :: "nn \<Rightarrow> mark list \<Rightarrow> debt" where
  "owed req log = fold (owe req) log Clear"

lemma owed_simps [simp]:
  "owed req [] = Clear" "owed req (log @ [a]) = owe req a (owed req log)"
  by (simp_all add: owed_def)

lemma owed_Added:
  "owed req (log @ map Added reqs) = (if req \<in> set reqs then owe req (Added req) (owed req log) else owed req log)"
  unfolding owed_def by (induction reqs arbitrary: log rule: rev_induct) (auto split: debt.splits)

fun run_mark :: "nn \<Rightarrow> mark \<Rightarrow> bool" where
  "run_mark req (Added r) = False"
| "run_mark req (Started r) = (r = req)"
| "run_mark req (Finished r well) = (r = req)"

definition served_well :: "nn \<Rightarrow> mark list \<Rightarrow> bool" where
  "served_well req log \<longleftrightarrow> (\<exists>a b c. log = a @ Started req # b @ Finished req True # c \<and> \<not> list_ex (run_mark req) b)"

lemma owed_since:
  "(owed req (log @ Added req # rest) = InRun \<longrightarrow> (\<exists>a b. rest = a @ Started req # b \<and> \<not> list_ex (run_mark req) b)) \<and>
   (owed req (log @ Added req # rest) = Clear \<longrightarrow> served_well req rest)"
proof (induction rest rule: rev_induct)
  case Nil
  show ?case using owed_simps(2) [of req log "Added req"] by (cases "owed req log") simp_all
next
  case (snoc x rest)
  let ?before = "owed req (log @ Added req # rest)" and ?after = "owed req (log @ Added req # rest @ [x])"
  have step: "?after = owe req x ?before" using owed_simps(2) [of req "log @ Added req # rest" x] by simp
  have extend: "served_well req (rest @ [x])" if "served_well req rest"
    using that by (force simp: served_well_def)
  show ?case
  proof (cases "run_mark req x")
    case False
    then have "?after = ?before \<or> ?after = Due \<or> ?after = InRunDue"
      using step by (cases x) (auto split: debt.splits)
    moreover have "\<exists>a b. rest @ [x] = a @ Started req # b \<and> \<not> list_ex (run_mark req) b" if run: "?before = InRun"
    proof -
      obtain a b where "rest = a @ Started req # b" "\<not> list_ex (run_mark req) b" using snoc run by blast
      then have "rest @ [x] = a @ Started req # (b @ [x])" "\<not> list_ex (run_mark req) (b @ [x])"
        using False by simp_all
      then show ?thesis by blast
    qed
    ultimately show ?thesis using snoc extend by auto
  next
    case True
    then consider "x = Started req" | well where "x = Finished req well" by (cases x) auto
    then show ?thesis
    proof cases
      case 1
      then have "rest @ [x] = rest @ Started req # []" "\<not> list_ex (run_mark req) []" "?after = InRun"
        using step by simp_all
      then show ?thesis by fastforce
    next
      case (2 well)
      then have "?after \<noteq> InRun" and ended: "?after = Clear \<Longrightarrow> well \<and> (?before = InRun \<or> ?before = Clear)"
        using step by (auto split: if_splits debt.splits)
      moreover have "served_well req (rest @ [x])" if run: "?before = InRun" and well: well
      proof -
        obtain a b where "rest = a @ Started req # b" "\<not> list_ex (run_mark req) b" using snoc run by blast
        then have "rest @ [x] = a @ Started req # b @ Finished req True # []" using 2 well by simp
        with \<open>\<not> list_ex (run_mark req) b\<close> show ?thesis unfolding served_well_def by blast
      qed
      ultimately show ?thesis using snoc extend by blast
    qed
  qed
qed

section \<open>The invariant\<close>

definition debt_ok :: "'w operator \<Rightarrow> nn \<Rightarrow> bool" where
  "debt_ok s req \<longleftrightarrow>
     (case owed req (opLog s) of
        Clear \<Rightarrow> True
      | Due \<Rightarrow> req \<in> pending (opQueue s)
      | InRun \<Rightarrow> req \<in> set (opRunning s)
      | InRunDue \<Rightarrow> req \<in> set (opRunning s) \<and> req \<in> pending (opQueue s))"

definition operator_ok :: "int \<Rightarrow> 'w operator \<Rightarrow> bool" where
  "operator_ok m s \<longleftrightarrow> queue_ok (opQueue s) \<and> delays_ok (opQueue s) \<and>
     wqProcessing (opQueue s) = set (opRunning s) \<union> set (opFinishing s) \<and>
     distinct (opRunning s @ opFinishing s) \<and> length (opRunning s @ opFinishing s) \<le> workerCount m \<and>
     (\<not> wqShuttingDown (opQueue s) \<longrightarrow> (\<forall>req. debt_ok s req))"

lemma start_ok: "operator_ok m (startOperator s)"
  by (simp add: operator_ok_def startOperator_def newRateLimitingQueue_def queue_ok_def delays_ok_def debt_ok_def
      heap_ordered_def)

text \<open>What a step may do to the queue: move requests along, or leave a queue that is shut down as it is.\<close>

definition queue_step :: "nn rate_queue \<Rightarrow> nn rate_queue \<Rightarrow> nn set \<Rightarrow> bool" where
  "queue_step q q' new \<longleftrightarrow>
     (if wqShuttingDown q' then \<exists>l d. q' = q\<lparr>rqLimiter := l, wqDrain := d, wqShuttingDown := True\<rparr>
      else moves_on q q' new \<and> \<not> wqShuttingDown q)"

lemma queue_step_moves: "\<not> wqShuttingDown q \<Longrightarrow> moves_on q q' new \<Longrightarrow> queue_step q q' new"
  by (simp add: queue_step_def moves_on_def)

lemma queue_step_same: "wqShuttingDown q \<Longrightarrow> queue_step q (q\<lparr>rqLimiter := l\<rparr>) new"
  unfolding queue_step_def by (simp, intro exI [of _ l] exI [of _ "wqDrain q"]) simp

lemma queue_step_shutdown: "queue_step q (wq_ShutDown q) new"
proof -
  have "wq_ShutDown q = q\<lparr>rqLimiter := rqLimiter q, wqDrain := False, wqShuttingDown := True\<rparr>"
    by (simp add: wq_ShutDown_def wq_shutdown_def wq_setDrain_def)
  then have "\<exists>l d. wq_ShutDown q = q\<lparr>rqLimiter := l, wqDrain := d, wqShuttingDown := True\<rparr>" by blast
  moreover have "wqShuttingDown (wq_ShutDown q)" by (simp add: wq_ShutDown_def wq_shutdown_def)
  ultimately show ?thesis by (simp add: queue_step_def)
qed

lemma operator_ok_queue:
  assumes ok: "operator_ok m s" and step: "queue_step (opQueue s) (opQueue t) new"
    and workers: "mset (opRunning t @ opFinishing t) = mset (opRunning s @ opFinishing s)"
    and debts: "\<And>req. debt_ok s req \<Longrightarrow> pending (opQueue t) = pending (opQueue s) \<union> new \<Longrightarrow> debt_ok t req"
  shows "operator_ok m t"
proof -
  have q: "queue_ok (opQueue t) \<and> delays_ok (opQueue t) \<and> wqProcessing (opQueue t) = wqProcessing (opQueue s)"
    using ok step by (auto simp: operator_ok_def queue_step_def moves_on_def queue_ok_def delays_ok_def split: if_splits)
  have "set (opRunning t) \<union> set (opFinishing t) = set (opRunning s) \<union> set (opFinishing s)"
    using mset_eq_setD [OF workers] by simp
  moreover have "debt_ok t req" if "\<not> wqShuttingDown (opQueue t)" for req
    using that step ok debts by (auto simp: queue_step_def moves_on_def operator_ok_def)
  ultimately show ?thesis
    using q ok mset_eq_imp_distinct_iff [OF workers] mset_eq_length [OF workers]
    unfolding operator_ok_def by (intro conjI impI allI) simp_all
qed

section \<open>What the steps do to the queue\<close>

lemma fold_wq_Add_step:
  assumes "delays_ok q"
  shows "queue_step q (fold wq_Add reqs q) (set reqs)"
proof (cases "wqShuttingDown q")
  case True
  then have "fold wq_Add reqs q = q" by (induction reqs) (simp_all add: wq_Add_def)
  then show ?thesis using queue_step_same [OF True, of "rqLimiter q"] by simp
next
  case False
  have "moves_on q (fold wq_Add reqs q) (set reqs)"
    using False assms
  proof (induction reqs arbitrary: q)
    case Nil
    then show ?case by (simp add: moves_on_def)
  next
    case (Cons r reqs)
    have first: "moves_on q (wq_Add r q) {r}" using Cons.prems by (rule wq_Add_moves)
    then have "moves_on (wq_Add r q) (fold wq_Add reqs (wq_Add r q)) (set reqs)"
      using Cons.IH by (simp add: moves_on_def)
    from moves_on_trans [OF first this] show ?case by simp
  qed
  with False show ?thesis by (rule queue_step_moves)
qed

lemma reconcileHandler_step:
  assumes "delays_ok q" and "reconcileHandler now bucket req (ctrlResult res) q = Some q'"
  shows "queue_step q q' (if res = Ok () then {} else {req})"
proof (cases "wqShuttingDown q")
  case True
  then have "\<exists>l. q' = q\<lparr>rqLimiter := l\<rparr>"
    using assms(2) by (cases res) (auto simp: reconcileHandler_def ctrlResult_def rq_Forget_def rq_AddRateLimited_def
        dq_AddAfter_def split: prod.splits)
  then show ?thesis using True queue_step_same by blast
next
  case False
  then have "moves_on q q' (if res = Ok () then {} else {req})"
    using assms by (cases res) (auto simp: reconcileHandler_def ctrlResult_def rq_Forget_moves rq_AddRateLimited_moves)
  with False show ?thesis by (rule queue_step_moves)
qed

lemma own_step_ok:
  assumes "own_step E m s t" and "operator_ok m s"
  shows "operator_ok m t"
  using assms(1)
proof cases
  case (start req q)
  have got: "queue_ok q \<and> req \<in> wqDirty (opQueue s) \<and> req \<notin> wqProcessing (opQueue s) \<and>
      wqDirty q = wqDirty (opQueue s) - {req} \<and> wqProcessing q = insert req (wqProcessing (opQueue s)) \<and>
      wqShuttingDown q = wqShuttingDown (opQueue s)"
    using start(3) assms(2) by (intro wq_Get_Got) (simp_all add: operator_ok_def)
  note delays = wq_Get_delays [OF start(3)]
  have "pending (opQueue s) - {req} \<subseteq> pending q" using got delays by (auto simp: pending_def)
  then have "debt_ok t r" if "debt_ok s r" for r
    using that by (auto simp: start(1) debt_ok_def split: debt.splits)
  moreover have "delays_ok q" using delays_ok_cong [of q "opQueue s"] delays assms(2) by (simp add: operator_ok_def)
  ultimately show ?thesis using assms(2) got start(2) by (auto simp: start(1) operator_ok_def)
next
  case (handle req res u now bucket q)
  have delays: "delays_ok (opQueue s)" using assms(2) by (simp add: operator_ok_def)
  show ?thesis
  proof (rule operator_ok_queue [OF assms(2)])
    show "queue_step (opQueue s) (opQueue t) (if res = Ok () then {} else {req})"
      using handle reconcileHandler_step [OF delays] by simp
    show "mset (opRunning t @ opFinishing t) = mset (opRunning s @ opFinishing s)"
      using handle by simp
    show "debt_ok t r" if "debt_ok s r"
      "pending (opQueue t) = pending (opQueue s) \<union> (if res = Ok () then {} else {req})" for r
      using that handle(1) assms(2) by (auto simp: debt_ok_def operator_ok_def split: debt.splits if_splits)
  qed
next
  case (finish req)
  have "req \<in> wqProcessing (opQueue s)" using finish(2) assms(2) by (simp add: operator_ok_def)
  then have "queue_ok (opQueue t)" using assms(2) by (simp add: finish(1) operator_ok_def wq_Done_ok)
  moreover have "pending (opQueue t) = pending (opQueue s)" by (simp add: finish(1) pending_def queue_simps)
  then have "debt_ok t r" if "debt_ok s r" for r
    using that by (simp add: finish(1) debt_ok_def split: debt.splits)
  moreover have "delays_ok (opQueue t)"
    using delays_ok_cong [of "opQueue t" "opQueue s"] assms(2) by (simp add: finish(1) operator_ok_def queue_simps)
  ultimately show ?thesis using assms(2) finish(2)
    by (auto simp: finish(1) operator_ok_def queue_simps length_remove1 set_remove1_eq)
next
  case (ready now)
  have "queue_step (opQueue s) (opQueue t) {}"
    using ready assms(2) by (simp add: queue_step_moves dq_addReady_moves operator_ok_def)
  then show ?thesis by (rule operator_ok_queue [OF assms(2)]) (simp_all add: ready(1) debt_ok_def split: debt.splits)
next
  case (receive now)
  have "queue_step (opQueue s) (opQueue t) {}"
    using receive assms(2) by (simp add: queue_step_moves dq_receive_moves operator_ok_def)
  then show ?thesis by (rule operator_ok_queue [OF assms(2)]) (simp_all add: receive(1) debt_ok_def split: debt.splits)
qed

lemma operator_step_ok:
  assumes "operator_step E m s t" and "operator_ok m s"
  shows "operator_ok m t"
  using assms(1)
proof cases
  case own
  then show ?thesis using assms(2) by (rule own_step_ok)
next
  case (event k ev reqs u)
  then have "queue_step (opQueue s) (opQueue t) (set reqs)"
    using assms(2) fold_wq_Add_step by (simp add: operator_ok_def)
  then show ?thesis
  proof (rule operator_ok_queue [OF assms(2)])
    show "debt_ok t req" if "debt_ok s req" "pending (opQueue t) = pending (opQueue s) \<union> set reqs" for req
      using that by (auto simp: event(1) debt_ok_def owed_Added split: debt.splits)
  qed (simp add: event(1))
next
  case (world w)
  then show ?thesis using assms(2) by (simp add: operator_ok_def debt_ok_def split: debt.splits)
next
  case shutdown
  have "queue_step (opQueue s) (opQueue t) {}"
    by (simp add: shutdown queue_step_shutdown)
  then show ?thesis by (rule operator_ok_queue [OF assms(2)]) (simp_all add: shutdown debt_ok_def split: debt.splits)
qed (simp_all add: start_ok)

lemma reachable_ok: "operator_reachable E m s \<Longrightarrow> operator_ok m s"
  by (induction rule: operator_reachable.induct) (simp_all add: start_ok operator_step_ok)

section \<open>Failures in a row\<close>

text \<open>The failed runs for a request since the last one that ended well.\<close>

fun count_failure :: "nn \<Rightarrow> mark \<Rightarrow> nat \<Rightarrow> nat" where
  "count_failure req (Finished r well) k = (if r \<noteq> req then k else if well then 0 else Suc k)"
| "count_failure req _ k = k"

definition failed_in_row :: "nn \<Rightarrow> mark list \<Rightarrow> nat" where
  "failed_in_row req log = fold (count_failure req) log 0"

lemma failed_in_row_simps [simp]:
  "failed_in_row req [] = 0" "failed_in_row req (log @ [a]) = count_failure req a (failed_in_row req log)"
  by (simp_all add: failed_in_row_def)

lemma failed_in_row_Added [simp]: "failed_in_row req (log @ map Added reqs) = failed_in_row req log"
  unfolding failed_in_row_def by (induction reqs rule: rev_induct) simp_all

text \<open>The limiter knows them.\<close>

definition limiter_of :: "mark list \<Rightarrow> nn exponential_limiter" where
  "limiter_of log = controllerExponential\<lparr>elFailures := \<lambda>req.
     if failed_in_row req log = 0 then None else Some (failed_in_row req log)\<rparr>"

lemma limiter_of_NumRequeues: "el_NumRequeues req (limiter_of log) = failed_in_row req log"
  by (simp add: limiter_of_def el_NumRequeues_def)

lemma limiter_of_same: "(\<And>req. failed_in_row req log' = failed_in_row req log) \<Longrightarrow> limiter_of log' = limiter_of log"
  by (simp add: limiter_of_def cong: if_cong)

lemma limiter_of_failed:
  "(limiter_of log)\<lparr>elFailures := (elFailures (limiter_of log))(req \<mapsto> failed_in_row req log + 1)\<rparr> =
     limiter_of (log @ [Finished req False])"
  by (auto simp: limiter_of_def fun_eq_iff)

lemma limiter_of_well: "el_Forget req (limiter_of log) = limiter_of (log @ [Finished req True])"
  by (auto simp: limiter_of_def el_Forget_def fun_eq_iff)

lemma limiter_When_log:
  "limiter_When req bucket (limiter_of log) =
     (max (min (5 * 10 ^ 6 * 2 ^ failed_in_row req log) (10 ^ 12)) bucket, limiter_of (log @ [Finished req False]))"
  unfolding limiter_of_failed [symmetric]
  using limiter_When_controller [OF limiter_of_def [of log], of req bucket]
  by (simp add: limiter_of_NumRequeues) (simp add: limiter_of_def)

lemma fold_wq_Add_limiter: "rqLimiter (fold wq_Add reqs q) = rqLimiter q"
  by (induction reqs arbitrary: q) (simp_all add: queue_simps)

lemma reconcileHandler_limiter:
  assumes "reconcileHandler now bucket req (ctrlResult res) q = Some q'" and "rqLimiter q = limiter_of log"
  shows "rqLimiter q' = limiter_of (log @ [Finished req (res = Ok ())])"
  using assms by (cases res) (auto simp: reconcileHandler_def ctrlResult_def rq_AddRateLimited_def rq_Forget_def
      limiter_When_log limiter_of_well queue_simps)

lemma own_step_limiter:
  assumes "own_step E m s t" and "rqLimiter (opQueue s) = limiter_of (opLog s)"
  shows "rqLimiter (opQueue t) = limiter_of (opLog t)"
  using assms(1)
proof cases
  case (start req q)
  then show ?thesis using assms(2) queue_limiter(2) [OF start(3)] limiter_of_same [of "opLog s @ [Started req]" "opLog s"]
    by simp
next
  case (handle req res u now bucket q)
  then show ?thesis using reconcileHandler_limiter [OF handle(4) assms(2)] by simp
qed (simp_all add: assms(2) queue_simps)

lemma reachable_limiter: "operator_reachable E m s \<Longrightarrow> rqLimiter (opQueue s) = limiter_of (opLog s)"
proof (induction rule: operator_reachable.induct)
  case (init s)
  then show ?case by (simp add: startOperator_def newRateLimitingQueue_def limiter_of_def controllerExponential_def)
next
  case (more s t)
  from more(2,3) show ?case
  proof (cases rule: operator_step.cases)
    case own
    then show ?thesis using more(3) by (rule own_step_limiter)
  next
    case (event k ev reqs u)
    then show ?thesis
      using more(3) limiter_of_same [of "opLog s @ map Added reqs" "opLog s"] by (simp add: fold_wq_Add_limiter)
  qed (simp_all add: queue_simps startOperator_def newRateLimitingQueue_def limiter_of_def controllerExponential_def)
qed

section \<open>Work that is left\<close>

definition load :: "'w operator \<Rightarrow> nat" where
  "load s = 5 * length (dqChan (opQueue s)) + 4 * length (dqHeap (opQueue s)) + 3 * card (wqDirty (opQueue s)) +
     2 * length (opRunning s) + length (opFinishing s)"

definition failures :: "mark list \<Rightarrow> nat" where
  "failures log = length (filter (\<lambda>a. case a of Finished _ well \<Rightarrow> \<not> well | _ \<Rightarrow> False) log)"

lemma dirty_finite: "queue_ok q \<Longrightarrow> finite (wqProcessing q) \<Longrightarrow> finite (wqDirty q)"
  by (metis List.finite_set finite_Diff2 queue_ok_def)

lemma remove1_length: "x \<in> set xs \<Longrightarrow> length xs = Suc (length (remove1 x xs))"
  using length_pos_if_in_set [of x xs] by (simp add: length_remove1)

lemma wq_Add_card: "finite (wqDirty q) \<Longrightarrow> card (wqDirty (wq_Add item q)) \<le> Suc (card (wqDirty q))"
  by (simp add: wq_Add_def Let_def card_insert_if)

lemma reconcileHandler_load:
  assumes "reconcileHandler now bucket req (ctrlResult res) q = Some q'" and "finite (wqDirty q)"
  shows "dqHeap q' = dqHeap q \<and>
    5 * length (dqChan q') + 3 * card (wqDirty q') \<le> 5 * length (dqChan q) + 3 * card (wqDirty q) + (if res = Ok () then 0 else 5)"
proof -
  have later: "dqHeap (dq_AddAfter now req delay (q\<lparr>rqLimiter := l\<rparr>)) = dqHeap q \<and>
      5 * length (dqChan (dq_AddAfter now req delay (q\<lparr>rqLimiter := l\<rparr>))) +
      3 * card (wqDirty (dq_AddAfter now req delay (q\<lparr>rqLimiter := l\<rparr>)))
      \<le> 5 * length (dqChan q) + 3 * card (wqDirty q) + 5" for delay l
    using wq_Add_card [of "q\<lparr>rqLimiter := l\<rparr>" req] assms(2) by (simp add: dq_AddAfter_def)
  then show ?thesis
    using assms(1) by (cases res) (auto simp: reconcileHandler_def ctrlResult_def rq_AddRateLimited_def rq_Forget_def
        split: prod.splits)
qed

lemma dq_addReady_load:
  assumes "\<not> wqShuttingDown q" and "delays_ok q" and "dqHeap q \<noteq> []" and "wfReadyAt (dqHeap q ! 0) \<le> now"
    and "finite (wqDirty q)"
  shows "4 * length (dqHeap (dq_addReady now q)) + 3 * card (wqDirty (dq_addReady now q)) <
    4 * length (dqHeap q) + 3 * card (wqDirty q)"
proof -
  let ?ready = "filter (\<lambda>e. wfReadyAt e \<le> now) (dqHeap q)"
  note timely = dq_addReady_timely [OF assms(1,2), of now]
  have "mset (dqHeap (dq_addReady now q)) = mset (filter (\<lambda>e. \<not> wfReadyAt e \<le> now) (dqHeap q))"
    using timely by (simp add: not_le)
  then have "length (dqHeap (dq_addReady now q)) + length ?ready = length (dqHeap q)"
    using sum_length_filter_compl [of "\<lambda>e. wfReadyAt e \<le> now" "dqHeap q"] by (simp flip: size_mset)
  moreover have "wqDirty (dq_addReady now q) = wqDirty q \<union> set (map wfData ?ready)" using timely by auto
  then have "card (wqDirty (dq_addReady now q)) \<le> card (wqDirty q) + length ?ready"
    using card_Un_le [of "wqDirty q" "set (map wfData ?ready)"] card_length [of "map wfData ?ready"] by simp
  moreover have "0 < length ?ready"
    using assms(3,4) by (cases "dqHeap q") simp_all
  ultimately show ?thesis by linarith
qed

lemma dq_receive_load:
  assumes "\<not> wqShuttingDown q" and "delays_ok q" and "dqChan q \<noteq> []" and "finite (wqDirty q)"
  shows "5 * length (dqChan (dq_receive now q)) + 4 * length (dqHeap (dq_receive now q)) + 3 * card (wqDirty (dq_receive now q)) <
    5 * length (dqChan q) + 4 * length (dqHeap q) + 3 * card (wqDirty q)"
proof -
  obtain e rest where chan: "dqChan q = e # rest" using assms(3) by (cases "dqChan q") simp_all
  let ?q = "q\<lparr>dqChan := rest\<rparr>"
  have q: "\<not> wqShuttingDown ?q" "delays_ok ?q" using assms(1,2) by (simp_all add: delays_ok_def)
  note insert = dq_insert_size [OF q, of e] and add = wq_Add_card [of ?q "wfData e"]
  show ?thesis using chan insert add assms(4) by (simp add: dq_receive_def Let_def)
qed

lemma own_step_load:
  assumes "own_step E m s t" and "operator_ok m s"
  shows "load t + 5 * failures (opLog s) < load s + 5 * failures (opLog t)"
proof -
  have fin: "finite (wqDirty (opQueue s))" using assms(2) by (simp add: operator_ok_def dirty_finite)
  from assms(1) show ?thesis
  proof cases
    case (start req q)
    have "req \<in> wqDirty (opQueue s)" and q: "wqDirty q = wqDirty (opQueue s) - {req}"
      using wq_Get_Got [OF _ start(3)] assms(2) by (simp_all add: operator_ok_def)
    then have "card (wqDirty (opQueue s)) = Suc (card (wqDirty q))"
      using card.remove [OF fin] by simp
    then show ?thesis using wq_Get_delays [OF start(3)] by (simp add: start(1) load_def failures_def)
  next
    case (handle req res u now bucket q)
    have "length (opRunning s) = Suc (length (remove1 req (opRunning s)))"
      using handle(2) by (rule remove1_length)
    then show ?thesis
      using reconcileHandler_load [OF handle(4) fin] by (simp add: handle(1) load_def failures_def split: if_splits)
  next
    case (finish req)
    have "length (opFinishing s) = Suc (length (remove1 req (opFinishing s)))"
      using finish(2) by (rule remove1_length)
    then show ?thesis by (simp add: finish(1) load_def failures_def queue_simps)
  next
    case (ready now)
    then show ?thesis using dq_addReady_load [of "opQueue s" now] fin assms(2)
      by (simp add: load_def failures_def operator_ok_def queue_simps)
  next
    case (receive now)
    then show ?thesis using dq_receive_load [of "opQueue s" now] fin assms(2)
      by (simp add: load_def failures_def operator_ok_def)
  qed
qed

lemma own_steps_load:
  "(own_step E m ^^ k) s t \<Longrightarrow> operator_ok m s \<Longrightarrow>
     operator_ok m t \<and> k + load t + 5 * failures (opLog s) \<le> load s + 5 * failures (opLog t)"
proof (induction k arbitrary: t)
  case 0
  then show ?case by simp
next
  case (Suc k)
  then obtain u where u: "(own_step E m ^^ k) s u" "own_step E m u t" by auto
  with Suc have ih: "operator_ok m u" "k + load u + 5 * failures (opLog s) \<le> load s + 5 * failures (opLog u)" by simp_all
  with own_step_load [OF u(2)] own_step_ok [OF u(2)] show ?case by simp
qed

lemma load_zero:
  assumes "operator_ok m s"
  shows "load s = 0 \<longleftrightarrow> pending (opQueue s) = {} \<and> opRunning s = [] \<and> opFinishing s = []"
  using assms dirty_finite [of "opQueue s"] by (auto simp: load_def pending_def operator_ok_def)

text \<open>While there is work left, the operator can go on, unless a run panics.\<close>

lemma own_step_progress:
  assumes "operator_ok m s" and "\<not> wqShuttingDown (opQueue s)" and "load s \<noteq> 0"
  shows "(\<exists>t. own_step E m s t) \<or> (\<exists>req p t. req \<in> set (opRunning s) \<and> Reconcile E req (opSys s) = (Panic p, t))"
proof (cases "opFinishing s = []")
  case False
  then show ?thesis using own_step.finish [of "hd (opFinishing s)" s] by auto
next
  case fin: True
  show ?thesis
  proof (cases "opRunning s")
    case (Cons req rest)
    obtain res t where run: "Reconcile E req (opSys s) = (res, t)" by fastforce
    show ?thesis
    proof (cases "reconcileHandler 0 0 req (ctrlResult res) (opQueue s)")
      case None
      then show ?thesis using run Cons by (cases res) (auto simp: reconcileHandler_def ctrlResult_def)
    next
      case (Some q)
      then show ?thesis using own_step.handle [OF _ run Some] Cons by auto
    qed
  next
    case Nil
    show ?thesis
    proof (cases "wqQueue (opQueue s)")
      case (Cons req rest)
      then obtain q where "wq_Get (opQueue s) = (Got req, q)" by (simp add: wq_Get_def)
      moreover have "length (opRunning s) + length (opFinishing s) < workerCount m"
        using Nil fin by (simp add: workerCount_def)
      ultimately show ?thesis using own_step.start by blast
    next
      case empty: Nil
      then have "wqDirty (opQueue s) = {}" using assms(1) Nil fin by (auto simp: operator_ok_def queue_ok_def)
      then have "dqChan (opQueue s) \<noteq> [] \<or> dqHeap (opQueue s) \<noteq> []" using assms(3) Nil fin by (auto simp: load_def)
      then show ?thesis
        using own_step.receive [OF assms(2)] own_step.ready [OF assms(2) _ order_refl] by blast
    qed
  qed
qed

section \<open>A sample run\<close>

text \<open>A run for a resource that is not there, in a cluster without the addon's config map, does nothing.\<close>

lemma Reconcile_absent:
  assumes "tracked c KManagedMCG req = None"
    and "tracked c KConfigMap \<lparr>nnNamespace = nnNamespace req, nnName = AddonConfigMapName (rCfg r)\<rparr> = None"
  shows "\<exists>t. Reconcile (fakeEnv ma un) req \<lparr>rc = r, wd = c\<rparr> = (Ok (), t) \<and> wd t = c"
proof -
  let ?E = "fakeEnv ma un"
  define s1 where "s1 = \<lparr>rc = initializeReconciler req r, wd = c\<rparr>"
  have key: "object_key (rManagedMCG (rc s1)) = req" and ns: "rNamespace (rc s1) = nnNamespace req"
    and cfg: "rCfg (rc s1) = rCfg r" and zero: "ObjectMeta (rManagedMCG (rc s1)) = zero_meta\<lparr>mName := nnName req, mNamespace := nnNamespace req\<rparr>"
    by (simp_all add: s1_def init_defs Let_def object_key_def)
  have get: "r_get ?E kManagedMCG fManagedMCG s1 = (Err (WrapErr ''error getting'' (NewNotFound (nnName req))), s1)"
    using assms(1) key by (simp add: r_get_eq s1_def fake_Get_def tracker_Get_def fetched_def kManagedMCG_def)
  have check: "verifyAddonDeletionKey ?E s1 = (Ok False, s1)"
    using assms(2) ns cfg by (simp add: verifyAddonDeletionKey_def getR_def r_getLocal_eq act_unfold fake_Get_eq
        tracker_Get_def fetched_def kConfigMap_def s1_def)
  obtain s2 where s2: "updateComponentStatus ?E s1 = (Ok (), s2)" "wd s2 = c"
    "ObjectMeta (rManagedMCG (rc s2)) = ObjectMeta (rManagedMCG (rc s1))"
    using updateComponentStatus_fake [of ma un s1] by (auto simp: s1_def)
  then have "reconcilePhases ?E s1 = (Ok (), s2)" and "updateStatus ?E s2 = (Ok (Inr ()), s2)"
    by (simp_all add: reconcilePhases_def check dispatchPhases_def updateStatus_def getR_def act_unfold zero zero_meta_def
        time_IsZero_def)
  then have "reconcileFetched ?E s1 = (Ok (), s2)" by (simp add: reconcileFetched_def act_unfold)
  then show ?thesis using s2(2) get by (simp add: Reconcile_def setR_def act_unfold s1_def)
qed

text \<open>The resource has been deleted: the event asks for a run, which finds nothing to do.\<close>

definition askedQueue :: "nn rate_queue" where
  "askedQueue = newRateLimitingQueue\<lparr>wqQueue := [sampleKey], wqDirty := {sampleKey}\<rparr>"

definition askedOperator :: "cluster operator" where
  "askedOperator = (startOperator (sampleStart []))\<lparr>opQueue := askedQueue, opLog := [Added sampleKey]\<rparr>"

definition busyOperator :: "cluster operator" where
  "busyOperator = askedOperator\<lparr>opQueue := newRateLimitingQueue\<lparr>wqProcessing := {sampleKey}\<rparr>,
     opRunning := [sampleKey], opLog := [Added sampleKey, Started sampleKey]\<rparr>"

lemmas operator_defs = askedQueue_def askedOperator_def busyOperator_def startOperator_def newRateLimitingQueue_def

lemma asked_reachable: "operator_reachable sampleEnv 0 askedOperator"
proof -
  let ?s = "startOperator (sampleStart [])"
  have "deliver (controllerWatches sampleEnv) KManagedMCG (DeleteEvent (untype kManagedMCG sampleMCG)) (opSys ?s) =
      (Ok [sampleKey], sampleStart [])"
    by (simp add: deliver_ManagedMCG startOperator_def untype_def sampleMCG_def object_key_def sampleKey_def)
  from operator_reachable.more [OF operator_reachable.init operator_step.event [OF this]] show ?thesis
    by (simp add: operator_defs wq_Add_def)
qed

lemma busy_step: "own_step sampleEnv 0 askedOperator busyOperator"
proof -
  have "wq_Get (opQueue askedOperator) = (Got sampleKey, newRateLimitingQueue\<lparr>wqProcessing := {sampleKey}\<rparr>)"
    by (simp add: operator_defs wq_Get_def)
  from own_step.start [OF _ this, of 0 sampleEnv] show ?thesis
    by (simp add: operator_defs workerCount_def)
qed

lemma rest_steps:
  "\<exists>u t. own_step sampleEnv 0 busyOperator u \<and> own_step sampleEnv 0 u t \<and> load t = 0 \<and>
     \<not> wqShuttingDown (opQueue t) \<and> pending (opQueue t) = {} \<and> opRunning t = [] \<and>
     opLog t = [Added sampleKey, Started sampleKey, Finished sampleKey True]"
proof -
  obtain w where run: "Reconcile sampleEnv sampleKey (opSys busyOperator) = (Ok (), w)"
    using Reconcile_absent [of "clusterOf []" sampleKey sampleReconciler "\<lambda>_. Inr ''yaml''" "\<lambda>_ gs. Inr gs"]
    by (auto simp: operator_defs sampleStart_def sampleEnv_def tracked_def clusterOf_def)
  let ?q = "rq_Forget sampleKey (opQueue busyOperator)"
  let ?u = "busyOperator\<lparr>opSys := w, opQueue := ?q, opRunning := [], opFinishing := [sampleKey],
    opLog := [Added sampleKey, Started sampleKey, Finished sampleKey True]\<rparr>"
  let ?t = "?u\<lparr>opQueue := wq_Done sampleKey ?q, opFinishing := []\<rparr>"
  have "own_step sampleEnv 0 busyOperator ?u"
    using own_step.handle [OF _ run, where q = ?q and m = 0] by (simp add: operator_defs reconcileHandler_def ctrlResult_def)
  moreover have "own_step sampleEnv 0 ?u ?t"
    using own_step.finish [of sampleKey ?u sampleEnv 0] by (simp add: operator_defs)
  moreover have "load ?t = 0 \<and> \<not> wqShuttingDown (opQueue ?t) \<and> pending (opQueue ?t) = {}"
    by (simp add: load_def pending_def operator_defs wq_Done_def rq_Forget_def)
  ultimately show ?thesis by (intro exI [of _ ?u] exI [of _ ?t]) simp
qed

section \<open>The properties of the composition\<close>

text \<open>
  C5. The workers and the queue never reconcile one request twice at the same time: in every state
  that events, the workers, the waiting loop, other clients, a shutdown, panics and crashes lead to,
  the requests whose runs are under way are different and as many as there are workers at most, so
  one with the options of this operator; the queue hands out none of them, and lets a worker wait
  exactly when nothing else is to be done and it is not shut down; every request that is to be done
  and not being done is in the queue exactly once; and the entries of the waiting loop are a heap
  with one entry per request.
\<close>

theorem runs_exclusive:
  assumes "operator_reachable E m s"
  shows "distinct (opRunning s @ opFinishing s) \<and> length (opRunning s @ opFinishing s) \<le> workerCount m \<and>
    fst (wq_Get (opQueue s)) \<notin> Got ` set (opRunning s @ opFinishing s) \<and>
    (fst (wq_Get (opQueue s)) = Blocked \<longleftrightarrow>
      wqDirty (opQueue s) \<subseteq> set (opRunning s @ opFinishing s) \<and> \<not> wqShuttingDown (opQueue s)) \<and>
    distinct (wqQueue (opQueue s)) \<and>
    set (wqQueue (opQueue s)) = wqDirty (opQueue s) - set (opRunning s @ opFinishing s) \<and>
    heap_ordered wfReadyAt (length (dqHeap (opQueue s))) (dqHeap (opQueue s)) \<and>
    distinct (map wfData (dqHeap (opQueue s)))"
proof -
  note ok = reachable_ok [OF assms]
  then have "fst (wq_Get (opQueue s)) \<notin> Got ` set (opRunning s @ opFinishing s)"
    by (auto simp: operator_ok_def queue_ok_def wq_Get_def split: list.splits if_splits)
  moreover have "queue_ok (opQueue s)" using ok by (simp add: operator_ok_def)
  note wq_Get_waits [OF this]
  ultimately show ?thesis using ok by (simp add: operator_ok_def queue_ok_def delays_ok_def)
qed

theorem runs_exclusive_witness:
  "operator_reachable sampleEnv 0 busyOperator \<and> opRunning busyOperator = [sampleKey] \<and>
     length (opRunning busyOperator @ opFinishing busyOperator) \<le> workerCount 0 \<and>
     fst (wq_Get (opQueue busyOperator)) \<noteq> Got sampleKey"
proof -
  have reach: "operator_reachable sampleEnv 0 busyOperator"
    using asked_reachable busy_step by (blast intro: operator_reachable.more operator_step.own)
  moreover have "opRunning busyOperator = [sampleKey]" by (simp add: operator_defs)
  ultimately show ?thesis using runs_exclusive [OF reach] by simp
qed

text \<open>
  C6. No event is lost: when the operator has come to rest without having been shut down, every
  request that an event added was reconciled by a run that started after the event and ended without
  an error, whatever came in between: further events for the request while it was being reconciled,
  failed runs and their delays, and requests that were added while they waited.
\<close>

theorem events_served:
  assumes "operator_reachable E m s" and "\<not> wqShuttingDown (opQueue s)"
    and "pending (opQueue s) = {}" and "opRunning s = []"
    and "opLog s = before @ Added req # after"
  shows "\<exists>a b c. after = a @ Started req # b @ Finished req True # c \<and> \<not> list_ex (run_mark req) b"
proof -
  have "debt_ok s req" using reachable_ok [OF assms(1)] assms(2) by (simp add: operator_ok_def)
  then have "owed req (opLog s) = Clear" using assms(3,4) by (auto simp: debt_ok_def split: debt.splits)
  then show ?thesis using owed_since [of req before after] assms(5) by (simp add: served_well_def)
qed

theorem events_served_witness:
  "\<exists>t. operator_reachable sampleEnv 0 t \<and> opLog t = [Added sampleKey, Started sampleKey, Finished sampleKey True] \<and>
     (\<exists>a b c. [Started sampleKey, Finished sampleKey True] = a @ Started sampleKey # b @ Finished sampleKey True # c \<and>
        \<not> list_ex (run_mark sampleKey) b)"
proof -
  obtain u t where steps: "own_step sampleEnv 0 busyOperator u" "own_step sampleEnv 0 u t"
    and t: "\<not> wqShuttingDown (opQueue t)" "pending (opQueue t) = {}" "opRunning t = []"
      "opLog t = [] @ Added sampleKey # [Started sampleKey, Finished sampleKey True]"
    using rest_steps by auto
  have "operator_reachable sampleEnv 0 t"
    using asked_reachable busy_step steps by (blast intro: operator_reachable.more operator_step.own)
  with events_served [OF this t] t(4) show ?thesis by auto
qed

text \<open>
  C10. The operator comes to rest. Without further events, the number of steps that the workers and
  the waiting loop can take from a reachable state, in any order, is bounded by the work in that
  state and five steps per failed run; as long as there is work left, a step is possible unless a
  run panics; and when there is none left, nothing is waiting and no run is under way.
\<close>

theorem operator_settles:
  assumes "operator_reachable E m s" and "(own_step E m ^^ k) s t" and "\<not> wqShuttingDown (opQueue t)"
  shows "k + load t + 5 * failures (opLog s) \<le> load s + 5 * failures (opLog t) \<and>
    (load t = 0 \<or> (\<exists>u. own_step E m t u) \<or>
      (\<exists>req p u. req \<in> set (opRunning t) \<and> Reconcile E req (opSys t) = (Panic p, u))) \<and>
    (load t = 0 \<longleftrightarrow> pending (opQueue t) = {} \<and> opRunning t = [] \<and> opFinishing t = [])"
  using own_steps_load [OF assms(2) reachable_ok [OF assms(1)]] own_step_progress [of m t E] assms(3) load_zero
  by blast

theorem operator_settles_witness:
  "\<exists>t. (own_step sampleEnv 0 ^^ 3) askedOperator t \<and> load askedOperator = 3 \<and> load t = 0 \<and> pending (opQueue t) = {}"
proof -
  obtain u t where steps: "own_step sampleEnv 0 busyOperator u" "own_step sampleEnv 0 u t"
    and t: "\<not> wqShuttingDown (opQueue t)" "opLog t = [Added sampleKey, Started sampleKey, Finished sampleKey True]"
    using rest_steps by blast
  have three: "(own_step sampleEnv 0 ^^ 3) askedOperator t"
    using busy_step steps by (auto simp: numeral_3_eq_3 relcompp_apply)
  have "load askedOperator = 3" by (simp add: load_def operator_defs)
  moreover have "failures (opLog askedOperator) = 0" "failures (opLog t) = 0"
    by (simp_all add: failures_def t operator_defs)
  ultimately show ?thesis
    using operator_settles [OF asked_reachable three t(1)] three by auto
qed


text \<open>
  C11. A failed run is retried, and later each time: when k runs for the request have failed since the
  last one that ended well, the request comes back after 5 milliseconds times two to the k, but at
  most 1000 seconds, or when the token bucket allows it if that is later; a run that ends well sets
  the count back. The delay never overflows, however often the run fails.
\<close>

theorem failed_run_retried:
  assumes "operator_reachable E m s" and "\<not> wqShuttingDown (opQueue s)"
  shows "\<exists>q. reconcileHandler now bucket req (ctrlResult (Err err)) (opQueue s) = Some q \<and>
    dqChan q = dqChan (opQueue s) @
      [\<lparr>wfData = req, wfReadyAt = now + max (min (5 * 10 ^ 6 * 2 ^ failed_in_row req (opLog s)) (10 ^ 12)) bucket\<rparr>] \<and>
    wqDirty q = wqDirty (opQueue s) \<and> rqLimiter q = limiter_of (opLog s @ [Finished req False]) \<and>
    rqLimiter (rq_Forget req (opQueue s)) = limiter_of (opLog s @ [Finished req True])"
proof -
  define delay :: int where "delay = max (min (5 * 10 ^ 6 * 2 ^ failed_in_row req (opLog s)) (10 ^ 12)) bucket"
  have "0 < min (5 * 10 ^ 6 * 2 ^ failed_in_row req (opLog s)) (10 ^ 12 :: int)" by simp
  then have "0 < delay" unfolding delay_def by linarith
  moreover have "limiter_When req bucket (limiter_of (opLog s)) = (delay, limiter_of (opLog s @ [Finished req False]))"
    unfolding delay_def by (rule limiter_When_log)
  ultimately show ?thesis unfolding delay_def [symmetric]
    using assms(2) by (simp add: reconcileHandler_def ctrlResult_def rq_AddRateLimited_def
        reachable_limiter [OF assms(1)] dq_AddAfter_def rq_Forget_def limiter_of_well)
qed

theorem failed_run_retried_witness:
  "\<exists>q. reconcileHandler 7 0 sampleKey (ctrlResult (Err (PlainErr ''timeout''))) (opQueue busyOperator) = Some q \<and>
     dqChan q = [\<lparr>wfData = sampleKey, wfReadyAt = 7 + 5 * 10 ^ 6\<rparr>]"
proof -
  have "operator_reachable sampleEnv 0 busyOperator"
    using asked_reachable busy_step by (blast intro: operator_reachable.more operator_step.own)
  moreover have "\<not> wqShuttingDown (opQueue busyOperator)" by (simp add: operator_defs)
  ultimately obtain q where "reconcileHandler 7 0 sampleKey (ctrlResult (Err (PlainErr ''timeout''))) (opQueue busyOperator) = Some q"
    and "dqChan q = dqChan (opQueue busyOperator) @ [\<lparr>wfData = sampleKey,
      wfReadyAt = 7 + max (min (5 * 10 ^ 6 * 2 ^ failed_in_row sampleKey (opLog busyOperator)) (10 ^ 12)) 0\<rparr>]"
    using failed_run_retried by blast
  then show ?thesis by (simp add: operator_defs failed_in_row_def)
qed

end
