(* ===== verification/Spec2Isabelle.thy ===== *)
theory Spec2Isabelle
  imports Setup Readiness Convergence Resources Status Safety Lifecycle Panics Anchor Independence Store
    Interleaving Uninstall Claims Prometheus_Spec Deep_Copy Scheme Access Worker
begin

text \<open>
  The MCG OSD deployer: a Kubernetes operator that installs, maintains and removes the managed
  object storage of an OpenShift Dedicated cluster. This library models all of its own Go code: the
  reconciliation of the ManagedMCG resource, the bucket class handlers, the monitoring stack, the
  registration of the watches, the start of the process and the readiness probe, together with the
  parts of the Kubernetes client library that it calls and the in-memory API server that the
  repository's tests run it against, the generated deep copies of the resource type, the registration of
  the Go types in the scheme, the access rights that the operator is deployed with, and the work
  queue and the workers that carry a request from an event to a reconciliation and back.

  \<^bold>\<open>The program.\<close> \<open>main.go\<close> reads the environment, builds the reconciler, creates the ManagedMCG resource
  if it is missing and starts the manager. The watches of \<open>SetupWithManager\<close> put requests into a work
  queue; a worker takes one at a time, calls \<open>Reconcile\<close> for it, and puts it back with a growing delay
  when that fails. The bucket class handlers run as part of the watches.
  \<open>Reconcile\<close> fetches the resource, computes the state of the components, and then, in
  \<open>reconcilePhases\<close>, deletes (the resource is terminating), or maintains: it reconciles some fifteen
  owned resources and, when an addon config map carries the deletion label and every component is
  ready, deletes the ManagedMCG resource or the operator's CSV. The status is updated last. The probe
  of \<open>readinessProbe/main.go\<close> is a separate process that reads the status only.

  \<^bold>\<open>The form of the model.\<close> A Go function with effects is an action: a function from a state to an
  outcome and a state. An outcome is \<open>Ok v\<close>, \<open>Err e\<close> (a non-nil error) or \<open>Panic why\<close> (\<open>Prelude\<close>). The state
  is a record of the receiver \<open>rc\<close> (the struct \<open>ManagedMCGReconciler\<close> with its working objects) and the
  world \<open>wd\<close>. The world is abstract: the API server, the clock and the file system are the parameter
  \<open>'w env\<close>, one function per request. Statements about every server quantify over it; statements about
  requests use the environment \<open>recording E\<close>, which logs every request and its answer; statements
  about the effect use the in-memory server, \<open>fakeEnv\<close>, as the environment. Integers are words of their
  width (replicas, ports, generations), Go maps that may be nil are options of finite maps, pointers
  that may be nil are options, the iteration over a Go map is over an arbitrary order.

  \<^bold>\<open>Theories that model code.\<close>
  \<^item> \<open>Prelude\<close>: outcomes, actions and their combinators (early return, wrapping of errors, loops that
    stop at the first error), Go errors with the chain of their causes, the functions of
    the packages strings and strconv that the code uses.
  \<^item> \<open>Api_Types\<close>: \<open>api/v1alpha1/managedmcg_types.go\<close> in full; of the imported kinds the fields that the
    sources name, the others as one opaque value. The locale \<open>typed_kind\<close> states that encoding a typed
    object and decoding it again is the identity; it is interpreted for each of the 22 kinds.
  \<^item> \<open>Kube\<close>: requests and the environment; \<open>IsNotFound\<close> and its siblings, \<open>PollImmediate\<close>, owner
    references, \<open>CreateOrUpdate\<close>, semantic equality (vendored apimachinery and controller-runtime).
  \<^item> \<open>Fake_Client\<close>: the fake client and the object tracker (\<open>pkg/client/fake/client.go\<close> and
    \<open>testing/fixture.go\<close>, vendored), with resource versions, finalizers and deletion timestamps.
  \<^item> \<open>Utils\<close> (\<open>utils/\<close>), \<open>Templates\<close> (\<open>templates/\<close>), \<open>Console_Pkg\<close> (\<open>console/console.go\<close>).
  \<^item> \<open>Reconciler\<close>: the receiver, its fields and the small methods on it (\<open>get\<close>, \<open>list\<close>, \<open>update\<close>, \<open>own\<close>,
    \<open>initializeReconciler\<close>, \<open>getCSVByPrefix\<close>).
  \<^item> \<open>Bucket\<close> (\<open>controllers/mcg_bucket.go\<close>), \<open>Monitoring\<close> (\<open>controllers/monitoring_alert.go\<close>) and
    \<open>Controller\<close> (\<open>controllers/managedmcg_controller.go\<close>), function by function under their own names.
    A long function is a composition of named pieces in the order of the source: \<open>reconcilePhases\<close> of
    \<open>dispatchPhases\<close>, \<open>deletionPhase\<close> and \<open>maintenancePhase\<close>; \<open>removeNoobaa\<close> of \<open>drainBucketClasses\<close>,
    \<open>deleteNoobaaCR\<close> and \<open>deleteStores\<close>.
  \<^item> \<open>Setup\<close>: \<open>SetupWithManager\<close>, its predicates and event handlers as the requests that an event enqueues
    (\<open>deliver\<close>), and \<open>main.go\<close> with its exit codes. \<open>Readiness\<close>: the probe.
  \<^item> \<open>Deep_Copy\<close>: every method of \<open>api/v1alpha1/zz_generated.deepcopy.go\<close> and those of the embedded metadata
    that they call, over a heap of typed cells, with allocation and assignment through
    pointers; here the objects are the Go structs with their pointers, slices and maps as addresses.
  \<^item> \<open>Scheme\<close>: the registry of Go types (\<open>runtime/scheme.go\<close> and its builders, vendored), the
    registration functions of the API packages that \<open>main.go\<close> adds (\<open>main_init\<close>) and the probe adds
    (\<open>probe_init\<close>), and the lookup of the kind of an object (\<open>GVKForObject\<close>).
  \<^item> \<open>Rbac\<close>: the RBAC markers above \<open>Reconcile\<close> as a table of rules (\<open>rbac_rules\<close>), the resource names of
    the kinds (\<open>UnsafeGuessKindToResource\<close>, vendored), and the decision on a request (\<open>permitted\<close>).
  \<^item> \<open>Workqueue\<close>: the work queue (\<open>queue.go\<close>), the requests that wait for their time
    (\<open>delaying_queue.go\<close>, on the binary heap of \<open>Binary_Heap\<close>, which is Go's \<open>container/heap\<close>), and the
    delays of retries (\<open>default_rate_limiters.go\<close>, \<open>rate_limiting_queue.go\<close>), all vendored client-go.
  \<^item> \<open>Worker\<close>: \<open>processNextWorkItem\<close> and \<open>reconcileHandler\<close> of the vendored controller, and the whole
    operator as a step relation (\<open>operator_step\<close>): events delivered by the watches, workers that run
    \<open>Reconcile\<close>, the waiting loop of the queue, shutdown, panics and crashes, with anything else
    happening in the cluster in between.
  \<^item> \<open>Samples\<close>: concrete configurations and clusters for the witnesses.
\<close>

text \<open>
  \<^bold>\<open>Interfaces.\<close>
  \<^item> \<open>Server\<close>: \<open>api_server\<close> is the contract of reads and writes over an abstract store; \<open>typed_server\<close> joins
    it with \<open>typed_kind\<close>; \<open>converging\<close> and, in \<open>Convergence\<close>, \<open>owned\<close> are the contracts of a mutation
    that is passed to \<open>CreateOrUpdate\<close>, under which a run enforces the desired object and a second
    run changes nothing. The in-memory server provides \<open>api_server\<close>; the operator's mutations
    provide \<open>owned\<close>.
  \<^item> \<open>Frame\<close>: \<open>request_frame\<close> and \<open>write_frame\<close> state what a predicate on the world must satisfy to survive the
    requests that are admitted; every component proves once that its operations
    keep such a predicate. Interpretations on the recording environment give statements about
    logs, interpretations on the in-memory server give invariants of its store.
  \<^item> \<open>Deep_Copy\<close>: \<open>copyable\<close>, what the copy of a part promises (a graph of fresh cells that looks the same and
    leaves the old heap alone), interpreted for every part of the resource; the contract of
    a pointer or a slice follows from that of what it holds, once for every type.
  \<^item> \<open>Scheme\<close>: \<open>type_registry\<close>, an assignment of one Go type to every group, version and kind that the
    registration functions agree on, so that none of them meets a conflict; \<open>goTypeOf\<close> is the one of the
    packages.
  \<^item> \<open>Confinement\<close>: \<open>honest_server\<close> extends \<open>request_frame\<close> with answers that are about what was asked; the rules
    of its actions follow the namespace of every object. \<open>Access\<close> interprets it on the shared server.

  \<^bold>\<open>Theories of properties.\<close>
  \<^item> \<open>Safety\<close>: what may be sent, and only after what: deletion only with the deletion label, the
    finalizer dropped only after NooBaa was reported missing, the order inside \<open>removeNoobaa\<close>, the
    status update last.
  \<^item> \<open>Status\<close>: the component states as a table of the server's answers. \<open>Resources\<close>, \<open>Convergence\<close>,
    \<open>Prometheus_Spec\<close>: what the reconciliation of each resource leaves behind.
  \<^item> \<open>Panics\<close>: the calculus \<open>panics_if\<close> follows a panic through every operation; only a
    malformed CSV can cause one. \<open>Anchor\<close>: what a reconciliation never changes in the receiver.
  \<^item> \<open>Store\<close>: the abstract server, a map with \<open>put\<close> and \<open>remove\<close>, and the refinement by the in-memory server.
  \<^item> \<open>Lifecycle\<close>, \<open>Uninstall\<close>, \<open>Claims\<close>: complete runs against the in-memory server: the end
    of the ManagedMCG resource, of NooBaa, and the life of a bucket claim.
  \<^item> \<open>Independence\<close>: actions that are blind to what an observation leaves out; a reconciliation does not
    feel what earlier ones left in the receiver.
  \<^item> \<open>Protection\<close>: the locale \<open>protecting\<close>, what a reconciliation needs of the server and of all other
    clients so that NooBaa is never left without the resource that manages it. \<open>Interleaving\<close> provides
    it: the in-memory server with requests of others before every request of the operator, lost
    requests, lost answers and crashes (\<open>sharedEnv\<close>), the step relation \<open>system_step\<close> and its histories.
    Runs of the operator do not overlap there, which \<open>Worker\<close> proves of its one worker; a bucket
    class event during a reconciliation appears there as requests of another client.
  \<^item> \<open>Worker\<close>, second part: one invariant (\<open>operator_ok\<close>) ties the queue to the workers and to what is owed
    to each request since its last event (\<open>owed\<close>, an automaton over the log of events and runs), and
    another ties the counts of the limiter to the failed runs in the log. From them: no request
    is reconciled twice at once, no event is lost, the operator comes to rest, and the delays of
    the retries. \<open>moves_on\<close> in \<open>Workqueue\<close> is what every operation of the queue promises its clients.
  \<^item> \<open>Access\<close>: no request of a reconciliation leaves the namespace and the cluster's own kinds, and the
    markers permit all of them. \<open>Deep_Copy\<close> and \<open>Scheme\<close> end with the properties of their parts: a copy is
    equal and isolated, every kind has one Go type and every Go type one kind.

  \<^bold>\<open>Bounds.\<close> \<open>PollImmediate\<close> tests its condition at once and then on every tick of a timer that fires
  once per interval until the timeout, so at most \<open>timeout div interval\<close> times, and once more when
  the timer's channel is closed; the environment (\<open>eWait\<close>, \<open>clTicks\<close> in the in-memory server) decides
  when that happens: at most seven tests for a bucket class. The loop over the numbered notification
  addresses ends at the first number without a parameter; its measure is the number of parameters
  that are left. The round of the waiting loop that adds the ready requests ends as each turn takes one
  entry from the heap, and the sifting of the heap moves up or down its levels. \<open>load\<close> is the measure of
  the work that is left to the workers. Every other loop is structural recursion over a list, and no function of the
  model has fuel.

  \<^bold>\<open>Not modelled.\<close>
  \<^item> Logging, flags, the HTTP server of the probe, metrics and health endpoints: they carry no logic of
    the program.
  \<^item> Of the work queue: metrics, \<open>ShutDownWithDrain\<close>, and the token bucket that limits all retries
    together, whose answer is an input of the step like the clock. The channel into the waiting loop has
    no capacity in the model, where the code has 1000 and lets the worker wait. A run is one step of
    the composition, so two workers would take turns; the operator has one. The start of the
    sources and the first filling of the caches are events.
  \<^item> Outside \<open>Deep_Copy\<close> the values of the model are immutable and a copy is the identity. Where the Go
    code shares a pointer between two objects the model writes out the effect.
  \<^item> Of the scheme: conversion, defaulting and field labels. Of the access rights: what OLM and the
    manifests make of the markers, and the restriction of the manager's cache to one namespace.
  \<^item> YAML and JSON libraries and the contents of files: parameters of \<open>'w env\<close> and of the configuration
    records, used through what the code relies on.
  \<^item> Of the fake client: patch, watch, delete-all and unstructured objects, which the operator does not
    use. Manifests, bundles, scripts and tests are no code of the operator.
\<close>

end
